(* ===== verification/Prelude.thy ===== *)
theory Prelude
  imports Main "HOL-Library.List_Lexorder" "HOL-Library.Char_ord"
begin

text \<open>
  Shared vocabulary of the development: Go's error values and their rendering, the parts of
  Go's \<open>strings\<close>, \<open>strconv\<close>, \<open>slices\<close> and \<open>sort\<close> packages that the program uses, and the
  generic lemmas on lists and maps the components share.

  Strings are byte strings (\<open>char list\<close>) as in Go, compared byte by byte (\<open>Char_ord\<close> and
  \<open>List_Lexorder\<close>).  \<open>go_quote\<close> (the verb \<open>%q\<close>) and \<open>TrimSpace\<close> follow Go exactly on ASCII
  text; on bytes above 127 they leave the byte as it is.
\<close>

named_theorems err_simps \<open>simplification of error values\<close>

section \<open>Characters and numbers as text\<close>

definition dquote :: char where
  "dquote = CHR 0x22"

definition backslash :: char where
  "backslash = CHR 0x5C"

definition newline :: char where
  "newline = CHR 0x0A"

definition digit_char :: "nat \<Rightarrow> char" where
  "digit_char n = char_of (48 + n mod 10)"

fun show_nat :: "nat \<Rightarrow> string" where
  "show_nat n = (if n < 10 then [digit_char n] else show_nat (n div 10) @ [digit_char n])"

declare show_nat.simps [simp del]

definition show_int :: "int \<Rightarrow> string" where
  "show_int i = (if i < 0 then CHR ''-'' # show_nat (nat (- i)) else show_nat (nat i))"

definition hex_digit :: "nat \<Rightarrow> char" where
  "hex_digit n = (if n < 10 then char_of (48 + n) else char_of (87 + n))"

definition is_digit :: "char \<Rightarrow> bool" where
  "is_digit c \<longleftrightarrow> 48 \<le> (of_char c :: nat) \<and> (of_char c :: nat) \<le> 57"

definition digit_val :: "char \<Rightarrow> nat" where
  "digit_val c = of_char c - 48"

lemma of_char_digit_char [simp]: "(of_char (digit_char n) :: nat) = 48 + n mod 10"
proof -
  have "n mod 10 < 10" by simp
  then show ?thesis by (simp add: digit_char_def)
qed

lemma is_digit_digit_char [simp]: "is_digit (digit_char n)"
proof -
  have "n mod 10 < 10" by simp
  then show ?thesis unfolding is_digit_def of_char_digit_char by linarith
qed

lemma digit_val_digit_char [simp]: "digit_val (digit_char n) = n mod 10"
  by (simp add: digit_val_def)

lemma show_nat_nonempty [simp]: "show_nat n \<noteq> []"
  by (subst show_nat.simps) simp

section \<open>Go's error values\<close>

text \<open>
  An error is its format text with the arguments in order, so that every \<open>fmt.Errorf\<close> of the
  source is one constructor application: \<open>Errf\<close> without and \<open>Errw\<close> with a wrapped cause (the
  verb \<open>%w\<close>, always the last).  \<open>Failure\<close> is \<open>executor.Failure\<close>, whose \<open>Cause\<close> may be nil,
  \<open>ErrNotFound\<close> is the sentinel of package \<open>store\<close>, and \<open>ErrExt\<close> is an error a library or
  service returned, of which only the text is known.  \<open>GoPanic\<close> is not an error value of the
  program: it marks a run that panics (a nil dereference, a division by zero).
\<close>

datatype goerr =
    Errf string "string list"
  | Errw string "string list" goerr
  | ErrNotFound
  | Failure string "goerr option"
  | ErrExt string
  | GoPanic string

type_synonym 'a result = "goerr + 'a"

fun quote_char :: "char \<Rightarrow> string" where
  "quote_char c =
    (let n = (of_char c :: nat) in
     if c = dquote then [backslash, dquote]
     else if c = backslash then [backslash, backslash]
     else if n = 7 then [backslash, CHR ''a'']
     else if n = 8 then [backslash, CHR ''b'']
     else if n = 9 then [backslash, CHR ''t'']
     else if n = 10 then [backslash, CHR ''n'']
     else if n = 11 then [backslash, CHR ''v'']
     else if n = 12 then [backslash, CHR ''f'']
     else if n = 13 then [backslash, CHR ''r'']
     else if n < 32 \<or> n = 127 then [backslash, CHR ''x'', hex_digit (n div 16), hex_digit (n mod 16)]
     else [c])"

definition go_quote :: "string \<Rightarrow> string" where
  "go_quote s = [dquote] @ concat (map quote_char s) @ [dquote]"

text \<open>The arguments of \<open>%d\<close> and \<open>%s\<close> are given as text, in order; \<open>%q\<close> quotes its argument.\<close>

fun sprintf :: "string \<Rightarrow> string list \<Rightarrow> string" where
  "sprintf (c # v # f) (a # as) =
    (if c = CHR ''%''
     then (if v = CHR ''q'' then go_quote a else a) @ sprintf f as
     else c # sprintf (v # f) (a # as))"
| "sprintf f as = f"

fun err_text :: "goerr \<Rightarrow> string" where
  "err_text (Errf f as) = sprintf f as"
| "err_text (Errw f as e) = sprintf f (as @ [err_text e])"
| "err_text ErrNotFound = ''not found''"
| "err_text (Failure m None) = m"
| "err_text (Failure m (Some e)) = m @ '': '' @ err_text e"
| "err_text (ErrExt s) = s"
| "err_text (GoPanic s) = s"

text \<open>\<open>errors.Is(err, store.ErrNotFound)\<close> walks the chain of wrapped causes.\<close>

fun is_not_found :: "goerr \<Rightarrow> bool" where
  "is_not_found ErrNotFound = True"
| "is_not_found (Errw f as e) = is_not_found e"
| "is_not_found (Failure m (Some e)) = is_not_found e"
| "is_not_found (Failure m None) = False"
| "is_not_found (Errf f as) = False"
| "is_not_found (ErrExt s) = False"
| "is_not_found (GoPanic s) = False"

section \<open>Go's \<open>strings\<close> package\<close>

definition is_space :: "char \<Rightarrow> bool" where
  "is_space c \<longleftrightarrow> (let n = (of_char c :: nat) in n = 32 \<or> (9 \<le> n \<and> n \<le> 13))"

definition TrimLeftSpace :: "string \<Rightarrow> string" where
  "TrimLeftSpace s = dropWhile is_space s"

definition TrimSpace :: "string \<Rightarrow> string" where
  "TrimSpace s = rev (dropWhile is_space (rev (TrimLeftSpace s)))"

fun HasPrefix :: "string \<Rightarrow> string \<Rightarrow> bool" where
  "HasPrefix s [] = True"
| "HasPrefix [] (p # ps) = False"
| "HasPrefix (c # s) (p # ps) = (c = p \<and> HasPrefix s ps)"

definition HasSuffix :: "string \<Rightarrow> string \<Rightarrow> bool" where
  "HasSuffix s p = HasPrefix (rev s) (rev p)"

definition TrimSuffix :: "string \<Rightarrow> string \<Rightarrow> string" where
  "TrimSuffix s p = (if HasSuffix s p then take (length s - length p) s else s)"

fun Contains :: "string \<Rightarrow> string \<Rightarrow> bool" where
  "Contains [] p = (p = [])"
| "Contains (c # s) p = (HasPrefix (c # s) p \<or> Contains s p)"

text \<open>\<open>strings.Split\<close> and \<open>strings.Cut\<close> at a separator of one character.\<close>

fun Split :: "char \<Rightarrow> string \<Rightarrow> string list" where
  "Split d [] = [[]]"
| "Split d (c # s) =
    (if c = d then [] # Split d s
     else (case Split d s of [] \<Rightarrow> [[c]] | p # ps \<Rightarrow> (c # p) # ps))"

fun Cut :: "char \<Rightarrow> string \<Rightarrow> string \<times> string \<times> bool" where
  "Cut d [] = ([], [], False)"
| "Cut d (c # s) =
    (if c = d then ([], s, True)
     else (case Cut d s of (b, a, found) \<Rightarrow> (c # b, a, found)))"

fun Join :: "string list \<Rightarrow> string \<Rightarrow> string" where
  "Join [] sep = []"
| "Join [s] sep = s"
| "Join (s # ss) sep = s @ sep @ Join ss sep"

lemma HasPrefix_append [simp]: "HasPrefix (p @ s) p"
  by (induction p) auto

lemma HasPrefix_iff: "HasPrefix s p \<longleftrightarrow> (\<exists>r. s = p @ r)"
proof (induction s p rule: HasPrefix.induct)
  case (3 c s p ps)
  then show ?case by auto
qed auto

lemma HasSuffix_append [simp]: "HasSuffix (s @ p) p"
  by (simp add: HasSuffix_def)

lemma TrimSuffix_append [simp]: "TrimSuffix (s @ p) p = s"
  by (simp add: TrimSuffix_def)

lemma HasPrefix_append_right: "HasPrefix s p \<Longrightarrow> HasPrefix (s @ b) p"
  by (auto simp: HasPrefix_iff)

lemma Contains_if_HasPrefix: "HasPrefix s p \<Longrightarrow> Contains s p"
  by (cases s; cases p) auto

lemma Contains_append_left: "Contains a p \<Longrightarrow> Contains (a @ b) p"
proof (induction a)
  case Nil
  then show ?case by (auto intro: Contains_if_HasPrefix)
next
  case (Cons c a)
  then show ?case using HasPrefix_append_right [of "c # a" p b] by auto
qed

lemma Contains_append_mid: "Contains (a @ p @ b) p"
  by (induction a) (auto intro: Contains_if_HasPrefix)

lemma set_TrimSpace: "set (TrimSpace s) \<subseteq> set s"
  unfolding TrimSpace_def TrimLeftSpace_def by (auto dest!: set_dropWhileD)

lemma Split_nonempty [simp]: "Split d s \<noteq> []"
  by (induction s) (auto split: list.splits)

lemma Split_no_sep: "p \<in> set (Split d s) \<Longrightarrow> d \<notin> set p"
  by (induction s arbitrary: p) (auto split: if_splits list.splits)

lemma Split_no_sep_append: "d \<notin> set p \<Longrightarrow> Split d (p @ d # s) = p # Split d s"
  by (induction p) auto

lemma Split_no_sep_self: "d \<notin> set p \<Longrightarrow> Split d p = [p]"
  by (induction p) auto

lemma Cut_found: "Cut d s = (b, a, True) \<Longrightarrow> s = b @ d # a \<and> d \<notin> set b"
  by (induction s arbitrary: b) (auto split: if_splits prod.splits)

lemma Cut_not_found: "Cut d s = (b, a, False) \<Longrightarrow> b = s \<and> a = [] \<and> d \<notin> set s"
  by (induction s arbitrary: b) (auto split: if_splits prod.splits)

section \<open>Sorting\<close>

text \<open>
  \<open>sort.Strings\<close> is HOL's \<open>sort\<close> on strings.  A query's \<open>ORDER BY\<close> is a stable insertion
  sort by a comparison.
\<close>

fun insort_by :: "('a \<Rightarrow> 'a \<Rightarrow> bool) \<Rightarrow> 'a \<Rightarrow> 'a list \<Rightarrow> 'a list" where
  "insort_by le x [] = [x]"
| "insort_by le x (y # ys) = (if le x y then x # y # ys else y # insort_by le x ys)"

definition sort_by :: "('a \<Rightarrow> 'a \<Rightarrow> bool) \<Rightarrow> 'a list \<Rightarrow> 'a list" where
  "sort_by le xs = foldr (insort_by le) xs []"

lemma sort_by_Nil [simp]: "sort_by le [] = []"
  by (simp add: sort_by_def)

lemma sort_by_Cons [simp]: "sort_by le (x # xs) = insort_by le x (sort_by le xs)"
  by (simp add: sort_by_def)

lemma set_insort_by [simp]: "set (insort_by le x xs) = insert x (set xs)"
  by (induction xs) auto

lemma length_insort_by [simp]: "length (insort_by le x xs) = Suc (length xs)"
  by (induction xs) auto

lemma distinct_insort_by: "distinct (insort_by le x xs) = (x \<notin> set xs \<and> distinct xs)"
  by (induction xs) auto

lemma set_sort_by [simp]: "set (sort_by le xs) = set xs"
  by (induction xs) auto

lemma length_sort_by [simp]: "length (sort_by le xs) = length xs"
  by (induction xs) auto

lemma distinct_sort_by [simp]: "distinct (sort_by le xs) = distinct xs"
  by (induction xs) (auto simp: distinct_insort_by)

lemma sort_by_eq_Nil [simp]: "sort_by le xs = [] \<longleftrightarrow> xs = []"
  by (metis length_0_conv length_sort_by)

definition total_preorder :: "('a \<Rightarrow> 'a \<Rightarrow> bool) \<Rightarrow> bool" where
  "total_preorder le \<longleftrightarrow>
    (\<forall>x y. le x y \<or> le y x) \<and> (\<forall>x y z. le x y \<longrightarrow> le y z \<longrightarrow> le x z)"

lemma total_preorderD:
  assumes "total_preorder le"
  shows "\<not> le x y \<Longrightarrow> le y x" and "le x y \<Longrightarrow> le y z \<Longrightarrow> le x z"
  using assms unfolding total_preorder_def by blast+

lemma sorted_insort_by:
  assumes "total_preorder le"
  shows "sorted_wrt le xs \<Longrightarrow> sorted_wrt le (insort_by le x xs)"
proof (induction xs)
  case (Cons y ys)
  show ?case
  proof (cases "le x y")
    case True
    then have "le x z" if "z \<in> set ys" for z
      using Cons.prems that by (auto intro: total_preorderD(2) [OF assms, of x y z])
    with True Cons.prems show ?thesis by auto
  next
    case False
    then have "le y x" by (rule total_preorderD(1) [OF assms])
    with False Cons show ?thesis by auto
  qed
qed simp

lemma sorted_sort_by: "total_preorder le \<Longrightarrow> sorted_wrt le (sort_by le xs)"
  by (induction xs) (auto intro: sorted_insort_by)

section \<open>Maps as association lists\<close>

text \<open>
  Go's maps are association lists with one entry per key where they are iterated or printed:
  \<open>alput\<close> is an assignment \<open>m[k] = v\<close>, \<open>map_of\<close> a lookup.
\<close>

fun alput :: "'k \<Rightarrow> 'v \<Rightarrow> ('k \<times> 'v) list \<Rightarrow> ('k \<times> 'v) list" where
  "alput k v [] = [(k, v)]"
| "alput k v ((k', v') # m) = (if k = k' then (k, v) # m else (k', v') # alput k v m)"

lemma map_of_alput [simp]: "map_of (alput k v m) = (map_of m)(k \<mapsto> v)"
  by (induction m) (auto simp: fun_eq_iff)

lemma map_fst_alput:
  "map fst (alput k v m) = (if k \<in> set (map fst m) then map fst m else map fst m @ [k])"
  by (induction m) (auto split: if_splits)

lemma keys_alput [simp]: "set (map fst (alput k v m)) = insert k (set (map fst m))"
  unfolding map_fst_alput by auto

lemma distinct_alput: "distinct (map fst m) \<Longrightarrow> distinct (map fst (alput k v m))"
  unfolding map_fst_alput by auto

text \<open>A lookup of a missing key in a \<open>map[string]string\<close> gives the empty string.\<close>

definition param :: "(string \<times> string) list \<Rightarrow> string \<Rightarrow> string" where
  "param m k = (case map_of m k of None \<Rightarrow> [] | Some v \<Rightarrow> v)"

lemma param_Nil [simp]: "param [] k = []"
  by (simp add: param_def)

lemma find_SomeD: "find P xs = Some x \<Longrightarrow> P x \<and> x \<in> set xs"
  by (auto simp: find_Some_iff in_set_conv_nth)

lemma hd_sorted_least:
  "sorted_wrt le xs \<Longrightarrow> xs \<noteq> [] \<Longrightarrow> y \<in> set xs \<Longrightarrow> y = hd xs \<or> le (hd xs) y"
  by (cases xs) auto

end
