(* ===== verification/Effects.thy ===== *)
theory Effects
  imports Prelude
begin

text \<open>
  Effectful code: a computation takes the state it acts on (most often the log of the calls made
  to a service so far) and returns a result or an error together with the new state.  A service
  is a function from the log to its answer, so it may answer two equal calls differently.
  \<open>logs_only P m\<close> says that \<open>m\<close> only appends calls satisfying \<open>P\<close>; its rules follow the
  program text, so a least-privilege property of an action is proved by applying them.
\<close>

named_theorems log_rules \<open>rules for the calls a computation may make\<close>

type_synonym ('s, 'a) act = "'s \<Rightarrow> 'a result \<times> 's"

definition ret :: "'a \<Rightarrow> ('s, 'a) act" where
  "ret a s = (Inr a, s)"

definition fail :: "goerr \<Rightarrow> ('s, 'a) act" where
  "fail e s = (Inl e, s)"

definition seq :: "('s, 'a) act \<Rightarrow> ('a \<Rightarrow> ('s, 'b) act) \<Rightarrow> ('s, 'b) act" where
  "seq m f s = (case m s of (Inl e, s') \<Rightarrow> (Inl e, s') | (Inr a, s') \<Rightarrow> f a s')"

definition lift :: "'a result \<Rightarrow> ('s, 'a) act" where
  "lift r s = (r, s)"

text \<open>\<open>if err != nil { return nil, fmt.Errorf(format, args..., err) }\<close>\<close>

definition wrap_err :: "string \<Rightarrow> string list \<Rightarrow> ('s, 'a) act \<Rightarrow> ('s, 'a) act" where
  "wrap_err f as m s = (case m s of (Inl e, s') \<Rightarrow> (Inl (Errw f as e), s') | (Inr a, s') \<Rightarrow> (Inr a, s'))"

definition api_call :: "'c \<Rightarrow> ('c list \<Rightarrow> 'a result) \<Rightarrow> ('c list, 'a) act" where
  "api_call c answer log = (answer log, log @ [c])"

lemmas act_defs = ret_def fail_def seq_def lift_def wrap_err_def api_call_def

definition logs_only :: "('c \<Rightarrow> bool) \<Rightarrow> ('c list, 'a) act \<Rightarrow> bool" where
  "logs_only P m \<longleftrightarrow> (\<forall>log. \<exists>cs. snd (m log) = log @ cs \<and> list_all P cs)"

lemma logs_only_ret [log_rules]: "logs_only P (ret a)"
  by (simp add: logs_only_def ret_def)

lemma logs_only_fail [log_rules]: "logs_only P (fail e)"
  by (simp add: logs_only_def fail_def)

lemma logs_only_lift [log_rules]: "logs_only P (lift r)"
  by (simp add: logs_only_def lift_def)

lemma logs_only_api_call [log_rules]: "P c \<Longrightarrow> logs_only P (api_call c f)"
  by (simp add: logs_only_def api_call_def)

lemma snd_wrap_err [simp]: "snd (wrap_err f as m s) = snd (m s)"
  by (simp add: wrap_err_def prod.case_eq_if sum.case_eq_if)

lemma logs_only_wrap_err [log_rules]: "logs_only P m \<Longrightarrow> logs_only P (wrap_err f as m)"
  by (simp add: logs_only_def)

lemma logs_only_seq [log_rules]:
  assumes m: "logs_only P m" and f: "\<And>a. logs_only P (f a)"
  shows "logs_only P (seq m f)"
  unfolding logs_only_def
proof
  fix log
  obtain cs where cs: "snd (m log) = log @ cs" "list_all P cs"
    using m unfolding logs_only_def by blast
  show "\<exists>cs. snd (seq m f log) = log @ cs \<and> list_all P cs"
  proof (cases "fst (m log)")
    case (Inl e)
    with cs show ?thesis by (auto simp: seq_def prod.case_eq_if)
  next
    case (Inr a)
    obtain ds where "snd (f a (log @ cs)) = (log @ cs) @ ds" "list_all P ds"
      using f unfolding logs_only_def by blast
    with cs Inr show ?thesis by (auto simp: seq_def prod.case_eq_if)
  qed
qed

lemma logs_only_lift_seq [log_rules]:
  "(\<And>a. r = Inr a \<Longrightarrow> logs_only P (f a)) \<Longrightarrow> logs_only P (seq (lift r) f)"
  unfolding logs_only_def by (cases r) (auto simp: seq_def lift_def)

lemma logs_only_if [log_rules]:
  "(b \<Longrightarrow> logs_only P m) \<Longrightarrow> (\<not> b \<Longrightarrow> logs_only P n) \<Longrightarrow> logs_only P (if b then m else n)"
  by simp

lemma logs_only_sum [log_rules]:
  "(\<And>e. x = Inl e \<Longrightarrow> logs_only P (f e)) \<Longrightarrow> (\<And>a. x = Inr a \<Longrightarrow> logs_only P (g a)) \<Longrightarrow>
   logs_only P (case x of Inl e \<Rightarrow> f e | Inr a \<Rightarrow> g a)"
  by (cases x) auto

lemma logs_only_option [log_rules]:
  "(x = None \<Longrightarrow> logs_only P f) \<Longrightarrow> (\<And>a. x = Some a \<Longrightarrow> logs_only P (g a)) \<Longrightarrow>
   logs_only P (case x of None \<Rightarrow> f | Some a \<Rightarrow> g a)"
  by (cases x) auto

lemma logs_only_prod [log_rules]:
  "(\<And>a b. x = (a, b) \<Longrightarrow> logs_only P (f a b)) \<Longrightarrow> logs_only P (case x of (a, b) \<Rightarrow> f a b)"
  by (cases x) auto

lemma logs_only_mono:
  assumes "logs_only P m" "\<And>c. P c \<Longrightarrow> Q c"
  shows "logs_only Q m"
  unfolding logs_only_def
proof
  fix log
  obtain cs where "snd (m log) = log @ cs" "list_all P cs"
    using assms(1) unfolding logs_only_def by blast
  with assms(2) show "\<exists>cs. snd (m log) = log @ cs \<and> list_all Q cs"
    by (auto simp: list_all_iff)
qed

lemma logs_only_calls:
  assumes "logs_only P m" "c \<in> set (snd (m []))"
  shows "P c"
proof -
  obtain cs where "snd (m []) = [] @ cs" "list_all P cs"
    using assms(1) unfolding logs_only_def by blast
  with assms(2) show ?thesis by (auto simp: list_all_iff)
qed

lemma logs_nothing:
  assumes "logs_only (\<lambda>_. False) m"
  shows "snd (m log) = log"
proof -
  obtain cs where cs: "snd (m log) = log @ cs" "list_all (\<lambda>_. False) cs"
    using assms unfolding logs_only_def by blast
  then have "cs = []" by (cases cs) auto
  with cs show ?thesis by simp
qed

lemma snd_seq: "snd (seq m f s) = (case m s of (Inl e, s') \<Rightarrow> s' | (Inr a, s') \<Rightarrow> snd (f a s'))"
  by (auto simp: seq_def split: prod.splits sum.splits)

lemma logs_only_new:
  assumes "logs_only P m" "c \<in> set (drop (length log) (snd (m log)))"
  shows "P c"
proof -
  obtain cs where "snd (m log) = log @ cs" "list_all P cs"
    using assms(1) unfolding logs_only_def by blast
  with assms(2) show ?thesis by (auto simp: list_all_iff)
qed

text \<open>What a successful sequence did.\<close>

lemma seq_InrE:
  assumes "seq m f s = (Inr b, s'')"
  obtains a s' where "m s = (Inr a, s')" "f a s' = (Inr b, s'')"
  using assms by (auto simp: seq_def split: prod.splits sum.splits)

lemma seq_Inl:
  "seq m f s = (Inl e, s'') \<Longrightarrow>
    m s = (Inl e, s'') \<or> (\<exists>a s'. m s = (Inr a, s') \<and> f a s' = (Inl e, s''))"
  by (auto simp: seq_def split: prod.splits sum.splits)

lemma wrap_err_Inr [simp]: "wrap_err f as m s = (Inr a, s') \<longleftrightarrow> m s = (Inr a, s')"
  by (auto simp: wrap_err_def split: prod.splits sum.splits)

end
