(* ===== verification/Json.thy ===== *)
theory Json
  imports Prelude
begin

text \<open>
  The dynamic values of the program: Go's \<open>interface{}\<close> trees of \<open>map[string]interface{}\<close>,
  \<open>[]interface{}\<close> and scalars that \<open>encoding/json\<close> and the Kubernetes client produce, and the
  conversions of \<open>internal/actions/actions.go\<close> over them (\<open>setIfPresent\<close>, \<open>pruneUnset\<close>,
  \<open>awsResourcesFrom\<close>).  An object is an association list, one entry per key; a missing key and
  a nil value both read as \<open>JNull\<close>, as indexing a Go map does.  A list that may be nil is an
  option.
\<close>

datatype json =
    JNull
  | JBool bool
  | JNum string
  | JStr string
  | JList "json list"
  | JObj "(string \<times> json) list"

type_synonym object = "(string \<times> json) list"

definition jget :: "object \<Rightarrow> string \<Rightarrow> json" where
  "jget m k = (case map_of m k of None \<Rightarrow> JNull | Some v \<Rightarrow> v)"

text \<open>Go's type assertions \<open>v.(T)\<close> with the comma-ok form.\<close>

fun as_obj :: "json \<Rightarrow> object option" where
  "as_obj (JObj m) = Some m"
| "as_obj v = None"

fun as_list :: "json \<Rightarrow> json list option" where
  "as_list (JList vs) = Some vs"
| "as_list v = None"

fun as_str :: "json \<Rightarrow> string option" where
  "as_str (JStr s) = Some s"
| "as_str v = None"

definition str_or_empty :: "json \<Rightarrow> string" where
  "str_or_empty v = (case as_str v of None \<Rightarrow> [] | Some s \<Rightarrow> s)"

definition setIfPresent :: "object \<Rightarrow> string \<Rightarrow> json \<Rightarrow> object" where
  "setIfPresent m key v = (if v \<noteq> JNull then alput key v m else m)"

fun set_all_present :: "object \<Rightarrow> string list \<Rightarrow> object \<Rightarrow> object" where
  "set_all_present src [] m = m"
| "set_all_present src (k # ks) m = set_all_present src ks (setIfPresent m k (jget src k))"

lemma jget_alput [simp]: "jget (alput k v m) k' = (if k' = k then v else jget m k')"
  by (simp add: jget_def)

lemma jget_Nil [simp]: "jget [] k = JNull"
  by (simp add: jget_def)

lemma jget_setIfPresent [simp]:
  "jget (setIfPresent m k v) k' = (if k' = k \<and> v \<noteq> JNull then v else jget m k')"
  by (auto simp: setIfPresent_def)

lemma jget_set_all_present:
  "jget (set_all_present src ks m) k =
    (if k \<in> set ks \<and> jget src k \<noteq> JNull then jget src k else jget m k)"
  by (induction ks arbitrary: m) auto

lemma distinct_setIfPresent: "distinct (map fst m) \<Longrightarrow> distinct (map fst (setIfPresent m k v))"
  by (simp add: setIfPresent_def distinct_alput)

lemma keys_set_all_present: "set (map fst (set_all_present src ks m)) \<subseteq> set ks \<union> set (map fst m)"
proof (induction ks arbitrary: m)
  case (Cons k ks)
  have "set (map fst (setIfPresent m k (jget src k))) \<subseteq> insert k (set (map fst m))"
    using keys_alput [of k "jget src k" m] by (auto simp: setIfPresent_def)
  with Cons [of "setIfPresent m k (jget src k)"] show ?case by auto
qed simp

section \<open>Dropping unset fields\<close>

text \<open>
  The source deletes in place from maps it owns; the model returns the edited value.  Nils in a
  list stay, because positions are meaningful.
\<close>

fun pruneUnset :: "object \<Rightarrow> object" and
  prune_value :: "json \<Rightarrow> json" and
  pruneUnsetList :: "json list \<Rightarrow> json list" where
  "pruneUnset [] = []"
| "pruneUnset ((k, v) # m) =
    (if v = JNull then pruneUnset m else (k, prune_value v) # pruneUnset m)"
| "prune_value (JObj m) = JObj (pruneUnset m)"
| "prune_value (JList vs) = JList (pruneUnsetList vs)"
| "prune_value JNull = JNull"
| "prune_value (JBool b) = JBool b"
| "prune_value (JNum n) = JNum n"
| "prune_value (JStr s) = JStr s"
| "pruneUnsetList [] = []"
| "pruneUnsetList (v # vs) = prune_value v # pruneUnsetList vs"

fun null_free :: "json \<Rightarrow> bool" and
  null_free_obj :: "object \<Rightarrow> bool" and
  null_free_list :: "json list \<Rightarrow> bool" where
  "null_free (JObj m) = null_free_obj m"
| "null_free (JList vs) = null_free_list vs"
| "null_free JNull = True"
| "null_free (JBool b) = True"
| "null_free (JNum n) = True"
| "null_free (JStr s) = True"
| "null_free_obj [] = True"
| "null_free_obj ((k, v) # m) = (v \<noteq> JNull \<and> null_free v \<and> null_free_obj m)"
| "null_free_list [] = True"
| "null_free_list (v # vs) = (null_free v \<and> null_free_list vs)"

lemma prune_value_JNull [simp]: "prune_value v = JNull \<longleftrightarrow> v = JNull"
  by (cases v) auto

lemma pruneUnsetList_map: "pruneUnsetList vs = map prune_value vs"
  by (induction vs) auto

lemma pruned_null_free:
  "null_free_obj (pruneUnset m)"
  "null_free (prune_value v)"
  "null_free_list (pruneUnsetList vs)"
  by (induction m and v and vs rule: pruneUnset_prune_value_pruneUnsetList.induct) auto

lemma prune_null_free_id:
  "null_free_obj m \<Longrightarrow> pruneUnset m = m"
  "null_free v \<Longrightarrow> prune_value v = v"
  "null_free_list vs \<Longrightarrow> pruneUnsetList vs = vs"
  by (induction m and v and vs rule: pruneUnset_prune_value_pruneUnsetList.induct) auto

lemma map_of_pruneUnset:
  "distinct (map fst m) \<Longrightarrow>
    map_of (pruneUnset m) k =
      (case map_of m k of None \<Rightarrow> None | Some v \<Rightarrow> if v = JNull then None else Some (prune_value v))"
proof (induction m)
  case (Cons a m)
  obtain k' v where a: "a = (k', v)" by (cases a)
  have "map_of m k' = None" using Cons.prems a by (auto simp: map_of_eq_None_iff)
  with Cons a show ?case by auto
qed simp

text \<open>
  What a caller can observe of a value: the value reached by a path of object keys and list
  positions.
\<close>

datatype step = Key string | Index nat

fun jpath :: "json \<Rightarrow> step list \<Rightarrow> json option" where
  "jpath v [] = Some v"
| "jpath (JObj m) (Key k # p) = (case map_of m k of None \<Rightarrow> None | Some v \<Rightarrow> jpath v p)"
| "jpath (JList vs) (Index i # p) = (if i < length vs then jpath (vs ! i) p else None)"
| "jpath v (s # p) = None"

fun keys_distinct :: "json \<Rightarrow> bool" and
  keys_distinct_obj :: "object \<Rightarrow> bool" and
  keys_distinct_list :: "json list \<Rightarrow> bool" where
  "keys_distinct (JObj m) = (distinct (map fst m) \<and> keys_distinct_obj m)"
| "keys_distinct (JList vs) = keys_distinct_list vs"
| "keys_distinct JNull = True"
| "keys_distinct (JBool b) = True"
| "keys_distinct (JNum n) = True"
| "keys_distinct (JStr s) = True"
| "keys_distinct_obj [] = True"
| "keys_distinct_obj ((k, v) # m) = (keys_distinct v \<and> keys_distinct_obj m)"
| "keys_distinct_list [] = True"
| "keys_distinct_list (v # vs) = (keys_distinct v \<and> keys_distinct_list vs)"

lemma keys_distinct_entry: "keys_distinct_obj m \<Longrightarrow> map_of m k = Some v \<Longrightarrow> keys_distinct v"
  by (induction m) (auto split: if_splits)

lemma keys_distinct_nth: "keys_distinct_list vs \<Longrightarrow> i < length vs \<Longrightarrow> keys_distinct (vs ! i)"
  by (induction vs arbitrary: i) (auto simp: nth_Cons split: nat.splits)

text \<open>
  Pruning an AWS object removes its unset fields and nothing else: every value that is
  reachable and set before is reachable at the same path after (in its own pruned form), what is
  reachable after was reachable before, and no object of the result holds a null, at any depth.
\<close>
lemma prune_keeps_exactly_the_set_values:
  assumes "keys_distinct v"
  shows "null_free (prune_value v) \<and>
    (\<forall>p w. w \<noteq> JNull \<and> jpath v p = Some w \<longrightarrow> jpath (prune_value v) p = Some (prune_value w)) \<and>
    (\<forall>p w'. jpath (prune_value v) p = Some w' \<longrightarrow> (\<exists>w. jpath v p = Some w \<and> w' = prune_value w))"
proof -
  have keep: "keys_distinct v \<Longrightarrow> jpath v p = Some w \<Longrightarrow> w \<noteq> JNull \<Longrightarrow>
      jpath (prune_value v) p = Some (prune_value w)" for v p w
  proof (induction v p rule: jpath.induct)
    case (2 m k p)
    then obtain u where u: "map_of m k = Some u" "jpath u p = Some w"
      by (auto split: option.splits)
    moreover have "u \<noteq> JNull" using u "2.prems"(3) by (cases p) auto
    moreover have "jpath (prune_value u) p = Some (prune_value w)"
      using "2.IH" [OF u(1)] u "2.prems" keys_distinct_entry [of m k u] by auto
    ultimately show ?case using "2.prems"(1) by (simp add: map_of_pruneUnset)
  next
    case (3 vs i p)
    then have "i < length vs" "jpath (vs ! i) p = Some w" by (auto split: if_splits)
    with "3" keys_distinct_nth [of vs i] show ?case by (simp add: pruneUnsetList_map)
  qed auto
  have rev: "keys_distinct v \<Longrightarrow> jpath (prune_value v) p = Some w' \<Longrightarrow>
      \<exists>w. jpath v p = Some w \<and> w' = prune_value w" for v p w'
  proof (induction v p rule: jpath.induct)
    case (2 m k p)
    then obtain u where u: "map_of m k = Some u" "jpath (prune_value u) p = Some w'"
      by (auto simp: map_of_pruneUnset split: option.splits if_splits)
    with "2.IH" [OF u(1)] "2.prems" keys_distinct_entry [of m k u] show ?case by auto
  next
    case (3 vs i p)
    then have "i < length vs" "jpath (prune_value (vs ! i)) p = Some w'"
      by (auto simp: pruneUnsetList_map split: if_splits)
    with "3" keys_distinct_nth [of vs i] show ?case by simp
  qed auto
  from assms keep rev pruned_null_free(2) show ?thesis by blast
qed

lemma prune_witness:
  "jpath (prune_value (JObj [(''Id'', JStr ''i-1''), (''Zone'', JNull)])) [Key ''Id''] = Some (JStr ''i-1'')"
proof -
  have k: "keys_distinct (JObj [(''Id'', JStr ''i-1''), (''Zone'', JNull)])" by simp
  have "jpath (JObj [(''Id'', JStr ''i-1''), (''Zone'', JNull)]) [Key ''Id''] = Some (JStr ''i-1'')"
    by simp
  with prune_keeps_exactly_the_set_values [OF k] show ?thesis by fastforce
qed

section \<open>Converting AWS objects\<close>

text \<open>
  \<open>marshal\<close> stands for \<open>json.Marshal\<close> of one SDK struct followed by \<open>json.Unmarshal\<close> into a map:
  the SDK's types are not part of this repository.  Both steps can fail.
\<close>

record 'a sdk_codec =
  sdk_marshal :: "'a \<Rightarrow> string result"
  sdk_unmarshal :: "string \<Rightarrow> object result"

fun awsResourcesFrom :: "'a sdk_codec \<Rightarrow> 'a list \<Rightarrow> object list result" where
  "awsResourcesFrom c [] = Inr []"
| "awsResourcesFrom c (x # xs) =
    (case sdk_marshal c x of
       Inl e \<Rightarrow> Inl (Errw ''failed to serialize AWS object: %w'' [] e)
     | Inr raw \<Rightarrow>
       (case sdk_unmarshal c raw of
          Inl e \<Rightarrow> Inl (Errw ''failed to convert AWS object: %w'' [] e)
        | Inr m \<Rightarrow>
          (case awsResourcesFrom c xs of Inl e \<Rightarrow> Inl e | Inr rs \<Rightarrow> Inr (pruneUnset m # rs))))"

lemma awsResourcesFrom_length: "awsResourcesFrom c xs = Inr rs \<Longrightarrow> length rs = length xs"
  by (induction xs arbitrary: rs) (auto split: sum.splits)

lemma awsResourcesFrom_null_free:
  "awsResourcesFrom c xs = Inr rs \<Longrightarrow> \<forall>r \<in> set rs. null_free_obj r"
proof (induction xs arbitrary: rs)
  case (Cons x xs)
  then show ?case by (auto simp: pruned_null_free(1) split: sum.splits)
qed simp

end
