(* ===== verification/Kube_Api.thy ===== *)
theory Kube_Api
  imports Effects Json
begin

text \<open>
  What a Kubernetes action works with (\<open>internal/actions/actions.go\<close>, \<open>internal/backplane/backplane.go\<close>):
  the resource it targets, the RBAC rules it asks for, the clients it is given and the result it
  returns.  The dynamic client and the pod executor are code of \<open>client-go\<close> and of the cluster: they are
  the record \<open>kube_clients\<close> of functions from the calls made so far to an answer, and the accessors
  \<open>GetName\<close> and \<open>GetNamespace\<close> of \<open>unstructured.Unstructured\<close> are two more of its fields.
\<close>

record resource_target =
  rt_Group :: string
  rt_Version :: string
  rt_Resource :: string
  rt_Namespace :: string
  rt_Name :: string
  rt_ClusterScoped :: bool

record rbac_rule =
  rr_Namespace :: string
  rr_APIGroups :: "string list"
  rr_Resources :: "string list"
  rr_ResourceNames :: "string list"
  rr_Verbs :: "string list"

record gvr =
  gv_Group :: string
  gv_Version :: string
  gv_Resource :: string

record list_options =
  lo_LabelSelector :: string
  lo_FieldSelector :: string

definition no_list_options :: list_options where
  "no_list_options = \<lparr>lo_LabelSelector = [], lo_FieldSelector = []\<rparr>"

text \<open>A call names the namespace it is sent to; the empty namespace is the cluster scope.\<close>

datatype kube_call =
    KList gvr string list_options
  | KGet gvr string string
  | KPatch gvr string string string
  | KDelete gvr string string
  | KExec string string string "string list"

type_synonym kube_log = "kube_call list"

record kube_clients =
  dy_List :: "kube_log \<Rightarrow> gvr \<Rightarrow> string \<Rightarrow> list_options \<Rightarrow> object list result"
  dy_Get :: "kube_log \<Rightarrow> gvr \<Rightarrow> string \<Rightarrow> string \<Rightarrow> object result"
  dy_Patch :: "kube_log \<Rightarrow> gvr \<Rightarrow> string \<Rightarrow> string \<Rightarrow> string \<Rightarrow> object result"
  dy_Delete :: "kube_log \<Rightarrow> gvr \<Rightarrow> string \<Rightarrow> string \<Rightarrow> unit result"
  pe_Exec :: "(kube_log \<Rightarrow> string \<Rightarrow> string \<Rightarrow> string \<Rightarrow> string list \<Rightarrow> string result) option"
  un_GetName :: "object \<Rightarrow> string"
  un_GetNamespace :: "object \<Rightarrow> string"
  json_Unmarshal :: "string \<Rightarrow> json result"

definition kube_List :: "kube_clients \<Rightarrow> gvr \<Rightarrow> string \<Rightarrow> list_options \<Rightarrow> (kube_log, object list) act" where
  "kube_List c g ns opts = api_call (KList g ns opts) (\<lambda>log. dy_List c log g ns opts)"

definition kube_Get :: "kube_clients \<Rightarrow> gvr \<Rightarrow> string \<Rightarrow> string \<Rightarrow> (kube_log, object) act" where
  "kube_Get c g ns name = api_call (KGet g ns name) (\<lambda>log. dy_Get c log g ns name)"

definition kube_Patch :: "kube_clients \<Rightarrow> gvr \<Rightarrow> string \<Rightarrow> string \<Rightarrow> string \<Rightarrow> (kube_log, object) act" where
  "kube_Patch c g ns name data = api_call (KPatch g ns name data) (\<lambda>log. dy_Patch c log g ns name data)"

definition kube_Delete :: "kube_clients \<Rightarrow> gvr \<Rightarrow> string \<Rightarrow> string \<Rightarrow> (kube_log, unit) act" where
  "kube_Delete c g ns name = api_call (KDelete g ns name) (\<lambda>log. dy_Delete c log g ns name)"

record kube_action_request =
  kr_Target :: resource_target
  kr_ClusterVersion :: string
  kr_Params :: "(string \<times> string) list"

record action_result =
  ares_Resources :: "object list option"
  ares_Message :: string

record kube_action =
  ka_Name :: string
  ka_UsesPodExec :: bool
  ka_RequiredRBAC :: "resource_target \<Rightarrow> rbac_rule list"
  ka_Execute :: "kube_clients \<Rightarrow> kube_action_request \<Rightarrow> (kube_log, action_result) act"

section \<open>The permissions a call needs\<close>

text \<open>
  Kubernetes' reading of a rule: it grants its verbs on its resources in its namespace, or in
  every namespace when it names none; a rule with resource names grants them on those names
  only.  An exec into a pod is the verb \<open>create\<close> on \<open>pods/exec\<close>.
\<close>

fun call_needs :: "kube_call \<Rightarrow> string \<times> string \<times> string \<times> string \<times> string option" where
  "call_needs (KList g ns opts) = (gv_Group g, gv_Resource g, ''list'', ns, None)"
| "call_needs (KGet g ns name) = (gv_Group g, gv_Resource g, ''get'', ns, Some name)"
| "call_needs (KPatch g ns name data) = (gv_Group g, gv_Resource g, ''patch'', ns, Some name)"
| "call_needs (KDelete g ns name) = (gv_Group g, gv_Resource g, ''delete'', ns, Some name)"
| "call_needs (KExec ns pod cont cmd) = ([], ''pods/exec'', ''create'', ns, Some pod)"

definition rule_grants :: "rbac_rule \<Rightarrow> kube_call \<Rightarrow> bool" where
  "rule_grants r c \<longleftrightarrow>
    (case call_needs c of (g, res, verb, ns, nm) \<Rightarrow>
      g \<in> set (rr_APIGroups r) \<and> res \<in> set (rr_Resources r) \<and> verb \<in> set (rr_Verbs r) \<and>
      (rr_Namespace r = [] \<or> rr_Namespace r = ns) \<and>
      (rr_ResourceNames r = [] \<or> (\<exists>n \<in> set (rr_ResourceNames r). nm = Some n)))"

definition rules_grant :: "rbac_rule list \<Rightarrow> kube_call \<Rightarrow> bool" where
  "rules_grant rs c \<longleftrightarrow> (\<exists>r \<in> set rs. rule_grants r c)"

definition least_privileged :: "kube_action \<Rightarrow> bool" where
  "least_privileged a \<longleftrightarrow>
    (\<forall>clients req. logs_only (rules_grant (ka_RequiredRBAC a (kr_Target req))) (ka_Execute a clients req))"

lemma least_privileged_call:
  "least_privileged a \<Longrightarrow> c \<in> set (snd (ka_Execute a clients req [])) \<Longrightarrow>
   rules_grant (ka_RequiredRBAC a (kr_Target req)) c"
  unfolding least_privileged_def by (blast intro: logs_only_calls)

text \<open>The calls that change something on the cluster.\<close>

fun kube_mutates :: "kube_call \<Rightarrow> bool" where
  "kube_mutates (KPatch g ns name data) = True"
| "kube_mutates (KDelete g ns name) = True"
| "kube_mutates (KList g ns opts) = False"
| "kube_mutates (KGet g ns name) = False"
| "kube_mutates (KExec ns pod cont cmd) = False"

end
