(* ===== verification/Kube_Actions.thy ===== *)
theory Kube_Actions
  imports Kube_Api
begin

text \<open>
  The single-object Kubernetes actions of \<open>internal/actions\<close>: \<open>get\<close>, \<open>patch\<close>, \<open>delete\<close> and
  \<open>get-pull-secret-email\<close>, with the shared \<open>resourceClient\<close>, \<open>scopeLabel\<close> and
  \<open>resourcesFrom\<close> of \<open>actions.go\<close>.  Each action is its \<open>Execute\<close> and its \<open>RequiredRBAC\<close>;
  the properties relate the two.
\<close>

section \<open>Shared helpers\<close>

definition resourcesFrom :: "object list \<Rightarrow> object list" where
  "resourcesFrom objects = map (\<lambda>ob. ob) objects"

definition scopeLabel :: "string \<Rightarrow> string" where
  "scopeLabel ns = (if ns = [] then ''cluster scope'' else ns)"

text \<open>The resource client is the pair of a resource and the namespace it is opened in.\<close>

definition resourceClient :: "gvr \<Rightarrow> resource_target \<Rightarrow> (gvr \<times> string) result" where
  "resourceClient g t =
    (if rt_ClusterScoped t
     then (if rt_Namespace t \<noteq> []
           then Inl (Errf ''namespace must be empty for cluster-scoped resource %s'' [rt_Resource t])
           else Inr (g, []))
     else if rt_Namespace t = []
     then Inl (Errf ''namespace is required for namespaced resource %s'' [rt_Resource t])
     else Inr (g, rt_Namespace t))"

definition target_gvr :: "resource_target \<Rightarrow> gvr" where
  "target_gvr t = \<lparr>gv_Group = rt_Group t, gv_Version = rt_Version t, gv_Resource = rt_Resource t\<rparr>"

lemma resourceClient_Inr:
  "resourceClient g t = Inr rc \<longleftrightarrow>
    rc = (g, rt_Namespace t) \<and> (rt_Namespace t = []) = rt_ClusterScoped t"
  by (auto simp: resourceClient_def)

section \<open>get\<close>

definition get_RequiredRBAC :: "resource_target \<Rightarrow> rbac_rule list" where
  "get_RequiredRBAC t =
    (let rule = \<lparr>rr_Namespace = rt_Namespace t, rr_APIGroups = [rt_Group t],
                 rr_Resources = [rt_Resource t], rr_ResourceNames = [], rr_Verbs = []\<rparr> in
     if rt_Name t = [] then [rule\<lparr>rr_Verbs := [''list'']\<rparr>]
     else [rule\<lparr>rr_Verbs := [''get''], rr_ResourceNames := [rt_Name t]\<rparr>])"

definition get_Execute :: "kube_clients \<Rightarrow> kube_action_request \<Rightarrow> (kube_log, action_result) act" where
  "get_Execute c req =
    (let t = kr_Target req in
     seq (lift (resourceClient (target_gvr t) t)) (\<lambda>rc.
     if rt_Name t = []
     then seq (wrap_err ''failed to list %s in %s: %w'' [rt_Resource t, scopeLabel (rt_Namespace t)]
                (kube_List c (fst rc) (snd rc) no_list_options)) (\<lambda>items.
          ret \<lparr>ares_Resources = Some (resourcesFrom items),
               ares_Message = sprintf ''listed %d %s in %s''
                 [show_nat (length items), rt_Resource t, scopeLabel (rt_Namespace t)]\<rparr>)
     else seq (wrap_err ''failed to get %s/%s in %s: %w''
                [rt_Resource t, rt_Name t, scopeLabel (rt_Namespace t)]
                (kube_Get c (fst rc) (snd rc) (rt_Name t))) (\<lambda>obj.
          ret \<lparr>ares_Resources = Some (resourcesFrom [obj]),
               ares_Message = sprintf ''got %s/%s in %s''
                 [rt_Resource t, rt_Name t, scopeLabel (rt_Namespace t)]\<rparr>)))"

definition NewGetAction :: kube_action where
  "NewGetAction = \<lparr>ka_Name = ''get'', ka_UsesPodExec = False,
     ka_RequiredRBAC = get_RequiredRBAC, ka_Execute = get_Execute\<rparr>"

section \<open>patch\<close>

definition patch_RequiredRBAC :: "resource_target \<Rightarrow> rbac_rule list" where
  "patch_RequiredRBAC t =
    (let rule = \<lparr>rr_Namespace = rt_Namespace t, rr_APIGroups = [rt_Group t],
                 rr_Resources = [rt_Resource t], rr_ResourceNames = [], rr_Verbs = [''patch'']\<rparr> in
     if rt_Name t \<noteq> [] then [rule\<lparr>rr_ResourceNames := [rt_Name t]\<rparr>] else [rule])"

definition patch_Execute :: "kube_clients \<Rightarrow> kube_action_request \<Rightarrow> (kube_log, action_result) act" where
  "patch_Execute c req =
    (let t = kr_Target req in
     if rt_Name t = [] then fail (Errf ''patch action requires a resource name'' [])
     else (case map_of (kr_Params req) ''patch'' of
         None \<Rightarrow> fail (Errf (''patch action requires '' @ [CHR 0x27] @ ''patch'' @ [CHR 0x27] @
                   '' parameter with JSON merge patch body'') [])
       | Some patchData \<Rightarrow>
         if patchData = []
         then fail (Errf (''patch action requires '' @ [CHR 0x27] @ ''patch'' @ [CHR 0x27] @
                   '' parameter with JSON merge patch body'') [])
         else seq (lift (resourceClient (target_gvr t) t)) (\<lambda>rc.
              seq (wrap_err ''failed to patch %s/%s in %s: %w''
                     [rt_Resource t, rt_Name t, scopeLabel (rt_Namespace t)]
                     (kube_Patch c (fst rc) (snd rc) (rt_Name t) patchData)) (\<lambda>obj.
              ret \<lparr>ares_Resources = Some (resourcesFrom [obj]),
                   ares_Message = sprintf ''patched %s/%s in %s''
                     [rt_Resource t, rt_Name t, scopeLabel (rt_Namespace t)]\<rparr>))))"

definition NewPatchAction :: kube_action where
  "NewPatchAction = \<lparr>ka_Name = ''patch'', ka_UsesPodExec = False,
     ka_RequiredRBAC = patch_RequiredRBAC, ka_Execute = patch_Execute\<rparr>"

section \<open>delete\<close>

definition delete_RequiredRBAC :: "resource_target \<Rightarrow> rbac_rule list" where
  "delete_RequiredRBAC t =
    (let rule = \<lparr>rr_Namespace = rt_Namespace t, rr_APIGroups = [rt_Group t],
                 rr_Resources = [rt_Resource t], rr_ResourceNames = [], rr_Verbs = [''delete'']\<rparr> in
     if rt_Name t \<noteq> [] then [rule\<lparr>rr_ResourceNames := [rt_Name t]\<rparr>] else [rule])"

definition delete_Execute :: "kube_clients \<Rightarrow> kube_action_request \<Rightarrow> (kube_log, action_result) act" where
  "delete_Execute c req =
    (let t = kr_Target req in
     if rt_Name t = [] then fail (Errf ''delete action requires a resource name'' [])
     else seq (lift (resourceClient (target_gvr t) t)) (\<lambda>rc.
          seq (wrap_err ''failed to delete %s/%s in %s: %w''
                 [rt_Resource t, rt_Name t, scopeLabel (rt_Namespace t)]
                 (kube_Delete c (fst rc) (snd rc) (rt_Name t))) (\<lambda>_.
          ret \<lparr>ares_Resources = None,
               ares_Message = sprintf ''deleted %s/%s in %s''
                 [rt_Resource t, rt_Name t, scopeLabel (rt_Namespace t)]\<rparr>)))"

definition NewDeleteAction :: kube_action where
  "NewDeleteAction = \<lparr>ka_Name = ''delete'', ka_UsesPodExec = False,
     ka_RequiredRBAC = delete_RequiredRBAC, ka_Execute = delete_Execute\<rparr>"

section \<open>Base64 and the docker configuration\<close>

text \<open>
  \<open>base64.StdEncoding.DecodeString\<close>: line breaks are skipped, the padding is required, left-over
  bits are ignored.  The offset in the error's text is left out.
\<close>

definition base64_value :: "char \<Rightarrow> nat option" where
  "base64_value c =
    (let n = (of_char c :: nat) in
     if 65 \<le> n \<and> n \<le> 90 then Some (n - 65)
     else if 97 \<le> n \<and> n \<le> 122 then Some (n - 71)
     else if 48 \<le> n \<and> n \<le> 57 then Some (n + 4)
     else if c = CHR ''+'' then Some 62
     else if c = CHR ''/'' then Some 63
     else None)"

definition sextets :: "nat list \<Rightarrow> nat" where
  "sextets vs = foldl (\<lambda>a v. 64 * a + v) 0 vs"

fun base64_quads :: "string \<Rightarrow> string option" where
  "base64_quads [] = Some []"
| "base64_quads (a # b # c # d # s) =
    (case (base64_value a, base64_value b, base64_value c, base64_value d) of
       (Some va, Some vb, Some vc, Some vd) \<Rightarrow>
         (let n = sextets [va, vb, vc, vd] in
          (case base64_quads s of None \<Rightarrow> None
           | Some r \<Rightarrow> Some (char_of (n div 65536) # char_of (n div 256 mod 256) # char_of (n mod 256) # r)))
     | (Some va, Some vb, Some vc, None) \<Rightarrow>
         (let n = sextets [va, vb, vc, 0] in
          if d = CHR ''='' \<and> s = [] then Some [char_of (n div 65536), char_of (n div 256 mod 256)] else None)
     | (Some va, Some vb, None, None) \<Rightarrow>
         (let n = sextets [va, vb, 0, 0] in
          if c = CHR ''='' \<and> d = CHR ''='' \<and> s = [] then Some [char_of (n div 65536)] else None)
     | _ \<Rightarrow> None)"
| "base64_quads s = None"

definition base64_DecodeString :: "string \<Rightarrow> string result" where
  "base64_DecodeString s =
    (case base64_quads (filter (\<lambda>c. c \<noteq> CHR 0x0A \<and> c \<noteq> CHR 0x0D) s) of
       None \<Rightarrow> Inl (ErrExt ''illegal base64 data'')
     | Some r \<Rightarrow> Inr r)"

text \<open>
  Decoding \<open>{"auths": {registry: {"email": ...}}}\<close> into the anonymous struct of \<open>extractEmail\<close>.
  A field's key matches without regard to (ASCII) case, a null leaves the field as it was, a value
  of another type is an error of the whole decoding, and a map entry starts from the zero value.
\<close>

definition ascii_lower :: "char \<Rightarrow> char" where
  "ascii_lower c = (let n = (of_char c :: nat) in if 65 \<le> n \<and> n \<le> 90 then char_of (n + 32) else c)"

definition field_matches :: "string \<Rightarrow> string \<Rightarrow> bool" where
  "field_matches k name \<longleftrightarrow> map ascii_lower k = map ascii_lower name"

definition type_error :: goerr where
  "type_error = ErrExt ''json: cannot unmarshal value into Go struct field''"

fun decode_email_fields :: "object \<Rightarrow> string \<Rightarrow> string result" where
  "decode_email_fields [] e = Inr e"
| "decode_email_fields ((k, v) # m) e =
    (if field_matches k ''email''
     then (case v of
         JNull \<Rightarrow> decode_email_fields m e
       | JStr s \<Rightarrow> decode_email_fields m s
       | _ \<Rightarrow> Inl type_error)
     else decode_email_fields m e)"

definition decode_auth_entry :: "json \<Rightarrow> string result" where
  "decode_auth_entry v =
    (case v of JNull \<Rightarrow> Inr [] | JObj m \<Rightarrow> decode_email_fields m [] | _ \<Rightarrow> Inl type_error)"

fun decode_auths :: "object \<Rightarrow> (string \<times> string) list \<Rightarrow> (string \<times> string) list result" where
  "decode_auths [] acc = Inr acc"
| "decode_auths ((k, v) # m) acc =
    (case decode_auth_entry v of Inl e \<Rightarrow> Inl e | Inr em \<Rightarrow> decode_auths m (alput k em acc))"

fun decode_docker_fields :: "object \<Rightarrow> (string \<times> string) list \<Rightarrow> (string \<times> string) list result" where
  "decode_docker_fields [] acc = Inr acc"
| "decode_docker_fields ((k, v) # m) acc =
    (if field_matches k ''auths''
     then (case v of
         JNull \<Rightarrow> decode_docker_fields m []
       | JObj a \<Rightarrow>
         (case decode_auths a acc of Inl e \<Rightarrow> Inl e | Inr acc' \<Rightarrow> decode_docker_fields m acc')
       | _ \<Rightarrow> Inl type_error)
     else decode_docker_fields m acc)"

definition decode_docker_config :: "json \<Rightarrow> (string \<times> string) list result" where
  "decode_docker_config v =
    (case v of JNull \<Rightarrow> Inr [] | JObj m \<Rightarrow> decode_docker_fields m [] | _ \<Rightarrow> Inl type_error)"

section \<open>get-pull-secret-email\<close>

definition secretsGVR :: gvr where
  "secretsGVR = \<lparr>gv_Group = [], gv_Version = ''v1'', gv_Resource = ''secrets''\<rparr>"

definition pullSecretNamespace :: string where
  "pullSecretNamespace = ''openshift-config''"

definition pullSecretName :: string where
  "pullSecretName = ''pull-secret''"

definition pullSecretRegistry :: string where
  "pullSecretRegistry = ''cloud.openshift.com''"

definition pull_secret_RequiredRBAC :: "resource_target \<Rightarrow> rbac_rule list" where
  "pull_secret_RequiredRBAC t =
    [\<lparr>rr_Namespace = pullSecretNamespace, rr_APIGroups = [[]], rr_Resources = [''secrets''],
      rr_ResourceNames = [pullSecretName], rr_Verbs = [''get'']\<rparr>]"

definition extractEmail :: "(string \<Rightarrow> json result) \<Rightarrow> object \<Rightarrow> string result" where
  "extractEmail unmarshal secret =
    (case as_obj (jget secret ''data'') of
       None \<Rightarrow> Inl (Errf ''secret %s/%s has no data field'' [pullSecretNamespace, pullSecretName])
     | Some data \<Rightarrow>
     (let encoded = str_or_empty (jget data ''.dockerconfigjson'') in
      if encoded = []
      then Inl (Errf ''secret %s/%s has no .dockerconfigjson key'' [pullSecretNamespace, pullSecretName])
      else (case base64_DecodeString encoded of
         Inl e \<Rightarrow> Inl (Errw ''failed to base64-decode .dockerconfigjson: %w'' [] e)
       | Inr decoded \<Rightarrow>
       (case unmarshal decoded of
         Inl e \<Rightarrow> Inl (Errw ''failed to parse .dockerconfigjson: %w'' [] e)
       | Inr v \<Rightarrow>
       (case decode_docker_config v of
         Inl e \<Rightarrow> Inl (Errw ''failed to parse .dockerconfigjson: %w'' [] e)
       | Inr auths \<Rightarrow>
       (case map_of auths pullSecretRegistry of
         None \<Rightarrow> Inl (Errf ''no auth entry for %s in pull secret'' [pullSecretRegistry])
       | Some email \<Rightarrow>
         if email = []
         then Inl (Errf ''no email found in %s auth entry'' [pullSecretRegistry])
         else Inr email))))))"

definition pull_secret_Execute :: "kube_clients \<Rightarrow> kube_action_request \<Rightarrow> (kube_log, action_result) act" where
  "pull_secret_Execute c req =
    seq (wrap_err ''failed to get secret %s/%s: %w'' [pullSecretNamespace, pullSecretName]
           (kube_Get c secretsGVR pullSecretNamespace pullSecretName)) (\<lambda>secret.
    seq (lift (extractEmail (json_Unmarshal c) secret)) (\<lambda>email.
    ret \<lparr>ares_Resources = Some [[(''email'', JStr email)]],
         ares_Message = ''retrieved pull secret email''\<rparr>))"

definition NewGetPullSecretEmailAction :: kube_action where
  "NewGetPullSecretEmailAction = \<lparr>ka_Name = ''get-pull-secret-email'', ka_UsesPodExec = False,
     ka_RequiredRBAC = pull_secret_RequiredRBAC, ka_Execute = pull_secret_Execute\<rparr>"

section \<open>What the actions may call\<close>

lemmas kube_call_defs = kube_List_def kube_Get_def kube_Patch_def kube_Delete_def

lemmas rbac_defs = rules_grant_def rule_grants_def target_gvr_def

lemma get_least_privileged: "least_privileged NewGetAction"
  unfolding least_privileged_def NewGetAction_def get_Execute_def Let_def kube_call_defs
  by (auto intro!: log_rules simp: resourceClient_Inr rbac_defs get_RequiredRBAC_def)

lemma patch_least_privileged: "least_privileged NewPatchAction"
  unfolding least_privileged_def NewPatchAction_def patch_Execute_def Let_def kube_call_defs
  by (auto intro!: log_rules simp: resourceClient_Inr rbac_defs patch_RequiredRBAC_def)

lemma delete_least_privileged: "least_privileged NewDeleteAction"
  unfolding least_privileged_def NewDeleteAction_def delete_Execute_def Let_def kube_call_defs
  by (auto intro!: log_rules simp: resourceClient_Inr rbac_defs delete_RequiredRBAC_def)

lemma pull_secret_least_privileged: "least_privileged NewGetPullSecretEmailAction"
  unfolding least_privileged_def NewGetPullSecretEmailAction_def pull_secret_Execute_def
    kube_call_defs
  by (auto intro!: log_rules simp: rbac_defs pull_secret_RequiredRBAC_def secretsGVR_def)


section \<open>The base64 decoder inverts the encoding Kubernetes stores secrets in\<close>

definition base64_char :: "nat \<Rightarrow> char" where
  "base64_char n =
    (if n < 26 then char_of (n + 65) else if n < 52 then char_of (n + 71)
     else if n < 62 then char_of (n - 4) else if n = 62 then CHR ''+'' else CHR ''/'')"

fun base64_encode :: "string \<Rightarrow> string" where
  "base64_encode [] = []"
| "base64_encode [a] =
    (let n = (of_char a :: nat) * 65536 in
     [base64_char (n div 262144), base64_char (n div 4096 mod 64), CHR ''='', CHR ''=''])"
| "base64_encode [a, b] =
    (let n = (of_char a :: nat) * 65536 + of_char b * 256 in
     [base64_char (n div 262144), base64_char (n div 4096 mod 64), base64_char (n div 64 mod 64), CHR ''=''])"
| "base64_encode (a # b # c # s) =
    (let n = (of_char a :: nat) * 65536 + of_char b * 256 + of_char c in
     base64_char (n div 262144) # base64_char (n div 4096 mod 64) #
     base64_char (n div 64 mod 64) # base64_char (n mod 64) # base64_encode s)"

lemma base64_value_char [simp]: "n < 64 \<Longrightarrow> base64_value (base64_char n) = Some n"
  by (auto simp: base64_char_def base64_value_def Let_def)

lemma base64_value_pad [simp]: "base64_value (CHR ''='') = None"
  by (simp add: base64_value_def)

lemma base64_value_breaks: "base64_value (CHR 0x0A) = None" "base64_value (CHR 0x0D) = None"
  by (simp_all add: base64_value_def)

lemma base64_char_no_break [simp]:
  assumes "n < 64" shows "base64_char n \<noteq> CHR 0x0A" and "base64_char n \<noteq> CHR 0x0D"
  using base64_value_char [OF assms] base64_value_breaks by (metis option.distinct(1))+

lemma base64_bytes:
  fixes a b c :: nat
  assumes "a < 256" "b < 256" "c < 256"
  defines "n \<equiv> a * 65536 + b * 256 + c"
  shows "n div 262144 < 64" "n div 65536 = a" "n div 256 mod 256 = b" "n mod 256 = c"
proof -
  show "n div 262144 < 64" "n div 65536 = a" using assms by linarith+
  have "n div 256 = a * 256 + b" using assms by linarith
  then show "n div 256 mod 256 = b" using assms by simp
  have "n = 256 * (a * 256 + b) + c" by (simp add: n_def)
  then have "n mod 256 = c mod 256" by (simp only: mod_mult_self4)
  with assms show "n mod 256 = c" by simp
qed

lemma char_of_mod_eqI: "n mod 256 = (of_char c :: nat) \<Longrightarrow> char_of n = c"
  by (simp add: char_of_eq_iff take_bit_eq_mod)

lemma base64_no_breaks:
  "filter (\<lambda>c. c \<noteq> CHR 0x0A \<and> c \<noteq> CHR 0x0D) (base64_encode s) = base64_encode s"
proof (induction s rule: base64_encode.induct)
  case (2 a)
  have "(of_char a :: nat) * 65536 div 262144 < 64" using nat_of_char_less_256 [of a] by linarith
  then show ?case by (simp add: Let_def)
next
  case (3 a b)
  have "((of_char a :: nat) * 65536 + of_char b * 256) div 262144 < 64"
    using nat_of_char_less_256 [of a] nat_of_char_less_256 [of b] by linarith
  then show ?case by (simp add: Let_def)
next
  case (4 a b c s)
  have "((of_char a :: nat) * 65536 + of_char b * 256 + of_char c) div 262144 < 64"
    using nat_of_char_less_256 [of a] nat_of_char_less_256 [of b] nat_of_char_less_256 [of c] by linarith
  with 4 show ?case by (simp add: Let_def)
qed simp

lemma sextets_split:
  fixes n :: nat
  shows "sextets [n div 262144, n div 4096 mod 64, n div 64 mod 64, n mod 64] = n"
proof -
  have 1: "64 * (n div 64) + n mod 64 = n" by (rule mult_div_mod_eq)
  have 2: "64 * (n div 64 div 64) + n div 64 mod 64 = n div 64" by (rule mult_div_mod_eq)
  have 3: "64 * (n div 64 div 64 div 64) + n div 64 div 64 mod 64 = n div 64 div 64"
    by (rule mult_div_mod_eq)
  have "n div 4096 = n div 64 div 64" "n div 262144 = n div 64 div 64 div 64"
    by (simp_all only: div_mult2_eq [symmetric] mult_numeral_left_semiring_numeral) simp_all
  with 1 2 3 show ?thesis by (simp add: sextets_def)
qed

lemma base64_quads_encode: "base64_quads (base64_encode s) = Some s"
proof (induction s rule: base64_encode.induct)
  case (2 a)
  define n where "n = (of_char a :: nat) * 65536"
  have n: "n div 262144 < 64" "n div 64 mod 64 = 0" "n mod 64 = 0" "n div 65536 = of_char a"
    using nat_of_char_less_256 [of a] by (simp_all add: n_def less_mult_imp_div_less)
  then have "sextets [n div 262144, n div 4096 mod 64, 0, 0] = n" using sextets_split [of n] by simp
  with n show ?case by (simp add: Let_def n_def [symmetric] char_of_mod_eqI)
next
  case (3 a b)
  define n where "n = (of_char a :: nat) * 65536 + of_char b * 256"
  have n: "n div 262144 < 64" "n mod 64 = 0" "n div 65536 = of_char a" "n div 256 mod 256 = of_char b"
    using nat_of_char_less_256 [of a] nat_of_char_less_256 [of b]
      base64_bytes [of "of_char a" "of_char b" 0]
    by (simp_all add: n_def less_mult_imp_div_less)
  then have "sextets [n div 262144, n div 4096 mod 64, n div 64 mod 64, 0] = n"
    using sextets_split [of n] by simp
  with n show ?case by (simp add: Let_def n_def [symmetric] char_of_mod_eqI)
next
  case (4 a b c s)
  define n where "n = (of_char a :: nat) * 65536 + of_char b * 256 + of_char c"
  have n: "n div 262144 < 64" "n div 65536 = of_char a" "n div 256 mod 256 = of_char b"
      "n mod 256 = of_char c"
    unfolding n_def by (rule base64_bytes; simp)+
  with 4 sextets_split [of n] n show ?case
    by (simp add: Let_def n_def [symmetric] char_of_mod_eqI)
qed simp

lemma base64_roundtrip: "base64_DecodeString (base64_encode s) = Inr s"
  unfolding base64_DecodeString_def base64_no_breaks by (simp add: base64_quads_encode)

lemma base64_encode_eq_Nil [simp]: "base64_encode s = [] \<longleftrightarrow> s = []"
  by (cases s rule: base64_encode.cases) (auto simp: Let_def)

section \<open>Properties\<close>

text \<open>
  A patch or a delete acts on exactly one object, the one the request names: either nothing is
  sent to the cluster and the action fails, or exactly one call is sent, to the target's resource,
  namespace and (non-empty) name, in the scope the target declares, and a patch carries the
  (non-empty) body of the request.  A get sends nothing that changes the cluster.
\<close>
lemma writes_touch_one_named_object:
  fixes clients req log
  defines "t \<equiv> kr_Target req"
  defines "in_scope \<equiv> rt_ClusterScoped t = (rt_Namespace t = [])"
  shows
    "(case delete_Execute clients req log of (r, log') \<Rightarrow>
        if in_scope \<and> rt_Name t \<noteq> []
        then log' = log @ [KDelete (target_gvr t) (rt_Namespace t) (rt_Name t)]
        else log' = log \<and> (\<exists>e. r = Inl e)) \<and>
     (case patch_Execute clients req log of (r, log') \<Rightarrow>
        if in_scope \<and> rt_Name t \<noteq> [] \<and> param (kr_Params req) ''patch'' \<noteq> []
        then log' = log @ [KPatch (target_gvr t) (rt_Namespace t) (rt_Name t)
                             (param (kr_Params req) ''patch'')]
        else log' = log \<and> (\<exists>e. r = Inl e)) \<and>
     (case get_Execute clients req log of (r, log') \<Rightarrow>
        if in_scope
        then log' = log @ [if rt_Name t = [] then KList (target_gvr t) (rt_Namespace t) no_list_options
                           else KGet (target_gvr t) (rt_Namespace t) (rt_Name t)]
        else log' = log \<and> (\<exists>e. r = Inl e))"
proof (intro conjI)
  note defs = t_def in_scope_def Let_def act_defs kube_call_defs resourceClient_def
  show "case delete_Execute clients req log of (r, log') \<Rightarrow>
        if in_scope \<and> rt_Name t \<noteq> []
        then log' = log @ [KDelete (target_gvr t) (rt_Namespace t) (rt_Name t)]
        else log' = log \<and> (\<exists>e. r = Inl e)"
    by (auto simp: delete_Execute_def defs split: sum.splits prod.splits)
  show "case patch_Execute clients req log of (r, log') \<Rightarrow>
        if in_scope \<and> rt_Name t \<noteq> [] \<and> param (kr_Params req) ''patch'' \<noteq> []
        then log' = log @ [KPatch (target_gvr t) (rt_Namespace t) (rt_Name t)
                             (param (kr_Params req) ''patch'')]
        else log' = log \<and> (\<exists>e. r = Inl e)"
    by (auto simp: patch_Execute_def param_def defs split: sum.splits prod.splits option.splits)
  show "case get_Execute clients req log of (r, log') \<Rightarrow>
        if in_scope
        then log' = log @ [if rt_Name t = [] then KList (target_gvr t) (rt_Namespace t) no_list_options
                           else KGet (target_gvr t) (rt_Namespace t) (rt_Name t)]
        else log' = log \<and> (\<exists>e. r = Inl e)"
    by (auto simp: get_Execute_def defs split: sum.splits prod.splits)
qed

text \<open>
  C39. Reading the pull secret's email: for a secret that holds the base64 form of a docker
  configuration whose entry for \<open>cloud.openshift.com\<close> has a non-empty email, the action returns that
  email, and nothing else of the secret, after a single get of \<open>openshift-config/pull-secret\<close>.
\<close>
theorem pull_secret_email_roundtrip:
  assumes secret: "dy_Get c log secretsGVR pullSecretNamespace pullSecretName = Inr secret"
    and data: "as_obj (jget secret ''data'') = Some data"
      "jget data ''.dockerconfigjson'' = JStr (base64_encode raw)" "raw \<noteq> []"
    and config: "json_Unmarshal c raw = Inr v" "decode_docker_config v = Inr auths"
      "map_of auths pullSecretRegistry = Some email" "email \<noteq> []"
  shows "pull_secret_Execute c req log =
    (Inr \<lparr>ares_Resources = Some [[(''email'', JStr email)]],
          ares_Message = ''retrieved pull secret email''\<rparr>,
     log @ [KGet secretsGVR pullSecretNamespace pullSecretName])"
proof -
  have "extractEmail (json_Unmarshal c) secret = Inr email"
    using data config by (simp add: extractEmail_def base64_roundtrip str_or_empty_def)
  with secret show ?thesis
    by (simp add: pull_secret_Execute_def act_defs kube_call_defs)
qed

definition sample_config :: json where
  "sample_config = JObj [(''auths'', JObj [(''cloud.openshift.com'', JObj [(''email'', JStr ''a@b.c'')])])]"

definition sample_clients :: "object list \<Rightarrow> kube_clients" where
  "sample_clients items =
    \<lparr>dy_List = \<lambda>_ _ _ _. Inr items, dy_Get = \<lambda>_ _ _ _. Inr (if items = [] then [] else hd items),
     dy_Patch = \<lambda>_ _ _ _ _. Inr [], dy_Delete = \<lambda>_ _ _ _. Inr (), pe_Exec = None,
     un_GetName = \<lambda>u. str_or_empty (jget u ''name''), un_GetNamespace = \<lambda>u. str_or_empty (jget u ''namespace''),
     json_Unmarshal = \<lambda>s. if s = ''config'' then Inr sample_config else Inl (ErrExt ''unexpected end of JSON input'')\<rparr>"

definition sample_secret :: object where
  "sample_secret = [(''data'', JObj [(''.dockerconfigjson'', JStr (base64_encode ''config''))])]"

definition sample_request :: kube_action_request where
  "sample_request =
    \<lparr>kr_Target = \<lparr>rt_Group = [], rt_Version = ''v1'', rt_Resource = ''pods'', rt_Namespace = ''default'',
       rt_Name = ''web'', rt_ClusterScoped = False\<rparr>, kr_ClusterVersion = ''4.16'', kr_Params = []\<rparr>"

lemma pull_secret_email_witness:
  "pull_secret_Execute (sample_clients [sample_secret]) sample_request [] =
    (Inr \<lparr>ares_Resources = Some [[(''email'', JStr ''a@b.c'')]],
          ares_Message = ''retrieved pull secret email''\<rparr>,
     [KGet secretsGVR pullSecretNamespace pullSecretName])"
  using pull_secret_email_roundtrip [of "sample_clients [sample_secret]" "[]" sample_secret
      "[(''.dockerconfigjson'', JStr (base64_encode ''config''))]" "''config''" sample_config
      "[(''cloud.openshift.com'', ''a@b.c'')]" "''a@b.c''" sample_request]
  by (simp add: sample_clients_def sample_secret_def sample_config_def jget_def
      decode_docker_config_def decode_auth_entry_def field_matches_def ascii_lower_def pullSecretRegistry_def)

end
