(* ===== verification/Describe_Nodes.thy ===== *)
theory Describe_Nodes
  imports Kube_Api
begin

text \<open>
  The action \<open>describe-nodes\<close> (\<open>internal/actions/describe_nodes.go\<close>): four calls (nodes, pods,
  events, leases) whose answers are correlated by node name into one flat object per node.
\<close>

definition core_gvr :: "string \<Rightarrow> gvr" where
  "core_gvr res = \<lparr>gv_Group = [], gv_Version = ''v1'', gv_Resource = res\<rparr>"

definition nodesGVR :: gvr where
  "nodesGVR = core_gvr ''nodes''"

definition podsGVR :: gvr where
  "podsGVR = core_gvr ''pods''"

definition eventsGVR :: gvr where
  "eventsGVR = core_gvr ''events''"

definition leasesGVR :: gvr where
  "leasesGVR = \<lparr>gv_Group = ''coordination.k8s.io'', gv_Version = ''v1'', gv_Resource = ''leases''\<rparr>"

definition kubeNodeLeaseNamespace :: string where
  "kubeNodeLeaseNamespace = ''kube-node-lease''"

definition rule_for :: "string \<Rightarrow> string \<Rightarrow> string \<Rightarrow> rbac_rule" where
  "rule_for g res verb = \<lparr>rr_Namespace = [], rr_APIGroups = [g], rr_Resources = [res],
     rr_ResourceNames = [], rr_Verbs = [verb]\<rparr>"

definition describe_RequiredRBAC :: "resource_target \<Rightarrow> rbac_rule list" where
  "describe_RequiredRBAC t =
    [if rt_Name t \<noteq> []
     then (rule_for [] ''nodes'' ''get'')\<lparr>rr_ResourceNames := [rt_Name t]\<rparr>
     else rule_for [] ''nodes'' ''list'',
     rule_for [] ''pods'' ''list'', rule_for [] ''events'' ''list'',
     rule_for ''coordination.k8s.io'' ''leases'' ''list'']"

section \<open>Extracting the parts that are kept\<close>

fun extract_each :: "(object \<Rightarrow> object) \<Rightarrow> json list \<Rightarrow> json list" where
  "extract_each f [] = []"
| "extract_each f (v # vs) =
    (case as_obj v of None \<Rightarrow> extract_each f vs | Some m \<Rightarrow> JObj (f m) # extract_each f vs)"

definition container_entry :: "object \<Rightarrow> object" where
  "container_entry cm =
    (let entry = [(''name'', jget cm ''name'')] in
     case map_of cm ''resources'' of None \<Rightarrow> entry | Some res \<Rightarrow> alput ''resources'' res entry)"

definition extractContainers :: "json \<Rightarrow> json list" where
  "extractContainers raw =
    (case as_list raw of None \<Rightarrow> [] | Some containers \<Rightarrow> extract_each container_entry containers)"

definition status_entry :: "object \<Rightarrow> object" where
  "status_entry sm =
    set_all_present sm [''ready'', ''restartCount'', ''state'', ''lastState''] [(''name'', jget sm ''name'')]"

definition extractContainerStatuses :: "json \<Rightarrow> json list" where
  "extractContainerStatuses raw =
    (case as_list raw of None \<Rightarrow> [] | Some statuses \<Rightarrow> extract_each status_entry statuses)"

definition extractEvent :: "object \<Rightarrow> object" where
  "extractEvent event =
    set_all_present event
      [''type'', ''reason'', ''message'', ''source'', ''firstTimestamp'', ''lastTimestamp'', ''count''] []"

definition extractPod :: "kube_clients \<Rightarrow> object \<Rightarrow> object" where
  "extractPod c pod =
    (let r0 = [(''name'', JStr (un_GetName c pod)), (''namespace'', JStr (un_GetNamespace c pod))];
         r1 = (case as_obj (jget pod ''spec'') of None \<Rightarrow> r0
               | Some spec \<Rightarrow>
                 alput ''initContainers'' (JList (extractContainers (jget spec ''initContainers'')))
                  (alput ''containers'' (JList (extractContainers (jget spec ''containers''))) r0))
     in (case as_obj (jget pod ''status'') of None \<Rightarrow> r1
         | Some status \<Rightarrow>
           alput ''initContainerStatuses''
             (JList (extractContainerStatuses (jget status ''initContainerStatuses'')))
            (alput ''containerStatuses'' (JList (extractContainerStatuses (jget status ''containerStatuses'')))
              (set_all_present status [''phase'', ''startTime''] r1))))"

section \<open>Grouping by node\<close>

type_synonym groups = "(string \<times> json list) list"

definition group_get :: "groups \<Rightarrow> string \<Rightarrow> json list" where
  "group_get g n = (case map_of g n of None \<Rightarrow> [] | Some vs \<Rightarrow> vs)"

definition pod_node :: "object \<Rightarrow> string" where
  "pod_node pod =
    (case as_obj (jget pod ''spec'') of None \<Rightarrow> [] | Some spec \<Rightarrow> str_or_empty (jget spec ''nodeName''))"

fun groupPodsByNode :: "kube_clients \<Rightarrow> object list \<Rightarrow> groups \<Rightarrow> groups" where
  "groupPodsByNode c [] result = result"
| "groupPodsByNode c (pod # pods) result =
    groupPodsByNode c pods
      (case as_obj (jget pod ''spec'') of
         None \<Rightarrow> result
       | Some spec \<Rightarrow>
         (case as_str (jget spec ''nodeName'') of
            None \<Rightarrow> result
          | Some nodeName \<Rightarrow>
            if nodeName = [] then result
            else alput nodeName (group_get result nodeName @ [JObj (extractPod c pod)]) result))"

definition event_node :: "object \<Rightarrow> string" where
  "event_node event =
    (case as_obj (jget event ''involvedObject'') of
       None \<Rightarrow> []
     | Some involved \<Rightarrow>
       if str_or_empty (jget involved ''kind'') = ''Node''
       then str_or_empty (jget involved ''name'') else [])"

fun groupEventsByNode :: "object list \<Rightarrow> groups \<Rightarrow> groups" where
  "groupEventsByNode [] result = result"
| "groupEventsByNode (event # events) result =
    groupEventsByNode events
      (case as_obj (jget event ''involvedObject'') of
         None \<Rightarrow> result
       | Some involved \<Rightarrow>
         if str_or_empty (jget involved ''kind'') \<noteq> ''Node'' then result
         else (case as_str (jget involved ''name'') of
            None \<Rightarrow> result
          | Some name \<Rightarrow>
            if name = [] then result
            else alput name (group_get result name @ [JObj (extractEvent event)]) result))"

fun indexLeasesByNode :: "kube_clients \<Rightarrow> object list \<Rightarrow> object \<Rightarrow> object" where
  "indexLeasesByNode c [] result = result"
| "indexLeasesByNode c (lease # leases) result =
    indexLeasesByNode c leases
      (let name = un_GetName c lease in
       if name = [] then result else alput name (jget lease ''spec'') result)"

section \<open>One object per node\<close>

definition reshapeNode :: "kube_clients \<Rightarrow> object \<Rightarrow> json list \<Rightarrow> json list \<Rightarrow> json \<Rightarrow> object" where
  "reshapeNode c node pods events lease =
    (let o0 = [(''name'', JStr (un_GetName c node)), (''pods'', JList pods),
               (''events'', JList events), (''lease'', lease)];
         o1 = (case as_obj (jget node ''metadata'') of None \<Rightarrow> o0
               | Some m \<Rightarrow> set_all_present m [''labels'', ''annotations'', ''creationTimestamp''] o0);
         o2 = (case as_obj (jget node ''spec'') of None \<Rightarrow> o1
               | Some s \<Rightarrow>
                 set_all_present s [''taints'', ''unschedulable'', ''providerID'', ''podCIDR'', ''podCIDRs''] o1)
     in (case as_obj (jget node ''status'') of None \<Rightarrow> o2
         | Some st \<Rightarrow>
           setIfPresent (set_all_present st [''conditions'', ''addresses'', ''capacity'', ''allocatable''] o2)
             ''systemInfo'' (jget st ''nodeInfo'')))"

definition describe_selectors :: "string \<Rightarrow> string \<times> string" where
  "describe_selectors name =
    (let podSelector = ''status.phase!=Succeeded,status.phase!=Failed'';
         eventSelector = ''involvedObject.kind=Node'' in
     if name \<noteq> [] then (podSelector @ '',spec.nodeName='' @ name,
                       eventSelector @ '',involvedObject.name='' @ name)
     else (podSelector, eventSelector))"

definition describe_Execute :: "kube_clients \<Rightarrow> kube_action_request \<Rightarrow> (kube_log, action_result) act" where
  "describe_Execute c req =
    (let name = rt_Name (kr_Target req) in
     seq (if name \<noteq> []
          then seq (wrap_err ''failed to get node %s: %w'' [name] (kube_Get c nodesGVR [] name))
                 (\<lambda>node. ret [node])
          else wrap_err ''failed to list nodes: %w'' [] (kube_List c nodesGVR [] no_list_options))
       (\<lambda>nodeItems.
     seq (wrap_err ''failed to list pods: %w'' []
           (kube_List c podsGVR [] (no_list_options\<lparr>lo_FieldSelector := fst (describe_selectors name)\<rparr>)))
       (\<lambda>pods.
     seq (wrap_err ''failed to list events: %w'' []
           (kube_List c eventsGVR [] (no_list_options\<lparr>lo_FieldSelector := snd (describe_selectors name)\<rparr>)))
       (\<lambda>events.
     seq (wrap_err ''failed to list leases: %w'' []
           (kube_List c leasesGVR kubeNodeLeaseNamespace no_list_options))
       (\<lambda>leases.
     let leaseByNode = indexLeasesByNode c leases [];
         podsByNode = groupPodsByNode c pods [];
         eventsByNode = groupEventsByNode events [];
         resources = map (\<lambda>node. let n = un_GetName c node in
           reshapeNode c node (group_get podsByNode n) (group_get eventsByNode n) (jget leaseByNode n))
           nodeItems
     in ret \<lparr>ares_Resources = Some resources,
          ares_Message = (if name \<noteq> [] then sprintf ''described node %s'' [name]
            else sprintf ''described %d nodes'' [show_nat (length resources)])\<rparr>)))))"

definition NewDescribeNodesAction :: kube_action where
  "NewDescribeNodesAction = \<lparr>ka_Name = ''describe-nodes'', ka_UsesPodExec = False,
     ka_RequiredRBAC = describe_RequiredRBAC, ka_Execute = describe_Execute\<rparr>"

lemma describe_least_privileged: "least_privileged NewDescribeNodesAction"
  unfolding least_privileged_def NewDescribeNodesAction_def describe_Execute_def Let_def
    kube_List_def kube_Get_def
  by (auto intro!: log_rules simp: rules_grant_def rule_grants_def describe_RequiredRBAC_def
      rule_for_def nodesGVR_def podsGVR_def eventsGVR_def leasesGVR_def core_gvr_def)

section \<open>Correlation\<close>

lemma group_get_alput [simp]:
  "group_get (alput k vs g) n = (if n = k then vs else group_get g n)"
  by (simp add: group_get_def)

lemma groupPodsByNode_get:
  "n \<noteq> [] \<Longrightarrow> group_get (groupPodsByNode c pods g) n =
    group_get g n @ map (\<lambda>p. JObj (extractPod c p)) (filter (\<lambda>p. pod_node p = n) pods)"
  by (induction c pods g rule: groupPodsByNode.induct)
    (auto simp: pod_node_def str_or_empty_def split: option.splits)

lemma groupEventsByNode_get:
  "n \<noteq> [] \<Longrightarrow> group_get (groupEventsByNode events g) n =
    group_get g n @ map (\<lambda>e. JObj (extractEvent e)) (filter (\<lambda>e. event_node e = n) events)"
  by (induction events g rule: groupEventsByNode.induct)
    (auto simp: event_node_def str_or_empty_def split: option.splits)

fun last_named :: "kube_clients \<Rightarrow> object list \<Rightarrow> string \<Rightarrow> json \<Rightarrow> json" where
  "last_named c [] n d = d"
| "last_named c (l # ls) n d = last_named c ls n (if un_GetName c l = n then jget l ''spec'' else d)"

lemma indexLeasesByNode_get:
  "n \<noteq> [] \<Longrightarrow> jget (indexLeasesByNode c leases g) n = last_named c leases n (jget g n)"
  by (induction c leases g rule: indexLeasesByNode.induct) (auto simp: Let_def)

lemma jget_reshapeNode [simp]:
  "jget (reshapeNode c node pods events lease) ''name'' = JStr (un_GetName c node)"
  "jget (reshapeNode c node pods events lease) ''pods'' = JList pods"
  "jget (reshapeNode c node pods events lease) ''events'' = JList events"
  "jget (reshapeNode c node pods events lease) ''lease'' = lease"
  by (auto simp: reshapeNode_def jget_set_all_present Let_def split: option.splits)
    (simp_all add: jget_def)

text \<open>
  C38. Describing nodes gives one object per node, in the order the cluster listed them; the object of
  a named node holds exactly the pods scheduled on it and the events about it, each in listing
  order, and the spec of the last lease of that name (null when there is none): nothing of another
  node is attributed to it and nothing of its own is lost.
\<close>
theorem describe_nodes_correlates_by_node:
  fixes c req log
  defines "name \<equiv> rt_Name (kr_Target req)"
  defines "k1 \<equiv> (if name \<noteq> [] then KGet nodesGVR [] name else KList nodesGVR [] no_list_options)"
  defines "k2 \<equiv> KList podsGVR [] (no_list_options\<lparr>lo_FieldSelector := fst (describe_selectors name)\<rparr>)"
  defines "k3 \<equiv> KList eventsGVR [] (no_list_options\<lparr>lo_FieldSelector := snd (describe_selectors name)\<rparr>)"
  defines "k4 \<equiv> KList leasesGVR kubeNodeLeaseNamespace no_list_options"
  assumes nodes: "if name \<noteq> [] then map_sum id (\<lambda>n. [n]) (dy_Get c log nodesGVR [] name) = Inr nodes
      else dy_List c log nodesGVR [] no_list_options = Inr nodes"
    and pods: "dy_List c (log @ [k1]) podsGVR []
      (no_list_options\<lparr>lo_FieldSelector := fst (describe_selectors name)\<rparr>) = Inr pods"
    and events: "dy_List c (log @ [k1, k2]) eventsGVR []
      (no_list_options\<lparr>lo_FieldSelector := snd (describe_selectors name)\<rparr>) = Inr events"
    and leases: "dy_List c (log @ [k1, k2, k3]) leasesGVR kubeNodeLeaseNamespace no_list_options = Inr leases"
  shows "\<exists>res outs. describe_Execute c req log = (Inr res, log @ [k1, k2, k3, k4]) \<and>
    ares_Resources res = Some outs \<and> length outs = length nodes \<and>
    (\<forall>i < length nodes. let n = un_GetName c (nodes ! i); out = outs ! i in
       jget out ''name'' = JStr n \<and>
       (n \<noteq> [] \<longrightarrow>
         jget out ''pods'' = JList (map (\<lambda>p. JObj (extractPod c p)) (filter (\<lambda>p. pod_node p = n) pods)) \<and>
         jget out ''events'' = JList (map (\<lambda>e. JObj (extractEvent e)) (filter (\<lambda>e. event_node e = n) events)) \<and>
         jget out ''lease'' = last_named c leases n JNull))"
proof -
  define outs where "outs = map (\<lambda>node. let n = un_GetName c node in
      reshapeNode c node (group_get (groupPodsByNode c pods []) n)
        (group_get (groupEventsByNode events []) n) (jget (indexLeasesByNode c leases []) n)) nodes"
  have first: "(if name \<noteq> []
      then seq (wrap_err ''failed to get node %s: %w'' [name] (kube_Get c nodesGVR [] name)) (\<lambda>node. ret [node])
      else wrap_err ''failed to list nodes: %w'' [] (kube_List c nodesGVR [] no_list_options)) log =
      (Inr nodes, log @ [k1])"
    using nodes by (cases "name = []"; cases "dy_Get c log nodesGVR [] name")
      (auto simp: k1_def act_defs kube_Get_def kube_List_def)
  obtain msg where run: "describe_Execute c req log =
      (Inr \<lparr>ares_Resources = Some outs, ares_Message = msg\<rparr>, log @ [k1, k2, k3, k4])"
    unfolding describe_Execute_def Let_def name_def [symmetric]
    unfolding seq_def [of "if name \<noteq> [] then _ else _"] first
    using pods events leases
    by (simp add: seq_def wrap_err_def kube_List_def api_call_def ret_def outs_def Let_def
        k2_def k3_def k4_def)
  have each: "\<forall>i < length nodes. let n = un_GetName c (nodes ! i); out = outs ! i in
       jget out ''name'' = JStr n \<and>
       (n \<noteq> [] \<longrightarrow>
         jget out ''pods'' = JList (map (\<lambda>p. JObj (extractPod c p)) (filter (\<lambda>p. pod_node p = n) pods)) \<and>
         jget out ''events'' = JList (map (\<lambda>e. JObj (extractEvent e)) (filter (\<lambda>e. event_node e = n) events)) \<and>
         jget out ''lease'' = last_named c leases n JNull)"
    by (simp add: outs_def Let_def groupPodsByNode_get groupEventsByNode_get indexLeasesByNode_get)
      (simp add: group_get_def)
  have "length outs = length nodes" by (simp add: outs_def)
  with run each show ?thesis
    by (intro exI [of _ "\<lparr>ares_Resources = Some outs, ares_Message = msg\<rparr>"] exI [of _ outs] conjI) simp_all
qed

definition demo_cluster :: kube_clients where
  "demo_cluster =
    (let obj = (\<lambda>n fields. (''name'', JStr n) # fields) in
     \<lparr>dy_List = (\<lambda>log g ns opts. Inr (
        if gv_Resource g = ''nodes'' then [obj ''n1'' [], obj ''n2'' []]
        else if gv_Resource g = ''pods''
        then [obj ''p1'' [(''spec'', JObj [(''nodeName'', JStr ''n2'')])], obj ''p2'' []]
        else if gv_Resource g = ''leases'' then [obj ''n2'' [(''spec'', JBool True)]] else [])),
      dy_Get = (\<lambda>log g ns name. Inr (obj name [])), dy_Patch = (\<lambda>_ _ _ _ _. Inr []),
      dy_Delete = (\<lambda>_ _ _ _. Inr ()), pe_Exec = None,
      un_GetName = (\<lambda>u. str_or_empty (jget u ''name'')),
      un_GetNamespace = (\<lambda>u. str_or_empty (jget u ''namespace'')),
      json_Unmarshal = (\<lambda>s. Inr JNull)\<rparr>)"

definition describe_all :: kube_action_request where
  "describe_all =
    \<lparr>kr_Target = \<lparr>rt_Group = [], rt_Version = ''v1'', rt_Resource = ''nodes'', rt_Namespace = [],
       rt_Name = [], rt_ClusterScoped = True\<rparr>, kr_ClusterVersion = [], kr_Params = []\<rparr>"

lemma describe_nodes_witness:
  "\<exists>res log'. describe_Execute demo_cluster describe_all [] = (Inr res, log') \<and> length log' = 4 \<and>
    length (the (ares_Resources res)) = 2"
  using describe_nodes_correlates_by_node [where c = demo_cluster and req = describe_all and log = "[]"
      and nodes = "[[(''name'', JStr ''n1'')], [(''name'', JStr ''n2'')]]"
      and pods = "[[(''name'', JStr ''p1''), (''spec'', JObj [(''nodeName'', JStr ''n2'')])], [(''name'', JStr ''p2'')]]"
      and events = "[]" and leases = "[[(''name'', JStr ''n2''), (''spec'', JBool True)]]"]
  by (auto simp: demo_cluster_def describe_all_def core_gvr_def nodesGVR_def podsGVR_def eventsGVR_def
      leasesGVR_def)

end
