(* ===== verification/Url_Escape.thy ===== *)
theory Url_Escape
  imports Prelude
begin

text \<open>
  The escaping of \<open>net/url\<close> that the clients use: \<open>PathEscape\<close>, \<open>QueryEscape\<close> and \<open>Values.Encode\<close>
  for keys of one value, with the unescaping of the server's side.  A string is its bytes.
\<close>

section \<open>Escaping\<close>

definition upper_hex :: "nat \<Rightarrow> char" where
  "upper_hex n = (if n < 10 then char_of (48 + n) else char_of (55 + n))"

definition unhex :: "char \<Rightarrow> nat option" where
  "unhex c =
    (let n = (of_char c :: nat) in
     if 48 \<le> n \<and> n \<le> 57 then Some (n - 48)
     else if 97 \<le> n \<and> n \<le> 102 then Some (n - 87)
     else if 65 \<le> n \<and> n \<le> 70 then Some (n - 55)
     else None)"

datatype escape_mode = PathSegment | WholePath | QueryComponent

definition is_alnum :: "char \<Rightarrow> bool" where
  "is_alnum c \<longleftrightarrow>
    (let n = (of_char c :: nat) in 48 \<le> n \<and> n \<le> 57 \<or> 65 \<le> n \<and> n \<le> 90 \<or> 97 \<le> n \<and> n \<le> 122)"

definition shouldEscape :: "escape_mode \<Rightarrow> char \<Rightarrow> bool" where
  "shouldEscape m c =
    (if is_alnum c then False
     else if c \<in> set ''-_.~'' then False
     else if c \<in> set ''$&+,/:;=?@''
       then (case m of PathSegment \<Rightarrow> c \<in> set ''/;,?'' | WholePath \<Rightarrow> c = CHR ''?''
             | QueryComponent \<Rightarrow> True)
     else True)"

definition url_escape_char :: "escape_mode \<Rightarrow> char \<Rightarrow> string" where
  "url_escape_char m c =
    (if m = QueryComponent \<and> c = CHR '' '' then ''+''
     else if shouldEscape m c
     then [CHR ''%'', upper_hex ((of_char c :: nat) div 16), upper_hex ((of_char c :: nat) mod 16)]
     else [c])"

definition url_escape :: "escape_mode \<Rightarrow> string \<Rightarrow> string" where
  "url_escape m s = concat (map (url_escape_char m) s)"

abbreviation PathEscape :: "string \<Rightarrow> string" where
  "PathEscape \<equiv> url_escape PathSegment"

abbreviation QueryEscape :: "string \<Rightarrow> string" where
  "QueryEscape \<equiv> url_escape QueryComponent"

fun url_unescape :: "escape_mode \<Rightarrow> string \<Rightarrow> string option" where
  "url_unescape m [] = Some []"
| "url_unescape m (c # s) =
    (if c = CHR ''%''
     then (case s of
             a # b # s' \<Rightarrow>
               (case (unhex a, unhex b) of
                  (Some x, Some y) \<Rightarrow> map_option ((#) (char_of (16 * x + y))) (url_unescape m s')
                | _ \<Rightarrow> None)
           | _ \<Rightarrow> None)
     else map_option ((#) (if m = QueryComponent \<and> c = CHR ''+'' then CHR '' '' else c)) (url_unescape m s))"

lemma unhex_upper_hex [simp]: "n < 16 \<Longrightarrow> unhex (upper_hex n) = Some n"
  by (auto simp: unhex_def upper_hex_def Let_def)

lemma byte_bound: "(of_char c :: nat) < 256"
  using mod_less_divisor [of 256 "of_char c :: nat"] by (simp only: of_char_mod_256)

lemma byte_div_mod:
  "(of_char c :: nat) div 16 < 16" "(of_char c :: nat) mod 16 < 16"
  "char_of (16 * ((of_char c :: nat) div 16) + (of_char c :: nat) mod 16) = c"
  using byte_bound [of c] by (simp_all add: less_mult_imp_div_less)

lemma url_escape_char_cases:
  obtains (space) "m = QueryComponent" "c = CHR '' ''" "url_escape_char m c = ''+''"
  | (hex) "url_escape_char m c = [CHR ''%'', upper_hex ((of_char c :: nat) div 16), upper_hex ((of_char c :: nat) mod 16)]"
  | (plain) "\<not> shouldEscape m c" "url_escape_char m c = [c]"
proof -
  consider "m = QueryComponent \<and> c = CHR '' ''"
    | "\<not> (m = QueryComponent \<and> c = CHR '' '')" "shouldEscape m c"
    | "\<not> (m = QueryComponent \<and> c = CHR '' '')" "\<not> shouldEscape m c" by blast
  then show ?thesis by cases (use that in \<open>simp_all add: url_escape_char_def\<close>)
qed

text \<open>Every string survives, and an escaped one can be followed by anything.\<close>

lemma url_unescape_escape_char:
  "url_unescape m (url_escape_char m c @ s) = map_option ((#) c) (url_unescape m s)"
proof (cases rule: url_escape_char_cases [of m c])
  case hex
  then show ?thesis by (simp add: byte_div_mod)
next
  case plain
  then have "c \<noteq> CHR ''%''" "\<not> (m = QueryComponent \<and> c = CHR ''+'')"
    by (auto simp: shouldEscape_def is_alnum_def)
  with plain show ?thesis by (cases m) simp_all
qed simp

lemma url_unescape_escape [simp]: "url_unescape m (url_escape m s) = Some s"
proof -
  have "url_unescape m (url_escape m s @ t) = map_option ((@) s) (url_unescape m t)" for t
    by (induction s) (simp_all add: url_escape_def url_unescape_escape_char option.map_comp comp_def option.map_ident)
  from this [of "[]"] show ?thesis by simp
qed

text \<open>No character that structures a URL is left in an escaped string.\<close>

lemma upper_hex_alnum: "n < 16 \<Longrightarrow> is_alnum (upper_hex n)"
  by (auto simp: upper_hex_def is_alnum_def Let_def)

lemma url_escape_chars:
  assumes "c \<in> set (url_escape m s)"
  shows "is_alnum c \<or> c = CHR ''%'' \<or> \<not> shouldEscape m c \<or> m = QueryComponent \<and> c = CHR ''+''"
proof -
  from assms obtain d where "c \<in> set (url_escape_char m d)" by (auto simp: url_escape_def)
  then show ?thesis
    by (cases rule: url_escape_char_cases [of m d]) (auto simp: upper_hex_alnum byte_div_mod)
qed

lemma path_escape_plain: "set (PathEscape s) \<inter> {CHR ''/'', CHR ''?'', CHR ''#'', CHR '' ''} = {}"
  by (auto dest!: url_escape_chars simp: shouldEscape_def is_alnum_def)

lemma query_escape_plain: "set (QueryEscape s) \<inter> {CHR ''&'', CHR ''='', CHR '';'', CHR ''#''} = {}"
  by (auto dest!: url_escape_chars simp: shouldEscape_def is_alnum_def)

section \<open>Queries\<close>

definition query_Encode :: "(string \<times> string) list \<Rightarrow> string" where
  "query_Encode kvs =
    Join (map (\<lambda>k. QueryEscape k @ CHR ''='' # QueryEscape (the (map_of kvs k))) (sort (map fst kvs))) ''&''"

definition parse_pair :: "string \<Rightarrow> (string \<times> string) option" where
  "parse_pair s =
    (case Cut (CHR ''='') s of
       (k, v, _) \<Rightarrow>
         (case (url_unescape QueryComponent k, url_unescape QueryComponent v) of
            (Some k', Some v') \<Rightarrow> Some (k', v')
          | _ \<Rightarrow> None))"

text \<open>\<open>ParseQuery\<close>, as a list of pairs; a part with a semicolon or a wrong escape is an error.\<close>

definition ParseQuery :: "string \<Rightarrow> (string \<times> string) list option" where
  "ParseQuery q =
    those (map (\<lambda>p. if CHR '';'' \<in> set p then None else parse_pair p)
      (filter (\<lambda>p. p \<noteq> []) (Split (CHR ''&'') q)))"

lemma Cut_append: "d \<notin> set p \<Longrightarrow> Cut d (p @ d # s) = (p, s, True)"
  by (induction p) auto

lemma Split_Join:
  "ps \<noteq> [] \<Longrightarrow> list_all (\<lambda>p. d \<notin> set p) ps \<Longrightarrow> Split d (Join ps [d]) = ps"
  by (induction ps "[d]" rule: Join.induct) (simp_all add: Split_no_sep_append Split_no_sep_self)

lemma those_map_Some: "(\<And>x. x \<in> set xs \<Longrightarrow> f x = Some (g x)) \<Longrightarrow> those (map f xs) = Some (map g xs)"
  by (induction xs) auto

lemma ParseQuery_Encode:
  "ParseQuery (query_Encode kvs) = Some (map (\<lambda>k. (k, the (map_of kvs k))) (sort (map fst kvs)))"
proof (cases "kvs = []")
  case True
  then show ?thesis by (simp add: ParseQuery_def query_Encode_def)
next
  case False
  let ?part = "\<lambda>k. QueryEscape k @ CHR ''='' # QueryEscape (the (map_of kvs k))"
  have plain: "CHR ''&'' \<notin> set (?part k)" "CHR '';'' \<notin> set (?part k)" "CHR ''='' \<notin> set (QueryEscape k)" for k
    using query_escape_plain [of k] query_escape_plain [of "the (map_of kvs k)"] by auto
  have parts: "Split (CHR ''&'') (query_Encode kvs) = map ?part (sort (map fst kvs))"
    unfolding query_Encode_def
    using False plain(1) by (intro Split_Join) (simp_all add: list_all_iff flip: length_greater_0_conv)
  have "parse_pair (?part k) = Some (k, the (map_of kvs k))" for k
    using plain(3) by (simp add: parse_pair_def Cut_append)
  with plain(2) have "(if CHR '';'' \<in> set (?part k) then None else parse_pair (?part k)) =
      Some (k, the (map_of kvs k))" for k by simp
  then show ?thesis
    unfolding ParseQuery_def parts by (simp add: filter_map comp_def) (rule those_map_Some, simp)
qed

section \<open>The path of a URL\<close>

text \<open>\<open>setPath\<close>: the path, and the raw path when it is not the default encoding of the path.\<close>

definition parse_path :: "string \<Rightarrow> (string \<times> string) option" where
  "parse_path p =
    (case url_unescape WholePath p of
       None \<Rightarrow> None
     | Some path \<Rightarrow> Some (path, if url_escape WholePath path = p then [] else p))"

end
