(* ===== verification/List_Alerts.thy ===== *)
theory List_Alerts
  imports Describe_Nodes Url_Escape
begin

text \<open>
  The action \<open>list-alerts\<close> (\<open>internal/actions/list_alerts.go\<close>): parameter validation, pod discovery,
  the query sent to Prometheus through a pod exec, and the selection of alerts and silences.
\<close>

definition defaultMonitoringNamespace :: string where
  "defaultMonitoringNamespace = ''openshift-monitoring''"

definition quoted :: "string \<Rightarrow> string" where
  "quoted s = [dquote] @ s @ [dquote]"

definition alertsNamespaceQuery :: string where
  "alertsNamespaceQuery =
    ''namespace=~'' @ quoted ''^$|^default$|^openshift-.*|^kube-.*|^redhat-.*'' @
    '',namespace!~'' @ quoted ''^redhat-rhmi-.*''"

definition alerts_namespace :: "resource_target \<Rightarrow> string" where
  "alerts_namespace t = (if rt_Namespace t = [] then defaultMonitoringNamespace else rt_Namespace t)"

definition ns_rule :: "string \<Rightarrow> string \<Rightarrow> string \<Rightarrow> rbac_rule" where
  "ns_rule ns res verb = \<lparr>rr_Namespace = ns, rr_APIGroups = [[]], rr_Resources = [res],
     rr_ResourceNames = [], rr_Verbs = [verb]\<rparr>"

definition alerts_RequiredRBAC :: "resource_target \<Rightarrow> rbac_rule list" where
  "alerts_RequiredRBAC t =
    (let ns = alerts_namespace t in [ns_rule ns ''pods'' ''list'', ns_rule ns ''pods/exec'' ''create''])"

section \<open>URL encoding\<close>

definition Values_Encode :: "(string \<times> string) list \<Rightarrow> string" where
  "Values_Encode ps =
    Join (map (\<lambda>(k, v). QueryEscape k @ ''='' @ QueryEscape v)
            (sort_by (\<lambda>p q. fst p \<le> fst q) ps)) ''&''"

section \<open>Queries through a pod\<close>

definition discoverPod :: "kube_clients \<Rightarrow> string \<Rightarrow> string \<Rightarrow> (kube_log, string) act" where
  "discoverPod c ns appName =
    seq (wrap_err ''failed to list pods: %w'' []
          (kube_List c podsGVR ns (no_list_options\<lparr>lo_LabelSelector := ''app.kubernetes.io/name='' @ appName\<rparr>)))
      (\<lambda>pods. case pods of
         [] \<Rightarrow> fail (Errf ''no %s pod found in namespace %s'' [appName, ns])
       | pod # _ \<Rightarrow> ret (un_GetName c pod))"

type_synonym pod_exec = "kube_log \<Rightarrow> string \<Rightarrow> string \<Rightarrow> string \<Rightarrow> string list \<Rightarrow> string result"

definition execCurl ::
  "pod_exec \<Rightarrow> string \<Rightarrow> string \<Rightarrow> string \<Rightarrow> nat \<Rightarrow> string \<Rightarrow> (string \<times> string) list \<Rightarrow> (kube_log, string) act"
where
  "execCurl ex ns pod container port path params =
    (let u0 = sprintf ''http://localhost:%d%s'' [show_nat port, path];
         u = (if length params > 0 then u0 @ ''?'' @ Values_Encode params else u0);
         cmd = [''wget'', ''-qO-'', ''-T'', ''25'', u]
     in wrap_err ''exec failed: %w'' []
          (api_call (KExec ns pod container cmd) (\<lambda>log. ex log ns pod container cmd)))"

definition queryViaExec ::
  "kube_clients \<Rightarrow> pod_exec \<Rightarrow> string \<Rightarrow> string \<Rightarrow> string \<Rightarrow> nat \<Rightarrow> string \<Rightarrow> (string \<times> string) list \<Rightarrow>
   (kube_log, object) act"
where
  "queryViaExec c ex ns pod container port path params =
    seq (execCurl ex ns pod container port path params) (\<lambda>raw.
    lift (case json_Unmarshal c raw of
        Inl e \<Rightarrow> Inl (Errw ''failed to parse response: %w'' [] e)
      | Inr (JObj m) \<Rightarrow> Inr m
      | Inr JNull \<Rightarrow> Inr []
      | Inr _ \<Rightarrow> Inl (Errw ''failed to parse response: %w'' []
                    (ErrExt ''json: cannot unmarshal into Go value of type map[string]interface {}''))))"

definition queryViaExecArray ::
  "kube_clients \<Rightarrow> pod_exec \<Rightarrow> string \<Rightarrow> string \<Rightarrow> string \<Rightarrow> nat \<Rightarrow> string \<Rightarrow> (string \<times> string) list \<Rightarrow>
   (kube_log, json list) act"
where
  "queryViaExecArray c ex ns pod container port path params =
    seq (execCurl ex ns pod container port path params) (\<lambda>raw.
    lift (case json_Unmarshal c raw of
        Inl e \<Rightarrow> Inl (Errw ''failed to parse response: %w'' [] e)
      | Inr (JList vs) \<Rightarrow> Inr vs
      | Inr JNull \<Rightarrow> Inr []
      | Inr _ \<Rightarrow> Inl (Errw ''failed to parse response: %w'' []
                    (ErrExt ''json: cannot unmarshal into Go value of type []interface {}''))))"

definition buildAlertsQuery :: "string \<Rightarrow> string" where
  "buildAlertsQuery alertstate =
    (let parts = (if alertstate = ''firing'' then [''alertstate='' @ quoted ''firing'']
                  else if alertstate = ''pending'' then [''alertstate='' @ quoted ''pending'']
                  else [])
     in ''ALERTS{'' @ Join (parts @ [alertsNamespaceQuery]) '','' @ ''}'')"

section \<open>Selecting alerts and silences\<close>

definition extractAlert :: "object \<Rightarrow> object" where
  "extractAlert metric =
    set_all_present metric
      [''alertname'', ''job'', ''namespace'', ''exported_namespace'', ''pod'', ''service'', ''alertstate''] []"

fun split_alerts :: "bool \<Rightarrow> bool \<Rightarrow> json list \<Rightarrow> json list \<times> json list \<Rightarrow> json list \<times> json list" where
  "split_alerts inclC inclW [] acc = acc"
| "split_alerts inclC inclW (r # rs) (critical, warning) =
    split_alerts inclC inclW rs
      (case as_obj r of
         None \<Rightarrow> (critical, warning)
       | Some entry \<Rightarrow>
         (case as_obj (jget entry ''metric'') of
            None \<Rightarrow> (critical, warning)
          | Some metric \<Rightarrow>
            (let sev = str_or_empty (jget metric ''severity''); alert = JObj (extractAlert metric) in
             if sev = ''critical'' \<and> inclC then (critical @ [alert], warning)
             else if sev = ''warning'' \<and> inclW then (critical, warning @ [alert])
             else (critical, warning))))"

text \<open>The two early returns give nil slices (\<open>None\<close>), which serialise as null.\<close>

definition extractAlerts :: "object \<Rightarrow> string \<Rightarrow> json list option \<times> json list option" where
  "extractAlerts resp severity =
    (case as_obj (jget resp ''data'') of
       None \<Rightarrow> (None, None)
     | Some data \<Rightarrow>
       (case as_list (jget data ''result'') of
          None \<Rightarrow> (None, None)
        | Some results \<Rightarrow>
          (case split_alerts (severity = [] \<or> severity = ''critical'')
                  (severity = [] \<or> severity = ''warning'') results ([], []) of
             (critical, warning) \<Rightarrow> (Some critical, Some warning))))"

fun extractSilences :: "json list \<Rightarrow> json list" where
  "extractSilences [] = []"
| "extractSilences (s # ss) =
    (case as_obj s of
       None \<Rightarrow> extractSilences ss
     | Some silence \<Rightarrow>
       (case as_obj (jget silence ''status'') of
          None \<Rightarrow> extractSilences ss
        | Some status \<Rightarrow>
          if str_or_empty (jget status ''state'') \<noteq> ''active'' then extractSilences ss
          else JObj (set_all_present silence
                 [''id'', ''createdBy'', ''comment'', ''startsAt'', ''endsAt'', ''matchers''] [])
               # extractSilences ss))"

definition json_slice :: "json list option \<Rightarrow> json" where
  "json_slice s = (case s of None \<Rightarrow> JNull | Some vs \<Rightarrow> JList vs)"

definition slice_len :: "'a list option \<Rightarrow> nat" where
  "slice_len s = (case s of None \<Rightarrow> 0 | Some vs \<Rightarrow> length vs)"

section \<open>The action\<close>

definition alerts_run ::
  "kube_clients \<Rightarrow> pod_exec \<Rightarrow> string \<Rightarrow> string \<Rightarrow> string \<Rightarrow> bool \<Rightarrow> (kube_log, action_result) act"
where
  "alerts_run c ex ns severity state includeSilences =
    seq (wrap_err ''failed to discover prometheus pod in %s: %w'' [ns] (discoverPod c ns ''prometheus'')) (\<lambda>promPod.
    seq (wrap_err ''failed to query prometheus: %w'' []
          (queryViaExec c ex ns promPod ''prometheus'' 9090 ''/api/v1/query''
            [(''query'', buildAlertsQuery state)])) (\<lambda>alertsResp.
    let (critical, warning) = extractAlerts alertsResp severity;
        result = [(''alerts'', JObj [(''critical'', json_slice critical), (''warning'', json_slice warning)])];
        msg = sprintf ''%d critical, %d warning alerts'' [show_nat (slice_len critical), show_nat (slice_len warning)]
    in if includeSilences
       then seq (wrap_err ''failed to discover alertmanager pod in %s: %w'' [ns] (discoverPod c ns ''alertmanager'')) (\<lambda>amPod.
            seq (wrap_err ''failed to query alertmanager silences: %w'' []
                  (queryViaExecArray c ex ns amPod ''alertmanager'' 9093 ''/api/v2/silences'' [])) (\<lambda>silencesResp.
            let silences = extractSilences silencesResp in
            ret \<lparr>ares_Resources = Some [alput ''silences'' (JList silences) result],
                 ares_Message = msg @ sprintf '', %d active silences'' [show_nat (length silences)]\<rparr>))
       else ret \<lparr>ares_Resources = Some [result], ares_Message = msg\<rparr>))"

definition alerts_Execute :: "kube_clients \<Rightarrow> kube_action_request \<Rightarrow> (kube_log, action_result) act" where
  "alerts_Execute c req =
    (case pe_Exec c of
       None \<Rightarrow> fail (Errf ''list-alerts requires a pod executor'' [])
     | Some ex \<Rightarrow>
       (let severity = param (kr_Params req) ''severity'';
            st = param (kr_Params req) ''state'';
            state = (if st = [] then ''firing'' else st)
        in if severity \<notin> {[], ''critical'', ''warning''}
           then fail (Errf ''invalid severity %q, must be one of: critical, warning'' [severity])
           else if state \<notin> {''firing'', ''pending'', ''all''}
           then fail (Errf ''invalid alert state %q, must be one of: firing, pending, all'' [state])
           else alerts_run c ex (alerts_namespace (kr_Target req)) severity state
                  (param (kr_Params req) ''silences'' = ''true'')))"

definition NewListAlertsAction :: kube_action where
  "NewListAlertsAction = \<lparr>ka_Name = ''list-alerts'', ka_UsesPodExec = True,
     ka_RequiredRBAC = alerts_RequiredRBAC, ka_Execute = alerts_Execute\<rparr>"

lemma alerts_least_privileged: "least_privileged NewListAlertsAction"
  unfolding least_privileged_def NewListAlertsAction_def alerts_Execute_def alerts_run_def Let_def
    discoverPod_def queryViaExec_def queryViaExecArray_def execCurl_def kube_List_def
  by (auto intro!: log_rules split: list.splits simp: rules_grant_def rule_grants_def
      alerts_RequiredRBAC_def ns_rule_def podsGVR_def core_gvr_def Let_def)

section \<open>Properties\<close>

definition alerts_url :: "string \<Rightarrow> string" where
  "alerts_url state = ''http://localhost:9090/api/v1/query?query='' @ QueryEscape (buildAlertsQuery state)"

definition silences_url :: string where
  "silences_url = ''http://localhost:9093/api/v2/silences''"

definition wget :: "string \<Rightarrow> string list" where
  "wget url = [''wget'', ''-qO-'', ''-T'', ''25'', url]"

fun alerts_call_ok :: "string \<Rightarrow> kube_call \<Rightarrow> bool" where
  "alerts_call_ok ns (KExec ns' pod container cmd) =
    (ns' = ns \<and>
     (container = ''prometheus'' \<and>
        cmd \<in> {wget (alerts_url ''firing''), wget (alerts_url ''pending''), wget (alerts_url ''all'')} \<or>
      container = ''alertmanager'' \<and> cmd = wget silences_url))"
| "alerts_call_ok ns (KList g ns' opts) = (g = podsGVR \<and> ns' = ns)"
| "alerts_call_ok ns c = False"

lemma show_ports: "show_nat 9090 = ''9090''" "show_nat 9093 = ''9093''"
  by (simp_all add: show_nat.simps digit_char_def char_of_eq_iff)

lemma execCurl_alerts:
  "execCurl ex ns pod ''prometheus'' 9090 ''/api/v1/query'' [(''query'', buildAlertsQuery state)] =
    wrap_err ''exec failed: %w'' [] (api_call (KExec ns pod ''prometheus'' (wget (alerts_url state)))
      (\<lambda>log. ex log ns pod ''prometheus'' (wget (alerts_url state))))"
  "execCurl ex ns pod ''alertmanager'' 9093 ''/api/v2/silences'' [] =
    wrap_err ''exec failed: %w'' [] (api_call (KExec ns pod ''alertmanager'' (wget silences_url))
      (\<lambda>log. ex log ns pod ''alertmanager'' (wget silences_url)))"
  by (simp_all add: execCurl_def wget_def alerts_url_def silences_url_def show_ports Values_Encode_def
      url_escape_def url_escape_char_def shouldEscape_def is_alnum_def Let_def)

text \<open>
  Whatever parameters a caller passes, list-alerts only lists pods and runs one of four fixed
  commands, in the prometheus or the alertmanager container of a pod of the target's monitoring
  namespace: no text of the request reaches the command line of the pod.
\<close>
theorem list_alerts_runs_only_fixed_commands:
  "logs_only (alerts_call_ok (alerts_namespace (kr_Target req))) (alerts_Execute clients req)"
  unfolding alerts_Execute_def alerts_run_def Let_def discoverPod_def queryViaExec_def
    queryViaExecArray_def execCurl_alerts kube_List_def
  by (auto intro!: log_rules split: list.splits)

definition metric_of :: "string \<Rightarrow> json \<Rightarrow> object option" where
  "metric_of sev r =
    (case as_obj r of
       None \<Rightarrow> None
     | Some entry \<Rightarrow>
       (case as_obj (jget entry ''metric'') of
          None \<Rightarrow> None
        | Some m \<Rightarrow> if str_or_empty (jget m ''severity'') = sev then Some m else None))"

definition alerts_of :: "string \<Rightarrow> json list \<Rightarrow> json list" where
  "alerts_of sev rs = map (\<lambda>m. JObj (extractAlert m)) (List.map_filter (metric_of sev) rs)"

lemma alerts_of_Nil [simp]: "alerts_of sev [] = []"
  by (simp add: alerts_of_def)

lemma alerts_of_Cons: "alerts_of sev (r # rs) =
    (case metric_of sev r of None \<Rightarrow> [] | Some m \<Rightarrow> [JObj (extractAlert m)]) @ alerts_of sev rs"
  by (simp add: alerts_of_def split: option.splits)

lemma split_alerts_eq:
  "split_alerts inclC inclW rs (cs, ws) =
    (cs @ (if inclC then alerts_of ''critical'' rs else []),
     ws @ (if inclW then alerts_of ''warning'' rs else []))"
proof (induction rs arbitrary: cs ws inclC inclW)
  case (Cons r rs)
  show ?case
  proof (cases "as_obj r")
    case None
    with Cons show ?thesis by (simp add: alerts_of_Cons metric_of_def)
  next
    case entry: (Some entry)
    show ?thesis
    proof (cases "as_obj (jget entry ''metric'')")
      case None
      with entry Cons show ?thesis by (simp add: alerts_of_Cons metric_of_def)
    next
      case (Some m)
      with entry Cons show ?thesis by (simp add: alerts_of_Cons metric_of_def Let_def)
    qed
  qed
qed simp

text \<open>
  Of a well-formed Prometheus answer, list-alerts reports exactly the alerts of the severities
  asked for (both when none is named), critical and warning apart, each list in the order of the
  answer, and of an Alertmanager answer exactly the active silences; entries of another shape are
  skipped, never an error.
\<close>
lemma alerts_reported_by_severity:
  "extractAlerts resp severity =
     (case Option.bind (as_obj (jget resp ''data'')) (\<lambda>d. as_list (jget d ''result'')) of
        None \<Rightarrow> (None, None)
      | Some rs \<Rightarrow>
        (Some (if severity \<in> {[], ''critical''} then alerts_of ''critical'' rs else []),
         Some (if severity \<in> {[], ''warning''} then alerts_of ''warning'' rs else []))) \<and>
   length (extractSilences ss) =
     length (filter (\<lambda>s. \<exists>m st. s = JObj m \<and> jget m ''status'' = JObj st \<and> jget st ''state'' = JStr ''active'') ss)"
proof
  show "extractAlerts resp severity =
     (case Option.bind (as_obj (jget resp ''data'')) (\<lambda>d. as_list (jget d ''result'')) of
        None \<Rightarrow> (None, None)
      | Some rs \<Rightarrow>
        (Some (if severity \<in> {[], ''critical''} then alerts_of ''critical'' rs else []),
         Some (if severity \<in> {[], ''warning''} then alerts_of ''warning'' rs else [])))"
    by (simp add: extractAlerts_def split_alerts_eq split: option.splits)
  have obj: "as_obj v = Some m \<longleftrightarrow> v = JObj m" "as_obj v = None \<longleftrightarrow> (\<forall>m. v \<noteq> JObj m)" for v m
    by (cases v; simp)+
  have str: "str_or_empty v = x # xs \<longleftrightarrow> v = JStr (x # xs)" for v x xs
    by (cases v) (auto simp: str_or_empty_def)
  show "length (extractSilences ss) =
     length (filter (\<lambda>s. \<exists>m st. s = JObj m \<and> jget m ''status'' = JObj st \<and> jget st ''state'' = JStr ''active'') ss)"
    by (induction ss) (auto simp: obj str split: option.splits)
qed

end
