(* ===== verification/Duration.thy ===== *)
theory Duration
  imports Prelude
begin

text \<open>
  Go's \<open>time.Duration\<close>, a signed 64-bit count of nanoseconds (an \<open>int\<close> whose range the parser
  enforces), and \<open>time.ParseDuration\<close>, which reads the durations of requests and of the
  configuration.  The fraction of a unit is computed exactly where Go rounds in \<open>float64\<close>.
\<close>

definition nanosecond :: int where "nanosecond = 1"
definition second :: int where "second = 1000000000"
definition minute :: int where "minute = 60000000000"
definition hour :: int where "hour = 3600000000000"

definition two63 :: nat where
  "two63 = 9223372036854775808"

fun unit_of :: "string \<Rightarrow> nat option" where
  "unit_of u =
    (if u = ''ns'' then Some 1
     else if u = ''us'' \<or> u = [char_of (194::nat), char_of (181::nat), CHR ''s'']
       \<or> u = [char_of (206::nat), char_of (188::nat), CHR ''s''] then Some 1000
     else if u = ''ms'' then Some 1000000
     else if u = ''s'' then Some 1000000000
     else if u = ''m'' then Some 60000000000
     else if u = ''h'' then Some 3600000000000
     else None)"

text \<open>\<open>leadingInt\<close> fails on overflow; \<open>leadingFraction\<close> drops the digits that would overflow.\<close>

fun leadingInt :: "string \<Rightarrow> nat \<Rightarrow> (nat \<times> string) option" where
  "leadingInt [] x = Some (x, [])"
| "leadingInt (c # s) x =
    (if \<not> is_digit c then Some (x, c # s)
     else if x > two63 div 10 then None
     else if x * 10 + digit_val c > two63 then None
     else leadingInt s (x * 10 + digit_val c))"

fun leadingFraction :: "string \<Rightarrow> nat \<Rightarrow> nat \<Rightarrow> bool \<Rightarrow> nat \<times> nat \<times> string" where
  "leadingFraction [] x scale ov = (x, scale, [])"
| "leadingFraction (c # s) x scale ov =
    (if \<not> is_digit c then (x, scale, c # s)
     else if ov then leadingFraction s x scale True
     else if x > (two63 - 1) div 10 then leadingFraction s x scale True
     else if x * 10 + digit_val c > two63 then leadingFraction s x scale True
     else leadingFraction s (x * 10 + digit_val c) (scale * 10) False)"

definition is_num_char :: "char \<Rightarrow> bool" where
  "is_num_char c \<longleftrightarrow> c = CHR ''.'' \<or> is_digit c"

text \<open>One \<open>number unit\<close> group: its nanoseconds and the rest of the text, or the error.\<close>

definition invalid_duration :: "string \<Rightarrow> goerr" where
  "invalid_duration orig = Errf ''time: invalid duration %q'' [orig]"

definition duration_group :: "string \<Rightarrow> string \<Rightarrow> (nat \<times> string) result" where
  "duration_group orig s =
    (if s = [] \<or> \<not> is_num_char (hd s) then Inl (invalid_duration orig)
     else (case leadingInt s 0 of
        None \<Rightarrow> Inl (invalid_duration orig)
      | Some (v, s1) \<Rightarrow>
        (let pre = length s1 \<noteq> length s;
             (f, scale, s2, post) =
               (case s1 of
                  [] \<Rightarrow> (0, 1, s1, False)
                | c # s1' \<Rightarrow>
                  if c = CHR ''.''
                  then (case leadingFraction s1' 0 1 False of
                          (f, scale, r) \<Rightarrow> (f, scale, r, length r \<noteq> length s1'))
                  else (0, 1, s1, False))
         in if \<not> pre \<and> \<not> post then Inl (invalid_duration orig)
            else (let u = takeWhile (\<lambda>c. \<not> is_num_char c) s2;
                      rest = dropWhile (\<lambda>c. \<not> is_num_char c) s2
                  in if u = [] then Inl (Errf ''time: missing unit in duration %q'' [orig])
                     else (case unit_of u of
                        None \<Rightarrow> Inl (Errf ''time: unknown unit %q in duration %q'' [u, orig])
                      | Some unit \<Rightarrow>
                        if v > two63 div unit then Inl (invalid_duration orig)
                        else (let n = v * unit + f * unit div scale in
                              if f > 0 \<and> n > two63 then Inl (invalid_duration orig)
                              else Inr (n, rest)))))))"

lemma leadingInt_length: "leadingInt s x = Some (v, r) \<Longrightarrow> length r \<le> length s"
  by (induction s x rule: leadingInt.induct) (auto split: if_splits)

lemma leadingFraction_length: "leadingFraction s x sc ov = (f, sc', r) \<Longrightarrow> length r \<le> length s"
  by (induction s x sc ov rule: leadingFraction.induct) (auto split: if_splits)

lemma duration_group_shorter:
  assumes "duration_group orig s = Inr (n, rest)"
  shows "length rest < length s"
proof -
  have drop: "length (dropWhile P xs) < length xs" if "takeWhile P xs \<noteq> []" for P and xs :: string
    using that by (cases xs) (auto simp: length_dropWhile_le less_Suc_eq_le split: if_splits)
  obtain v s1 where 1: "leadingInt s 0 = Some (v, s1)"
    using assms by (auto simp: duration_group_def split: if_splits option.splits)
  show ?thesis
  proof (cases s1)
    case Nil
    with assms 1 show ?thesis
      by (auto simp: duration_group_def Let_def split: if_splits option.splits)
  next
    case (Cons c s1')
    obtain f sc r where 2: "leadingFraction s1' 0 1 False = (f, sc, r)" by (cases "leadingFraction s1' 0 1 False")
    have len: "length s1 \<le> length s" "length r \<le> length s1'"
      using leadingInt_length [OF 1] leadingFraction_length [OF 2] .
    define s2 where "s2 = (if c = CHR ''.'' then r else s1)"
    have "length s2 \<le> length s" using len Cons by (auto simp: s2_def)
    moreover have "takeWhile (\<lambda>c. \<not> is_num_char c) s2 \<noteq> []" "rest = dropWhile (\<lambda>c. \<not> is_num_char c) s2"
      using assms 1 2 Cons
      by (auto simp: duration_group_def Let_def s2_def split: if_splits option.splits)
    ultimately show ?thesis using drop [of "\<lambda>c. \<not> is_num_char c" s2] by auto
  qed
qed

function duration_groups :: "string \<Rightarrow> string \<Rightarrow> nat \<Rightarrow> nat result" where
  "duration_groups orig s d =
    (if s = [] then Inr d
     else (case duration_group orig s of
        Inl e \<Rightarrow> Inl e
      | Inr (n, rest) \<Rightarrow>
        if d + n > two63 then Inl (invalid_duration orig) else duration_groups orig rest (d + n)))"
  by pat_completeness auto
termination
  by (relation "measure (\<lambda>(orig, s, d). length s)") (auto dest: duration_group_shorter)

declare duration_groups.simps [simp del]

definition ParseDuration :: "string \<Rightarrow> int result" where
  "ParseDuration orig =
    (let (neg, s) = (case orig of [] \<Rightarrow> (False, [])
                     | c # r \<Rightarrow> if c = CHR ''-'' \<or> c = CHR ''+'' then (c = CHR ''-'', r) else (False, orig))
     in if s = ''0'' then Inr 0
        else if s = [] then Inl (invalid_duration orig)
        else (case duration_groups orig s 0 of
           Inl e \<Rightarrow> Inl e
         | Inr d \<Rightarrow>
           if neg then Inr (- int d)
           else if d > two63 - 1 then Inl (invalid_duration orig)
           else Inr (int d)))"

lemma duration_groups_bound: "duration_groups orig s d = Inr n \<Longrightarrow> d \<le> two63 \<Longrightarrow> n \<le> two63"
proof (induction orig s d rule: duration_groups.induct)
  case (1 orig s d)
  show ?case
  proof (cases "s = []")
    case True
    with 1 show ?thesis by (simp add: duration_groups.simps [of orig "[]" d])
  next
    case False
    with "1.prems" obtain m rest where m: "duration_group orig s = Inr (m, rest)" "d + m \<le> two63"
        "duration_groups orig rest (d + m) = Inr n"
      by (subst (asm) duration_groups.simps) (auto split: sum.splits if_splits)
    with "1.IH" [OF False m(1) refl] show ?thesis by auto
  qed
qed

lemma ParseDuration_range:
  assumes "ParseDuration s = Inr d"
  shows "- (2 ^ 63) \<le> d \<and> d < 2 ^ 63"
proof -
  have "n \<le> two63" if "duration_groups s r 0 = Inr n" for r n
    using duration_groups_bound [OF that] by simp
  then show ?thesis using assms
    by (fastforce simp: ParseDuration_def Let_def two63_def split: if_splits sum.splits list.splits)
qed

end
