(* ===== verification/Aws_Api.thy ===== *)
theory Aws_Api
  imports Effects Json Duration
begin

text \<open>
  The AWS side of \<open>internal/awsapi\<close>: the service clients (\<open>awsapi.go\<close>), and the two providers that
  build them, one from fixed credentials (\<open>static.go\<close>) and one from the cluster's own account through
  backplane (\<open>credentials.go\<close>), with its time-bounded cluster cache.

  The AWS SDK is not part of the repository: a service client is a record of functions from the
  calls made so far to an answer, the SDK's structs are \<open>sdk_object\<close>s whose JSON form is the
  codec \<open>sdk_json\<close>, and the paginators' \<open>HasMorePages\<close> is the field \<open>sdk_more\<close>.
\<close>

section \<open>Objects and calls\<close>

record ec2_instance =
  in_InstanceId :: "string option"
  in_Tags :: "(string option \<times> string option) list"
  in_Rest :: json

datatype sdk_object = SdkInstance ec2_instance | SdkStruct string json

text \<open>The input of a read: the identifiers it names, its filters, its start time.\<close>

record aws_input =
  ai_Ids :: "(string \<times> string list) list"
  ai_Filters :: "(string \<times> string list) list option"
  ai_StartTime :: "int option"

definition no_input :: aws_input where
  "no_input = \<lparr>ai_Ids = [], ai_Filters = None, ai_StartTime = None\<rparr>"

text \<open>A page is read at a position: before the first page, or after one with its next token.\<close>

datatype page_pos = FirstPage | AfterPage "string option"

datatype aws_call =
    AwsPage string string aws_input page_pos
  | AwsTargetHealth string
  | AwsRecordSets string "string option \<times> string option \<times> string option"
  | AwsDescribeInstance string
  | AwsRebootInstances "string list"
  | AwsTerminateInstances "string list"

type_synonym aws_log = "aws_call list"

record state_change =
  sc_Previous :: "string option"
  sc_Current :: "string option"

record record_sets_page =
  rs_Sets :: "sdk_object list"
  rs_IsTruncated :: bool
  rs_Next :: "string option \<times> string option \<times> string option"

type_synonym page_api = "aws_log \<Rightarrow> string \<Rightarrow> aws_input \<Rightarrow> page_pos \<Rightarrow> (sdk_object list \<times> string option) result"

record ec2_api =
  e_Page :: page_api
  e_InstancesPage :: "aws_log \<Rightarrow> aws_input \<Rightarrow> page_pos \<Rightarrow> (ec2_instance list list \<times> string option) result"
  e_DescribeInstance :: "aws_log \<Rightarrow> string \<Rightarrow> ec2_instance list list result"
  e_RebootInstances :: "aws_log \<Rightarrow> string list \<Rightarrow> unit result"
  e_TerminateInstances :: "aws_log \<Rightarrow> string list \<Rightarrow> state_change list option result"

record elbv2_api =
  v_Page :: page_api
  v_TargetHealth :: "aws_log \<Rightarrow> string \<Rightarrow> sdk_object list result"

record route53_api =
  r_Page :: page_api
  r_RecordSets :: "aws_log \<Rightarrow> string \<Rightarrow> string option \<times> string option \<times> string option \<Rightarrow> record_sets_page result"

record aws_clients =
  cl_EC2 :: "ec2_api option"
  cl_ELB :: "page_api option"
  cl_ELBv2 :: "elbv2_api option"
  cl_CloudTrail :: "page_api option"
  cl_Route53 :: "route53_api option"

definition no_clients :: aws_clients where
  "no_clients = \<lparr>cl_EC2 = None, cl_ELB = None, cl_ELBv2 = None, cl_CloudTrail = None, cl_Route53 = None\<rparr>"

definition ServiceEC2 :: string where "ServiceEC2 = ''ec2''"
definition ServiceELB :: string where "ServiceELB = ''elb''"
definition ServiceELBv2 :: string where "ServiceELBv2 = ''elbv2''"
definition ServiceCloudTrail :: string where "ServiceCloudTrail = ''cloudtrail''"
definition ServiceRoute53 :: string where "ServiceRoute53 = ''route53''"

lemmas service_defs =
  ServiceEC2_def ServiceELB_def ServiceELBv2_def ServiceCloudTrail_def ServiceRoute53_def

text \<open>
  The load options a provider passes to \<open>config.LoadDefaultConfig\<close>, and the SDK: loading a
  configuration, building each service's client from it, and the paginators.
\<close>

record load_options =
  op_Region :: string
  op_Credentials :: "(string \<times> string \<times> string) option"
  op_BaseEndpoint :: "string option"
  op_Proxy :: "string option"

record 'cfg sdk =
  sdk_load :: "load_options \<Rightarrow> 'cfg result"
  sdk_EC2 :: "'cfg \<Rightarrow> ec2_api"
  sdk_ELB :: "'cfg \<Rightarrow> page_api"
  sdk_ELBv2 :: "'cfg \<Rightarrow> elbv2_api"
  sdk_CloudTrail :: "'cfg \<Rightarrow> page_api"
  sdk_Route53 :: "'cfg \<Rightarrow> route53_api"

fun buildClients_from :: "'cfg sdk \<Rightarrow> 'cfg \<Rightarrow> string list \<Rightarrow> aws_clients \<Rightarrow> aws_clients result" where
  "buildClients_from sdk cfg [] clients = Inr clients"
| "buildClients_from sdk cfg (service # services) clients =
    (if service = ServiceEC2
     then buildClients_from sdk cfg services (clients\<lparr>cl_EC2 := Some (sdk_EC2 sdk cfg)\<rparr>)
     else if service = ServiceELB
     then buildClients_from sdk cfg services (clients\<lparr>cl_ELB := Some (sdk_ELB sdk cfg)\<rparr>)
     else if service = ServiceELBv2
     then buildClients_from sdk cfg services (clients\<lparr>cl_ELBv2 := Some (sdk_ELBv2 sdk cfg)\<rparr>)
     else if service = ServiceCloudTrail
     then buildClients_from sdk cfg services (clients\<lparr>cl_CloudTrail := Some (sdk_CloudTrail sdk cfg)\<rparr>)
     else if service = ServiceRoute53
     then buildClients_from sdk cfg services (clients\<lparr>cl_Route53 := Some (sdk_Route53 sdk cfg)\<rparr>)
     else Inl (Errf ''unsupported AWS service %q'' [service]))"

definition buildClients :: "'cfg sdk \<Rightarrow> 'cfg \<Rightarrow> string list \<Rightarrow> aws_clients result" where
  "buildClients sdk cfg services = buildClients_from sdk cfg services no_clients"

definition all_services :: "string list" where
  "all_services = [ServiceEC2, ServiceELB, ServiceELBv2, ServiceCloudTrail, ServiceRoute53]"

text \<open>The services a set of clients covers.\<close>

definition client_services :: "aws_clients \<Rightarrow> string set" where
  "client_services c =
    (if cl_EC2 c \<noteq> None then {ServiceEC2} else {}) \<union> (if cl_ELB c \<noteq> None then {ServiceELB} else {}) \<union>
    (if cl_ELBv2 c \<noteq> None then {ServiceELBv2} else {}) \<union>
    (if cl_CloudTrail c \<noteq> None then {ServiceCloudTrail} else {}) \<union>
    (if cl_Route53 c \<noteq> None then {ServiceRoute53} else {})"

lemma client_services_no_clients [simp]: "client_services no_clients = {}"
  by (simp add: client_services_def no_clients_def)

lemma client_services_mem:
  "ServiceEC2 \<in> client_services c \<longleftrightarrow> cl_EC2 c \<noteq> None"
  "ServiceELB \<in> client_services c \<longleftrightarrow> cl_ELB c \<noteq> None"
  "ServiceELBv2 \<in> client_services c \<longleftrightarrow> cl_ELBv2 c \<noteq> None"
  "ServiceCloudTrail \<in> client_services c \<longleftrightarrow> cl_CloudTrail c \<noteq> None"
  "ServiceRoute53 \<in> client_services c \<longleftrightarrow> cl_Route53 c \<noteq> None"
  by (auto simp: client_services_def service_defs split: if_splits)

lemma client_services_subset: "client_services c \<subseteq> set all_services"
  by (auto simp: client_services_def all_services_def)

lemma client_services_update:
  "client_services (c\<lparr>cl_EC2 := Some a\<rparr>) = insert ServiceEC2 (client_services c)"
  "client_services (c\<lparr>cl_ELB := Some b\<rparr>) = insert ServiceELB (client_services c)"
  "client_services (c\<lparr>cl_ELBv2 := Some d\<rparr>) = insert ServiceELBv2 (client_services c)"
  "client_services (c\<lparr>cl_CloudTrail := Some e\<rparr>) = insert ServiceCloudTrail (client_services c)"
  "client_services (c\<lparr>cl_Route53 := Some f\<rparr>) = insert ServiceRoute53 (client_services c)"
  by (auto simp: client_services_def)

lemma buildClients_from_services:
  "buildClients_from sdk cfg services c = Inr c' \<Longrightarrow>
    client_services c' = client_services c \<union> set services"
  by (induction sdk cfg services c rule: buildClients_from.induct)
    (auto simp: client_services_update split: if_splits)

lemma buildClients_from_ok:
  "(\<exists>c'. buildClients_from sdk cfg services c = Inr c') \<longleftrightarrow> set services \<subseteq> set all_services"
  by (induction sdk cfg services c rule: buildClients_from.induct) (auto simp: all_services_def)

text \<open>
  The clients built for an execution are exactly those of the services it declared: building
  succeeds if and only if every declared service is a known one, and then a client field is non-nil
  exactly for the declared services.
\<close>
lemma clients_match_declared_services:
  "case buildClients sdk cfg services of
     Inl e \<Rightarrow> \<not> set services \<subseteq> set all_services
   | Inr c \<Rightarrow> set services \<subseteq> set all_services \<and> client_services c = set services"
  using buildClients_from_ok [of sdk cfg services no_clients]
    buildClients_from_services [of sdk cfg services no_clients]
  by (auto simp: buildClients_def split: sum.splits)

end
