(* ===== verification/Aws_Read.thy ===== *)
theory Aws_Read
  imports Aws_Api Kube_Api
begin

text \<open>
  The action \<open>aws-get\<close> (\<open>internal/actions/aws_get.go\<close>) and the reads behind it (\<open>aws_ec2.go\<close>,
  \<open>aws_elb.go\<close>, \<open>aws_route53.go\<close>, \<open>aws_cloudtrail.go\<close>): the registry of readable resources, the
  validation of a request against it, the filter syntax and the paginated reads.

  A read runs under its execution's deadline: \<open>ae_Budget\<close> is the number of pages that can be fetched
  before the context expires, after which the next fetch fails with the context's error; it bounds
  every loop of the model.  \<open>ae_More\<close> is the SDK paginators' \<open>HasMorePages\<close>.
\<close>

record aws_target =
  at_Region :: string
  at_Resource :: string
  at_ID :: string
  at_InfraID :: string

record aws_action_request =
  ar_Target :: aws_target
  ar_Params :: "(string \<times> string) list"

record aws_env =
  ae_More :: "page_pos \<Rightarrow> bool"
  ae_Codec :: "sdk_object sdk_codec"
  ae_Budget :: nat
  ae_Now :: int
  ae_AttributeKeys :: "string list"

section \<open>Filters\<close>

type_synonym aws_filter = "string \<times> string list"

fun collect_pairs :: "string list \<Rightarrow> (string \<times> string list) list \<Rightarrow> aws_filter list result" where
  "collect_pairs [] values = Inr values"
| "collect_pairs (p # ps) values =
    (let pair = TrimSpace p in
     if pair = [] then collect_pairs ps values
     else (case Cut CHR ''='' pair of (n, v, found) \<Rightarrow>
       (let name = TrimSpace n in
        if \<not> found \<or> name = [] then Inl (Errf ''invalid filter %q: expected Name=Value'' [pair])
        else collect_pairs ps
          (alput name ((case map_of values name of None \<Rightarrow> [] | Some vs \<Rightarrow> vs) @ [TrimSpace v]) values))))"

text \<open>\<open>None\<close> is Go's nil slice: no filters at all.\<close>

definition parseAWSFilters :: "string \<Rightarrow> aws_filter list option result" where
  "parseAWSFilters raw =
    (if TrimSpace raw = [] then Inr None
     else (case collect_pairs (Split CHR '','' raw) [] of
         Inl e \<Rightarrow> Inl e
       | Inr values \<Rightarrow>
         if values = [] then Inl (Errf ''invalid filters %q: no Name=Value pairs found'' [raw])
         else Inr (Some (map (\<lambda>name. (name, the (map_of values name))) (sort (map fst values))))))"

definition ec2Filters :: "(string \<times> string) list \<Rightarrow> aws_filter list option result" where
  "ec2Filters params = parseAWSFilters (param params ''filters'')"

section \<open>Paginated reads\<close>

definition deadline :: goerr where
  "deadline = ErrExt ''context deadline exceeded''"

fun paginate ::
  "nat \<Rightarrow> (page_pos \<Rightarrow> bool) \<Rightarrow> string \<Rightarrow> string list \<Rightarrow>
   (page_pos \<Rightarrow> (aws_log, 'x list \<times> string option) act) \<Rightarrow> page_pos \<Rightarrow> 'x list \<Rightarrow> (aws_log, 'x list) act"
where
  "paginate 0 has_more f as page pos acc =
    (if has_more pos then fail (Errw f as deadline) else ret acc)"
| "paginate (Suc n) has_more f as page pos acc =
    (if has_more pos
     then seq (wrap_err f as (page pos)) (\<lambda>(items, token).
          paginate n has_more f as page (AfterPage token) (acc @ items))
     else ret acc)"

definition with_client :: "'api option \<Rightarrow> ('api \<Rightarrow> ('s, 'b) act) \<Rightarrow> ('s, 'b) act" where
  "with_client cl f =
    (case cl of None \<Rightarrow> fail (GoPanic ''invalid memory address or nil pointer dereference'') | Some api \<Rightarrow> f api)"

definition page_call :: "page_api \<Rightarrow> string \<Rightarrow> string \<Rightarrow> aws_input \<Rightarrow> page_pos \<Rightarrow> (aws_log, sdk_object list \<times> string option) act" where
  "page_call api service opn input pos =
    api_call (AwsPage service opn input pos) (\<lambda>log. api log opn input pos)"

definition converted :: "aws_env \<Rightarrow> (aws_log, sdk_object list) act \<Rightarrow> (aws_log, object list) act" where
  "converted env m = seq m (\<lambda>objs. lift (awsResourcesFrom (ae_Codec env) objs))"

definition read_pages ::
  "aws_env \<Rightarrow> string \<Rightarrow> string list \<Rightarrow> page_api option \<Rightarrow> string \<Rightarrow> string \<Rightarrow> aws_input \<Rightarrow> (aws_log, object list) act"
where
  "read_pages env f as api service opn input =
    converted env (with_client api (\<lambda>api.
      paginate (ae_Budget env) (ae_More env) f as (page_call api service opn input) FirstPage []))"

section \<open>EC2\<close>

definition ec2_input :: "string \<Rightarrow> aws_action_request \<Rightarrow> aws_input result" where
  "ec2_input id_field req =
    (let t = ar_Target req;
         input = (if at_ID t \<noteq> [] then no_input\<lparr>ai_Ids := [(id_field, [at_ID t])]\<rparr> else no_input)
     in case ec2Filters (ar_Params req) of
          Inl e \<Rightarrow> Inl e
        | Inr filters \<Rightarrow> Inr (input\<lparr>ai_Filters := filters\<rparr>))"

definition ec2_read ::
  "string \<Rightarrow> string \<Rightarrow> string \<Rightarrow> aws_env \<Rightarrow> aws_clients \<Rightarrow> aws_action_request \<Rightarrow> (aws_log, object list) act"
where
  "ec2_read opn id_field f env clients req =
    seq (lift (ec2_input id_field req)) (\<lambda>input.
    read_pages env f [at_Region (ar_Target req)] (map_option e_Page (cl_EC2 clients)) ServiceEC2 opn input)"

type_synonym aws_describe = "aws_env \<Rightarrow> aws_clients \<Rightarrow> aws_action_request \<Rightarrow> (aws_log, object list) act"

definition describeEC2Instances :: aws_describe where
  "describeEC2Instances env clients req =
    seq (lift (ec2_input ''InstanceIds'' req)) (\<lambda>input.
    converted env (with_client (cl_EC2 clients) (\<lambda>ec2.
      paginate (ae_Budget env) (ae_More env) ''failed to describe EC2 instances in %s: %w''
        [at_Region (ar_Target req)]
        (\<lambda>pos. seq (api_call (AwsPage ServiceEC2 ''DescribeInstances'' input pos)
                      (\<lambda>log. e_InstancesPage ec2 log input pos))
          (\<lambda>(reservations, token). ret (map SdkInstance (concat reservations), token)))
        FirstPage [])))"

definition describeEC2SecurityGroups :: aws_describe where
  "describeEC2SecurityGroups =
    ec2_read ''DescribeSecurityGroups'' ''GroupIds'' ''failed to describe EC2 security groups in %s: %w''"

definition describeEC2Subnets :: aws_describe where
  "describeEC2Subnets = ec2_read ''DescribeSubnets'' ''SubnetIds'' ''failed to describe EC2 subnets in %s: %w''"

definition describeEC2RouteTables :: aws_describe where
  "describeEC2RouteTables =
    ec2_read ''DescribeRouteTables'' ''RouteTableIds'' ''failed to describe EC2 route tables in %s: %w''"

definition describeEC2Vpcs :: aws_describe where
  "describeEC2Vpcs = ec2_read ''DescribeVpcs'' ''VpcIds'' ''failed to describe EC2 VPCs in %s: %w''"

definition describeEC2DhcpOptions :: aws_describe where
  "describeEC2DhcpOptions =
    ec2_read ''DescribeDhcpOptions'' ''DhcpOptionsIds'' ''failed to describe EC2 DHCP options in %s: %w''"

section \<open>Load balancers\<close>

definition arnOrName :: "string \<Rightarrow> string list option \<times> string list option" where
  "arnOrName i = (if HasPrefix i ''arn:'' then (Some [i], None) else (None, Some [i]))"

definition arn_input :: "string \<Rightarrow> string \<Rightarrow> aws_input" where
  "arn_input arn_field i =
    (if i = [] then no_input
     else (case arnOrName i of (arns, names) \<Rightarrow>
       no_input\<lparr>ai_Ids :=
         (case arns of None \<Rightarrow> [] | Some a \<Rightarrow> [(arn_field, a)]) @
         (case names of None \<Rightarrow> [] | Some n \<Rightarrow> [(''Names'', n)])\<rparr>))"

definition describeLoadBalancers :: aws_describe where
  "describeLoadBalancers env clients req =
    read_pages env ''failed to describe load balancers in %s: %w'' [at_Region (ar_Target req)]
      (map_option v_Page (cl_ELBv2 clients)) ServiceELBv2 ''DescribeLoadBalancers''
      (arn_input ''LoadBalancerArns'' (at_ID (ar_Target req)))"

definition describeClassicLoadBalancers :: aws_describe where
  "describeClassicLoadBalancers env clients req =
    (let i = at_ID (ar_Target req) in
     read_pages env ''failed to describe classic load balancers in %s: %w'' [at_Region (ar_Target req)]
       (cl_ELB clients) ServiceELB ''DescribeLoadBalancers''
       (if i \<noteq> [] then no_input\<lparr>ai_Ids := [(''LoadBalancerNames'', [i])]\<rparr> else no_input))"

definition describeTargetGroups :: aws_describe where
  "describeTargetGroups env clients req =
    read_pages env ''failed to describe target groups in %s: %w'' [at_Region (ar_Target req)]
      (map_option v_Page (cl_ELBv2 clients)) ServiceELBv2 ''DescribeTargetGroups''
      (arn_input ''TargetGroupArns'' (at_ID (ar_Target req)))"

definition describeTargetHealth :: aws_describe where
  "describeTargetHealth env clients req =
    (let i = at_ID (ar_Target req) in
     converted env (with_client (cl_ELBv2 clients) (\<lambda>elb.
       wrap_err ''failed to describe target health for %s in %s: %w'' [i, at_Region (ar_Target req)]
         (api_call (AwsTargetHealth i) (\<lambda>log. v_TargetHealth elb log i)))))"

section \<open>Route 53\<close>

definition describeHostedZones :: aws_describe where
  "describeHostedZones env clients req =
    read_pages env ''failed to list Route 53 hosted zones: %w'' []
      (map_option r_Page (cl_Route53 clients)) ServiceRoute53 ''ListHostedZones'' no_input"

fun record_set_pages ::
  "nat \<Rightarrow> route53_api \<Rightarrow> string \<Rightarrow> string option \<times> string option \<times> string option \<Rightarrow> sdk_object list \<Rightarrow>
   (aws_log, sdk_object list) act"
where
  "record_set_pages 0 api zone start acc =
    fail (Errw ''failed to list Route 53 record sets in zone %s: %w'' [zone] deadline)"
| "record_set_pages (Suc n) api zone start acc =
    seq (wrap_err ''failed to list Route 53 record sets in zone %s: %w'' [zone]
          (api_call (AwsRecordSets zone start) (\<lambda>log. r_RecordSets api log zone start))) (\<lambda>out.
    if \<not> rs_IsTruncated out then ret (acc @ rs_Sets out)
    else record_set_pages n api zone (rs_Next out) (acc @ rs_Sets out))"

definition describeRecordSets :: aws_describe where
  "describeRecordSets env clients req =
    converted env (with_client (cl_Route53 clients) (\<lambda>api.
      record_set_pages (ae_Budget env) api (at_ID (ar_Target req)) (None, None, None) []))"

section \<open>CloudTrail\<close>

definition cloudTrailLookbackDefault :: int where
  "cloudTrailLookbackDefault = 2 * hour"

definition CloudTrailLookbackMax :: int where
  "CloudTrailLookbackMax = 7 * 24 * hour"

definition cloudTrail_lookback :: "string \<Rightarrow> int result" where
  "cloudTrail_lookback since =
    (let raw = TrimSpace since in
     if raw = [] then Inr cloudTrailLookbackDefault
     else (case ParseDuration raw of
         Inl e \<Rightarrow> Inl (Errw ''invalid since %q: expected a duration such as 30m, 2h or 48h: %w'' [raw] e)
       | Inr parsed \<Rightarrow>
         if parsed \<le> 0 then Inl (Errf ''invalid since %q: must be positive'' [raw])
         else if parsed > CloudTrailLookbackMax
         then Inl (Errf ''invalid since %q: the longest supported lookback is %s'' [raw, ''168h0m0s''])
         else Inr parsed))"

definition cloudTrailAttributeKeys :: "aws_env \<Rightarrow> string list" where
  "cloudTrailAttributeKeys env = sort (ae_AttributeKeys env)"

definition cloudTrailAttributes :: "aws_env \<Rightarrow> string \<Rightarrow> aws_filter list option result" where
  "cloudTrailAttributes env raw =
    (case parseAWSFilters raw of
       Inl e \<Rightarrow> Inl e
     | Inr None \<Rightarrow> Inr None
     | Inr (Some []) \<Rightarrow> Inr None
     | Inr (Some ((name, vs) # rest)) \<Rightarrow>
       if rest \<noteq> []
       then Inl (Errf ''cloudtrail-events accepts a single filter, got %d'' [show_nat (Suc (length rest))])
       else if length vs \<noteq> 1
       then Inl (Errf ''cloudtrail-events filter %q accepts a single value, got %d'' [name, show_nat (length vs)])
       else if name \<notin> set (ae_AttributeKeys env)
       then Inl (Errf ''unknown cloudtrail-events filter %q, must be one of: %s''
              [name, Join (cloudTrailAttributeKeys env) '', ''])
       else Inr (Some [(name, [hd vs])]))"

definition lookupCloudTrailEvents :: aws_describe where
  "lookupCloudTrailEvents env clients req =
    seq (lift (cloudTrail_lookback (param (ar_Params req) ''since''))) (\<lambda>lookback.
    seq (lift (cloudTrailAttributes env (param (ar_Params req) ''filters''))) (\<lambda>attributes.
    read_pages env ''failed to look up CloudTrail events in %s: %w'' [at_Region (ar_Target req)]
      (cl_CloudTrail clients) ServiceCloudTrail ''LookupEvents''
      (no_input\<lparr>ai_StartTime := Some (ae_Now env - lookback), ai_Filters := attributes\<rparr>)))"

end
