(* ===== verification/Aws_Get.thy ===== *)
theory Aws_Get
  imports Aws_Read
begin

text \<open>
  The registry of readable AWS resources and the action \<open>aws-get\<close> over it
  (\<open>internal/actions/aws_get.go\<close>), with the properties of the reads of \<open>Aws_Read\<close>.
\<close>

datatype aws_id_support = awsIDOptional | awsIDRequired | awsIDUnsupported

record aws_descriptor =
  ad_service :: string
  ad_describe :: aws_describe
  ad_id :: aws_id_support
  ad_idDescription :: string
  ad_params :: "string list"

definition awsTargetParams :: "string list" where
  "awsTargetParams = [''resource'', ''id'']"

definition descriptor :: "string \<Rightarrow> aws_describe \<Rightarrow> string list \<Rightarrow> aws_descriptor" where
  "descriptor service describe params =
    \<lparr>ad_service = service, ad_describe = describe, ad_id = awsIDOptional, ad_idDescription = [],
     ad_params = params\<rparr>"

definition awsResources :: "(string \<times> aws_descriptor) list" where
  "awsResources =
    [(''ec2-instances'', descriptor ServiceEC2 describeEC2Instances [''filters'']),
     (''ec2-security-groups'', descriptor ServiceEC2 describeEC2SecurityGroups [''filters'']),
     (''ec2-subnets'', descriptor ServiceEC2 describeEC2Subnets [''filters'']),
     (''ec2-route-tables'', descriptor ServiceEC2 describeEC2RouteTables [''filters'']),
     (''ec2-vpcs'', descriptor ServiceEC2 describeEC2Vpcs [''filters'']),
     (''ec2-dhcp-options'', descriptor ServiceEC2 describeEC2DhcpOptions [''filters'']),
     (''load-balancers'', descriptor ServiceELBv2 describeLoadBalancers []),
     (''load-balancers-classic'', descriptor ServiceELB describeClassicLoadBalancers []),
     (''target-groups'', descriptor ServiceELBv2 describeTargetGroups []),
     (''target-health'', (descriptor ServiceELBv2 describeTargetHealth [])
        \<lparr>ad_id := awsIDRequired,
         ad_idDescription := ''the ARN of the target group whose targets to report on''\<rparr>),
     (''cloudtrail-events'', (descriptor ServiceCloudTrail lookupCloudTrailEvents [''filters'', ''since''])
        \<lparr>ad_id := awsIDUnsupported\<rparr>),
     (''route53-hosted-zones'', (descriptor ServiceRoute53 describeHostedZones [])
        \<lparr>ad_id := awsIDUnsupported\<rparr>),
     (''route53-record-sets'', (descriptor ServiceRoute53 describeRecordSets [])
        \<lparr>ad_id := awsIDRequired, ad_idDescription := ''the ID of the hosted zone whose records to list''\<rparr>)]"

definition AWSResourceNames :: "string list" where
  "AWSResourceNames = sort (map fst awsResources)"

definition aws_get_RequiredServices :: "aws_target \<Rightarrow> string list" where
  "aws_get_RequiredServices t =
    (case map_of awsResources (at_Resource t) of None \<Rightarrow> [] | Some d \<Rightarrow> [ad_service d])"

definition set_param_names :: "(string \<times> string) list \<Rightarrow> string list" where
  "set_param_names params = sort (map fst (filter (\<lambda>(n, v). TrimSpace v \<noteq> []) params))"

definition aws_validate :: "aws_descriptor \<Rightarrow> aws_action_request \<Rightarrow> goerr option" where
  "aws_validate d req =
    (let t = ar_Target req in
     if ad_id d = awsIDRequired \<and> at_ID t = []
     then Some (Errf ''resource %q requires an id: %s'' [at_Resource t, ad_idDescription d])
     else if ad_id d = awsIDUnsupported \<and> at_ID t \<noteq> []
     then Some (Errf ''resource %q cannot be read by id, only listed'' [at_Resource t])
     else (case find (\<lambda>n. \<not> (n \<in> set awsTargetParams \<or> n \<in> set (ad_params d))) (set_param_names (ar_Params req)) of
         None \<Rightarrow> None
       | Some n \<Rightarrow>
         Some (Errf ''resource %q does not accept the %q param, %s''
           [at_Resource t, n,
            if length (ad_params d) > 0 then ''it accepts: '' @ Join (ad_params d) '', ''
            else ''it accepts no params''])))"

definition aws_message :: "aws_descriptor \<Rightarrow> aws_action_request \<Rightarrow> nat \<Rightarrow> string" where
  "aws_message d req count =
    (let t = ar_Target req in
     if ad_id d = awsIDRequired
     then sprintf ''listed %d %s for %s in %s'' [show_nat count, at_Resource t, at_ID t, at_Region t]
     else if at_ID t \<noteq> [] then sprintf ''got %s/%s in %s'' [at_Resource t, at_ID t, at_Region t]
     else sprintf ''listed %d %s in %s'' [show_nat count, at_Resource t, at_Region t])"

definition aws_get_Execute ::
  "aws_env \<Rightarrow> aws_clients \<Rightarrow> aws_action_request \<Rightarrow> (aws_log, action_result) act"
where
  "aws_get_Execute env clients req =
    (case map_of awsResources (at_Resource (ar_Target req)) of
       None \<Rightarrow> fail (Errf ''unknown AWS resource %q, must be one of: %s''
                 [at_Resource (ar_Target req), Join AWSResourceNames '', ''])
     | Some d \<Rightarrow>
       (case aws_validate d req of
          Some e \<Rightarrow> fail e
        | None \<Rightarrow>
          seq (ad_describe d env clients req) (\<lambda>resources.
          ret \<lparr>ares_Resources = Some resources, ares_Message = aws_message d req (length resources)\<rparr>)))"

section \<open>What a read may call\<close>

fun call_service :: "aws_call \<Rightarrow> string" where
  "call_service (AwsPage service opn input pos) = service"
| "call_service (AwsTargetHealth i) = ServiceELBv2"
| "call_service (AwsRecordSets zone start) = ServiceRoute53"
| "call_service (AwsDescribeInstance i) = ServiceEC2"
| "call_service (AwsRebootInstances is) = ServiceEC2"
| "call_service (AwsTerminateInstances is) = ServiceEC2"

fun aws_mutates :: "aws_call \<Rightarrow> bool" where
  "aws_mutates (AwsRebootInstances is) = True"
| "aws_mutates (AwsTerminateInstances is) = True"
| "aws_mutates (AwsPage service opn input pos) = False"
| "aws_mutates (AwsTargetHealth i) = False"
| "aws_mutates (AwsRecordSets zone start) = False"
| "aws_mutates (AwsDescribeInstance i) = False"

definition reads_only :: "string \<Rightarrow> aws_call \<Rightarrow> bool" where
  "reads_only service c \<longleftrightarrow> \<not> aws_mutates c \<and> call_service c = service"

lemma logs_only_paginate [log_rules]:
  "(\<And>pos. logs_only P (page pos)) \<Longrightarrow> logs_only P (paginate n has_more f as page pos acc)"
  by (induction n arbitrary: pos acc) (auto intro!: log_rules)

lemma logs_only_with_client [log_rules]:
  "(\<And>api. logs_only P (f api)) \<Longrightarrow> logs_only P (with_client cl f)"
  by (auto simp: with_client_def intro!: log_rules split: option.splits)

lemma logs_only_converted [log_rules]: "logs_only P m \<Longrightarrow> logs_only P (converted env m)"
  by (auto simp: converted_def intro!: log_rules)

lemma logs_only_record_set_pages [log_rules]:
  "(\<And>start. P (AwsRecordSets zone start)) \<Longrightarrow> logs_only P (record_set_pages n api zone start acc)"
proof (induction n arbitrary: start acc)
  case (Suc n)
  show ?case unfolding record_set_pages.simps
    by (intro logs_only_seq logs_only_wrap_err logs_only_api_call logs_only_if logs_only_ret Suc)
qed (simp add: logs_only_fail)

lemmas describe_defs =
  describeEC2Instances_def describeEC2SecurityGroups_def describeEC2Subnets_def
  describeEC2RouteTables_def describeEC2Vpcs_def describeEC2DhcpOptions_def ec2_read_def
  describeLoadBalancers_def describeClassicLoadBalancers_def describeTargetGroups_def
  describeTargetHealth_def lookupCloudTrailEvents_def describeHostedZones_def describeRecordSets_def
  read_pages_def page_call_def

lemma describe_reads_only:
  "(resource, d) \<in> set awsResources \<Longrightarrow> logs_only (reads_only (ad_service d)) (ad_describe d env clients req)"
  unfolding awsResources_def descriptor_def describe_defs Let_def
  by (auto intro!: log_rules simp: reads_only_def split: prod.splits)

lemma aws_get_calls:
  "logs_only (\<lambda>c. \<not> aws_mutates c \<and> call_service c \<in> set (aws_get_RequiredServices (ar_Target req)))
     (aws_get_Execute env clients req)"
proof (cases "map_of awsResources (at_Resource (ar_Target req))")
  case None
  then show ?thesis by (simp add: aws_get_Execute_def logs_only_fail)
next
  case (Some d)
  have "logs_only (reads_only (ad_service d)) (ad_describe d env clients req)"
    using describe_reads_only map_of_SomeD [OF Some] .
  then have "logs_only (\<lambda>c. \<not> aws_mutates c \<and> call_service c \<in> set (aws_get_RequiredServices (ar_Target req)))
      (ad_describe d env clients req)"
    by (rule logs_only_mono) (simp add: reads_only_def aws_get_RequiredServices_def Some)
  with Some show ?thesis
    by (auto simp: aws_get_Execute_def intro!: log_rules split: option.splits)
qed

text \<open>
  Reading AWS changes nothing and stays within the declared service: whatever the request, every
  call aws-get makes is a read, of the one service it declared for the target.
\<close>
theorem aws_get_only_reads_its_declared_service:
  "logs_only (\<lambda>c. \<not> aws_mutates c \<and> call_service c \<in> set (aws_get_RequiredServices (ar_Target req)))
     (aws_get_Execute env clients req)"
  by (rule aws_get_calls)

section \<open>A request is judged before it is run\<close>

lemma find_None_iff_set: "find P xs = None \<longleftrightarrow> (\<forall>x \<in> set xs. \<not> P x)"
  by (induction xs) auto

lemma aws_validate_None:
  "aws_validate d req = None \<longleftrightarrow>
    \<not> (ad_id d = awsIDRequired \<and> at_ID (ar_Target req) = []) \<and>
    \<not> (ad_id d = awsIDUnsupported \<and> at_ID (ar_Target req) \<noteq> []) \<and>
    set (set_param_names (ar_Params req)) \<subseteq> {''resource'', ''id''} \<union> set (ad_params d)"
proof (cases "find (\<lambda>n. \<not> (n \<in> set awsTargetParams \<or> n \<in> set (ad_params d))) (set_param_names (ar_Params req))")
  case None
  then have "set (set_param_names (ar_Params req)) \<subseteq> {''resource'', ''id''} \<union> set (ad_params d)"
    unfolding find_None_iff_set awsTargetParams_def by auto
  then show ?thesis by (simp only: aws_validate_def Let_def None option.case) auto
next
  case (Some n)
  have "\<not> set (set_param_names (ar_Params req)) \<subseteq> {''resource'', ''id''} \<union> set (ad_params d)"
    using find_SomeD [OF Some] unfolding awsTargetParams_def by auto
  then show ?thesis by (simp only: aws_validate_def Let_def Some option.case) auto
qed

text \<open>
  C32. aws-get refuses what a resource does not understand, before any call: an execution gets to the
  read exactly when the resource is a known one, the id is present where it is required and absent
  where the resource cannot be narrowed, and every param with a non-blank value is one the resource
  accepts; otherwise it is an error with no call made.
\<close>
theorem aws_get_refuses_before_any_call:
  "aws_get_Execute env clients req log =
    (case map_of awsResources (at_Resource (ar_Target req)) of
       Some d \<Rightarrow>
         if ad_id d \<noteq> (if at_ID (ar_Target req) = [] then awsIDRequired else awsIDUnsupported) \<and>
            fst ` {p \<in> set (ar_Params req). TrimSpace (snd p) \<noteq> []} \<subseteq> {''resource'', ''id''} \<union> set (ad_params d)
         then (case ad_describe d env clients req log of
             (Inl e, log') \<Rightarrow> (Inl e, log')
           | (Inr rs, log') \<Rightarrow>
             (Inr \<lparr>ares_Resources = Some rs, ares_Message = aws_message d req (length rs)\<rparr>, log'))
         else (Inl (the (aws_validate d req)), log)
     | None \<Rightarrow>
       (Inl (Errf ''unknown AWS resource %q, must be one of: %s''
          [at_Resource (ar_Target req), Join AWSResourceNames '', '']), log))"
proof (cases "map_of awsResources (at_Resource (ar_Target req))")
  case None
  then show ?thesis by (simp add: aws_get_Execute_def fail_def)
next
  case (Some d)
  have names: "set (set_param_names (ar_Params req)) = fst ` {p \<in> set (ar_Params req). TrimSpace (snd p) \<noteq> []}"
    by (force simp: set_param_names_def)
  let ?ok = "ad_id d \<noteq> (if at_ID (ar_Target req) = [] then awsIDRequired else awsIDUnsupported) \<and>
      fst ` {p \<in> set (ar_Params req). TrimSpace (snd p) \<noteq> []} \<subseteq> {''resource'', ''id''} \<union> set (ad_params d)"
  have valid: "aws_validate d req = None \<longleftrightarrow> ?ok"
    unfolding aws_validate_None names by (cases "at_ID (ar_Target req) = []") auto
  show ?thesis
  proof (cases "aws_validate d req")
    case None
    with valid have ok: ?ok by blast
    show ?thesis
      by (simp only: aws_get_Execute_def Some None option.case ok simp_thms if_True)
        (auto simp: seq_def ret_def split: prod.splits sum.splits)
  next
    case (Some e)
    with valid have ok: "\<not> ?ok" by simp
    show ?thesis
      by (simp only: aws_get_Execute_def \<open>map_of _ _ = Some d\<close> Some option.case ok if_False)
        (simp add: fail_def)
  qed
qed

section \<open>Every page is read\<close>

fun serves ::
  "(page_pos \<Rightarrow> (aws_log, 'x list \<times> string option) act) \<Rightarrow> aws_log \<Rightarrow> page_pos \<Rightarrow> 'x list list \<Rightarrow> aws_log \<Rightarrow> bool"
where
  "serves page log pos [] log' = False"
| "serves page log pos [p] log' = (page pos log = (Inr (p, None), log'))"
| "serves page log pos (p # q # ps) log' =
    (\<exists>t log1. page pos log = (Inr (p, Some t), log1) \<and> serves page log1 (AfterPage (Some t)) (q # ps) log')"

definition token_pagination :: "(page_pos \<Rightarrow> bool) \<Rightarrow> bool" where
  "token_pagination has_more \<longleftrightarrow>
    has_more FirstPage \<and> (\<forall>t. has_more (AfterPage (Some t))) \<and> \<not> has_more (AfterPage None)"

lemma paginate_complete:
  assumes tp: "token_pagination has_more"
  shows "has_more pos \<Longrightarrow> serves page log pos pages log' \<Longrightarrow> length pages \<le> n \<Longrightarrow>
    paginate n has_more f as page pos acc log = (Inr (acc @ concat pages), log')"
proof (induction page log pos pages log' arbitrary: n acc rule: serves.induct)
  case (2 page log pos p log')
  then obtain m where "n = Suc m" by (cases n) auto
  with 2 tp show ?case
    by (cases m) (auto simp: seq_def wrap_err_def ret_def token_pagination_def)
next
  case (3 page log pos p q ps log')
  then obtain m where n: "n = Suc m" by (cases n) auto
  from "3.prems"(2) obtain t log1 where t: "page pos log = (Inr (p, Some t), log1)"
      "serves page log1 (AfterPage (Some t)) (q # ps) log'" by auto
  have "paginate m has_more f as page (AfterPage (Some t)) (acc @ p) log1 =
      (Inr ((acc @ p) @ concat (q # ps)), log')"
    using "3.IH" t(2) tp "3.prems"(3) n by (auto simp: token_pagination_def)
  with t "3.prems"(1) n show ?case by (simp add: seq_def wrap_err_def)
qed simp

lemma paginate_sound:
  assumes tp: "token_pagination has_more"
  shows "has_more pos \<Longrightarrow> paginate n has_more f as page pos acc log = (Inr r, log') \<Longrightarrow>
    \<exists>pages. serves page log pos pages log' \<and> length pages \<le> n \<and> r = acc @ concat pages"
proof (induction n arbitrary: pos acc log)
  case 0
  then show ?case by (simp add: fail_def)
next
  case (Suc n)
  from Suc.prems obtain items token log1 where
    page: "page pos log = (Inr (items, token), log1)"
    and rest: "paginate n has_more f as page (AfterPage token) (acc @ items) log1 = (Inr r, log')"
    by (auto elim!: seq_InrE)
  show ?case
  proof (cases token)
    case None
    with rest tp have "r = acc @ items" "log1 = log'"
      by (cases n; auto simp: token_pagination_def ret_def)+
    with page None show ?thesis by (intro exI [of _ "[items]"]) simp
  next
    case (Some t)
    with tp have "has_more (AfterPage token)" by (simp add: token_pagination_def)
    from Suc.IH [OF this rest] obtain pages where
      p: "serves page log1 (AfterPage token) pages log'" "length pages \<le> n" "r = (acc @ items) @ concat pages"
      by blast
    then obtain q ps where "pages = q # ps" by (cases pages) auto
    with p page Some show ?thesis by (intro exI [of _ "items # pages"]) auto
  qed
qed


definition demo_env :: "nat \<Rightarrow> aws_env" where
  "demo_env budget =
    \<lparr>ae_More = (\<lambda>pos. pos \<noteq> AfterPage None),
     ae_Codec = \<lparr>sdk_marshal = (\<lambda>ob. Inr ''{}''), sdk_unmarshal = (\<lambda>raw. Inr [(''Id'', JStr raw), (''Tags'', JNull)])\<rparr>,
     ae_Budget = budget, ae_Now = 0, ae_AttributeKeys = [''EventName'', ''Username'']\<rparr>"

definition two_pages :: page_api where
  "two_pages log opn input pos =
    Inr ([SdkStruct ''Subnet'' JNull], if pos = FirstPage then Some ''next'' else None)"


section \<open>The filter syntax\<close>

lemma length_map_filter: "list_all (\<lambda>x. f x \<noteq> None) xs \<Longrightarrow> length (List.map_filter f xs) = length xs"
  by (induction xs) auto

definition pair_of :: "string \<Rightarrow> (string \<times> string) option" where
  "pair_of p =
    (case Cut CHR ''='' (TrimSpace p) of (n, v, found) \<Rightarrow>
      if found \<and> TrimSpace n \<noteq> [] then Some (TrimSpace n, TrimSpace v) else None)"

definition entries :: "string \<Rightarrow> string list" where
  "entries raw = filter (\<lambda>p. TrimSpace p \<noteq> []) (Split CHR '','' raw)"

definition values_of :: "(string \<times> string) list \<Rightarrow> string \<Rightarrow> string list" where
  "values_of pairs n = map snd (filter (\<lambda>p. fst p = n) pairs)"

lemma values_of_Nil [simp]: "values_of [] n = []"
  by (simp add: values_of_def)

lemma values_of_Cons: "values_of ((a, v) # ps) n = (if a = n then v # values_of ps n else values_of ps n)"
  by (simp add: values_of_def)

definition got :: "(string \<times> string list) list \<Rightarrow> string \<Rightarrow> string list" where
  "got m n = (case map_of m n of None \<Rightarrow> [] | Some vs \<Rightarrow> vs)"

lemma got_alput [simp]: "got (alput k vs m) n = (if n = k then vs else got m n)"
  by (simp add: got_def)

lemma collect_pairs_Inl:
  "(\<exists>e. collect_pairs ps m = Inl e) \<longleftrightarrow> (\<exists>p \<in> set ps. TrimSpace p \<noteq> [] \<and> pair_of p = None)"
proof (induction ps arbitrary: m)
  case (Cons p ps)
  show ?case
  proof (cases "TrimSpace p = []")
    case True
    with Cons show ?thesis by (simp add: Let_def)
  next
    case False
    obtain n v found where cut: "Cut CHR ''='' (TrimSpace p) = (n, v, found)"
      by (cases "Cut CHR ''='' (TrimSpace p)")
    show ?thesis
    proof (cases "found \<and> TrimSpace n \<noteq> []")
      case True
      with False cut Cons [of "alput (TrimSpace n) (got m (TrimSpace n) @ [TrimSpace v]) m"]
      show ?thesis by (simp add: pair_of_def Let_def got_def)
    next
      case False
      with \<open>TrimSpace p \<noteq> []\<close> cut show ?thesis by (auto simp: pair_of_def Let_def)
    qed
  qed
qed simp

lemma collect_pairs_Inr:
  assumes "collect_pairs ps m = Inr vs"
  defines "pairs \<equiv> List.map_filter pair_of (filter (\<lambda>p. TrimSpace p \<noteq> []) ps)"
  shows "got vs n = got m n @ values_of pairs n"
    and "set (map fst vs) = set (map fst m) \<union> set (map fst pairs)"
    and "distinct (map fst m) \<Longrightarrow> distinct (map fst vs)"
proof -
  have "collect_pairs ps m = Inr vs \<Longrightarrow>
      got vs n = got m n @ values_of (List.map_filter pair_of (filter (\<lambda>p. TrimSpace p \<noteq> []) ps)) n \<and>
      set (map fst vs) = set (map fst m) \<union>
        set (map fst (List.map_filter pair_of (filter (\<lambda>p. TrimSpace p \<noteq> []) ps))) \<and>
      (distinct (map fst m) \<longrightarrow> distinct (map fst vs))"
  proof (induction ps arbitrary: m)
    case (Cons p ps)
    show ?case
    proof (cases "TrimSpace p = []")
      case True
      with Cons show ?thesis by (simp add: Let_def)
    next
      case False
      obtain a v found where cut: "Cut CHR ''='' (TrimSpace p) = (a, v, found)"
        by (cases "Cut CHR ''='' (TrimSpace p)")
      with False Cons.prems have ok: "found" "TrimSpace a \<noteq> []"
        by (auto simp: Let_def split: if_splits)
      have "collect_pairs ps (alput (TrimSpace a) (got m (TrimSpace a) @ [TrimSpace v]) m) = Inr vs"
        using Cons.prems False cut ok by (simp add: Let_def got_def)
      from Cons.IH [OF this] False cut ok show ?thesis
        by (auto simp: pair_of_def values_of_Cons distinct_alput simp flip: set_map)
    qed
  qed simp
  then show "got vs n = got m n @ values_of pairs n"
      "set (map fst vs) = set (map fst m) \<union> set (map fst pairs)"
      "distinct (map fst m) \<Longrightarrow> distinct (map fst vs)"
    using assms by auto
qed


text \<open>
  C35. A CloudTrail lookup is always bounded: every call it makes is a page of \<open>LookupEvents\<close> whose start
  time lies at most seven days before now, and before now, with at most one lookup attribute, of a key the
  service knows and with a single value.
\<close>
theorem cloudtrail_window_is_bounded:
  "logs_only (\<lambda>call. \<exists>input pos st. call = AwsPage ServiceCloudTrail ''LookupEvents'' input pos \<and>
      ai_StartTime input = Some st \<and> ae_Now env - 7 * 24 * hour \<le> st \<and> st < ae_Now env \<and>
      (ai_Filters input = None \<or> (\<exists>k v. ai_Filters input = Some [(k, [v])] \<and> k \<in> set (ae_AttributeKeys env))))
    (lookupCloudTrailEvents env clients req)"
proof -
  have lookback: "0 < d \<and> d \<le> 7 * 24 * hour" if "cloudTrail_lookback s = Inr d" for s d
    using that by (auto simp: cloudTrail_lookback_def Let_def cloudTrailLookbackDefault_def
        CloudTrailLookbackMax_def hour_def split: if_splits sum.splits)
  have attributes: "a = None \<or> (\<exists>k v. a = Some [(k, [v])] \<and> k \<in> set (ae_AttributeKeys env))"
    if "cloudTrailAttributes env s = Inr a" for s a
    using that by (auto simp: cloudTrailAttributes_def length_Suc_conv
        split: sum.splits option.splits list.splits if_splits)
  show ?thesis
    unfolding lookupCloudTrailEvents_def read_pages_def page_call_def
    by (intro logs_only_lift_seq) (auto intro!: log_rules dest!: lookback attributes)
qed

end
