(* ===== verification/Aws_Write.thy ===== *)
theory Aws_Write
  imports Aws_Get
begin

text \<open>
  The two actions that change AWS (\<open>internal/actions/aws_write.go\<close>): \<open>aws-reboot\<close> and
  \<open>aws-terminate\<close>, and the ownership check in front of both.
\<close>

definition awsWriteResourceInstances :: string where
  "awsWriteResourceInstances = ''ec2-instances''"

definition clusterOwnershipTagValue :: string where
  "clusterOwnershipTagValue = ''owned''"

definition clusterOwnershipTag :: "string \<Rightarrow> string" where
  "clusterOwnershipTag infraID = ''kubernetes.io/cluster/'' @ infraID"

text \<open>\<open>aws.ToString\<close>: a nil pointer reads as the empty string.\<close>

definition ToString :: "string option \<Rightarrow> string" where
  "ToString p = (case p of None \<Rightarrow> [] | Some s \<Rightarrow> s)"

text \<open>
  The inner loop stops at the first candidate with the id, the outer one goes on: the last reservation
  with a match decides.
\<close>

fun find_instance :: "ec2_instance list list \<Rightarrow> string \<Rightarrow> ec2_instance option \<Rightarrow> ec2_instance option" where
  "find_instance [] i found = found"
| "find_instance (r # rs) i found =
    find_instance rs i
      (case find (\<lambda>c. ToString (in_InstanceId c) = i) r of None \<Rightarrow> found | Some c \<Rightarrow> Some c)"

definition owned_by :: "string \<Rightarrow> ec2_instance \<Rightarrow> bool" where
  "owned_by infraID inst \<longleftrightarrow>
    list_ex (\<lambda>(k, v). ToString k = clusterOwnershipTag infraID \<and> ToString v = clusterOwnershipTagValue)
      (in_Tags inst)"

definition requireClusterInstance :: "aws_clients \<Rightarrow> aws_target \<Rightarrow> (aws_log, ec2_instance) act" where
  "requireClusterInstance clients t =
    (if at_ID t = [] then fail (Errf ''an instance id is required'' [])
     else if at_InfraID t = []
     then fail (Errf ''cannot verify that instance %s belongs to the cluster: no infrastructure ID is known for it''
                 [at_ID t])
     else with_client (cl_EC2 clients) (\<lambda>ec2.
       seq (wrap_err ''failed to describe instance %s in %s: %w'' [at_ID t, at_Region t]
             (api_call (AwsDescribeInstance (at_ID t)) (\<lambda>log. e_DescribeInstance ec2 log (at_ID t))))
         (\<lambda>reservations.
       case find_instance reservations (at_ID t) None of
         None \<Rightarrow> fail (Errf ''instance %s was not found in %s'' [at_ID t, at_Region t])
       | Some inst \<Rightarrow>
         if owned_by (at_InfraID t) inst then ret inst
         else fail (Errf ''instance %s does not belong to cluster %s: it is not tagged %s=%s''
                     [at_ID t, at_InfraID t, clusterOwnershipTag (at_InfraID t), clusterOwnershipTagValue]))))"

definition aws_reboot_Execute ::
  "aws_env \<Rightarrow> aws_clients \<Rightarrow> aws_action_request \<Rightarrow> (aws_log, action_result) act"
where
  "aws_reboot_Execute env clients req =
    (let t = ar_Target req in
     seq (requireClusterInstance clients t) (\<lambda>inst.
     seq (with_client (cl_EC2 clients) (\<lambda>ec2.
           wrap_err ''failed to reboot instance %s in %s: %w'' [at_ID t, at_Region t]
             (api_call (AwsRebootInstances [at_ID t]) (\<lambda>log. e_RebootInstances ec2 log [at_ID t])))) (\<lambda>_.
     seq (lift (awsResourcesFrom (ae_Codec env) [SdkInstance inst])) (\<lambda>resources.
     ret \<lparr>ares_Resources = Some resources,
          ares_Message = sprintf ''requested reboot of %s in %s'' [at_ID t, at_Region t]\<rparr>))))"

definition stateChangeSuffix :: "state_change list option \<Rightarrow> string" where
  "stateChangeSuffix output =
    (case output of
       None \<Rightarrow> []
     | Some [] \<Rightarrow> []
     | Some (change # _) \<Rightarrow>
       (case (sc_Previous change, sc_Current change) of
          (Some p, Some c) \<Rightarrow> sprintf '' (%s -> %s)'' [p, c]
        | _ \<Rightarrow> []))"

definition aws_terminate_Execute ::
  "aws_env \<Rightarrow> aws_clients \<Rightarrow> aws_action_request \<Rightarrow> (aws_log, action_result) act"
where
  "aws_terminate_Execute env clients req =
    (let t = ar_Target req in
     seq (requireClusterInstance clients t) (\<lambda>inst.
     seq (with_client (cl_EC2 clients) (\<lambda>ec2.
           wrap_err ''failed to terminate instance %s in %s: %w'' [at_ID t, at_Region t]
             (api_call (AwsTerminateInstances [at_ID t]) (\<lambda>log. e_TerminateInstances ec2 log [at_ID t])))) (\<lambda>output.
     seq (lift (awsResourcesFrom (ae_Codec env) [SdkInstance inst])) (\<lambda>resources.
     ret \<lparr>ares_Resources = Some resources,
          ares_Message = sprintf ''requested termination of %s in %s%s''
            [at_ID t, at_Region t, stateChangeSuffix output]\<rparr>))))"

definition aws_write_RequiredServices :: "aws_target \<Rightarrow> string list" where
  "aws_write_RequiredServices t = [ServiceEC2]"

section \<open>Ownership before any change\<close>

lemma find_instance_SomeD:
  "find_instance rs i found = Some inst \<Longrightarrow>
    found = Some inst \<or> (ToString (in_InstanceId inst) = i \<and> inst \<in> set (concat rs))"
  by (induction rs i found rule: find_instance.induct) (auto split: option.splits dest!: find_SomeD)

text \<open>What the ownership check proves about an instance it lets pass.\<close>

definition ownership_shown :: "ec2_api \<Rightarrow> aws_target \<Rightarrow> aws_log \<Rightarrow> ec2_instance \<Rightarrow> bool" where
  "ownership_shown ec2 t log inst \<longleftrightarrow>
    at_ID t \<noteq> [] \<and> at_InfraID t \<noteq> [] \<and>
    (\<exists>reservations. e_DescribeInstance ec2 log (at_ID t) = Inr reservations \<and> inst \<in> set (concat reservations) \<and>
      ToString (in_InstanceId inst) = at_ID t \<and>
      (\<exists>(k, v) \<in> set (in_Tags inst). ToString k = ''kubernetes.io/cluster/'' @ at_InfraID t \<and> ToString v = ''owned''))"

lemma requireClusterInstance_Inr:
  assumes "requireClusterInstance clients t log = (Inr inst, log')"
  obtains ec2 where "cl_EC2 clients = Some ec2" "log' = log @ [AwsDescribeInstance (at_ID t)]"
    "ownership_shown ec2 t log inst"
proof -
  from assms obtain ec2 reservations where
    r: "cl_EC2 clients = Some ec2" "at_ID t \<noteq> []" "at_InfraID t \<noteq> []"
      "e_DescribeInstance ec2 log (at_ID t) = Inr reservations"
      "find_instance reservations (at_ID t) None = Some inst" "owned_by (at_InfraID t) inst"
      "log' = log @ [AwsDescribeInstance (at_ID t)]"
    by (auto simp: requireClusterInstance_def with_client_def fail_def ret_def api_call_def
        elim!: seq_InrE split: if_splits option.splits)
  from find_instance_SomeD [OF r(5)] r that show thesis
    by (auto simp: ownership_shown_def owned_by_def list_ex_iff clusterOwnershipTag_def
        clusterOwnershipTagValue_def)
qed

lemma requireClusterInstance_reads:
  "logs_only (\<lambda>c. c = AwsDescribeInstance (at_ID t)) (requireClusterInstance clients t)"
  unfolding requireClusterInstance_def by (auto intro!: log_rules)

lemma write_after_check:
  assumes check: "requireClusterInstance clients t log = (r, log1)"
    and run: "snd (seq (requireClusterInstance clients t) (\<lambda>inst. seq (with_client (cl_EC2 clients) (\<lambda>ec2.
      wrap_err f as (api_call c (answer ec2)))) (g inst)) log) = log'"
    and tail: "\<And>inst out. logs_only (\<lambda>_. False) (g inst out)"
  shows "(\<exists>e. r = Inl e) \<and> log' = log1 \<or> (\<exists>inst. r = Inr inst) \<and> log' = log1 @ [c]"
proof (cases r)
  case (Inl e)
  with check run show ?thesis by (auto simp: snd_seq)
next
  case (Inr inst)
  with check obtain ec2 where ec2: "cl_EC2 clients = Some ec2" by (auto elim: requireClusterInstance_Inr)
  have "snd (g inst out l) = l" for out l
    using tail [of inst out] by (rule logs_nothing)
  with Inr check run ec2 show ?thesis
    by (auto simp: snd_seq with_client_def wrap_err_def api_call_def split: prod.splits sum.splits)
qed

lemma no_calls_rest: "logs_only (\<lambda>_. False) (seq (lift r) (\<lambda>x. ret (h x)))"
  by (auto intro!: log_rules)

lemma reboot_calls:
  "requireClusterInstance clients (ar_Target req) log = (r, log1) \<Longrightarrow>
   (\<exists>e. r = Inl e) \<and> snd (aws_reboot_Execute env clients req log) = log1 \<or>
   (\<exists>inst. r = Inr inst) \<and>
     snd (aws_reboot_Execute env clients req log) = log1 @ [AwsRebootInstances [at_ID (ar_Target req)]]"
  unfolding aws_reboot_Execute_def Let_def by (rule write_after_check [OF _ refl no_calls_rest])

lemma terminate_calls:
  "requireClusterInstance clients (ar_Target req) log = (r, log1) \<Longrightarrow>
   (\<exists>e. r = Inl e) \<and> snd (aws_terminate_Execute env clients req log) = log1 \<or>
   (\<exists>inst. r = Inr inst) \<and>
     snd (aws_terminate_Execute env clients req log) = log1 @ [AwsTerminateInstances [at_ID (ar_Target req)]]"
  unfolding aws_terminate_Execute_def Let_def by (rule write_after_check [OF _ refl no_calls_rest])

lemma check_calls:
  assumes "requireClusterInstance clients t log = (Inl e, log1)"
  shows "log1 \<in> {log, log @ [AwsDescribeInstance (at_ID t)]}"
  using assms
  by (auto simp: requireClusterInstance_def with_client_def seq_def wrap_err_def fail_def ret_def api_call_def
      split: if_splits option.splits prod.splits sum.splits)

lemma write_cases:
  assumes check: "requireClusterInstance clients t log = (r, log1)"
    and calls: "(\<exists>e. r = Inl e) \<and> log' = log1 \<or> (\<exists>inst. r = Inr inst) \<and> log' = log1 @ [c]"
  shows "log' \<in> {log, log @ [AwsDescribeInstance (at_ID t)]} \<or>
    (\<exists>ec2 inst. cl_EC2 clients = Some ec2 \<and> ownership_shown ec2 t log inst \<and>
       log' = log @ [AwsDescribeInstance (at_ID t), c])"
proof (cases r)
  case (Inl e)
  with calls check_calls [OF check [unfolded Inl]] show ?thesis by auto
next
  case (Inr inst)
  with check obtain ec2 where "cl_EC2 clients = Some ec2" "log1 = log @ [AwsDescribeInstance (at_ID t)]"
      "ownership_shown ec2 t log inst"
    by (auto elim: requireClusterInstance_Inr)
  with calls Inr show ?thesis by auto
qed

lemma reboot_cases:
  "let log' = snd (aws_reboot_Execute env clients req log); t = ar_Target req in
     log' \<in> {log, log @ [AwsDescribeInstance (at_ID t)]} \<or>
     (\<exists>ec2 inst. cl_EC2 clients = Some ec2 \<and> ownership_shown ec2 t log inst \<and>
        log' = log @ [AwsDescribeInstance (at_ID t), AwsRebootInstances [at_ID t]])"
proof -
  obtain r log1 where check: "requireClusterInstance clients (ar_Target req) log = (r, log1)"
    by (cases "requireClusterInstance clients (ar_Target req) log")
  show ?thesis unfolding Let_def by (rule write_cases [OF check reboot_calls [OF check]])
qed

lemma terminate_cases:
  "let log' = snd (aws_terminate_Execute env clients req log); t = ar_Target req in
     log' \<in> {log, log @ [AwsDescribeInstance (at_ID t)]} \<or>
     (\<exists>ec2 inst. cl_EC2 clients = Some ec2 \<and> ownership_shown ec2 t log inst \<and>
        log' = log @ [AwsDescribeInstance (at_ID t), AwsTerminateInstances [at_ID t]])"
proof -
  obtain r log1 where check: "requireClusterInstance clients (ar_Target req) log = (r, log1)"
    by (cases "requireClusterInstance clients (ar_Target req) log")
  show ?thesis unfolding Let_def by (rule write_cases [OF check terminate_calls [OF check]])
qed

text \<open>
  C31. An instance is rebooted or terminated only when it is the cluster's own: a run of either action
  makes no changing call at all, or exactly one, on exactly the instance the target names and right after
  the description of that instance, in which an instance of that very id carries the tag
  \<open>kubernetes.io/cluster/<infra id>=owned\<close> of the target's non-empty infrastructure ID.
\<close>
theorem aws_writes_touch_only_owned_instances:
  fixes clients req log
  defines "t \<equiv> ar_Target req"
  defines "checked \<equiv> AwsDescribeInstance (at_ID t)"
  shows
    "(let log' = snd (aws_reboot_Execute env clients req log) in
       log' \<in> {log, log @ [checked]} \<or>
       (\<exists>ec2 inst. cl_EC2 clients = Some ec2 \<and> ownership_shown ec2 t log inst \<and>
          log' = log @ [checked, AwsRebootInstances [at_ID t]])) \<and>
     (let log' = snd (aws_terminate_Execute env clients req log) in
       log' \<in> {log, log @ [checked]} \<or>
       (\<exists>ec2 inst. cl_EC2 clients = Some ec2 \<and> ownership_shown ec2 t log inst \<and>
          log' = log @ [checked, AwsTerminateInstances [at_ID t]]))"
  using reboot_cases [of env clients req log] terminate_cases [of env clients req log]
  by (auto simp: t_def checked_def Let_def)

end
