(* ===== verification/Registry.thy ===== *)
theory Registry
  imports Kube_Actions List_Alerts Aws_Write
begin

text \<open>
  The action registry of \<open>internal/actions/actions.go\<close>: the two kinds of actions, their
  registration by the \<open>init\<close> functions of the package, and the lookup by name.  The properties cover
  all registered actions at once.
\<close>

text \<open>
  An AWS action is a write when it also implements \<open>AWSWriteAction\<close>, that is when it declares an
  operation and a resource.
\<close>

record aws_action =
  aa_Name :: string
  aa_RequiredServices :: "aws_target \<Rightarrow> string list"
  aa_Execute :: "aws_env \<Rightarrow> aws_clients \<Rightarrow> aws_action_request \<Rightarrow> (aws_log, action_result) act"
  aa_Write :: "(string \<times> string) option"

datatype action = KubeAct kube_action | AwsAct aws_action

fun action_Name :: "action \<Rightarrow> string" where
  "action_Name (KubeAct a) = ka_Name a"
| "action_Name (AwsAct a) = aa_Name a"

definition AWSOperationReboot :: string where
  "AWSOperationReboot = ''reboot''"

definition AWSOperationTerminate :: string where
  "AWSOperationTerminate = ''terminate''"

definition NewAWSGetAction :: aws_action where
  "NewAWSGetAction = \<lparr>aa_Name = ''aws-get'', aa_RequiredServices = aws_get_RequiredServices,
     aa_Execute = aws_get_Execute, aa_Write = None\<rparr>"

definition NewAWSRebootAction :: aws_action where
  "NewAWSRebootAction = \<lparr>aa_Name = ''aws-reboot'', aa_RequiredServices = aws_write_RequiredServices,
     aa_Execute = aws_reboot_Execute, aa_Write = Some (AWSOperationReboot, awsWriteResourceInstances)\<rparr>"

definition NewAWSTerminateAction :: aws_action where
  "NewAWSTerminateAction = \<lparr>aa_Name = ''aws-terminate'', aa_RequiredServices = aws_write_RequiredServices,
     aa_Execute = aws_terminate_Execute, aa_Write = Some (AWSOperationTerminate, awsWriteResourceInstances)\<rparr>"

definition RegisterActionFactory :: "action \<Rightarrow> (string \<times> action) list \<Rightarrow> (string \<times> action) list" where
  "RegisterActionFactory a m = alput (action_Name a) a m"

text \<open>The package's files are initialised in file name order.\<close>

definition nameToActionFactory :: "(string \<times> action) list" where
  "nameToActionFactory =
    fold RegisterActionFactory
      [AwsAct NewAWSGetAction, AwsAct NewAWSRebootAction, AwsAct NewAWSTerminateAction,
       KubeAct NewDeleteAction, KubeAct NewDescribeNodesAction, KubeAct NewGetAction,
       KubeAct NewGetPullSecretEmailAction, KubeAct NewListAlertsAction, KubeAct NewPatchAction] []"

definition CreateAction :: "string \<Rightarrow> action option" where
  "CreateAction actionName = map_of nameToActionFactory actionName"

definition GetActionsNames :: "string list" where
  "GetActionsNames = sort (map fst nameToActionFactory)"

lemma nameToActionFactory_eq:
  "nameToActionFactory =
    [(''aws-get'', AwsAct NewAWSGetAction), (''aws-reboot'', AwsAct NewAWSRebootAction),
     (''aws-terminate'', AwsAct NewAWSTerminateAction), (''delete'', KubeAct NewDeleteAction),
     (''describe-nodes'', KubeAct NewDescribeNodesAction), (''get'', KubeAct NewGetAction),
     (''get-pull-secret-email'', KubeAct NewGetPullSecretEmailAction),
     (''list-alerts'', KubeAct NewListAlertsAction), (''patch'', KubeAct NewPatchAction)]"
  by (simp add: nameToActionFactory_def RegisterActionFactory_def NewAWSGetAction_def
      NewAWSRebootAction_def NewAWSTerminateAction_def NewDeleteAction_def NewDescribeNodesAction_def
      NewGetAction_def NewGetPullSecretEmailAction_def NewListAlertsAction_def NewPatchAction_def)

lemma registered_cases:
  assumes "CreateAction n = Some a"
  shows "(n, a) \<in> set nameToActionFactory" and "action_Name a = n"
proof -
  show mem: "(n, a) \<in> set nameToActionFactory"
    using assms unfolding CreateAction_def by (rule map_of_SomeD)
  then show "action_Name a = n"
    by (auto simp: nameToActionFactory_eq NewAWSGetAction_def NewAWSRebootAction_def
        NewAWSTerminateAction_def NewDeleteAction_def NewDescribeNodesAction_def NewGetAction_def
        NewGetPullSecretEmailAction_def NewListAlertsAction_def NewPatchAction_def)
qed

lemma registered_kube:
  "CreateAction n = Some (KubeAct a) \<Longrightarrow>
    a \<in> {NewDeleteAction, NewDescribeNodesAction, NewGetAction, NewGetPullSecretEmailAction,
         NewListAlertsAction, NewPatchAction}"
  using registered_cases(1) [of n "KubeAct a"] by (auto simp: nameToActionFactory_eq)

lemma registered_aws:
  "CreateAction n = Some (AwsAct a) \<Longrightarrow>
    a \<in> {NewAWSGetAction, NewAWSRebootAction, NewAWSTerminateAction}"
  using registered_cases(1) [of n "AwsAct a"] by (auto simp: nameToActionFactory_eq)

lemmas kube_least_privileged =
  get_least_privileged patch_least_privileged delete_least_privileged pull_secret_least_privileged
  describe_least_privileged alerts_least_privileged

text \<open>
  C29. Every Kubernetes action of the registry is least-privileged: for any target and parameters, each call
  it makes to the cluster is granted by the RBAC rules it declared for that target, and a pod executor is
  only used by an action that says it needs one.
\<close>
theorem registered_kube_actions_stay_within_their_rbac:
  assumes "CreateAction n = Some (KubeAct a)"
    and "c \<in> set (snd (ka_Execute a clients req []))"
  shows "rules_grant (ka_RequiredRBAC a (kr_Target req)) c \<and>
    (\<forall>ns pod container cmd. c = KExec ns pod container cmd \<longrightarrow> ka_UsesPodExec a)"
proof
  have "least_privileged a"
    using registered_kube [OF assms(1)] kube_least_privileged by auto
  then show granted: "rules_grant (ka_RequiredRBAC a (kr_Target req)) c"
    using assms(2) by (rule least_privileged_call)
  show "\<forall>ns pod container cmd. c = KExec ns pod container cmd \<longrightarrow> ka_UsesPodExec a"
  proof (intro allI impI)
    fix ns pod container cmd
    assume c: "c = KExec ns pod container cmd"
    with granted have "\<exists>r \<in> set (ka_RequiredRBAC a (kr_Target req)). ''create'' \<in> set (rr_Verbs r)"
      by (auto simp: rules_grant_def rule_grants_def)
    with registered_kube [OF assms(1)] show "ka_UsesPodExec a"
      by (auto simp: NewDeleteAction_def NewDescribeNodesAction_def NewGetAction_def
          NewGetPullSecretEmailAction_def NewListAlertsAction_def NewPatchAction_def
          delete_RequiredRBAC_def describe_RequiredRBAC_def get_RequiredRBAC_def
          pull_secret_RequiredRBAC_def patch_RequiredRBAC_def rule_for_def Let_def split: if_splits)
  qed
qed

lemma registered_kube_witness:
  "rules_grant (get_RequiredRBAC (kr_Target sample_request)) (KGet \<lparr>gv_Group = [], gv_Version = ''v1'',
     gv_Resource = ''pods''\<rparr> ''default'' ''web'')"
proof -
  have "CreateAction ''get'' = Some (KubeAct NewGetAction)"
    by (simp add: CreateAction_def nameToActionFactory_eq)
  from registered_kube_actions_stay_within_their_rbac [OF this,
      of "KGet \<lparr>gv_Group = [], gv_Version = ''v1'', gv_Resource = ''pods''\<rparr> ''default'' ''web''"
         "sample_clients []" sample_request]
  show ?thesis
    by (simp add: NewGetAction_def get_Execute_def sample_request_def sample_clients_def target_gvr_def
        resourceClient_def kube_call_defs act_defs)
qed

end
