(* ===== verification/Catalog.thy ===== *)
theory Catalog
  imports Registry
begin

text \<open>
  The action catalog of \<open>internal/catalog/catalog.go\<close>: what the API lists, with each action's type,
  scope, parameters and the roles that may run it; and the lookup that authorization uses
  (\<open>auth.ActionCatalog\<close>), as a locale.
\<close>

datatype action_type = Read | Write
datatype action_scope = KubeApi | AwsApi

record param_definition =
  pd_Name :: string
  pd_Description :: string
  pd_Required :: bool
  pd_Default :: string

record action_definition =
  adef_Name :: string
  adef_Description :: string
  adef_Type :: action_type
  adef_Scope :: action_scope
  adef_AllowedRoles :: "string list"
  adef_Params :: "param_definition list"
  adef_DryRunAction :: string
  adef_WriteCooldownSeconds :: int
  adef_Approval :: string

record catalog =
  cat_actions :: "(string \<times> action_definition) list"
  cat_order :: "string list"

definition register :: "action_definition \<Rightarrow> catalog \<Rightarrow> catalog" where
  "register a c = c\<lparr>cat_actions := alput (adef_Name a) a (cat_actions c), cat_order := cat_order c @ [adef_Name a]\<rparr>"

definition opt :: "string \<Rightarrow> string \<Rightarrow> param_definition" where
  "opt n d = \<lparr>pd_Name = n, pd_Description = d, pd_Required = False, pd_Default = []\<rparr>"

definition required :: "string \<Rightarrow> string \<Rightarrow> param_definition" where
  "required n d = (opt n d)\<lparr>pd_Required := True\<rparr>"

definition with_default :: "string \<Rightarrow> param_definition \<Rightarrow> param_definition" where
  "with_default v p = p\<lparr>pd_Default := v\<rparr>"

definition define_action ::
  "string \<Rightarrow> string \<Rightarrow> action_type \<Rightarrow> action_scope \<Rightarrow> string list \<Rightarrow> param_definition list \<Rightarrow> action_definition"
where
  "define_action n d t s roles params =
    \<lparr>adef_Name = n, adef_Description = d, adef_Type = t, adef_Scope = s, adef_AllowedRoles = roles,
     adef_Params = params, adef_DryRunAction = [], adef_WriteCooldownSeconds = 0, adef_Approval = []\<rparr>"

definition allRoles :: "string list" where
  "allRoles = [''SREP'', ''ConfigurationAnomalyDetection'', ''ROSAAiAgent'']"

definition kube_params :: "param_definition list" where
  "kube_params =
    [opt ''group'' ''API group (empty for core resources)'',
     with_default ''v1'' (required ''version'' ''API version''),
     required ''resource'' ''Resource type (plural, e.g. configmaps)'',
     opt ''namespace'' ''Target namespace (empty for cluster-scoped resources)'']"

definition aws_instance_id :: param_definition where
  "aws_instance_id = required ''id'' ''EC2 instance ID; the instance must be tagged as owned by this cluster''"

definition catalog_definitions :: "action_definition list" where
  "catalog_definitions =
    [define_action ''get'' ''Get or list Kubernetes resources'' Read KubeApi allRoles
       (kube_params @ [opt ''name'' ''Resource name (empty to list all)'']),
     define_action ''patch'' ''Patch a Kubernetes resource using JSON merge patch'' Write KubeApi allRoles
       (kube_params @ [required ''name'' ''Resource name'', required ''patch'' ''JSON merge patch body'']),
     define_action ''delete'' ''Delete a Kubernetes resource'' Write KubeApi allRoles
       (kube_params @ [required ''name'' ''Resource name'']),
     define_action ''describe-nodes'' ''Describe nodes with correlated pods, events, and lease data'' Read KubeApi
       allRoles [opt ''name'' ''Node name (empty to describe all nodes)''],
     define_action ''get-pull-secret-email'' ''Get the registered email from the cluster pull secret'' Read KubeApi
       allRoles [],
     define_action ''list-alerts''
       ''List firing or pending alerts from Prometheus and optionally active silences from Alertmanager''
       Read KubeApi allRoles
       [opt ''severity'' ''Filter by severity: critical, warning (empty for both)'',
        with_default ''firing'' (opt ''state'' ''Alert state: firing, pending, all''),
        with_default ''false'' (opt ''silences'' ''Include active silences: true, false'')],
     define_action ''aws-get'' ''Get or list AWS resources'' Read AwsApi allRoles
       [required ''resource'' (''AWS resource type, one of: '' @ Join AWSResourceNames '', ''),
        opt ''id'' ''Resource ID (empty to list all); some resources require it, some cannot be narrowed by it'',
        opt ''filters''
          ''Comma-separated Name=Value API filters, e.g. instance-state-name=running (not accepted by every resource)'',
        with_default ''2h'' (opt ''since''
          (''How far back to look, as a Go duration, e.g. 30m or 48h; at most '' @ ''168h0m0s'' @
           '' (cloudtrail-events only)''))],
     define_action ''aws-reboot'' (''Reboot one of the cluster'' @ [CHR 0x27] @ ''s EC2 instances'') Write AwsApi
       allRoles [aws_instance_id],
     define_action ''aws-terminate'' (''Terminate one of the cluster'' @ [CHR 0x27] @ ''s EC2 instances'') Write AwsApi
       [''SREP''] [aws_instance_id]]"

definition New_catalog :: catalog where
  "New_catalog = fold register catalog_definitions \<lparr>cat_actions = [], cat_order = []\<rparr>"

definition Get :: "catalog \<Rightarrow> string \<Rightarrow> action_definition option" where
  "Get c n = map_of (cat_actions c) n"

record auth_action =
  aact_Name :: string
  aact_Description :: string
  aact_AllowedRoles :: "string list"

definition GetAction :: "catalog \<Rightarrow> string \<Rightarrow> auth_action option" where
  "GetAction c n =
    (case map_of (cat_actions c) n of
       None \<Rightarrow> None
     | Some a \<Rightarrow> Some \<lparr>aact_Name = adef_Name a, aact_Description = adef_Description a,
                     aact_AllowedRoles = adef_AllowedRoles a\<rparr>)"

definition All :: "catalog \<Rightarrow> action_definition list" where
  "All c = map (\<lambda>n. the (map_of (cat_actions c) n)) (cat_order c)"

section \<open>What the API shows\<close>

record action_summary =
  as_Name :: string
  as_Type :: action_type
  as_Scope :: action_scope
  as_Description :: string

record action_param =
  ap_Name :: string
  ap_Description :: "string option"
  ap_Required :: "bool option"
  ap_Default :: "string option"

record action_detail = action_summary +
  ad_Params :: "action_param list option"
  ad_DryRunAction :: "string option"
  ad_WriteCooldownSeconds :: "int option"
  ad_Approval :: "string option"

definition ToOpenAPISummary :: "action_definition \<Rightarrow> action_summary" where
  "ToOpenAPISummary a =
    \<lparr>as_Name = adef_Name a, as_Type = adef_Type a, as_Scope = adef_Scope a, as_Description = adef_Description a\<rparr>"

definition openapi_param :: "param_definition \<Rightarrow> action_param" where
  "openapi_param p =
    \<lparr>ap_Name = pd_Name p,
     ap_Description = (if pd_Description p \<noteq> [] then Some (pd_Description p) else None),
     ap_Required = (if pd_Required p then Some True else None),
     ap_Default = (if pd_Default p \<noteq> [] then Some (pd_Default p) else None)\<rparr>"

definition ToOpenAPIDetail :: "action_definition \<Rightarrow> action_detail" where
  "ToOpenAPIDetail a =
    \<lparr>as_Name = adef_Name a, as_Type = adef_Type a, as_Scope = adef_Scope a, as_Description = adef_Description a,
     ad_Params = (if length (adef_Params a) > 0 then Some (map openapi_param (adef_Params a)) else None),
     ad_DryRunAction = (if adef_DryRunAction a \<noteq> [] then Some (adef_DryRunAction a) else None),
     ad_WriteCooldownSeconds =
       (if adef_WriteCooldownSeconds a > 0 then Some (adef_WriteCooldownSeconds a) else None),
     ad_Approval = (if adef_Approval a \<noteq> [] then Some (adef_Approval a) else None)\<rparr>"

section \<open>The catalog and the registry\<close>

lemma register_lookup [simp]:
  "map_of (cat_actions (register d c)) = (map_of (cat_actions c))(adef_Name d \<mapsto> d)"
  by (simp add: register_def)

lemma register_other:
  "n \<notin> set (map adef_Name ds) \<Longrightarrow> map_of (cat_actions (fold register ds c)) n = map_of (cat_actions c) n"
  by (induction ds arbitrary: c) auto

lemma register_own:
  "distinct (map adef_Name ds) \<Longrightarrow> d \<in> set ds \<Longrightarrow>
    map_of (cat_actions (fold register ds c)) (adef_Name d) = Some d"
proof (induction ds arbitrary: c)
  case (Cons x ds)
  then show ?case using register_other [of "adef_Name x" ds "register x c"]
    by (cases "d = x") auto
qed simp

lemma register_order: "cat_order (fold register ds c) = cat_order c @ map adef_Name ds"
  by (induction ds arbitrary: c) (auto simp: register_def)

lemma distinct_catalog: "distinct (map adef_Name catalog_definitions)"
  by (simp add: catalog_definitions_def define_action_def)

lemma All_catalog: "All New_catalog = catalog_definitions"
proof -
  have "map (\<lambda>d. the (map_of (cat_actions New_catalog) (adef_Name d))) catalog_definitions =
      map (\<lambda>d. d) catalog_definitions"
    unfolding New_catalog_def by (rule map_cong) (simp_all add: register_own [OF distinct_catalog])
  then show ?thesis by (simp add: All_def New_catalog_def register_order comp_def)
qed

lemma Get_catalog: "Get New_catalog n = Some d \<longleftrightarrow> d \<in> set catalog_definitions \<and> adef_Name d = n"
proof
  assume "Get New_catalog n = Some d"
  then have *: "map_of (cat_actions New_catalog) n = Some d" by (simp add: Get_def)
  then have "n \<in> set (map adef_Name catalog_definitions)"
    using register_other [of n catalog_definitions "\<lparr>cat_actions = [], cat_order = []\<rparr>"]
    by (auto simp: New_catalog_def)
  then obtain d' where d': "d' \<in> set catalog_definitions" "adef_Name d' = n" by auto
  with * register_own [OF distinct_catalog d'(1), of "\<lparr>cat_actions = [], cat_order = []\<rparr>"]
  show "d \<in> set catalog_definitions \<and> adef_Name d = n" by (simp add: New_catalog_def)
next
  assume "d \<in> set catalog_definitions \<and> adef_Name d = n"
  then show "Get New_catalog n = Some d"
    using register_own [OF distinct_catalog, of d "\<lparr>cat_actions = [], cat_order = []\<rparr>"]
    by (auto simp: Get_def New_catalog_def)
qed

definition scope_of :: "action \<Rightarrow> action_scope" where
  "scope_of a = (case a of KubeAct k \<Rightarrow> KubeApi | AwsAct w \<Rightarrow> AwsApi)"

text \<open>The actions that may change something: the two Kubernetes writes and the AWS writes.\<close>

definition changes_nothing :: "action \<Rightarrow> bool" where
  "changes_nothing a \<longleftrightarrow>
    (case a of
       KubeAct k \<Rightarrow> \<forall>clients req. logs_only (\<lambda>c. \<not> kube_mutates c) (ka_Execute k clients req)
     | AwsAct w \<Rightarrow> \<forall>env clients req. logs_only (\<lambda>c. \<not> aws_mutates c) (aa_Execute w env clients req))"

lemma least_privileged_reads:
  assumes "least_privileged k"
    and "\<And>t r. r \<in> set (ka_RequiredRBAC k t) \<Longrightarrow> set (rr_Verbs r) \<inter> {''patch'', ''delete''} = {}"
  shows "changes_nothing (KubeAct k)"
proof -
  have "\<not> kube_mutates c" if "rules_grant (ka_RequiredRBAC k t) c" for t c
    using that assms(2) by (cases c) (auto simp: rules_grant_def rule_grants_def)
  then have "logs_only (\<lambda>c. \<not> kube_mutates c) (ka_Execute k clients req)" for clients req
    using assms(1) [unfolded least_privileged_def, rule_format, of req clients]
    by (rule logs_only_mono [rotated])
  then show ?thesis by (simp add: changes_nothing_def)
qed

lemma reads_change_nothing:
  "changes_nothing (KubeAct NewGetAction)" "changes_nothing (KubeAct NewDescribeNodesAction)"
  "changes_nothing (KubeAct NewGetPullSecretEmailAction)" "changes_nothing (KubeAct NewListAlertsAction)"
  "changes_nothing (AwsAct NewAWSGetAction)"
proof -
  show "changes_nothing (KubeAct NewGetAction)"
    by (rule least_privileged_reads [OF get_least_privileged])
      (auto simp: NewGetAction_def get_RequiredRBAC_def Let_def split: if_splits)
  show "changes_nothing (KubeAct NewDescribeNodesAction)"
    by (rule least_privileged_reads [OF describe_least_privileged])
      (auto simp: NewDescribeNodesAction_def describe_RequiredRBAC_def rule_for_def split: if_splits)
  show "changes_nothing (KubeAct NewGetPullSecretEmailAction)"
    by (rule least_privileged_reads [OF pull_secret_least_privileged])
      (auto simp: NewGetPullSecretEmailAction_def pull_secret_RequiredRBAC_def)
  show "changes_nothing (KubeAct NewListAlertsAction)"
    by (rule least_privileged_reads [OF alerts_least_privileged])
      (auto simp: NewListAlertsAction_def alerts_RequiredRBAC_def ns_rule_def Let_def)
  have "logs_only (\<lambda>c. \<not> aws_mutates c) (aws_get_Execute env clients req)" for env clients req
    using aws_get_calls by (rule logs_only_mono) simp
  then show "changes_nothing (AwsAct NewAWSGetAction)"
    by (simp add: changes_nothing_def NewAWSGetAction_def)
qed

text \<open>
  C30. The catalog describes exactly the actions the server can run: the names it lists are those of the
  registry, each once; the scope it shows for an action is the API the action really runs against; and an
  action it shows as a read makes no call that changes anything, whatever its target and parameters.
\<close>
theorem catalog_describes_the_registry:
  "sort (map adef_Name (All New_catalog)) = GetActionsNames \<and>
   list_all (\<lambda>d. \<exists>a. CreateAction (adef_Name d) = Some a \<and> adef_Scope d = scope_of a \<and>
     (adef_Type d = Write \<or> changes_nothing a)) (All New_catalog)"
proof
  have "sort (map adef_Name catalog_definitions) = sort (map fst nameToActionFactory)"
    using distinct_catalog
    by (intro sorted_distinct_set_unique)
      (auto simp: catalog_definitions_def nameToActionFactory_eq define_action_def)
  then show "sort (map adef_Name (All New_catalog)) = GetActionsNames"
    by (simp add: All_catalog GetActionsNames_def)
  show "list_all (\<lambda>d. \<exists>a. CreateAction (adef_Name d) = Some a \<and> adef_Scope d = scope_of a \<and>
      (adef_Type d = Write \<or> changes_nothing a)) (All New_catalog)"
    unfolding All_catalog
    by (simp add: catalog_definitions_def define_action_def CreateAction_def nameToActionFactory_eq
        scope_of_def reads_change_nothing)
qed

end
