(* ===== verification/Authorization.thy ===== *)
theory Authorization
  imports Prelude
begin

text \<open>
  The two policy decision points of \<open>internal/authorization\<close>: the Kubernetes authorizer
  (\<open>authorization.go\<close>: namespace allowlist, secret allowlist, permissive when nothing is
  configured) and the AWS authorizer (\<open>aws.go\<close>: region allowlist, write-operation allowlist,
  closed when nothing is configured).  A Go \<open>map[string]bool\<close> is an association list; a
  missing key reads as false.
\<close>

section \<open>Sets of strings\<close>

definition stringSet :: "string list \<Rightarrow> (string \<times> bool) list" where
  "stringSet vs = foldl (\<lambda>m v. alput v True m) [] vs"

definition lookup_bool :: "(string \<times> bool) list \<Rightarrow> string \<Rightarrow> bool" where
  "lookup_bool m k = (case map_of m k of None \<Rightarrow> False | Some b \<Rightarrow> b)"

lemma lookup_bool_foldl:
  "lookup_bool (foldl (\<lambda>m v. alput v True m) m vs) k \<longleftrightarrow> k \<in> set vs \<or> lookup_bool m k"
  by (induction vs arbitrary: m) (auto simp: lookup_bool_def)

lemma lookup_stringSet [simp]: "lookup_bool (stringSet vs) k \<longleftrightarrow> k \<in> set vs"
  by (simp add: stringSet_def lookup_bool_foldl) (simp add: lookup_bool_def)

lemma stringSet_eq_Nil [simp]: "stringSet vs = [] \<longleftrightarrow> vs = []"
proof (cases vs)
  case (Cons v vs')
  then have "lookup_bool (stringSet vs) v" by simp
  then have "stringSet vs \<noteq> []" by (auto simp: lookup_bool_def)
  with Cons show ?thesis by simp
qed (simp add: stringSet_def)

section \<open>Kubernetes requests\<close>

record auth_result =
  ar_Allowed :: bool
  ar_Reason :: string

abbreviation allow :: "string \<Rightarrow> auth_result" where
  "allow r \<equiv> \<lparr>ar_Allowed = True, ar_Reason = r\<rparr>"

abbreviation deny :: "string \<Rightarrow> auth_result" where
  "deny r \<equiv> \<lparr>ar_Allowed = False, ar_Reason = r\<rparr>"

record auth_request =
  rq_Namespace :: string
  rq_ResourceType :: string
  rq_ResourceName :: string
  rq_ClusterScoped :: bool

record authorizer =
  allowedNamespaces :: "(string \<times> bool) list"
  allowedSecrets :: "(string \<times> bool) list"

definition New_authorizer :: "string list \<Rightarrow> string list \<Rightarrow> authorizer" where
  "New_authorizer nss secs =
    \<lparr>allowedNamespaces = stringSet nss, allowedSecrets = stringSet secs\<rparr>"

definition Authorize :: "authorizer \<Rightarrow> auth_request \<Rightarrow> auth_result" where
  "Authorize a req =
    (if allowedNamespaces a = []
     then allow ''permissive (no namespace allowlist configured)''
     else if rq_Namespace req = [] \<and> \<not> rq_ClusterScoped req
     then deny ''namespace is required for namespaced resources''
     else if rq_Namespace req \<noteq> [] \<and> \<not> lookup_bool (allowedNamespaces a) (rq_Namespace req)
     then deny (''namespace not in allowlist: '' @ rq_Namespace req)
     else if rq_ResourceType req = ''secrets'' \<and>
        (rq_ResourceName req = [] \<or>
         \<not> lookup_bool (allowedSecrets a) (rq_Namespace req @ ''/'' @ rq_ResourceName req))
     then deny (''secrets access denied: '' @ rq_Namespace req @ ''/'' @ rq_ResourceName req @
                '' not in allowlist'')
     else allow ''authorized'')"

text \<open>
  With a namespace allowlist configured, a request is allowed exactly when it names an
  allowed namespace (or none, for a cluster-scoped resource) and, if it asks for secrets, names
  one secret of the secret allowlist; with no allowlist every request is allowed.
\<close>
lemma kube_authorize_exact:
  "ar_Allowed (Authorize (New_authorizer nss secs) req) \<longleftrightarrow>
    nss = [] \<or>
    ((if rq_Namespace req = [] then rq_ClusterScoped req else rq_Namespace req \<in> set nss) \<and>
     (if rq_ResourceType req = ''secrets''
      then rq_ResourceName req \<noteq> [] \<and>
           rq_Namespace req @ ''/'' @ rq_ResourceName req \<in> set secs
      else True))"
  by (auto simp: Authorize_def New_authorizer_def)

lemma authorize_namespaceD:
  assumes "ar_Allowed (Authorize (New_authorizer nss secs) req)" "nss \<noteq> []"
    and "\<not> rq_ClusterScoped req"
  shows "rq_Namespace req \<in> set nss"
  using assms by (auto simp: Authorize_def New_authorizer_def split: if_splits)

lemma authorize_secretD:
  assumes "ar_Allowed (Authorize (New_authorizer nss secs) req)" "nss \<noteq> []"
    and "rq_ResourceType req = ''secrets''"
  shows "rq_ResourceName req \<noteq> []"
    and "rq_Namespace req @ ''/'' @ rq_ResourceName req \<in> set secs"
  using assms by (auto simp: Authorize_def New_authorizer_def split: if_splits)

section \<open>AWS requests\<close>

record aws_auth_request =
  aq_Region :: string
  aq_Resource :: string
  aq_Operation :: string

definition DefaultAllowedRegions :: "string list" where
  "DefaultAllowedRegions = []"

definition DefaultAllowedOperations :: "string list" where
  "DefaultAllowedOperations = []"

record aws_policy =
  AllowedRegions :: "string list"
  AllowedOperations :: "string list"

record aws_authorizer =
  allowedRegions :: "(string \<times> bool) list"
  allowedOperations :: "(string \<times> bool) list"

definition NewAWS :: "aws_policy \<Rightarrow> aws_authorizer" where
  "NewAWS policy =
    \<lparr>allowedRegions = stringSet (AllowedRegions policy),
     allowedOperations = stringSet (AllowedOperations policy)\<rparr>"

definition AWSAuthorize :: "aws_authorizer \<Rightarrow> aws_auth_request \<Rightarrow> auth_result" where
  "AWSAuthorize a req =
    (if aq_Resource req = [] then deny ''resource is required''
     else if allowedRegions a = [] then deny ''no AWS region allowlist configured''
     else if aq_Region req = [] then deny ''region is required''
     else if \<not> lookup_bool (allowedRegions a) (aq_Region req)
     then deny (''region not in allowlist: '' @ aq_Region req)
     else if aq_Operation req \<noteq> [] \<and> \<not> lookup_bool (allowedOperations a) (aq_Operation req)
     then deny (''AWS write operation not permitted: '' @ aq_Operation req)
     else allow ''authorized'')"

text \<open>
  The AWS authorizer fails closed: a request is allowed exactly when it names a resource
  and an allowlisted, non-empty region, and, if it is a write, an allowlisted operation.  In
  particular nothing is allowed with an empty region list and no write with an empty operation
  list.
\<close>
lemma aws_authorize_exact:
  "ar_Allowed (AWSAuthorize (NewAWS p) req) \<longleftrightarrow>
    aq_Resource req \<noteq> [] \<and> aq_Region req \<noteq> [] \<and> aq_Region req \<in> set (AllowedRegions p) \<and>
    aq_Operation req \<in> set ([] # AllowedOperations p)"
  by (auto simp: AWSAuthorize_def NewAWS_def)

text \<open>
  Widening an allowlist never revokes what was allowed, for both authorizers: the allow
  decision is monotone in the configuration (the permissive mode of the Kubernetes authorizer
  apart).
\<close>
lemma aws_authorize_mono:
  assumes "set (AllowedRegions p) \<subseteq> set (AllowedRegions q)"
    and "set (AllowedOperations p) \<subseteq> set (AllowedOperations q)"
    and "ar_Allowed (AWSAuthorize (NewAWS p) req)"
  shows "ar_Allowed (AWSAuthorize (NewAWS q) req)"
  using assms by (auto simp: AWSAuthorize_def NewAWS_def split: if_splits)

end
