(* ===== verification/Ocm.thy ===== *)
theory Ocm
  imports Effects Json
begin

text \<open>
  The OCM client of \<open>internal/ocm\<close>: building the connection and learning its own username
  (\<open>client.go\<close>), looking a cluster up by an identifier a caller supplied (\<open>cluster.go\<close>) and the
  access review that decides a caller's permissions (\<open>authorization.go\<close>).  The OCM SDK and the JWT
  library are not part of the repository: they are the fields of \<open>ocm_sdk\<close> and \<open>ocm_connection\<close>.
\<close>

record ocm_cluster =
  oc_ID :: string
  oc_Region :: string
  oc_InfraID :: string
  oc_CloudProvider :: string

record cluster_response =
  cr_Status :: nat
  cr_Total :: nat
  cr_Item0 :: ocm_cluster

datatype ocm_call =
    ListClusters string nat
  | SelfAccessReview string string
  | AccessReviewOf string string string

type_synonym ocm_log = "ocm_call list"

text \<open>
  A connection: its tokens, whether it is the SDK's own (and not a fake of a test), and its calls.
  A review answers with no response body, or with the decision.
\<close>

record ocm_connection =
  con_IsSdk :: bool
  con_Tokens :: "string result"
  con_List :: "ocm_log \<Rightarrow> string \<Rightarrow> nat \<Rightarrow> cluster_response result"
  con_SelfReview :: "ocm_log \<Rightarrow> string \<Rightarrow> string \<Rightarrow> bool option result"
  con_Review :: "ocm_log \<Rightarrow> string \<Rightarrow> string \<Rightarrow> string \<Rightarrow> bool option result"

record ocm_config =
  oo_BaseURL :: string
  oo_ClientID :: string
  oo_ClientSecret :: string
  oo_Tokens :: "string list"
  oo_Debug :: bool

text \<open>What the connection builder is given.\<close>

record connection_builder =
  cb_URL :: string
  cb_Client :: "(string \<times> string) option"
  cb_Tokens :: "string list"

record ocm_sdk =
  os_Logger :: "bool \<Rightarrow> goerr option"
  os_Build :: "connection_builder \<Rightarrow> ocm_connection result"
  os_ParseUnverified :: "string \<Rightarrow> object result"

record ocm_client =
  ocl_connection :: ocm_connection
  ocl_connUsername :: string

section \<open>Connecting\<close>

definition getUsernameFromJWT :: "ocm_sdk \<Rightarrow> string \<Rightarrow> string" where
  "getUsernameFromJWT sdk token =
    (case os_ParseUnverified sdk token of
       Inl e \<Rightarrow> ''anonymous''
     | Inr claims \<Rightarrow>
       (case map_of claims ''username'' of
          None \<Rightarrow> ''anonymous''
        | Some claim \<Rightarrow> (case as_str claim of None \<Rightarrow> ''anonymous'' | Some username \<Rightarrow> username)))"

definition buildDefaultConnection :: "ocm_sdk \<Rightarrow> ocm_config \<Rightarrow> ocm_connection result" where
  "buildDefaultConnection sdk cfg =
    (let b0 = \<lparr>cb_URL = oo_BaseURL cfg, cb_Client = None, cb_Tokens = []\<rparr>;
         b1 = (if oo_ClientID cfg \<noteq> [] \<or> oo_ClientSecret cfg \<noteq> []
               then b0\<lparr>cb_Client := Some (oo_ClientID cfg, oo_ClientSecret cfg)\<rparr> else b0)
     in if length (oo_Tokens cfg) = 0 \<and> oo_ClientSecret cfg = []
        then Inl (Errf (''can'' @ [CHR 0x27] @
               ''t build OCM client connection: no client secret or token has been provided'') [])
        else (let b2 = (if length (oo_Tokens cfg) > 0 then b1\<lparr>cb_Tokens := oo_Tokens cfg\<rparr> else b1)
              in case os_Build sdk b2 of
                   Inl e \<Rightarrow> Inl (Errf (''can'' @ [CHR 0x27] @ ''t build OCM client connection: %s'') [err_text e])
                 | Inr con \<Rightarrow> Inr con))"

definition newConnection ::
  "ocm_sdk \<Rightarrow> ocm_config \<Rightarrow> (ocm_config \<Rightarrow> ocm_connection result) option \<Rightarrow> ocm_client result"
where
  "newConnection sdk cfg buildConn =
    (case (case buildConn of Some b \<Rightarrow> b cfg | None \<Rightarrow> buildDefaultConnection sdk cfg) of
       Inl e \<Rightarrow> Inl e
     | Inr conn \<Rightarrow>
       Inr \<lparr>ocl_connection = conn,
            ocl_connUsername = (case con_Tokens conn of
               Inl e \<Rightarrow> ''anonymous'' | Inr token \<Rightarrow> getUsernameFromJWT sdk token)\<rparr>)"

definition NewOcmClient :: "ocm_sdk \<Rightarrow> ocm_config \<Rightarrow> ocm_client result" where
  "NewOcmClient sdk cfg =
    (case os_Logger sdk (oo_Debug cfg) of
       Some e \<Rightarrow> Inl (Errf ''unable to build OCM logger: %s'' [err_text e])
     | None \<Rightarrow>
       (case newConnection sdk cfg None of
          Inl e \<Rightarrow> Inl (Errf ''unable to build OCM connection: %s'' [err_text e])
        | Inr client \<Rightarrow> Inr client))"

definition sdkConn :: "ocm_client \<Rightarrow> ocm_connection result" where
  "sdkConn c =
    (if con_IsSdk (ocl_connection c) then Inr (ocl_connection c)
     else Inl (Errf ''ocm: client connection is not a *sdkClient.Connection'' []))"

section \<open>Looking a cluster up\<close>

definition identifier_char :: "char \<Rightarrow> bool" where
  "identifier_char c \<longleftrightarrow>
    (let n = (of_char c :: nat) in
     (97 \<le> n \<and> n \<le> 122) \<or> (65 \<le> n \<and> n \<le> 90) \<or> (48 \<le> n \<and> n \<le> 57) \<or> n = 45)"

definition clusterIdentifierRe :: "string \<Rightarrow> bool" where
  "clusterIdentifierRe s \<longleftrightarrow> 1 \<le> length s \<and> length s \<le> 64 \<and> list_all identifier_char s"

definition quote :: char where
  "quote = CHR 0x27"

definition cluster_search :: "string \<Rightarrow> string" where
  "cluster_search ident =
    ''(id = '' @ [quote] @ ident @ [quote] @ '' or external_id = '' @ [quote] @ ident @ [quote] @
    '' or display_name = '' @ [quote] @ ident @ [quote] @ '')''"

definition Clusters_Get :: "ocm_client \<Rightarrow> string \<Rightarrow> (ocm_log, ocm_cluster) act" where
  "Clusters_Get c ident =
    (if \<not> clusterIdentifierRe ident then fail (Errf ''invalid cluster identifier: %q'' [ident])
     else seq (lift (sdkConn c)) (\<lambda>con.
          seq (wrap_err ''failed to look up cluster %q in OCM: %w'' [ident]
                (api_call (ListClusters (cluster_search ident) 2)
                  (\<lambda>log. con_List con log (cluster_search ident) 2))) (\<lambda>response.
          if cr_Status response \<noteq> 200
          then fail (Errf ''failed to look up cluster %q in OCM: status %d'' [ident, show_nat (cr_Status response)])
          else if cr_Total response > 1
          then fail (Errf ''cluster identifier %q is ambiguous: it matches %d clusters''
                       [ident, show_nat (cr_Total response)])
          else if cr_Total response = 0
          then fail (Errf ''no cluster found for %q'' [ident])
          else ret (cr_Item0 response))))"

section \<open>Access reviews\<close>

definition review_answer :: "string \<Rightarrow> bool option \<Rightarrow> bool result" where
  "review_answer msg r = (case r of None \<Rightarrow> Inl (Errf msg []) | Some allowed \<Rightarrow> Inr allowed)"

definition AccessReview :: "ocm_client \<Rightarrow> string \<Rightarrow> string \<Rightarrow> string \<Rightarrow> (ocm_log, bool) act" where
  "AccessReview c username action resourceType =
    seq (lift (sdkConn c)) (\<lambda>con.
    if username = ocl_connUsername c
    then seq (api_call (SelfAccessReview action resourceType)
               (\<lambda>log. con_SelfReview con log action resourceType)) (\<lambda>resp.
         lift (review_answer ''empty response from authorization post request (self access review)'' resp))
    else seq (api_call (AccessReviewOf username action resourceType)
               (\<lambda>log. con_Review con log username action resourceType)) (\<lambda>resp.
         lift (review_answer ''empty response from authorization post request'' resp)))"

definition mock_AccessReview :: "(string \<times> string list) list \<Rightarrow> string \<Rightarrow> string \<Rightarrow> bool" where
  "mock_AccessReview permissions username resourceType =
    (case map_of permissions username of None \<Rightarrow> False | Some rs \<Rightarrow> resourceType \<in> set rs)"

section \<open>Properties\<close>

lemma identifier_no_quote: "clusterIdentifierRe ident \<Longrightarrow> quote \<notin> set ident"
  by (auto simp: clusterIdentifierRe_def list_all_iff quote_def identifier_char_def Let_def)

text \<open>
  C37. A caller-supplied cluster identifier cannot change the meaning of the OCM search: an accepted
  one is 1 to 64 letters, digits and dashes, the single search that is sent splits at its quotes
  into the fixed text of the query with the identifier as its three string literals and nothing
  else, and a rejected one sends no query at all.
\<close>
theorem cluster_search_is_injection_free:
  "if clusterIdentifierRe ident
   then set (snd (Clusters_Get c ident [])) \<subseteq> {ListClusters (cluster_search ident) 2} \<and>
     Split quote (cluster_search ident) =
       [''(id = '', ident, '' or external_id = '', ident, '' or display_name = '', ident, '')'']
   else Clusters_Get c ident log = (Inl (Errf ''invalid cluster identifier: %q'' [ident]), log)"
proof (cases "clusterIdentifierRe ident")
  case True
  have fixed: "quote \<notin> set ''(id = ''" "quote \<notin> set '' or external_id = ''"
      "quote \<notin> set '' or display_name = ''" "quote \<notin> set '')''"
    by (auto simp: quote_def)
  have "Split quote (''(id = '' @ quote # ident @ quote # '' or external_id = '' @ quote # ident @
      quote # '' or display_name = '' @ quote # ident @ quote # '')'') =
      [''(id = '', ident, '' or external_id = '', ident, '' or display_name = '', ident, '')'']"
    by (simp only: Split_no_sep_append Split_no_sep_self fixed identifier_no_quote [OF True]
        not_False_eq_True)
  then have split: "Split quote (cluster_search ident) =
      [''(id = '', ident, '' or external_id = '', ident, '' or display_name = '', ident, '')'']"
    by (simp only: cluster_search_def append_Cons append_Nil append_assoc)
  have "logs_only (\<lambda>call. call = ListClusters (cluster_search ident) 2) (Clusters_Get c ident)"
    unfolding Clusters_Get_def by (auto intro!: log_rules)
  with split True show ?thesis by (auto dest: logs_only_calls)
qed (simp add: Clusters_Get_def fail_def)

text \<open>
  A lookup succeeds only on a single match: when OCM answers 200 with exactly one match the
  result is that cluster, and with no match, several matches or another status it is an error, never
  a guess.
\<close>
lemma cluster_lookup_is_unambiguous:
  assumes "clusterIdentifierRe ident" "con_IsSdk (ocl_connection c)"
    and "con_List (ocl_connection c) log (cluster_search ident) 2 = Inr response"
  shows "fst (Clusters_Get c ident log) = Inr cl \<longleftrightarrow>
    cr_Status response = 200 \<and> cr_Total response = 1 \<and> cl = cr_Item0 response"
  using assms by (auto simp: Clusters_Get_def sdkConn_def act_defs)

definition sample_connection :: "cluster_response \<Rightarrow> ocm_connection" where
  "sample_connection r = \<lparr>con_IsSdk = True, con_Tokens = Inr ''token'', con_List = \<lambda>_ _ _. Inr r,
     con_SelfReview = \<lambda>_ _ _. Inr (Some True), con_Review = \<lambda>_ _ _ _. Inr (Some False)\<rparr>"

definition sample_cluster :: ocm_cluster where
  "sample_cluster = \<lparr>oc_ID = ''abc'', oc_Region = ''us-east-1'', oc_InfraID = ''abc-x1'', oc_CloudProvider = ''aws''\<rparr>"

lemma cluster_lookup_witness:
  "fst (Clusters_Get
      \<lparr>ocl_connection = sample_connection \<lparr>cr_Status = 200, cr_Total = 1, cr_Item0 = sample_cluster\<rparr>,
       ocl_connUsername = ''svc''\<rparr> ''abc'' []) = Inr sample_cluster"
  by (rule iffD2 [OF cluster_lookup_is_unambiguous [where
          response = "\<lparr>cr_Status = 200, cr_Total = 1, cr_Item0 = sample_cluster\<rparr>"]])
    (simp_all add: clusterIdentifierRe_def identifier_char_def sample_connection_def)

text \<open>
  The decision of an access review is OCM's own answer: a caller is judged by the review of that
  very username, except that a caller with the connection's own username (which is the fixed word
  \<open>anonymous\<close> when the connection's token names none) is judged by the self review of the
  service's account; a missing response body is an error, never a permission.
\<close>
lemma access_review_allows_exactly:
  "(fst (AccessReview c username action res log) = Inr True \<longleftrightarrow>
     con_IsSdk (ocl_connection c) \<and>
     (if username = ocl_connUsername c
      then con_SelfReview (ocl_connection c) log action res = Inr (Some True)
      else con_Review (ocl_connection c) log username action res = Inr (Some True))) \<and>
   (\<exists>cs. snd (AccessReview c username action res log) = log @ cs \<and> length cs \<le> 1 \<and>
     set cs \<subseteq> {SelfAccessReview action res, AccessReviewOf username action res})"
  by (auto simp: AccessReview_def act_defs sdkConn_def review_answer_def
      split: sum.splits option.splits prod.splits)

end
