(* ===== verification/Aws_Providers.thy ===== *)
theory Aws_Providers
  imports Aws_Api Ocm
begin

text \<open>
  The two implementations of \<open>awsapi.ClientProvider\<close>: \<open>StaticProvider\<close> (\<open>static.go\<close>) and
  \<open>CloudCredentialsProvider\<close> (\<open>credentials.go\<close>).  What the rest of the program relies on is the
  locale \<open>client_provider\<close>, interpreted on both.
\<close>

section \<open>The interface\<close>

text \<open>
  A provider answers a cluster's region and infrastructure ID and builds clients; each operation
  may change the provider's state.  It promises that clients cover exactly the services asked for.
\<close>

locale client_provider =
  fixes DefaultRegion :: "string \<Rightarrow> ('s, string) act"
    and ClusterInfraID :: "string \<Rightarrow> ('s, string) act"
    and GetClients :: "string \<Rightarrow> string \<Rightarrow> string list \<Rightarrow> ('s, aws_clients) act"
  assumes services_exact:
    "GetClients cluster region services s = (Inr c, s') \<Longrightarrow> client_services c = set services"
begin

lemma known_services:
  "GetClients cluster region services s = (Inr c, s') \<Longrightarrow> set services \<subseteq> set all_services"
  using services_exact client_services_subset by blast

lemma no_nil_client:
  assumes "GetClients cluster region services s = (Inr c, s')"
  shows "ServiceEC2 \<in> set services \<Longrightarrow> cl_EC2 c \<noteq> None"
    and "ServiceELB \<in> set services \<Longrightarrow> cl_ELB c \<noteq> None"
    and "ServiceELBv2 \<in> set services \<Longrightarrow> cl_ELBv2 c \<noteq> None"
    and "ServiceCloudTrail \<in> set services \<Longrightarrow> cl_CloudTrail c \<noteq> None"
    and "ServiceRoute53 \<in> set services \<Longrightarrow> cl_Route53 c \<noteq> None"
  using services_exact [OF assms] client_services_mem [of c] by auto

end

section \<open>Fixed credentials\<close>

record static_config =
  st_Region :: string
  st_AccessKeyID :: string
  st_SecretAccessKey :: string
  st_SessionToken :: string
  st_EndpointURL :: string
  st_InfraID :: string

definition static_DefaultRegion :: "static_config \<Rightarrow> string \<Rightarrow> (unit, string) act" where
  "static_DefaultRegion cfg cluster = ret (st_Region cfg)"

definition static_ClusterInfraID :: "static_config \<Rightarrow> string \<Rightarrow> (unit, string) act" where
  "static_ClusterInfraID cfg cluster = ret (st_InfraID cfg)"

definition static_load :: "'cfg sdk \<Rightarrow> static_config \<Rightarrow> string \<Rightarrow> 'cfg result" where
  "static_load sdk cfg region =
    (let o0 = \<lparr>op_Region = region, op_Credentials = None, op_BaseEndpoint = None, op_Proxy = None\<rparr>;
         o1 = (if st_AccessKeyID cfg \<noteq> [] \<and> st_SecretAccessKey cfg \<noteq> []
               then o0\<lparr>op_Credentials := Some (st_AccessKeyID cfg, st_SecretAccessKey cfg, st_SessionToken cfg)\<rparr>
               else o0);
         o2 = (if st_EndpointURL cfg \<noteq> [] then o1\<lparr>op_BaseEndpoint := Some (st_EndpointURL cfg)\<rparr> else o1)
     in sdk_load sdk o2)"

definition static_GetClients ::
  "'cfg sdk \<Rightarrow> static_config \<Rightarrow> string \<Rightarrow> string \<Rightarrow> string list \<Rightarrow> (unit, aws_clients) act"
where
  "static_GetClients sdk cfg cluster region services =
    (let region' = (if region = [] then st_Region cfg else region)
     in if region' = [] then fail (Errf ''no AWS region configured: set AWS_REGION or pass a region'' [])
        else seq (wrap_err ''failed to load AWS configuration: %w'' [] (lift (static_load sdk cfg region')))
          (\<lambda>awsConfig. lift (buildClients sdk awsConfig services)))"

interpretation static: client_provider "static_DefaultRegion cfg" "static_ClusterInfraID cfg"
  "static_GetClients sdk cfg"
  by unfold_locales (auto simp: static_GetClients_def act_defs buildClients_def Let_def
      split: if_splits sum.splits prod.splits dest: buildClients_from_services)

section \<open>Credentials of the cluster's own account\<close>

definition defaultClusterCacheTTL :: int where
  "defaultClusterCacheTTL = 5 * minute"

record query_config =
  qc_Cluster :: ocm_cluster
  qc_URL :: string
  qc_AssumeInitialArn :: string
  qc_ProxyURL :: "string option"
  qc_AwsProxy :: "string option"

record aws_credentials =
  ac_AccessKeyID :: string
  ac_SecretAccessKey :: string
  ac_SessionToken :: string
  ac_Region :: string

datatype cred_response = AwsCredentials aws_credentials | OtherResponse string

text \<open>
  The select of \<open>awaitCredentials\<close>: the context was cancelled first, or the call answered first.
\<close>

datatype 'r awaited = CtxDone goerr | Done "'r result"

record cached_cluster =
  cc_cluster :: ocm_cluster
  cc_expires :: int

text \<open>
  The provider: its configuration and what it is connected to.  \<open>cp_clusters\<close> is the cluster
  resolver (a function of the identifiers asked for so far), \<open>cp_now\<close> the clock (a function of the number of
  readings so far), \<open>cp_credentials\<close> the backplane-cli call under the execution's context.
\<close>

record cloud_provider =
  cp_URL :: string
  cp_AssumeInitialARN :: string
  cp_ProxyURL :: string
  cp_AWSProxyURL :: string
  cp_ClusterCacheTTL :: int
  cp_clusters :: "string list \<Rightarrow> string \<Rightarrow> ocm_cluster result"
  cp_connection :: "unit result"
  cp_credentials :: "query_config list \<Rightarrow> query_config \<Rightarrow> cred_response awaited"
  cp_now :: "nat \<Rightarrow> int"
  cp_parse_url :: "string \<Rightarrow> goerr option"

text \<open>
  Its state: the clock readings, the cluster lookups and credential calls made so far, and the
  cache.  \<open>cs_found\<close> records each successful lookup with the time it was stored at.
\<close>

record cloud_state =
  cs_reads :: nat
  cs_asked :: "string list"
  cs_found :: "(string \<times> ocm_cluster \<times> int) list"
  cs_calls :: "query_config list"
  cs_cache :: "(string \<times> cached_cluster) list"

definition NewCloudCredentialsProvider :: "cloud_provider \<Rightarrow> cloud_provider \<times> cloud_state" where
  "NewCloudCredentialsProvider p =
    ((if cp_ClusterCacheTTL p = 0 then p\<lparr>cp_ClusterCacheTTL := defaultClusterCacheTTL\<rparr> else p),
     \<lparr>cs_reads = 0, cs_asked = [], cs_found = [], cs_calls = [], cs_cache = []\<rparr>)"

definition cloud_fetch_cluster :: "cloud_provider \<Rightarrow> string \<Rightarrow> (cloud_state, ocm_cluster) act" where
  "cloud_fetch_cluster p cid s =
    (let s1 = s\<lparr>cs_asked := cs_asked s @ [cid]\<rparr> in
     case cp_clusters p (cs_asked s) cid of
       Inl e \<Rightarrow> (Inl e, s1)
     | Inr cluster \<Rightarrow>
       (let t = cp_now p (cs_reads s1) in
        (Inr cluster,
         s1\<lparr>cs_reads := Suc (cs_reads s1),
            cs_found := (cid, cluster, t) # cs_found s1,
            cs_cache := alput cid \<lparr>cc_cluster = cluster, cc_expires = t + cp_ClusterCacheTTL p\<rparr> (cs_cache s1)\<rparr>)))"

definition cloud_cluster :: "cloud_provider \<Rightarrow> string \<Rightarrow> (cloud_state, ocm_cluster) act" where
  "cloud_cluster p cid s =
    (case map_of (cs_cache s) cid of
       Some entry \<Rightarrow>
         (let t = cp_now p (cs_reads s); s1 = s\<lparr>cs_reads := Suc (cs_reads s)\<rparr>
          in if t < cc_expires entry then (Inr (cc_cluster entry), s1) else cloud_fetch_cluster p cid s1)
     | None \<Rightarrow> cloud_fetch_cluster p cid s)"

definition cloud_DefaultRegion :: "cloud_provider \<Rightarrow> string \<Rightarrow> (cloud_state, string) act" where
  "cloud_DefaultRegion p cid =
    seq (cloud_cluster p cid) (\<lambda>cluster.
    if oc_Region cluster = [] then fail (Errf ''cluster %q has no region recorded in OCM'' [cid])
    else ret (oc_Region cluster))"

definition cloud_ClusterInfraID :: "cloud_provider \<Rightarrow> string \<Rightarrow> (cloud_state, string) act" where
  "cloud_ClusterInfraID p cid =
    seq (cloud_cluster p cid) (\<lambda>cluster.
    if oc_InfraID cluster = [] then fail (Errf ''cluster %q has no infrastructure ID recorded in OCM'' [cid])
    else ret (oc_InfraID cluster))"

definition awaitCredentials :: "cred_response awaited \<Rightarrow> cred_response result" where
  "awaitCredentials a =
    (case a of
       CtxDone e \<Rightarrow> Inl (Errw ''backplane credential call did not return before the context was cancelled: %w'' [] e)
     | Done r \<Rightarrow> r)"

definition optionalString :: "string \<Rightarrow> string option" where
  "optionalString v = (if v = [] then None else Some v)"

definition fetchCredentials :: "cloud_provider \<Rightarrow> ocm_cluster \<Rightarrow> (cloud_state, aws_credentials) act" where
  "fetchCredentials p cluster =
    (if oc_CloudProvider cluster \<noteq> ''aws''
     then fail (Errf ''cluster %q runs on %q, not AWS'' [oc_ID cluster, oc_CloudProvider cluster])
     else seq (wrap_err ''failed to obtain an OCM connection for cluster %q: %w'' [oc_ID cluster]
                (lift (cp_connection p))) (\<lambda>_.
          let query = \<lparr>qc_Cluster = cluster, qc_URL = cp_URL p, qc_AssumeInitialArn = cp_AssumeInitialARN p,
                qc_ProxyURL = optionalString (cp_ProxyURL p), qc_AwsProxy = optionalString (cp_AWSProxyURL p)\<rparr>
          in (\<lambda>s. (case awaitCredentials (cp_credentials p (cs_calls s) query) of
                 Inl e \<Rightarrow> Inl e
               | Inr (AwsCredentials c) \<Rightarrow> Inr c
               | Inr (OtherResponse t) \<Rightarrow>
                 Inl (Errf ''backplane returned %T for cluster %q, not AWS credentials'' [t, oc_ID cluster]),
               s\<lparr>cs_calls := cs_calls s @ [query]\<rparr>))))"

definition awsProxy :: "cloud_provider \<Rightarrow> string" where
  "awsProxy p = (if cp_AWSProxyURL p \<noteq> [] then cp_AWSProxyURL p else cp_ProxyURL p)"

definition cloud_options :: "cloud_provider \<Rightarrow> aws_credentials \<Rightarrow> string \<Rightarrow> load_options" where
  "cloud_options p creds region =
    \<lparr>op_Region = region,
     op_Credentials = Some (ac_AccessKeyID creds, ac_SecretAccessKey creds, ac_SessionToken creds),
     op_BaseEndpoint = None, op_Proxy = (if awsProxy p = [] then None else Some (awsProxy p))\<rparr>"

definition cloud_load :: "'cfg sdk \<Rightarrow> cloud_provider \<Rightarrow> aws_credentials \<Rightarrow> string \<Rightarrow> 'cfg result" where
  "cloud_load sdk p creds region =
    (case (if awsProxy p = [] then None else cp_parse_url p (awsProxy p)) of
       Some e \<Rightarrow> Inl (Errw ''invalid AWS proxy URL %q: %w'' [awsProxy p] e)
     | None \<Rightarrow>
       (case sdk_load sdk (cloud_options p creds region) of
          Inl e \<Rightarrow> Inl (Errw ''failed to load AWS configuration: %w'' [] e)
        | Inr cfg \<Rightarrow> Inr cfg))"

definition cloud_GetClients ::
  "'cfg sdk \<Rightarrow> cloud_provider \<Rightarrow> string \<Rightarrow> string \<Rightarrow> string list \<Rightarrow> (cloud_state, aws_clients) act"
where
  "cloud_GetClients sdk p cid region services =
    seq (cloud_cluster p cid) (\<lambda>cluster.
    seq (wrap_err ''failed to obtain AWS credentials for cluster %q from backplane: %w'' [cid]
          (fetchCredentials p cluster)) (\<lambda>creds.
    let region' = (if region = [] then ac_Region creds else region)
    in if region' = [] then fail (Errf ''no AWS region for cluster %q'' [cid])
       else seq (lift (cloud_load sdk p creds region')) (\<lambda>awsConfig.
            lift (buildClients sdk awsConfig services))))"

interpretation cloud: client_provider "cloud_DefaultRegion p" "cloud_ClusterInfraID p" "cloud_GetClients sdk p"
proof unfold_locales
  fix cluster region services s c s'
  assume "cloud_GetClients sdk p cluster region services s = (Inr c, s')"
  then obtain cfg where "buildClients sdk cfg services = Inr c"
    by (auto simp: cloud_GetClients_def Let_def lift_def fail_def elim!: seq_InrE split: if_splits)
  then show "client_services c = set services"
    by (simp add: buildClients_def buildClients_from_services)
qed

section \<open>The cluster cache\<close>

inductive cloud_reach :: "'cfg sdk \<Rightarrow> cloud_provider \<Rightarrow> cloud_state \<Rightarrow> bool" for sdk p where
  start: "cloud_reach sdk p (snd (NewCloudCredentialsProvider p))"
| region: "cloud_reach sdk p s \<Longrightarrow> cloud_reach sdk p (snd (cloud_DefaultRegion p cid s))"
| infra: "cloud_reach sdk p s \<Longrightarrow> cloud_reach sdk p (snd (cloud_ClusterInfraID p cid s))"
| clients: "cloud_reach sdk p s \<Longrightarrow> cloud_reach sdk p (snd (cloud_GetClients sdk p cid region services s))"

definition cache_inv :: "cloud_provider \<Rightarrow> cloud_state \<Rightarrow> bool" where
  "cache_inv p s \<longleftrightarrow>
    (\<forall>k e. map_of (cs_cache s) k = Some e \<longrightarrow>
      (\<exists>t. (k, cc_cluster e, t) \<in> set (cs_found s) \<and> cc_expires e = t + cp_ClusterCacheTTL p)) \<and>
    (\<forall>(k, c, t) \<in> set (cs_found s). \<exists>asked. cp_clusters p asked k = Inr c)"

lemma cache_inv_reads [simp]: "cache_inv p (s\<lparr>cs_reads := n\<rparr>) = cache_inv p s"
  by (simp add: cache_inv_def)

lemma cache_inv_asked [simp]: "cache_inv p (s\<lparr>cs_asked := a\<rparr>) = cache_inv p s"
  by (simp add: cache_inv_def)

lemma cache_inv_calls [simp]: "cache_inv p (s\<lparr>cs_calls := a\<rparr>) = cache_inv p s"
  by (simp add: cache_inv_def)

lemma cache_inv_fetch: "cache_inv p s \<Longrightarrow> cache_inv p (snd (cloud_fetch_cluster p cid s))"
  by (auto simp: cloud_fetch_cluster_def cache_inv_def Let_def split: sum.splits)

lemma cache_inv_cluster: "cache_inv p s \<Longrightarrow> cache_inv p (snd (cloud_cluster p cid s))"
  by (auto simp: cloud_cluster_def Let_def cache_inv_fetch split: option.splits)

lemma cache_inv_fetchCredentials: "cache_inv p s \<Longrightarrow> cache_inv p (snd (fetchCredentials p cl s))"
  by (auto simp: fetchCredentials_def snd_seq fail_def lift_def wrap_err_def Let_def split: prod.splits sum.splits)

lemma cache_inv_seq:
  assumes "cache_inv p (snd (m s))" "\<And>a s'. cache_inv p s' \<Longrightarrow> cache_inv p (snd (f a s'))"
  shows "cache_inv p (snd (seq m f s))"
  using assms by (auto simp: snd_seq split: prod.splits sum.splits)

lemma cache_inv_reach: "cloud_reach sdk p s \<Longrightarrow> cache_inv p s"
proof (induction rule: cloud_reach.induct)
  case start
  show ?case by (simp add: NewCloudCredentialsProvider_def cache_inv_def)
next
  case (region s cid)
  then show ?case unfolding cloud_DefaultRegion_def
    by (auto intro!: cache_inv_seq cache_inv_cluster simp: fail_def ret_def)
next
  case (infra s cid)
  then show ?case unfolding cloud_ClusterInfraID_def
    by (auto intro!: cache_inv_seq cache_inv_cluster simp: fail_def ret_def)
next
  case (clients s cid region services)
  then show ?case unfolding cloud_GetClients_def Let_def
    by (auto intro!: cache_inv_seq cache_inv_cluster cache_inv_fetchCredentials
        simp: fail_def ret_def lift_def)
qed

text \<open>
  C36. In every state the provider can reach, the cluster record it serves for an identifier is one that
  OCM returned for that very identifier, and a record served without asking OCM again was stored less
  than the configured time-to-live before.
\<close>
theorem cluster_cache_serves_fresh_answers:
  assumes reach: "cloud_reach sdk p s" and got: "cloud_cluster p cid s = (Inr cl, s')"
  shows "(\<exists>asked. cp_clusters p asked cid = Inr cl) \<and>
    (cs_asked s' = cs_asked s \<longrightarrow>
      (\<exists>stored. (cid, cl, stored) \<in> set (cs_found s) \<and> cp_now p (cs_reads s) < stored + cp_ClusterCacheTTL p))"
proof (cases "map_of (cs_cache s) cid")
  case None
  with got show ?thesis
    by (auto simp: cloud_cluster_def cloud_fetch_cluster_def Let_def split: sum.splits)
next
  case (Some e)
  from cache_inv_reach [OF reach] Some obtain t asked where
    "(cid, cc_cluster e, t) \<in> set (cs_found s)" "cc_expires e = t + cp_ClusterCacheTTL p"
    "cp_clusters p asked cid = Inr (cc_cluster e)"
    unfolding cache_inv_def by blast
  with got Some show ?thesis
    by (auto simp: cloud_cluster_def cloud_fetch_cluster_def Let_def split: sum.splits if_splits)
qed

definition demo_provider :: cloud_provider where
  "demo_provider =
    \<lparr>cp_URL = ''https://backplane'', cp_AssumeInitialARN = [], cp_ProxyURL = [], cp_AWSProxyURL = [],
     cp_ClusterCacheTTL = 300, cp_clusters = (\<lambda>asked cid. Inr sample_cluster), cp_connection = Inr (),
     cp_credentials = (\<lambda>calls q. Done (Inr (AwsCredentials
       \<lparr>ac_AccessKeyID = ''AK'', ac_SecretAccessKey = ''SK'', ac_SessionToken = ''T'', ac_Region = ''us-east-1''\<rparr>))),
     cp_now = int, cp_parse_url = (\<lambda>u. None)\<rparr>"

lemma cluster_cache_witness:
  "\<exists>s s'. cloud_cluster demo_provider ''abc'' s = (Inr sample_cluster, s') \<and> cs_asked s' = cs_asked s \<and>
    (\<exists>stored. (''abc'', sample_cluster, stored) \<in> set (cs_found s) \<and> int (cs_reads s) < stored + 300)"
proof -
  define s where "s = snd (cloud_DefaultRegion demo_provider ''abc'' (snd (NewCloudCredentialsProvider demo_provider)))"
  define s' where "s' = snd (cloud_cluster demo_provider ''abc'' s)"
  have reach: "cloud_reach sdk demo_provider s" for sdk :: "nat sdk"
    unfolding s_def by (intro cloud_reach.intros)
  have "cloud_cluster demo_provider ''abc'' s = (Inr sample_cluster, s') \<and> cs_asked s' = cs_asked s"
    by (simp add: s'_def s_def cloud_cluster_def cloud_DefaultRegion_def cloud_fetch_cluster_def
        NewCloudCredentialsProvider_def demo_provider_def act_defs sample_cluster_def)
  with cluster_cache_serves_fresh_answers [OF reach, of "''abc''" sample_cluster s'] show ?thesis
    by (auto simp: demo_provider_def)
qed

text \<open>
  Clients of the cloud provider are built from credentials fetched for this very execution, never
  from earlier ones: a successful call makes exactly one credential request, for the record of the cluster
  that was asked for, which runs on AWS, and loads its configuration with exactly the credentials of the
  answer, in the region asked for or, when none was, the region of the credentials.
\<close>
theorem cloud_clients_use_fresh_cluster_credentials:
  assumes "cloud_GetClients sdk p cid region services s = (Inr c, s')"
  shows "\<exists>cluster query creds opts cfg.
    fst (cloud_cluster p cid s) = Inr cluster \<and> oc_CloudProvider cluster = ''aws'' \<and>
    cs_calls s' = cs_calls s @ [query] \<and> qc_Cluster query = cluster \<and>
    cp_credentials p (cs_calls s) query = Done (Inr (AwsCredentials creds)) \<and>
    op_Credentials opts = Some (ac_AccessKeyID creds, ac_SecretAccessKey creds, ac_SessionToken creds) \<and>
    op_Region opts = (if region = [] then ac_Region creds else region) \<and> op_Region opts \<noteq> [] \<and>
    sdk_load sdk opts = Inr cfg \<and> buildClients sdk cfg services = Inr c"
proof -
  have calls: "cs_calls (snd (cloud_cluster p cid s)) = cs_calls s"
    by (auto simp: cloud_cluster_def cloud_fetch_cluster_def Let_def split: option.splits sum.splits)
  from assms obtain cluster s1 where 1: "cloud_cluster p cid s = (Inr cluster, s1)"
    and rest: "seq (wrap_err ''failed to obtain AWS credentials for cluster %q from backplane: %w'' [cid]
      (fetchCredentials p cluster)) (\<lambda>creds.
        let region' = if region = [] then ac_Region creds else region
        in if region' = [] then fail (Errf ''no AWS region for cluster %q'' [cid])
           else seq (lift (cloud_load sdk p creds region')) (\<lambda>cfg. lift (buildClients sdk cfg services))) s1 =
      (Inr c, s')"
    unfolding cloud_GetClients_def by (rule seq_InrE)
  from rest obtain creds s2 where 2: "fetchCredentials p cluster s1 = (Inr creds, s2)"
    by (auto elim: seq_InrE)
  from 2 obtain query where q: "oc_CloudProvider cluster = ''aws''" "s2 = s1\<lparr>cs_calls := cs_calls s1 @ [query]\<rparr>"
      "qc_Cluster query = cluster" "cp_credentials p (cs_calls s1) query = Done (Inr (AwsCredentials creds))"
    by (auto simp: fetchCredentials_def awaitCredentials_def act_defs Let_def
        split: if_splits sum.splits awaited.splits cred_response.splits)
  define region' where "region' = (if region = [] then ac_Region creds else region)"
  from rest 2 obtain cfg where 3: "region' \<noteq> []" "cloud_load sdk p creds region' = Inr cfg"
      "buildClients sdk cfg services = Inr c" "s' = s2"
    by (auto simp: Let_def fail_def lift_def region'_def elim!: seq_InrE split: if_splits)
  from 3(2) have "sdk_load sdk (cloud_options p creds region') = Inr cfg"
    by (auto simp: cloud_load_def split: option.splits sum.splits)
  with 1 3 q calls show ?thesis
    by (intro exI [of _ cluster] exI [of _ query] exI [of _ creds]
        exI [of _ "cloud_options p creds region'"] exI [of _ cfg])
      (auto simp: cloud_options_def region'_def)
qed

definition demo_sdk :: "load_options sdk" where
  "demo_sdk =
    \<lparr>sdk_load = Inr,
     sdk_EC2 = (\<lambda>o'. \<lparr>e_Page = (\<lambda>_ _ _ _. Inr ([], None)), e_InstancesPage = (\<lambda>_ _ _. Inr ([], None)), e_DescribeInstance = (\<lambda>_ _. Inr []),
       e_RebootInstances = (\<lambda>_ _. Inr ()), e_TerminateInstances = (\<lambda>_ _. Inr None)\<rparr>),
     sdk_ELB = (\<lambda>o' _ _ _ _. Inr ([], None)),
     sdk_ELBv2 = (\<lambda>o'. \<lparr>v_Page = (\<lambda>_ _ _ _. Inr ([], None)), v_TargetHealth = (\<lambda>_ _. Inr [])\<rparr>),
     sdk_CloudTrail = (\<lambda>o' _ _ _ _. Inr ([], None)),
     sdk_Route53 = (\<lambda>o'. \<lparr>r_Page = (\<lambda>_ _ _ _. Inr ([], None)),
       r_RecordSets = (\<lambda>_ _ _. Inr \<lparr>rs_Sets = [], rs_IsTruncated = False, rs_Next = (None, None, None)\<rparr>)\<rparr>)\<rparr>"

lemma cloud_clients_witness:
  "\<exists>query creds. cp_credentials demo_provider [] query = Done (Inr (AwsCredentials creds)) \<and>
    qc_Cluster query = sample_cluster"
proof -
  define s where "s = snd (NewCloudCredentialsProvider demo_provider)"
  obtain c s' where run: "cloud_GetClients demo_sdk demo_provider ''abc'' [] [ServiceEC2] s = (Inr c, s')"
    by (simp add: s_def cloud_GetClients_def cloud_cluster_def cloud_fetch_cluster_def fetchCredentials_def
        awaitCredentials_def awsProxy_def buildClients_def cloud_load_def cloud_options_def NewCloudCredentialsProvider_def
        demo_provider_def demo_sdk_def act_defs sample_cluster_def)
  have "fst (cloud_cluster demo_provider ''abc'' s) = Inr sample_cluster" "cs_calls s = []"
    by (simp_all add: s_def cloud_cluster_def cloud_fetch_cluster_def NewCloudCredentialsProvider_def
        demo_provider_def Let_def)
  with cloud_clients_use_fresh_cluster_credentials [OF run] show ?thesis by auto
qed

end
