(* ===== verification/Executor.thy ===== *)
theory Executor
  imports Registry Authorization Aws_Providers
begin

text \<open>
  The execution pipeline of \<open>internal/executor\<close>: \<open>Executor.Execute\<close> with its audit record
  (\<open>executor.go\<close>, \<open>internal/audit/audit.go\<close>), and the two scopes, the Kubernetes API of a cluster
  (\<open>kube.go\<close>) and the AWS API of its account (\<open>aws.go\<close>).  A run that panics is a value of its own:
  the deferred audit record is still written, and the panic goes on to the caller.
\<close>

datatype target = KubeTarget resource_target | AwsTarget aws_target

record exec_request =
  er_CallerID :: string
  er_ClusterID :: string
  er_ClusterVersion :: string
  er_Action :: action
  er_Target :: "target option"
  er_Params :: "(string \<times> string) list"

record exec_result =
  res_Allowed :: bool
  res_Reason :: string
  res_Output :: "action_result option"
  res_Error :: "goerr option"

datatype decision = NoDecision | DecisionAllowed | DecisionDenied
datatype outcome = NoOutcome | OutcomeSuccess | OutcomeFailure | OutcomeSkipped

record audit_record =
  au_CallerID :: string
  au_Action :: string
  au_Target :: "target option"
  au_ClusterID :: string
  au_Decision :: decision
  au_DenyReason :: string
  au_Outcome :: outcome
  au_Error :: string

text \<open>
  The world an execution acts on: the state of the AWS client provider, the calls made to AWS and to
  clusters, the backplane sessions opened (cluster, action, rules) and the audit trail.
\<close>

type_synonym session = "string \<times> string \<times> rbac_rule list"

record 'p world =
  w_provider :: 'p
  w_aws_calls :: aws_log
  w_kube_calls :: kube_log
  w_sessions :: "session list"
  w_audit :: "audit_record list"

record 'p scope =
  sc_Supports :: "action \<Rightarrow> bool"
  sc_DeriveTarget :: "exec_request \<Rightarrow> ('p world, target) act"
  sc_Authorize :: "exec_request \<Rightarrow> auth_result"
  sc_Run :: "exec_request \<Rightarrow> ('p world, action_result) act"

section \<open>The executor\<close>

fun as_failure :: "goerr \<Rightarrow> (string \<times> goerr option) option" where
  "as_failure (Failure m c) = Some (m, c)"
| "as_failure (Errw f as e) = as_failure e"
| "as_failure (Errf f as) = None"
| "as_failure ErrNotFound = None"
| "as_failure (ErrExt s) = None"
| "as_failure (GoPanic s) = None"

definition auditedCause :: "goerr \<Rightarrow> goerr" where
  "auditedCause e = (case as_failure e of Some (m, Some c) \<Rightarrow> c | _ \<Rightarrow> e)"

definition scopeFor :: "'p scope list \<Rightarrow> action \<Rightarrow> 'p scope option" where
  "scopeFor scopes a = find (\<lambda>s. sc_Supports s a) scopes"

definition audit_log :: "audit_record \<Rightarrow> 'p world \<Rightarrow> 'p world" where
  "audit_log rec w = w\<lparr>w_audit := w_audit w @ [rec]\<rparr>"

datatype exec_return = Returned exec_result | Panicked string

text \<open>The part after the target is known: authorization, then the run.\<close>

definition execute_target ::
  "'p scope \<Rightarrow> exec_request \<Rightarrow> audit_record \<Rightarrow> 'p world \<Rightarrow> exec_return \<times> 'p world"
where
  "execute_target scope req rec0 w =
    (let rec = rec0\<lparr>au_Target := er_Target req\<rparr>; auth = sc_Authorize scope req in
     if \<not> ar_Allowed auth
     then (Returned \<lparr>res_Allowed = False, res_Reason = ar_Reason auth, res_Output = None, res_Error = None\<rparr>,
           audit_log (rec\<lparr>au_Decision := DecisionDenied, au_DenyReason := ar_Reason auth,
                         au_Outcome := OutcomeSkipped\<rparr>) w)
     else (let rec' = rec\<lparr>au_Decision := DecisionAllowed\<rparr> in
       case sc_Run scope req w of
         (Inl (GoPanic m), w') \<Rightarrow> (Panicked m, audit_log rec' w')
       | (Inl e, w') \<Rightarrow>
         (Returned \<lparr>res_Allowed = True, res_Reason = ar_Reason auth, res_Output = None, res_Error = Some e\<rparr>,
          audit_log (rec'\<lparr>au_Outcome := OutcomeFailure, au_Error := err_text (auditedCause e)\<rparr>) w')
       | (Inr out, w') \<Rightarrow>
         (Returned \<lparr>res_Allowed = True, res_Reason = ar_Reason auth, res_Output = Some out, res_Error = None\<rparr>,
          audit_log (rec'\<lparr>au_Outcome := OutcomeSuccess\<rparr>) w')))"

definition Execute :: "'p scope list \<Rightarrow> exec_request \<Rightarrow> 'p world \<Rightarrow> exec_return \<times> 'p world" where
  "Execute scopes req w =
    (let rec = \<lparr>au_CallerID = er_CallerID req, au_Action = action_Name (er_Action req), au_Target = None,
                au_ClusterID = er_ClusterID req, au_Decision = NoDecision, au_DenyReason = [],
                au_Outcome = NoOutcome, au_Error = []\<rparr>
     in case scopeFor scopes (er_Action req) of
          None \<Rightarrow>
            (let reason = sprintf ''no execution scope configured for action %q'' [action_Name (er_Action req)] in
             (Returned \<lparr>res_Allowed = False, res_Reason = reason, res_Output = None, res_Error = None\<rparr>,
              audit_log (rec\<lparr>au_Decision := DecisionDenied, au_DenyReason := reason,
                            au_Outcome := OutcomeSkipped\<rparr>) w))
        | Some scope \<Rightarrow>
            (case er_Target req of
               Some t \<Rightarrow> execute_target scope req rec w
             | None \<Rightarrow>
               (case sc_DeriveTarget scope req w of
                  (Inl (GoPanic m), w') \<Rightarrow> (Panicked m, audit_log rec w')
                | (Inl e, w') \<Rightarrow>
                  (Returned \<lparr>res_Allowed = False, res_Reason = [], res_Output = None, res_Error = Some e\<rparr>,
                   audit_log (rec\<lparr>au_Outcome := OutcomeFailure, au_Error := err_text (auditedCause e)\<rparr>) w')
                | (Inr t, w') \<Rightarrow> execute_target scope (req\<lparr>er_Target := Some t\<rparr>) rec w')))"

text \<open>Acting on one component of the world.\<close>

definition on_provider :: "('p, 'a) act \<Rightarrow> ('p world, 'a) act" where
  "on_provider m w = (case m (w_provider w) of (r, p) \<Rightarrow> (r, w\<lparr>w_provider := p\<rparr>))"

definition on_aws :: "(aws_log, 'a) act \<Rightarrow> ('p world, 'a) act" where
  "on_aws m w = (case m (w_aws_calls w) of (r, l) \<Rightarrow> (r, w\<lparr>w_aws_calls := l\<rparr>))"

definition on_kube :: "(kube_log, 'a) act \<Rightarrow> ('p world, 'a) act" where
  "on_kube m w = (case m (w_kube_calls w) of (r, l) \<Rightarrow> (r, w\<lparr>w_kube_calls := l\<rparr>))"

text \<open>A failure of a stage is framed for the caller; a panic is not an error and passes through.\<close>

definition framed :: "string \<Rightarrow> ('s, 'a) act \<Rightarrow> ('s, 'a) act" where
  "framed msg m s =
    (case m s of
       (Inl (GoPanic p), s') \<Rightarrow> (Inl (GoPanic p), s')
     | (Inl e, s') \<Rightarrow> (Inl (Failure msg (Some e)), s')
     | (Inr a, s') \<Rightarrow> (Inr a, s'))"

section \<open>The Kubernetes scope\<close>

text \<open>
  \<open>backplane.ClientProvider\<close>: opening a session gives the dynamic client, and opening another one the pod
  executor.  Sessions are logged.
\<close>

record backplane_provider =
  bp_GetClient :: "session list \<Rightarrow> session \<Rightarrow> kube_clients result"
  bp_GetPodExecutor :: "session list \<Rightarrow> session \<Rightarrow> pod_exec result"

definition open_session :: "session \<Rightarrow> (session list \<Rightarrow> session \<Rightarrow> 'a result) \<Rightarrow> ('p world, 'a) act" where
  "open_session ses answer w = (answer (w_sessions w) ses, w\<lparr>w_sessions := w_sessions w @ [ses]\<rparr>)"

definition kube_DeriveTarget :: "exec_request \<Rightarrow> ('p world, target) act" where
  "kube_DeriveTarget req =
    (let p = param (er_Params req) in
     ret (KubeTarget \<lparr>rt_Group = p ''group'', rt_Version = p ''version'', rt_Resource = p ''resource'',
       rt_Namespace = p ''namespace'', rt_Name = p ''name'', rt_ClusterScoped = False\<rparr>))"

definition kube_Authorize :: "authorizer \<Rightarrow> exec_request \<Rightarrow> auth_result" where
  "kube_Authorize a req =
    (case er_Target req of
       Some (KubeTarget t) \<Rightarrow>
         Authorize a \<lparr>rq_Namespace = rt_Namespace t, rq_ResourceType = rt_Resource t,
           rq_ResourceName = rt_Name t, rq_ClusterScoped = rt_ClusterScoped t\<rparr>
     | Some (AwsTarget t) \<Rightarrow> deny ''target actions.AWSTarget is not a Kubernetes resource target''
     | None \<Rightarrow> deny ''target <nil> is not a Kubernetes resource target'')"

definition kube_Run :: "backplane_provider \<Rightarrow> exec_request \<Rightarrow> ('p world, action_result) act" where
  "kube_Run bp req =
    (case (er_Action req, er_Target req) of
       (KubeAct a, Some (KubeTarget t)) \<Rightarrow>
         (let ses = (er_ClusterID req, ka_Name a, ka_RequiredRBAC a t) in
          seq (framed ''failed to get cluster client'' (open_session ses (bp_GetClient bp))) (\<lambda>client.
          seq (if ka_UsesPodExec a
               then seq (framed ''failed to get pod executor'' (open_session ses (bp_GetPodExecutor bp)))
                      (\<lambda>ex. ret (client\<lparr>pe_Exec := Some ex\<rparr>))
               else ret (client\<lparr>pe_Exec := None\<rparr>)) (\<lambda>clients.
          framed ''action execution failed''
            (on_kube (ka_Execute a clients
              \<lparr>kr_Target = t, kr_ClusterVersion = er_ClusterVersion req, kr_Params = er_Params req\<rparr>)))))
     | (KubeAct a, Some (AwsTarget t)) \<Rightarrow> fail (Errf ''target %T is not a Kubernetes resource target'' [''actions.AWSTarget''])
     | (KubeAct a, None) \<Rightarrow> fail (Errf ''target %T is not a Kubernetes resource target'' [''<nil>''])
     | (AwsAct a, _) \<Rightarrow> fail (Errf ''action %q is not a Kubernetes action'' [aa_Name a]))"

definition NewKubeScope :: "authorizer \<Rightarrow> backplane_provider \<Rightarrow> 'p scope" where
  "NewKubeScope a bp =
    \<lparr>sc_Supports = (\<lambda>act. case act of KubeAct k \<Rightarrow> True | AwsAct w \<Rightarrow> False),
     sc_DeriveTarget = kube_DeriveTarget, sc_Authorize = kube_Authorize a, sc_Run = kube_Run bp\<rparr>"

section \<open>The AWS scope\<close>

record 'p aws_provider =
  awp_DefaultRegion :: "string \<Rightarrow> ('p, string) act"
  awp_ClusterInfraID :: "string \<Rightarrow> ('p, string) act"
  awp_GetClients :: "string \<Rightarrow> string \<Rightarrow> string list \<Rightarrow> ('p, aws_clients) act"

definition aws_DeriveTarget :: "'p aws_provider \<Rightarrow> exec_request \<Rightarrow> ('p world, target) act" where
  "aws_DeriveTarget p req =
    seq (framed (''failed to resolve the cluster'' @ [CHR 0x27] @ ''s AWS region'')
          (on_provider (awp_DefaultRegion p (er_ClusterID req)))) (\<lambda>region.
    let t = \<lparr>at_Region = region, at_Resource = param (er_Params req) ''resource'',
             at_ID = param (er_Params req) ''id'', at_InfraID = []\<rparr>
    in case er_Action req of
         KubeAct k \<Rightarrow> ret (AwsTarget t)
       | AwsAct a \<Rightarrow>
         (case aa_Write a of
            None \<Rightarrow> ret (AwsTarget t)
          | Some (operation, resource) \<Rightarrow>
            if at_Resource t \<noteq> [] \<and> at_Resource t \<noteq> resource
            then fail (Errf ''action %q acts on %s, not %q'' [aa_Name a, resource, at_Resource t])
            else seq (framed (''failed to resolve the cluster'' @ [CHR 0x27] @ ''s infrastructure ID'')
                       (on_provider (awp_ClusterInfraID p (er_ClusterID req)))) (\<lambda>infraID.
                 ret (AwsTarget (t\<lparr>at_Resource := resource, at_InfraID := infraID\<rparr>)))))"

definition write_operation :: "action \<Rightarrow> string" where
  "write_operation a =
    (case a of KubeAct k \<Rightarrow> [] | AwsAct w \<Rightarrow> (case aa_Write w of None \<Rightarrow> [] | Some (operation, resource) \<Rightarrow> operation))"

definition aws_Authorize :: "aws_authorizer \<Rightarrow> exec_request \<Rightarrow> auth_result" where
  "aws_Authorize a req =
    (case er_Target req of
       Some (AwsTarget t) \<Rightarrow>
         AWSAuthorize a \<lparr>aq_Region = at_Region t, aq_Resource = at_Resource t,
           aq_Operation = write_operation (er_Action req)\<rparr>
     | Some (KubeTarget t) \<Rightarrow> deny ''target actions.ResourceTarget is not an AWS target''
     | None \<Rightarrow> deny ''target <nil> is not an AWS target'')"

definition aws_Run :: "aws_env \<Rightarrow> 'p aws_provider \<Rightarrow> exec_request \<Rightarrow> ('p world, action_result) act" where
  "aws_Run env p req =
    (case (er_Action req, er_Target req) of
       (AwsAct a, Some (AwsTarget t)) \<Rightarrow>
         seq (framed ''failed to get AWS clients''
               (on_provider (awp_GetClients p (er_ClusterID req) (at_Region t) (aa_RequiredServices a t)))) (\<lambda>clients.
         framed ''action execution failed''
           (on_aws (aa_Execute a env clients \<lparr>ar_Target = t, ar_Params = er_Params req\<rparr>)))
     | (AwsAct a, Some (KubeTarget t)) \<Rightarrow> fail (Errf ''target %T is not an AWS target'' [''actions.ResourceTarget''])
     | (AwsAct a, None) \<Rightarrow> fail (Errf ''target %T is not an AWS target'' [''<nil>''])
     | (KubeAct a, _) \<Rightarrow> fail (Errf ''action %q is not an AWS action'' [ka_Name a]))"

definition NewAWSScope :: "aws_env \<Rightarrow> aws_authorizer \<Rightarrow> 'p aws_provider \<Rightarrow> 'p scope" where
  "NewAWSScope env a p =
    \<lparr>sc_Supports = (\<lambda>act. case act of KubeAct k \<Rightarrow> False | AwsAct w \<Rightarrow> True),
     sc_DeriveTarget = aws_DeriveTarget p, sc_Authorize = aws_Authorize a, sc_Run = aws_Run env p\<rparr>"

section \<open>The contract of a scope\<close>

text \<open>Nothing was called, no session opened and nothing audited between two worlds.\<close>

definition quiet :: "'p world \<Rightarrow> 'p world \<Rightarrow> bool" where
  "quiet w w' \<longleftrightarrow>
    w_aws_calls w' = w_aws_calls w \<and> w_kube_calls w' = w_kube_calls w \<and> w_sessions w' = w_sessions w"

lemma quiet_refl [simp]: "quiet w w"
  by (simp add: quiet_def)

lemma quiet_audit [simp]: "quiet w (audit_log rec w') = quiet w w'"
  by (simp add: quiet_def audit_log_def)

lemma quiet_trans: "quiet w w' \<Longrightarrow> quiet w' w'' \<Longrightarrow> quiet w w''"
  by (simp add: quiet_def)

lemma w_audit_audit_log [simp]: "w_audit (audit_log rec w) = w_audit w @ [rec]"
  by (simp add: audit_log_def)

text \<open>
  What the executor relies on: deriving a target reaches neither a cluster nor AWS, and the scope leaves
  the audit trail to the executor.
\<close>

locale exec_scope =
  fixes s :: "'p scope"
  assumes derive_quiet: "sc_DeriveTarget s req w = (r, w') \<Longrightarrow> quiet w w'"
    and derive_audit: "sc_DeriveTarget s req w = (r, w') \<Longrightarrow> w_audit w' = w_audit w"
    and run_audit: "sc_Run s req w = (out, w') \<Longrightarrow> w_audit w' = w_audit w"
begin

lemma execute_target_record:
  assumes "execute_target s req rec0 w = (rv, w')"
    and "au_Decision rec0 = NoDecision" "au_DenyReason rec0 = []" "au_Outcome rec0 = NoOutcome" "au_Error rec0 = []"
  shows "\<exists>rec. w_audit w' = w_audit w @ [rec] \<and>
    au_CallerID rec = au_CallerID rec0 \<and> au_Action rec = au_Action rec0 \<and> au_ClusterID rec = au_ClusterID rec0 \<and>
    au_Target rec = er_Target req \<and>
    (au_Decision rec = DecisionAllowed \<or> quiet w w') \<and>
    (case rv of
       Panicked m \<Rightarrow> au_Decision rec = DecisionAllowed \<and> au_Outcome rec = NoOutcome
     | Returned res \<Rightarrow>
       au_Decision rec = (if res_Allowed res then DecisionAllowed else DecisionDenied) \<and>
       au_DenyReason rec = (if res_Allowed res then [] else res_Reason res) \<and>
       au_Outcome rec = (if \<not> res_Allowed res then OutcomeSkipped
         else if res_Error res = None then OutcomeSuccess else OutcomeFailure) \<and>
       au_Error rec = (case res_Error res of None \<Rightarrow> [] | Some e \<Rightarrow> err_text (auditedCause e)) \<and>
       (res_Output res \<noteq> None) = (res_Allowed res \<and> res_Error res = None))"
proof (cases "ar_Allowed (sc_Authorize s req)")
  case False
  with assms show ?thesis by (auto simp: execute_target_def Let_def)
next
  case True
  obtain r w1 where run: "sc_Run s req w = (r, w1)" by (cases "sc_Run s req w")
  show ?thesis
  proof (cases r)
    case (Inr out)
    with True run run_audit [OF run] assms show ?thesis by (auto simp: execute_target_def Let_def)
  next
    case (Inl e)
    with True run run_audit [OF run] assms show ?thesis
      by (cases e) (auto simp: execute_target_def Let_def)
  qed
qed

lemma execute_target_denied:
  "\<not> ar_Allowed (sc_Authorize s req) \<Longrightarrow> quiet w (snd (execute_target s req rec0 w))"
  by (simp add: execute_target_def Let_def)

end

lemma on_provider_quiet: "on_provider m w = (r, w') \<Longrightarrow> quiet w w' \<and> w_audit w' = w_audit w"
  by (auto simp: on_provider_def quiet_def split: prod.splits)

lemma framed_state: "framed msg m s = (r, s') \<Longrightarrow> \<exists>r'. m s = (r', s')"
  by (auto simp: framed_def split: prod.splits sum.splits goerr.splits)

lemma seq_state:
  assumes "seq m f s = (r, s'')"
  obtains r' s' where "m s = (r', s')" "s'' = s' \<or> (\<exists>a. r' = Inr a \<and> f a s' = (r, s''))"
  using assms by (auto simp: seq_def split: prod.splits sum.splits)

lemma kube_Run_audit:
  assumes "kube_Run bp req w = (r, w')"
  shows "w_audit w' = w_audit w \<and> w_aws_calls w' = w_aws_calls w"
  using assms
  by (auto simp: kube_Run_def fail_def ret_def Let_def open_session_def on_kube_def
      dest!: framed_state elim!: seq_state split: action.splits option.splits target.splits prod.splits if_splits)

lemma aws_Run_audit:
  assumes "aws_Run env p req w = (r, w')"
  shows "w_audit w' = w_audit w"
  using assms
  by (auto simp: aws_Run_def fail_def on_aws_def
      dest!: framed_state on_provider_quiet elim!: seq_state split: action.splits option.splits target.splits prod.splits)

lemma aws_DeriveTarget_quiet:
  assumes "aws_DeriveTarget p req w = (r, w')"
  shows "quiet w w' \<and> w_audit w' = w_audit w"
  using assms
  by (auto simp: aws_DeriveTarget_def fail_def ret_def Let_def quiet_def
      dest!: framed_state on_provider_quiet elim!: seq_state split: action.splits option.splits if_splits prod.splits)

interpretation kube_scope: exec_scope "NewKubeScope a bp"
  by unfold_locales (auto simp: NewKubeScope_def kube_DeriveTarget_def ret_def Let_def dest: kube_Run_audit)

interpretation aws_scope: exec_scope "NewAWSScope env a p"
  by unfold_locales (auto simp: NewAWSScope_def dest: aws_Run_audit aws_DeriveTarget_quiet)

section \<open>One audit record per execution, and no call without permission\<close>

text \<open>The executor of the server: the Kubernetes scope, then the AWS scope.\<close>

definition server_scopes ::
  "authorizer \<Rightarrow> backplane_provider \<Rightarrow> aws_env \<Rightarrow> aws_authorizer \<Rightarrow> 'p aws_provider \<Rightarrow> 'p scope list"
where
  "server_scopes a bp env aw p = [NewKubeScope a bp, NewAWSScope env aw p]"

lemma scopeFor_server:
  "scopeFor (server_scopes a bp env aw p) act =
    Some (case act of KubeAct k \<Rightarrow> NewKubeScope a bp | AwsAct k \<Rightarrow> NewAWSScope env aw p)"
  by (auto simp: scopeFor_def server_scopes_def NewKubeScope_def NewAWSScope_def split: action.splits)

lemma exec_scope_server: "scopeFor (server_scopes a bp env aw p) act = Some s \<Longrightarrow> exec_scope s"
  using kube_scope.exec_scope_axioms aws_scope.exec_scope_axioms
  by (auto simp: scopeFor_server split: action.splits)

lemma execution_record:
  assumes run: "Execute (server_scopes a bp env aw p) req w = (rv, w')"
  shows "\<exists>rec. w_audit w' = w_audit w @ [rec] \<and>
    au_CallerID rec = er_CallerID req \<and> au_Action rec = action_Name (er_Action req) \<and>
    au_ClusterID rec = er_ClusterID req \<and>
    (au_Decision rec = DecisionAllowed \<or> quiet w w') \<and>
    (case rv of
       Panicked m \<Rightarrow> au_Outcome rec = NoOutcome
     | Returned res \<Rightarrow>
       au_Decision rec = (if res_Allowed res then DecisionAllowed
         else if res_Error res = None then DecisionDenied else NoDecision) \<and>
       au_DenyReason rec = (if res_Allowed res then [] else res_Reason res) \<and>
       au_Outcome rec = (if res_Error res \<noteq> None then OutcomeFailure
         else if res_Allowed res then OutcomeSuccess else OutcomeSkipped) \<and>
       au_Error rec = (case res_Error res of None \<Rightarrow> [] | Some e \<Rightarrow> err_text (auditedCause e)) \<and>
       (res_Output res \<noteq> None) = (res_Allowed res \<and> res_Error res = None))"
proof -
  define rec0 where "rec0 = \<lparr>au_CallerID = er_CallerID req, au_Action = action_Name (er_Action req),
    au_Target = None, au_ClusterID = er_ClusterID req, au_Decision = NoDecision, au_DenyReason = [],
    au_Outcome = NoOutcome, au_Error = []\<rparr>"
  obtain s where s: "scopeFor (server_scopes a bp env aw p) (er_Action req) = Some s"
    by (simp add: scopeFor_server)
  then have scope: "exec_scope s" by (rule exec_scope_server)
  note entry = exec_scope.execute_target_record [OF scope]
  have target: ?thesis if "execute_target s req' rec0 w1 = (rv, w')" "quiet w w1" "w_audit w1 = w_audit w" for req' w1
  proof -
    from entry [OF that(1)] obtain rec where rec: "w_audit w' = w_audit w1 @ [rec]"
      "au_CallerID rec = au_CallerID rec0" "au_Action rec = au_Action rec0" "au_ClusterID rec = au_ClusterID rec0"
      "au_Decision rec = DecisionAllowed \<or> quiet w1 w'"
      "case rv of
         Panicked m \<Rightarrow> au_Decision rec = DecisionAllowed \<and> au_Outcome rec = NoOutcome
       | Returned res \<Rightarrow>
         au_Decision rec = (if res_Allowed res then DecisionAllowed else DecisionDenied) \<and>
         au_DenyReason rec = (if res_Allowed res then [] else res_Reason res) \<and>
         au_Outcome rec = (if \<not> res_Allowed res then OutcomeSkipped
           else if res_Error res = None then OutcomeSuccess else OutcomeFailure) \<and>
         au_Error rec = (case res_Error res of None \<Rightarrow> [] | Some e \<Rightarrow> err_text (auditedCause e)) \<and>
         (res_Output res \<noteq> None) = (res_Allowed res \<and> res_Error res = None)"
      by (auto simp: rec0_def)
    have error: "res_Allowed res \<or> res_Error res = None" if "rv = Returned res" for res
      using \<open>execute_target s req' rec0 w1 = (rv, w')\<close> that
      by (auto simp: execute_target_def Let_def split: if_splits prod.splits sum.splits goerr.splits)
    show ?thesis
      using rec that(2,3) error
      by (intro exI [of _ rec]) (cases rv; auto simp: rec0_def intro: quiet_trans)
  qed
  show ?thesis
  proof (cases "er_Target req")
    case (Some t)
    with run s target [of req w] show ?thesis by (simp add: Execute_def rec0_def)
  next
    case None
    obtain r w1 where derive: "sc_DeriveTarget s req w = (r, w1)" by (cases "sc_DeriveTarget s req w")
    note quiet = exec_scope.derive_quiet [OF scope derive] exec_scope.derive_audit [OF scope derive]
    show ?thesis
    proof (cases r)
      case (Inr t)
      with run s None derive quiet target [of "req\<lparr>er_Target := Some t\<rparr>" w1] show ?thesis
        by (simp add: Execute_def rec0_def)
    next
      case (Inl e)
      with run s None derive quiet show ?thesis
        by (cases e) (auto simp: Execute_def)
    qed
  qed
qed


section \<open>The AWS pipeline\<close>

lemma on_aws_calls:
  "on_aws m w = (r, w') \<Longrightarrow> w_aws_calls w' = snd (m (w_aws_calls w)) \<and> r = fst (m (w_aws_calls w))"
  by (auto simp: on_aws_def split: prod.splits)

lemma framed_Inr: "framed msg m s = (Inr a, s') \<longleftrightarrow> m s = (Inr a, s')"
  by (auto simp: framed_def split: prod.splits sum.splits goerr.splits)

lemma on_provider_Inr: "on_provider m w = (Inr a, w') \<Longrightarrow> fst (m (w_provider w)) = Inr a"
  by (auto simp: on_provider_def split: prod.splits)

lemma aws_DeriveTarget_write:
  assumes "aws_DeriveTarget p req w = (Inr t, w')" "er_Action req = AwsAct k" "aa_Write k = Some (operation, resource)"
  obtains region infra ps where
    "t = AwsTarget \<lparr>at_Region = region, at_Resource = resource, at_ID = param (er_Params req) ''id'', at_InfraID = infra\<rparr>"
    "fst (awp_DefaultRegion p (er_ClusterID req) (w_provider w)) = Inr region"
    "fst (awp_ClusterInfraID p (er_ClusterID req) ps) = Inr infra"
  using assms
  by (auto simp: aws_DeriveTarget_def Let_def ret_def fail_def framed_Inr elim!: seq_InrE split: if_splits
      dest!: on_provider_Inr)

lemma aws_Run_calls:
  assumes "aws_Run env p req w = (r, w')" "er_Action req = AwsAct k" "er_Target req = Some (AwsTarget t)"
  shows "w_aws_calls w' = w_aws_calls w \<or>
    (\<exists>clients. w_aws_calls w' =
       snd (aa_Execute k env clients \<lparr>ar_Target = t, ar_Params = er_Params req\<rparr> (w_aws_calls w)))"
  using assms
  by (auto simp: aws_Run_def quiet_def dest!: framed_state on_provider_quiet on_aws_calls elim!: seq_state)

lemma registered_aws_mutations:
  assumes "CreateAction n = Some (AwsAct k)"
    and "c \<in> set (drop (length log) (snd (aa_Execute k env clients req log)))" "aws_mutates c"
  shows "\<exists>ec2 inst operation. ownership_shown ec2 (ar_Target req) log inst \<and>
    aa_Write k = Some (operation, ''ec2-instances'') \<and>
    (operation, c) \<in> {(''reboot'', AwsRebootInstances [at_ID (ar_Target req)]),
                       (''terminate'', AwsTerminateInstances [at_ID (ar_Target req)])}"
proof -
  note new = assms(2,3)
  from registered_aws [OF assms(1)] consider "k = NewAWSGetAction" | "k = NewAWSRebootAction" | "k = NewAWSTerminateAction"
    by blast
  then show ?thesis
  proof cases
    case 1
    with new logs_only_new [OF aws_get_calls] show ?thesis by (auto simp: NewAWSGetAction_def)
  next
    case 2
    with new reboot_cases [of env clients req log] show ?thesis
      by (auto simp: NewAWSRebootAction_def Let_def AWSOperationReboot_def awsWriteResourceInstances_def)
  next
    case 3
    with new terminate_cases [of env clients req log] show ?thesis
      by (auto simp: NewAWSTerminateAction_def Let_def AWSOperationTerminate_def awsWriteResourceInstances_def)
  qed
qed

lemma aws_DeriveTarget_aws: "aws_DeriveTarget p req w = (Inr t, w') \<Longrightarrow> \<exists>t'. t = AwsTarget t'"
  by (auto simp: aws_DeriveTarget_def Let_def ret_def fail_def elim!: seq_InrE split: if_splits action.splits option.splits)

lemma aws_execution_trace:
  assumes run: "Execute (server_scopes a bp env aw p) req w = (rv, w')"
    and req: "er_Action req = AwsAct k" "er_Target req = None"
  shows "w_aws_calls w' = w_aws_calls w \<or>
    (\<exists>t clients w1. aws_DeriveTarget p req w = (Inr (AwsTarget t), w1) \<and>
      ar_Allowed (AWSAuthorize aw \<lparr>aq_Region = at_Region t, aq_Resource = at_Resource t,
        aq_Operation = write_operation (AwsAct k)\<rparr>) \<and>
      w_aws_calls w' = snd (aa_Execute k env clients \<lparr>ar_Target = t, ar_Params = er_Params req\<rparr> (w_aws_calls w)))"
proof -
  have find: "scopeFor (server_scopes a bp env aw p) (er_Action req) = Some (NewAWSScope env aw p)"
    by (simp add: scopeFor_server req)
  obtain r w1 where derive: "aws_DeriveTarget p req w = (r, w1)" by (cases "aws_DeriveTarget p req w")
  note quiet1 = aws_DeriveTarget_quiet [OF derive]
  show ?thesis
  proof (cases r)
    case (Inl e)
    with run find req derive quiet1 show ?thesis
      by (cases e) (auto simp: Execute_def audit_log_def quiet_def NewAWSScope_def)
  next
    case (Inr t0)
    with derive obtain t where t: "t0 = AwsTarget t" using aws_DeriveTarget_aws by blast
    define req' where "req' = req\<lparr>er_Target := Some (AwsTarget t)\<rparr>"
    obtain out w2 where runs: "aws_Run env p req' w1 = (out, w2)" by (cases "aws_Run env p req' w1")
    have calls: "w_aws_calls w2 = w_aws_calls w1 \<or> (\<exists>clients. w_aws_calls w2 =
        snd (aa_Execute k env clients \<lparr>ar_Target = t, ar_Params = er_Params req\<rparr> (w_aws_calls w1)))"
      using aws_Run_calls [OF runs, of k t] req by (simp add: req'_def)
    have auth: "aws_Authorize aw req' = AWSAuthorize aw \<lparr>aq_Region = at_Region t, aq_Resource = at_Resource t,
        aq_Operation = write_operation (AwsAct k)\<rparr>"
      using req by (simp add: aws_Authorize_def req'_def)
    have "w_aws_calls w' = w_aws_calls w1 \<or> ar_Allowed (aws_Authorize aw req') \<and> w_aws_calls w' = w_aws_calls w2"
      using run find req derive Inr t runs
      by (auto simp: Execute_def execute_target_def Let_def NewAWSScope_def audit_log_def req'_def
          split: if_splits sum.splits goerr.splits)
    with quiet1 calls auth derive Inr t show ?thesis by (auto simp: quiet_def)
  qed
qed

text \<open>
  C1. The AWS pipeline end to end, for an execution whose target the server derives from the request: an
  instance is rebooted or terminated only in a region of the configured allowlist which is the cluster's own
  region as the provider resolved it, only when the configured operations permit that very operation, only
  the instance the request names, and only after that instance was seen to carry the ownership tag of the
  infrastructure ID the provider resolved for the cluster.
\<close>
theorem aws_writes_are_authorized_and_owned:
  assumes reg: "CreateAction n = Some (AwsAct k)"
    and run: "Execute (server_scopes a bp env (NewAWS policy) p) req w = (rv, w')"
    and req: "er_Action req = AwsAct k" "er_Target req = None"
    and call: "c \<in> set (drop (length (w_aws_calls w)) (w_aws_calls w'))" "aws_mutates c"
  shows "\<exists>region infra operation.
    fst (awp_DefaultRegion p (er_ClusterID req) (w_provider w)) = Inr region \<and>
    region \<in> set (AllowedRegions policy) \<and>
    (\<exists>ps. fst (awp_ClusterInfraID p (er_ClusterID req) ps) = Inr infra) \<and>
    operation \<in> set (AllowedOperations policy) \<and>
    (operation, c) \<in> {(''reboot'', AwsRebootInstances [param (er_Params req) ''id'']),
                     (''terminate'', AwsTerminateInstances [param (er_Params req) ''id''])} \<and>
    (\<exists>ec2 inst. ownership_shown ec2 \<lparr>at_Region = region, at_Resource = ''ec2-instances'',
       at_ID = param (er_Params req) ''id'', at_InfraID = infra\<rparr> (w_aws_calls w) inst)"
proof -
  from aws_execution_trace [OF run req] call(1) obtain t clients w1 where
    derive: "aws_DeriveTarget p req w = (Inr (AwsTarget t), w1)"
    and allowed: "ar_Allowed (AWSAuthorize (NewAWS policy) \<lparr>aq_Region = at_Region t, aq_Resource = at_Resource t,
        aq_Operation = write_operation (AwsAct k)\<rparr>)"
    and calls: "w_aws_calls w' =
        snd (aa_Execute k env clients \<lparr>ar_Target = t, ar_Params = er_Params req\<rparr> (w_aws_calls w))"
    by auto
  from registered_aws_mutations [OF reg call(1) [unfolded calls] call(2)]
  obtain ec2 inst operation where
    shown: "ownership_shown ec2 t (w_aws_calls w) inst"
    and wr: "aa_Write k = Some (operation, ''ec2-instances'')"
    and op: "(operation, c) \<in> {(''reboot'', AwsRebootInstances [at_ID t]), (''terminate'', AwsTerminateInstances [at_ID t])}"
    by auto
  obtain region infra ps where t: "t = \<lparr>at_Region = region, at_Resource = ''ec2-instances'',
      at_ID = param (er_Params req) ''id'', at_InfraID = infra\<rparr>"
    and res: "fst (awp_DefaultRegion p (er_ClusterID req) (w_provider w)) = Inr region"
      "fst (awp_ClusterInfraID p (er_ClusterID req) ps) = Inr infra"
    using aws_DeriveTarget_write [OF derive req(1) wr] by auto
  have "region \<in> set (AllowedRegions policy)" "operation \<in> set (AllowedOperations policy)"
    using allowed op wr t by (auto simp: AWSAuthorize_def NewAWS_def write_operation_def split: if_splits)
  with res shown op t show ?thesis by auto
qed

section \<open>The Kubernetes pipeline\<close>

definition derived_target :: "(string \<times> string) list \<Rightarrow> resource_target" where
  "derived_target ps = \<lparr>rt_Group = param ps ''group'', rt_Version = param ps ''version'',
     rt_Resource = param ps ''resource'', rt_Namespace = param ps ''namespace'', rt_Name = param ps ''name'',
     rt_ClusterScoped = False\<rparr>"

lemma on_kube_calls: "on_kube m w = (r, w') \<Longrightarrow> w_kube_calls w' = snd (m (w_kube_calls w))"
  by (auto simp: on_kube_def split: prod.splits)

lemma open_session_calls: "open_session ses answer w = (r, w') \<Longrightarrow> w_kube_calls w' = w_kube_calls w"
  by (auto simp: open_session_def)

lemma kube_Run_calls:
  assumes "kube_Run bp req w = (r, w')" "er_Action req = KubeAct k" "er_Target req = Some (KubeTarget t)"
  shows "w_kube_calls w' = w_kube_calls w \<or>
    (\<exists>clients. w_kube_calls w' = snd (ka_Execute k clients
       \<lparr>kr_Target = t, kr_ClusterVersion = er_ClusterVersion req, kr_Params = er_Params req\<rparr> (w_kube_calls w)))"
  using assms
  by (auto simp: kube_Run_def Let_def ret_def dest!: framed_state on_kube_calls open_session_calls
      elim!: seq_state split: if_splits) blast+

lemma kube_execution_trace:
  assumes run: "Execute (server_scopes a bp env aw p) req w = (rv, w')"
    and req: "er_Action req = KubeAct k" "er_Target req = None"
  defines "t \<equiv> derived_target (er_Params req)"
  shows "w_kube_calls w' = w_kube_calls w \<or>
    (ar_Allowed (Authorize a \<lparr>rq_Namespace = rt_Namespace t, rq_ResourceType = rt_Resource t,
       rq_ResourceName = rt_Name t, rq_ClusterScoped = False\<rparr>) \<and>
     (\<exists>clients. w_kube_calls w' = snd (ka_Execute k clients
        \<lparr>kr_Target = t, kr_ClusterVersion = er_ClusterVersion req, kr_Params = er_Params req\<rparr> (w_kube_calls w))))"
proof -
  define req' where "req' = req\<lparr>er_Target := Some (KubeTarget t)\<rparr>"
  obtain out w2 where runs: "kube_Run bp req' w = (out, w2)" by (cases "kube_Run bp req' w")
  have "w_kube_calls w' = w_kube_calls w \<or> ar_Allowed (kube_Authorize a req') \<and> w_kube_calls w' = w_kube_calls w2"
    using run req runs
    by (auto simp: Execute_def scopeFor_server execute_target_def Let_def NewKubeScope_def audit_log_def
        req'_def t_def derived_target_def kube_DeriveTarget_def ret_def split: if_splits sum.splits goerr.splits)
  moreover have "kube_Authorize a req' = Authorize a \<lparr>rq_Namespace = rt_Namespace t,
      rq_ResourceType = rt_Resource t, rq_ResourceName = rt_Name t, rq_ClusterScoped = False\<rparr>"
    by (simp add: kube_Authorize_def req'_def t_def derived_target_def)
  ultimately show ?thesis using kube_Run_calls [OF runs, of k t] req by (auto simp: req'_def)
qed

lemma object_action_calls:
  assumes "k \<in> {NewGetAction, NewPatchAction, NewDeleteAction}"
    and "c \<in> set (drop (length log) (snd (ka_Execute k clients req log)))"
    and "\<not> rt_ClusterScoped (kr_Target req)"
  shows "\<exists>g verb nm. call_needs c = (g, rt_Resource (kr_Target req), verb, rt_Namespace (kr_Target req), nm) \<and>
    (rt_Name (kr_Target req) = [] \<or> nm = Some (rt_Name (kr_Target req)))"
proof -
  let ?P = "\<lambda>c. \<exists>g verb nm. call_needs c = (g, rt_Resource (kr_Target req), verb, rt_Namespace (kr_Target req), nm) \<and>
    (rt_Name (kr_Target req) = [] \<or> nm = Some (rt_Name (kr_Target req)))"
  have "logs_only ?P (get_Execute clients req)" "logs_only ?P (patch_Execute clients req)"
      "logs_only ?P (delete_Execute clients req)"
    unfolding get_Execute_def patch_Execute_def delete_Execute_def Let_def kube_call_defs
    by (auto intro!: log_rules simp: resourceClient_Inr target_gvr_def)
  with assms(1) have "logs_only ?P (ka_Execute k clients req)"
    by (auto simp: NewGetAction_def NewPatchAction_def NewDeleteAction_def)
  from logs_only_new [OF this assms(2)] show ?thesis .
qed

text \<open>
  C2. The Kubernetes pipeline end to end, for an execution of get, patch or delete whose target the server
  derives from the request: with a namespace allowlist configured, every call that reaches the cluster is to an
  allowlisted namespace, and a call on secrets names one secret, which is on the secret allowlist.
\<close>
theorem kube_calls_respect_the_allowlists:
  assumes conf: "nss \<noteq> []"
    and act: "k \<in> {NewGetAction, NewPatchAction, NewDeleteAction}"
    and run: "Execute (server_scopes (New_authorizer nss secs) bp env aw p) req w = (rv, w')"
    and req: "er_Action req = KubeAct k" "er_Target req = None"
    and call: "c \<in> set (drop (length (w_kube_calls w)) (w_kube_calls w'))"
  shows "\<exists>g res verb ns nm. call_needs c = (g, res, verb, ns, nm) \<and> ns \<in> set nss \<and>
    (res = ''secrets'' \<longrightarrow> (\<exists>name. nm = Some name \<and> ns @ ''/'' @ name \<in> set secs))"
proof -
  define t where "t = derived_target (er_Params req)"
  have scoped: "\<not> rt_ClusterScoped t" by (simp add: t_def derived_target_def)
  from kube_execution_trace [OF run req, folded t_def] call obtain clients where
    auth: "ar_Allowed (Authorize (New_authorizer nss secs) \<lparr>rq_Namespace = rt_Namespace t,
      rq_ResourceType = rt_Resource t, rq_ResourceName = rt_Name t, rq_ClusterScoped = False\<rparr>)"
    and calls: "w_kube_calls w' = snd (ka_Execute k clients
      \<lparr>kr_Target = t, kr_ClusterVersion = er_ClusterVersion req, kr_Params = er_Params req\<rparr> (w_kube_calls w))"
    by auto
  obtain g verb nm where needs: "call_needs c = (g, rt_Resource t, verb, rt_Namespace t, nm)"
      "rt_Name t = [] \<or> nm = Some (rt_Name t)"
    using object_action_calls [OF act call [unfolded calls]] scoped by auto
  have "rt_Namespace t \<in> set nss"
    using authorize_namespaceD [OF auth conf] by simp
  moreover have "\<exists>name. nm = Some name \<and> rt_Namespace t @ ''/'' @ name \<in> set secs" if "rt_Resource t = ''secrets''"
    using authorize_secretD [OF auth conf] that needs(2) by auto
  ultimately show ?thesis using needs(1) by blast
qed

section \<open>Concrete executions\<close>

definition demo_world :: "unit world" where
  "demo_world = \<lparr>w_provider = (), w_aws_calls = [], w_kube_calls = [], w_sessions = [], w_audit = []\<rparr>"

definition demo_instance :: ec2_instance where
  "demo_instance = \<lparr>in_InstanceId = Some ''i-1'',
     in_Tags = [(Some ''kubernetes.io/cluster/abc-x1'', Some ''owned'')], in_Rest = JNull\<rparr>"

definition demo_ec2 :: ec2_api where
  "demo_ec2 = \<lparr>e_Page = (\<lambda>_ _ _ _. Inr ([], None)), e_InstancesPage = (\<lambda>_ _ _. Inr ([], None)),
     e_DescribeInstance = (\<lambda>_ _. Inr [[demo_instance]]), e_RebootInstances = (\<lambda>_ _. Inr ()),
     e_TerminateInstances = (\<lambda>_ _. Inr None)\<rparr>"

definition demo_aws :: "unit aws_provider" where
  "demo_aws = \<lparr>awp_DefaultRegion = (\<lambda>cid. ret ''us-east-1''), awp_ClusterInfraID = (\<lambda>cid. ret ''abc-x1''),
     awp_GetClients = (\<lambda>cid region services. ret (no_clients\<lparr>cl_EC2 := Some demo_ec2\<rparr>))\<rparr>"

definition demo_backplane :: backplane_provider where
  "demo_backplane = \<lparr>bp_GetClient = (\<lambda>sessions s. Inr (sample_clients [])),
     bp_GetPodExecutor = (\<lambda>sessions s. Inl (ErrExt ''no executor''))\<rparr>"

definition demo_exec :: "action \<Rightarrow> (string \<times> string) list \<Rightarrow> exec_request" where
  "demo_exec a ps = \<lparr>er_CallerID = ''alice'', er_ClusterID = ''abc'', er_ClusterVersion = [], er_Action = a,
     er_Target = None, er_Params = ps\<rparr>"

definition demo_scopes :: "string list \<Rightarrow> unit scope list" where
  "demo_scopes nss = server_scopes (New_authorizer nss []) demo_backplane (demo_env 9)
     (NewAWS \<lparr>AllowedRegions = [''us-east-1''], AllowedOperations = [''reboot'']\<rparr>) demo_aws"

lemmas demo_defs = demo_world_def demo_instance_def demo_ec2_def demo_aws_def demo_backplane_def demo_exec_def

lemma demo_reboot_run:
  "w_aws_calls (snd (Execute (demo_scopes []) (demo_exec (AwsAct NewAWSRebootAction) [(''id'', ''i-1'')]) demo_world)) =
    [AwsDescribeInstance ''i-1'', AwsRebootInstances [''i-1'']]"
  by (simp add: demo_scopes_def Execute_def scopeFor_server execute_target_def audit_log_def NewAWSScope_def
      aws_DeriveTarget_def aws_Authorize_def aws_Run_def AWSAuthorize_def NewAWS_def write_operation_def
      NewAWSRebootAction_def AWSOperationReboot_def awsWriteResourceInstances_def aws_reboot_Execute_def
      requireClusterInstance_def owned_by_def clusterOwnershipTag_def clusterOwnershipTagValue_def ToString_def
      framed_def on_provider_def on_aws_def with_client_def act_defs Let_def param_def demo_defs no_clients_def
      demo_env_def)

lemma aws_writes_witness:
  "\<exists>ec2 inst. ownership_shown ec2 \<lparr>at_Region = ''us-east-1'', at_Resource = ''ec2-instances'',
     at_ID = ''i-1'', at_InfraID = ''abc-x1''\<rparr> [] inst"
proof -
  have reg: "CreateAction ''aws-reboot'' = Some (AwsAct NewAWSRebootAction)"
    by (simp add: CreateAction_def nameToActionFactory_eq)
  obtain rv w' where run: "Execute (demo_scopes []) (demo_exec (AwsAct NewAWSRebootAction) [(''id'', ''i-1'')]) demo_world = (rv, w')"
    by (cases "Execute (demo_scopes []) (demo_exec (AwsAct NewAWSRebootAction) [(''id'', ''i-1'')]) demo_world")
  have "w_aws_calls w' = [AwsDescribeInstance ''i-1'', AwsRebootInstances [''i-1'']]"
    using demo_reboot_run run by simp
  then have "AwsRebootInstances [''i-1''] \<in> set (drop (length (w_aws_calls demo_world)) (w_aws_calls w'))"
    by (simp add: demo_world_def)
  from aws_writes_are_authorized_and_owned [OF reg run [unfolded demo_scopes_def] _ _ this]
  show ?thesis by (auto simp: demo_exec_def demo_aws_def demo_world_def ret_def param_def)
qed

lemma demo_get_run:
  "w_kube_calls (snd (Execute (demo_scopes [''default''])
      (demo_exec (KubeAct NewGetAction) [(''resource'', ''pods''), (''namespace'', ''default'')]) demo_world)) =
    [KList \<lparr>gv_Group = [], gv_Version = [], gv_Resource = ''pods''\<rparr> ''default'' no_list_options]"
  by (simp add: demo_scopes_def Execute_def scopeFor_server execute_target_def audit_log_def NewKubeScope_def
      kube_DeriveTarget_def kube_Authorize_def kube_Run_def Authorize_def New_authorizer_def
      NewGetAction_def get_Execute_def resourceClient_def target_gvr_def kube_call_defs open_session_def
      framed_def on_kube_def act_defs Let_def param_def demo_defs sample_clients_def)

lemma kube_calls_witness:
  "\<exists>g res verb ns nm. call_needs (KList \<lparr>gv_Group = [], gv_Version = [], gv_Resource = ''pods''\<rparr> ''default''
     no_list_options) = (g, res, verb, ns, nm) \<and> ns \<in> {''default''}"
proof -
  let ?req = "demo_exec (KubeAct NewGetAction) [(''resource'', ''pods''), (''namespace'', ''default'')]"
  obtain rv w' where run: "Execute (demo_scopes [''default'']) ?req demo_world = (rv, w')"
    by (cases "Execute (demo_scopes [''default'']) ?req demo_world")
  have "KList \<lparr>gv_Group = [], gv_Version = [], gv_Resource = ''pods''\<rparr> ''default'' no_list_options
      \<in> set (drop (length (w_kube_calls demo_world)) (w_kube_calls w'))"
    using demo_get_run run by (simp add: demo_world_def)
  from kube_calls_respect_the_allowlists [OF _ _ run [unfolded demo_scopes_def] _ _ this]
  show ?thesis by (auto simp: demo_exec_def)
qed

text \<open>
  The allowlists judge the target of the request, not what the action reads: get-pull-secret-email reads
  \<open>openshift-config/pull-secret\<close> for a request that names any allowed namespace, although neither that
  namespace nor that secret is on an allowlist and a get of the secret is denied.
\<close>
lemma pull_secret_email_is_not_gated_by_the_secret_allowlist:
  "w_kube_calls (snd (Execute (demo_scopes [''default''])
      (demo_exec (KubeAct NewGetPullSecretEmailAction) [(''namespace'', ''default'')]) demo_world)) =
    [KGet secretsGVR ''openshift-config'' ''pull-secret''] \<and>
   \<not> ar_Allowed (Authorize (New_authorizer [''default''] []) \<lparr>rq_Namespace = ''openshift-config'',
      rq_ResourceType = ''secrets'', rq_ResourceName = ''pull-secret'', rq_ClusterScoped = False\<rparr>)"
  by (simp add: demo_scopes_def Execute_def scopeFor_server execute_target_def audit_log_def NewKubeScope_def
      kube_DeriveTarget_def kube_Authorize_def kube_Run_def Authorize_def New_authorizer_def
      NewGetPullSecretEmailAction_def pull_secret_Execute_def pullSecretNamespace_def pullSecretName_def
      kube_call_defs open_session_def extractEmail_def
      framed_def on_kube_def act_defs Let_def param_def demo_defs sample_clients_def)

end
