(* ===== verification/Timefmt.thy ===== *)
theory Timefmt
  imports Prelude "HOL-Library.Monad_Syntax"
begin

text \<open>
  Go's \<open>time.Time\<close> as an instant, a number of nanoseconds since 0000-01-01T00:00:00 UTC of the
  proleptic Gregorian calendar, and the two layouts the program prints and parses:
  \<open>timeLayout\<close> of \<open>internal/store/sqlite.go\<close> (nine fractional digits, the text form of every
  timestamp column) and \<open>time.RFC3339\<close> (\<open>parseSince\<close> of \<open>internal/handlers/api.go\<close>).  The
  lemmas show that the text form round-trips and that it orders texts as it orders instants for
  the years 0 to 9999, on which every \<open>ORDER BY\<close> and every \<open>since\<close> filter of the SQLite store
  rests.
\<close>

type_synonym gotime = int

section \<open>Locating a position in consecutive segments\<close>

text \<open>
  A day is located in its year, and a day of the year in its month, by the same walk over
  segments of given lengths.
\<close>

function locate :: "(nat \<Rightarrow> nat) \<Rightarrow> nat \<Rightarrow> nat \<Rightarrow> nat \<times> nat" where
  "locate len i d = (if len i = 0 \<or> d < len i then (i, d) else locate len (Suc i) (d - len i))"
  by pat_completeness auto
termination by (relation "measure (\<lambda>(len, i, d). d)") auto

declare locate.simps [simp del]

fun before :: "(nat \<Rightarrow> nat) \<Rightarrow> nat \<Rightarrow> nat" where
  "before len 0 = 0"
| "before len (Suc i) = before len i + len i"

lemma before_mono: "i \<le> j \<Longrightarrow> before len i \<le> before len j"
  by (rule lift_Suc_mono_le) auto

lemma locate_correct:
  assumes pos: "\<And>i. 0 < len i" and eq: "locate len i d = (j, r)"
  shows "i \<le> j \<and> r < len j \<and> before len i + d = before len j + r"
  using eq pos
proof (induction len i d rule: locate.induct)
  case (1 len i d)
  show ?case
  proof (cases "len i = 0 \<or> d < len i")
    case True
    then have "(j, r) = (i, d)" using 1 by (simp add: locate.simps [of len i d])
    moreover have "len i \<noteq> 0" using 1(3) [of i] by simp
    ultimately show ?thesis using True by simp
  next
    case False
    with 1 show ?thesis by (auto simp: locate.simps [of len i d])
  qed
qed

lemma locate_unique:
  assumes "r < len j" "before len j + r = before len i + d" "i \<le> j" "\<And>i. 0 < len i"
  shows "locate len i d = (j, r)"
proof -
  obtain j' r' where l: "locate len i d = (j', r')" by fastforce
  with locate_correct [OF assms(4) l] have r': "r' < len j'" "before len j + r = before len j' + r'"
    using assms(2) by auto
  have "j = j'"
  proof (rule ccontr)
    assume "j \<noteq> j'"
    then consider "Suc j \<le> j'" | "Suc j' \<le> j" by linarith
    then show False
      using before_mono [of "Suc j" j' len] before_mono [of "Suc j'" j len] r' assms(1) by cases auto
  qed
  with l r' show ?thesis by simp
qed

section \<open>The calendar\<close>

definition leap :: "nat \<Rightarrow> bool" where
  "leap y \<longleftrightarrow> 4 dvd y \<and> (\<not> 100 dvd y \<or> 400 dvd y)"

definition year_len :: "nat \<Rightarrow> nat" where
  "year_len y = (if leap y then 366 else 365)"

definition month_len :: "bool \<Rightarrow> nat \<Rightarrow> nat" where
  "month_len lp m =
    (if m = 1 then (if lp then 29 else 28) else if m \<in> {3, 5, 8, 10} then 30 else 31)"

lemma year_len_pos: "0 < year_len y"
  by (simp add: year_len_def)

lemma month_len_pos: "0 < month_len lp m"
  by (simp add: month_len_def)

lemma month_len_le: "month_len lp m \<le> 31"
  by (simp add: month_len_def)

lemma ceiling_Suc:
  assumes "0 < k"
  shows "(Suc n + (k - 1)) div k = (n + (k - 1)) div k + (if k dvd n then 1 else (0::nat))"
proof -
  have e: "Suc n + (k - 1) = Suc (n + (k - 1))" "Suc (n + (k - 1)) = n + k" using assms by auto
  have "Suc (n + (k - 1)) mod k = n mod k" unfolding e(2) by simp
  then show ?thesis unfolding e(1) div_Suc by (auto simp: dvd_eq_mod_eq_0)
qed

lemma before_year:
  "before year_len n + (n + 99) div 100 = 365 * n + (n + 3) div 4 + (n + 399) div 400"
proof (induction n)
  case (Suc n)
  have 4: "(Suc n + 3) div 4 = (n + 3) div 4 + (if 4 dvd n then 1 else 0)" by (use ceiling_Suc [of 4 n] in simp)
  have 100: "(Suc n + 99) div 100 = (n + 99) div 100 + (if 100 dvd n then 1 else 0)" by (use ceiling_Suc [of 100 n] in simp)
  have 400: "(Suc n + 399) div 400 = (n + 399) div 400 + (if 400 dvd n then 1 else 0)" by (use ceiling_Suc [of 400 n] in simp)
  have "(100::nat) dvd 400" "(4::nat) dvd 100" by simp_all
  then have d: "400 dvd n \<Longrightarrow> 100 dvd n" "100 dvd n \<Longrightarrow> 4 dvd n"
    using dvd_trans by blast+
  have "year_len n + (if 100 dvd n then 1 else 0) =
      365 + (if 4 dvd n then 1 else 0) + (if 400 dvd n then 1 else 0)"
    using d by (auto simp: year_len_def leap_def)
  with Suc show ?case unfolding 4 100 400 before.simps mult_Suc_right
    by (simp only: ac_simps)
qed simp

lemma before_year_400: "before year_len 400 = 146097"
  using before_year [of 400] by simp

lemma before_month_12: "before (month_len lp) 12 = (if lp then 366 else 365)"
  by (simp add: month_len_def numeral_eq_Suc)

text \<open>Years repeat every 400, so a year of any sign is a cycle and a year of the cycle.\<close>

definition year_start :: "int \<Rightarrow> int" where
  "year_start y = (y div 400) * 146097 + int (before year_len (nat (y mod 400)))"

definition leap_year :: "int \<Rightarrow> bool" where
  "leap_year y = leap (nat (y mod 400))"

definition day_of_date :: "int \<Rightarrow> nat \<Rightarrow> nat \<Rightarrow> int" where
  "day_of_date y m d = year_start y + int (before (month_len (leap_year y)) (m - 1)) + int (d - 1)"

definition date_of_day :: "int \<Rightarrow> int \<times> nat \<times> nat" where
  "date_of_day n =
    (case locate year_len 0 (nat (n mod 146097)) of (y, doy) \<Rightarrow>
     case locate (month_len (leap y)) 0 doy of (m, d) \<Rightarrow>
       ((n div 146097) * 400 + int y, m + 1, d + 1))"

definition valid_date :: "int \<Rightarrow> nat \<Rightarrow> nat \<Rightarrow> bool" where
  "valid_date y m d \<longleftrightarrow> 1 \<le> m \<and> m \<le> 12 \<and> 1 \<le> d \<and> d \<le> month_len (leap_year y) (m - 1)"

lemma date_of_day_correct:
  assumes "date_of_day n = (y, m, d)"
  shows "valid_date y m d \<and> day_of_date y m d = n"
proof -
  obtain yc doy where l1: "locate year_len 0 (nat (n mod 146097)) = (yc, doy)" by fastforce
  obtain m0 d0 where l2: "locate (month_len (leap yc)) 0 doy = (m0, d0)" by fastforce
  have 1: "doy < year_len yc" "nat (n mod 146097) = before year_len yc + doy"
    using locate_correct [OF year_len_pos l1] by auto
  have 2: "d0 < month_len (leap yc) m0" "doy = before (month_len (leap yc)) m0 + d0"
    using locate_correct [OF month_len_pos l2] by auto
  have y400: "yc < 400"
  proof (rule ccontr)
    assume "\<not> yc < 400"
    then have "146097 \<le> before year_len yc"
      using before_mono [of 400 yc year_len] before_year_400 by simp
    moreover have "nat (n mod 146097) < 146097" by simp
    ultimately show False using 1 by linarith
  qed
  have m12: "m0 < 12"
  proof (rule ccontr)
    assume "\<not> m0 < 12"
    then have "year_len yc \<le> before (month_len (leap yc)) m0"
      using before_mono [of 12 m0 "month_len (leap yc)"] before_month_12 [of "leap yc"]
      by (simp add: year_len_def)
    with 1 2 show False by linarith
  qed
  from assms l1 l2 have y: "y = (n div 146097) * 400 + int yc" "m = m0 + 1" "d = d0 + 1"
    by (auto simp: date_of_day_def)
  have ymod: "y mod 400 = int yc" "y div 400 = n div 146097"
    using y400 y by auto
  have lp: "leap_year y = leap yc" by (simp add: leap_year_def ymod)
  have "n mod 146097 = int (before year_len yc) + int (before (month_len (leap yc)) m0) + int d0"
    using 1(2) 2(2) by linarith
  then have "day_of_date y m d = (n div 146097) * 146097 + n mod 146097"
    unfolding day_of_date_def year_start_def lp ymod y(2,3) by simp
  also have "\<dots> = n" by (rule div_mult_mod_eq)
  finally show ?thesis using y m12 2 lp by (auto simp: valid_date_def)
qed

lemma year_start_Suc: "year_start (y + 1) = year_start y + int (year_len (nat (y mod 400)))"
proof (cases "y mod 400 = 399")
  case True
  then have "y + 1 = 400 * (y div 400 + 1)" using div_mult_mod_eq [of y 400] by (simp add: algebra_simps)
  then have d: "(y + 1) div 400 = y div 400 + 1" "(y + 1) mod 400 = 0"
    by (metis nonzero_mult_div_cancel_left zero_neq_numeral, metis mod_mult_self1_is_0)
  have "before year_len (Suc 399) = before year_len 399 + year_len 399" by (rule before.simps)
  then have "before year_len 399 + year_len 399 = 146097"
    using before_year_400 by simp
  then have "int (before year_len 399) + int (year_len 399) = 146097" by linarith
  with d True show ?thesis unfolding year_start_def by simp
next
  case False
  have y: "y + 1 = 400 * (y div 400) + (y mod 400 + 1)"
    using div_mult_mod_eq [of y 400] by (simp add: algebra_simps)
  have r: "0 \<le> y mod 400 + 1" "y mod 400 + 1 < 400"
    using False pos_mod_bound [of 400 y] pos_mod_sign [of 400 y] by linarith+
  have d: "(y + 1) div 400 = y div 400" "(y + 1) mod 400 = y mod 400 + 1"
    using int_div_pos_eq [OF y r] int_mod_pos_eq [OF y r] by simp_all
  have "nat (y mod 400 + 1) = Suc (nat (y mod 400))" by simp
  with d show ?thesis unfolding year_start_def by simp
qed

lemma year_start_mono: "y \<le> y' \<Longrightarrow> year_start y \<le> year_start y'"
proof -
  have "year_start y \<le> year_start (y + int k)" for k
  proof (induction k)
    case (Suc k)
    have "year_start (y + int (Suc k)) = year_start (y + int k) + int (year_len (nat ((y + int k) mod 400)))"
      using year_start_Suc [of "y + int k"] by (simp add: algebra_simps)
    with Suc show ?case by simp
  qed simp
  from this [of "nat (y' - y)"] show "y \<le> y' \<Longrightarrow> year_start y \<le> year_start y'" by simp
qed

lemma day_within_year:
  assumes "valid_date y m d"
  shows "year_start y \<le> day_of_date y m d \<and> day_of_date y m d < year_start (y + 1)"
proof -
  let ?l = "month_len (leap_year y)"
  have "before ?l (m - 1) + (d - 1) < before ?l (Suc (m - 1))"
    using assms unfolding valid_date_def before.simps by linarith
  also have "\<dots> \<le> before ?l 12"
    using assms by (intro before_mono) (auto simp: valid_date_def)
  also have "\<dots> = year_len (nat (y mod 400))"
    by (simp add: before_month_12 leap_year_def year_len_def)
  finally show ?thesis unfolding year_start_Suc day_of_date_def by simp
qed

text \<open>Dates are ordered as their days are, and a valid date is the date of its day.\<close>

lemma day_less_iff:
  assumes v: "valid_date y m d" "valid_date y' m' d'"
  shows "day_of_date y m d < day_of_date y' m' d' \<longleftrightarrow>
    y < y' \<or> (y = y' \<and> (m < m' \<or> (m = m' \<and> d < d')))"
proof -
  have less: "day_of_date y m d < day_of_date y' m' d'"
    if v: "valid_date y m d" "valid_date y' m' d'"
      and "y < y' \<or> (y = y' \<and> (m < m' \<or> (m = m' \<and> d < d')))" for y m d y' m' d'
    using that(3)
  proof (elim disjE conjE)
    assume "y < y'"
    then have "year_start (y + 1) \<le> year_start y'" by (intro year_start_mono) simp
    with day_within_year [OF v(1)] day_within_year [OF v(2)] show ?thesis by linarith
  next
    assume y: "y = y'" and "m < m'"
    let ?l = "month_len (leap_year y)"
    have "before ?l (m - 1) + (d - 1) < before ?l (Suc (m - 1))"
      using v(1) unfolding valid_date_def before.simps by linarith
    also have "\<dots> \<le> before ?l (m' - 1)"
      using v \<open>m < m'\<close> by (intro before_mono) (auto simp: valid_date_def)
    finally show ?thesis using y by (simp add: day_of_date_def)
  next
    assume "y = y'" "m = m'" "d < d'"
    with v show ?thesis by (auto simp: day_of_date_def valid_date_def)
  qed
  show ?thesis
  proof
    assume l: "day_of_date y m d < day_of_date y' m' d'"
    show "y < y' \<or> (y = y' \<and> (m < m' \<or> (m = m' \<and> d < d')))"
    proof (rule ccontr)
      assume "\<not> (y < y' \<or> (y = y' \<and> (m < m' \<or> (m = m' \<and> d < d'))))"
      then have "(y', m', d') = (y, m, d) \<or> y' < y \<or> (y' = y \<and> (m' < m \<or> (m' = m \<and> d' < d)))"
        by auto
      with less [OF v(2) v(1)] l show False by auto
    qed
  qed (rule less [OF v])
qed

lemma date_of_day_of_date:
  assumes "valid_date y m d"
  shows "date_of_day (day_of_date y m d) = (y, m, d)"
proof -
  obtain y' m' d' where e: "date_of_day (day_of_date y m d) = (y', m', d')" by (metis prod_cases3)
  have v: "valid_date y' m' d'" "day_of_date y' m' d' = day_of_date y m d"
    using date_of_day_correct [OF e] by auto
  with day_less_iff [OF assms v(1)] day_less_iff [OF v(1) assms]
  have "y' = y \<and> m' = m \<and> d' = d" by (metis linorder_neqE_nat linorder_less_linear order_less_irrefl)
  with e show ?thesis by simp
qed

section \<open>Printing\<close>

text \<open>Go's \<open>appendInt\<close>: decimal digits, padded with zeros to a width.\<close>

fun pad_digits :: "nat \<Rightarrow> nat \<Rightarrow> string" where
  "pad_digits 0 n = []"
| "pad_digits (Suc w) n = pad_digits w (n div 10) @ [digit_char n]"

definition zpad :: "nat \<Rightarrow> nat \<Rightarrow> string" where
  "zpad w n = (if n < 10 ^ w then pad_digits w n else show_nat n)"

definition appendInt :: "int \<Rightarrow> nat \<Rightarrow> string" where
  "appendInt x w = (if x < 0 then CHR ''-'' # zpad w (nat (- x)) else zpad w (nat x))"

definition ns_per_day :: int where
  "ns_per_day = 86400000000000"

text \<open>\<open>t.UTC().Format(timeLayout)\<close> with \<open>2006-01-02T15:04:05.000000000Z07:00\<close>.\<close>

definition clock_text :: "nat \<Rightarrow> string" where
  "clock_text ns =
    zpad 2 (ns div 3600000000000) @ '':'' @ zpad 2 (ns div 60000000000 mod 60) @ '':'' @
    zpad 2 (ns div 1000000000 mod 60) @ ''.'' @ zpad 9 (ns mod 1000000000)"

definition date_text :: "int \<times> nat \<times> nat \<Rightarrow> string" where
  "date_text dt = (case dt of (y, m, d) \<Rightarrow> appendInt y 4 @ ''-'' @ zpad 2 m @ ''-'' @ zpad 2 d)"

definition FormatTime :: "gotime \<Rightarrow> string" where
  "FormatTime t =
    date_text (date_of_day (t div ns_per_day)) @ ''T'' @ clock_text (nat (t mod ns_per_day)) @ ''Z''"

section \<open>Parsing\<close>

type_synonym 'a parser = "string \<Rightarrow> ('a \<times> string) option"

fun expect :: "string \<Rightarrow> unit parser" where
  "expect p s = (if HasPrefix s p then Some ((), drop (length p) s) else None)"

fun digits_val :: "string \<Rightarrow> nat \<Rightarrow> nat" where
  "digits_val [] a = a"
| "digits_val (c # s) a = digits_val s (a * 10 + digit_val c)"

definition getdigits :: "nat \<Rightarrow> nat parser" where
  "getdigits n s =
    (if n \<le> length s \<and> list_all is_digit (take n s)
     then Some (digits_val (take n s) 0, drop n s) else None)"

text \<open>\<open>getnum\<close>: two digits, or one when the field is not fixed.\<close>

definition getnum :: "bool \<Rightarrow> nat parser" where
  "getnum fixed s =
    (case getdigits 2 s of Some r \<Rightarrow> Some r | None \<Rightarrow> if fixed then None else getdigits 1 s)"

text \<open>
  The fraction of a second: in \<open>timeLayout\<close> nine digits after a point or comma, in RFC3339, which
  has none, any number of digits is taken and those beyond nanoseconds are dropped.
\<close>

definition fraction :: "bool \<Rightarrow> nat parser" where
  "fraction fixed s =
    (if fixed then
       (case s of
          c # s' \<Rightarrow> if c = CHR ''.'' \<or> c = CHR '','' then getdigits 9 s' else None
        | [] \<Rightarrow> None)
     else
       (case s of
          c # d # s' \<Rightarrow>
            if (c = CHR ''.'' \<or> c = CHR '','') \<and> is_digit d
            then (let ds = takeWhile is_digit (d # s'); n = min 9 (length ds) in
                  Some (digits_val (take n ds) 0 * 10 ^ (9 - n), dropWhile is_digit (d # s')))
            else Some (0, s)
        | _ \<Rightarrow> Some (0, s)))"

text \<open>The zone \<open>Z07:00\<close>, as the seconds it is ahead of UTC.\<close>

definition zone :: "int parser" where
  "zone s =
    (case s of
       [] \<Rightarrow> None
     | c # s' \<Rightarrow>
       if c = CHR ''Z'' then Some (0, s')
       else do {
         (h, s1) \<leftarrow> getnum True s';
         (_, s2) \<leftarrow> expect '':'' s1;
         (m, s3) \<leftarrow> getnum True s2;
         (if h > 24 \<or> m > 60 then None
          else if c = CHR ''+'' then Some (int (h * 60 + m) * 60, s3)
          else if c = CHR ''-'' then Some (- (int (h * 60 + m) * 60), s3)
          else None)
       })"

definition instant :: "int \<Rightarrow> nat \<Rightarrow> nat \<Rightarrow> nat \<Rightarrow> nat \<Rightarrow> nat \<Rightarrow> nat \<Rightarrow> int \<Rightarrow> gotime" where
  "instant y m d hh mi ss ns off =
    day_of_date y m d * ns_per_day +
    int ((hh * 3600 + mi * 60 + ss) * 1000000000 + ns) - off * 1000000000"

text \<open>\<open>time.Parse\<close> with \<open>timeLayout\<close> (\<open>fixed\<close>) or with \<open>time.RFC3339\<close>.\<close>

definition ParseTime :: "bool \<Rightarrow> string \<Rightarrow> gotime option" where
  "ParseTime fixed s = do {
     (y, s) \<leftarrow> getdigits 4 s;
     (_, s) \<leftarrow> expect ''-'' s;
     (m, s) \<leftarrow> getnum True s;
     (_, s) \<leftarrow> (if m < 1 \<or> 12 < m then None else expect ''-'' s);
     (d, s) \<leftarrow> getnum True s;
     (_, s) \<leftarrow> expect ''T'' s;
     (hh, s) \<leftarrow> getnum False s;
     (_, s) \<leftarrow> (if 24 \<le> hh then None else expect '':'' s);
     (mi, s) \<leftarrow> getnum True s;
     (_, s) \<leftarrow> (if 60 \<le> mi then None else expect '':'' s);
     (ss, s) \<leftarrow> getnum True s;
     (ns, s) \<leftarrow> (if 60 \<le> ss then None else fraction fixed s);
     (off, s) \<leftarrow> zone s;
     (if s \<noteq> [] \<or> d < 1 \<or> month_len (leap_year (int y)) (m - 1) < d then None
      else Some (instant (int y) m d hh mi ss ns off))
   }"

text \<open>Parsing a timestamp column; Go's message also names the layout and the place of the failure.\<close>

definition parse_timeLayout :: "string \<Rightarrow> gotime result" where
  "parse_timeLayout s =
    (case ParseTime True s of None \<Rightarrow> Inl (Errf ''parsing time %q'' [s]) | Some t \<Rightarrow> Inr t)"

definition year_of :: "gotime \<Rightarrow> int" where
  "year_of t = fst (date_of_day (t div ns_per_day))"

definition printable :: "gotime \<Rightarrow> bool" where
  "printable t \<longleftrightarrow> 0 \<le> year_of t \<and> year_of t \<le> 9999"

section \<open>Round trip\<close>

lemma length_pad_digits [simp]: "length (pad_digits w n) = w"
  by (induction w arbitrary: n) auto

lemma pad_digits_digits: "list_all is_digit (pad_digits w n)"
  by (induction w arbitrary: n) auto

lemma digits_val_append: "digits_val (s @ s') a = digits_val s' (digits_val s a)"
  by (induction s arbitrary: a) auto

lemma digits_val_pad: "digits_val (pad_digits w n) 0 = n mod 10 ^ w"
proof (induction w arbitrary: n)
  case (Suc w)
  then show ?case
    by (simp add: digits_val_append mod_mult2_eq)
qed simp

lemma getdigits_pad [simp]:
  "n < 10 ^ w \<Longrightarrow> getdigits w (pad_digits w n @ s) = Some (n, s)"
  by (simp add: getdigits_def pad_digits_digits digits_val_pad)

lemma getdigits_zpad [simp]: "n < 10 ^ w \<Longrightarrow> getdigits w (zpad w n @ s) = Some (n, s)"
  by (simp add: zpad_def)

lemma getnum_zpad [simp]: "n < 100 \<Longrightarrow> getnum b (zpad 2 n @ s) = Some (n, s)"
  by (simp add: getnum_def)

lemma expect_append [simp]: "expect p (p @ s) = Some ((), s)"
  by simp

lemma expect_char [simp]: "expect [c] (c # s) = Some ((), s)"
  by simp

declare expect.simps [simp del]

lemma fraction_zpad [simp]: "n < 10 ^ 9 \<Longrightarrow> fraction True (CHR ''.'' # zpad 9 n @ s) = Some (n, s)"
  by (simp add: fraction_def)

lemma zone_Z [simp]: "zone (CHR ''Z'' # s) = Some (0, s)"
  by (simp add: zone_def)

lemma clock_fields:
  assumes "ns < 86400000000000"
  shows "ns div 3600000000000 < 24"
    and "(ns div 3600000000000 * 3600 + ns div 60000000000 mod 60 * 60 + ns div 1000000000 mod 60)
       * 1000000000 + ns mod 1000000000 = (ns::nat)"
proof -
  have h: "ns div 3600000000000 = ns div 1000000000 div 60 div 60"
    and m: "ns div 60000000000 = ns div 1000000000 div 60"
    by (simp_all flip: div_mult2_eq)
  have t: "a div 60 div 60 * 3600 + a div 60 mod 60 * 60 + a mod 60 = a" for a :: nat
  proof -
    have "a div 60 div 60 * 60 + a div 60 mod 60 = a div 60" "a div 60 * 60 + a mod 60 = a"
      by (rule div_mult_mod_eq)+
    then show ?thesis by linarith
  qed
  from assms show "ns div 3600000000000 < 24" by (simp add: div_less_iff_less_mult)
  show "(ns div 3600000000000 * 3600 + ns div 60000000000 mod 60 * 60 + ns div 1000000000 mod 60)
       * 1000000000 + ns mod 1000000000 = ns"
    unfolding h m t by (rule div_mult_mod_eq)
qed

lemma ParseTime_FormatTime:
  assumes "printable t"
  shows "ParseTime True (FormatTime t) = Some t"
proof -
  obtain y m d where dt: "date_of_day (t div ns_per_day) = (y, m, d)" by (metis prod_cases3)
  define ns where "ns = nat (t mod ns_per_day)"
  have ns: "ns < 86400000000000"
    using pos_mod_bound [of ns_per_day t] by (simp add: ns_def ns_per_day_def)
  have v: "valid_date y m d" "day_of_date y m d = t div ns_per_day"
    using date_of_day_correct [OF dt] by auto
  have y: "0 \<le> y" "y \<le> 9999" using assms dt by (auto simp: printable_def year_of_def)
  then have y': "int (nat y) = y" "nat y < 10 ^ 4" "\<not> y < 0" by auto
  have m: "1 \<le> m" "m \<le> 12" and d: "1 \<le> d" "d \<le> month_len (leap_year y) (m - 1)" "d < 100"
    using v(1) month_len_le [of "leap_year y" "m - 1"] by (auto simp: valid_date_def)
  define hh mi ss fr where f: "hh = ns div 3600000000000" "mi = ns div 60000000000 mod 60"
    "ss = ns div 1000000000 mod 60" "fr = ns mod 1000000000"
  have b: "hh < 24" "mi < 60" "ss < 60" "fr < 10 ^ 9"
    using clock_fields(1) [OF ns] by (simp_all add: f)
  have t: "instant (int (nat y)) m d hh mi ss fr 0 = t"
    unfolding instant_def f clock_fields(2) [OF ns] y'(1) v(2)
    by (simp add: ns_def ns_per_day_def)
  have c: "clock_text ns = zpad 2 hh @ '':'' @ zpad 2 mi @ '':'' @ zpad 2 ss @ ''.'' @ zpad 9 fr"
    by (simp add: clock_text_def f)
  from b have b': "hh < 100" "mi < 100" "ss < 100" "\<not> 24 \<le> hh" "\<not> 60 \<le> mi" "\<not> 60 \<le> ss"
    by simp_all
  have d': "\<not> month_len (leap_year (int (nat y))) (m - 1) < d" "\<not> d < 1" "m < 100" "\<not> m < 1" "\<not> 12 < m"
    using d m y'(1) by simp_all
  show ?thesis
    unfolding FormatTime_def dt ns_def [symmetric] date_text_def prod.case appendInt_def c
      ParseTime_def append_assoc append_Cons append_Nil if_not_P [OF y'(3)]
    using d(3) y'(2) b' d' b(4) y(1) t by simp
qed

lemma parse_FormatTime [simp]: "printable t \<Longrightarrow> parse_timeLayout (FormatTime t) = Inr t"
  by (simp add: parse_timeLayout_def ParseTime_FormatTime)

section \<open>Text order is time order\<close>

lemma lex_append_less:
  fixes a b x y :: string
  assumes "length a = length b"
  shows "a @ x < b @ y \<longleftrightarrow> a < b \<or> (a = b \<and> x < y)"
  using assms by (induction a b rule: list_induct2) auto

lemma less_by_div_mod:
  fixes a b k :: nat
  assumes "0 < k"
  shows "a < b \<longleftrightarrow> a div k < b div k \<or> (a div k = b div k \<and> a mod k < b mod k)"
proof -
  have a: "a = a div k * k + a mod k" and b: "b = b div k * k + b mod k" by simp_all
  consider "a div k < b div k" | "a div k = b div k" | "b div k < a div k" by linarith
  then show ?thesis
  proof cases
    case 1
    then have "\<not> b \<le> a" using div_le_mono [of b a k] by linarith
    with 1 show ?thesis by simp
  next
    case 2
    with a b show ?thesis by (metis add_less_cancel_left less_irrefl)
  next
    case 3
    then have "\<not> a \<le> b" using div_le_mono [of a b k] by linarith
    with 3 show ?thesis by simp
  qed
qed

lemma eq_by_div_mod: "a = b \<longleftrightarrow> a div k = b div k \<and> a mod k = (b mod k :: nat)"
  by (metis div_mult_mod_eq)

lemma digit_char_less: "a < 10 \<Longrightarrow> b < 10 \<Longrightarrow> digit_char a < digit_char b \<longleftrightarrow> a < b"
  by (simp add: less_char_def)

lemma pad_digits_inj: "a < 10 ^ w \<Longrightarrow> b < 10 ^ w \<Longrightarrow> pad_digits w a = pad_digits w b \<longleftrightarrow> a = b"
  by (metis digits_val_pad mod_less)

lemma pad_digits_less:
  "a < 10 ^ w \<Longrightarrow> b < 10 ^ w \<Longrightarrow> pad_digits w a < pad_digits w b \<longleftrightarrow> a < b"
proof (induction w arbitrary: a b)
  case (Suc w)
  have q: "a div 10 < 10 ^ w" "b div 10 < 10 ^ w"
    using Suc.prems by (simp_all add: div_less_iff_less_mult mult.commute)
  have "digit_char a < digit_char b \<longleftrightarrow> a mod 10 < b mod 10"
    using digit_char_less [of "a mod 10" "b mod 10"] by (simp add: digit_char_def)
  then have "pad_digits (Suc w) a < pad_digits (Suc w) b \<longleftrightarrow>
      a div 10 < b div 10 \<or> (a div 10 = b div 10 \<and> a mod 10 < b mod 10)"
    using Suc.IH [OF q] pad_digits_inj [OF q] by (simp add: lex_append_less)
  also have "\<dots> \<longleftrightarrow> a < b"
    by (rule less_by_div_mod [symmetric]) simp
  finally show ?case .
qed simp

lemma zpad_cmp:
  assumes "a < 10 ^ w" "b < 10 ^ w"
  shows "zpad w a @ x < zpad w b @ y \<longleftrightarrow> a < b \<or> (a = b \<and> x < y)"
  using assms by (simp add: zpad_def lex_append_less pad_digits_less pad_digits_inj)

lemma lex_same_char: "(c # x < c # y) = (x < (y :: string))"
  by simp

lemma clock_text_less:
  assumes "a < 86400000000000" "b < 86400000000000"
  shows "clock_text a @ z < clock_text b @ z \<longleftrightarrow> a < b"
proof -
  have m: "n div 60000000000 = n div 1000000000 div 60"
    and h: "n div 3600000000000 = n div 60000000000 div 60" for n :: nat
    by (simp_all flip: div_mult2_eq)
  have b2: "n mod 60 < 10 ^ 2" "k < 24 \<Longrightarrow> k < 10 ^ 2" for n k :: nat
    by simp_all
  have b9: "n mod 1000000000 < 10 ^ 9" for n :: nat by simp
  have hh: "a div 3600000000000 < 10 ^ 2" "b div 3600000000000 < 10 ^ 2"
    using clock_fields(1) [OF assms(1)] clock_fields(1) [OF assms(2)] b2(2) by blast+
  show ?thesis
    unfolding clock_text_def append_assoc append_Cons append_Nil
      zpad_cmp [OF hh] zpad_cmp [OF b2(1) b2(1)] zpad_cmp [OF b9 b9] lex_same_char
    unfolding less_by_div_mod [of 1000000000 a b, simplified]
      less_by_div_mod [of 60 "a div 1000000000" "b div 1000000000", simplified, folded m]
      less_by_div_mod [of 60 "a div 60000000000" "b div 60000000000", simplified, folded h]
      eq_by_div_mod [of "a div 1000000000" "b div 1000000000" 60, folded m]
      eq_by_div_mod [of "a div 60000000000" "b div 60000000000" 60, folded h]
    by (simp only: less_irrefl) blast
qed

lemma clock_text_inj:
  assumes "a < 86400000000000" "b < 86400000000000"
  shows "clock_text a = clock_text b \<longleftrightarrow> a = b"
  using clock_text_less [OF assms, of "[]"] clock_text_less [OF assms(2) assms(1), of "[]"]
  by (metis linorder_neqE_nat order_less_irrefl)

lemma date_text_less:
  assumes v: "valid_date y m d" "valid_date y' m' d'"
    and y: "0 \<le> y" "y \<le> 9999" "0 \<le> y'" "y' \<le> 9999"
  shows "date_text (y, m, d) @ z < date_text (y', m', d') @ z' \<longleftrightarrow>
    day_of_date y m d < day_of_date y' m' d' \<or> ((y, m, d) = (y', m', d') \<and> z < z')"
proof -
  have f: "nat y < 10 ^ 4" "nat y' < 10 ^ 4" "m < 10 ^ 2" "m' < 10 ^ 2"
    using v y by (auto simp: valid_date_def)
  have g: "d < 10 ^ 2" "d' < 10 ^ 2"
    using v month_len_le [of "leap_year y" "m - 1"] month_len_le [of "leap_year y'" "m' - 1"]
    by (auto simp: valid_date_def)
  have n: "nat y < nat y' \<longleftrightarrow> y < y'" "nat y = nat y' \<longleftrightarrow> y = y'" "\<not> y < 0" "\<not> y' < 0"
    using y by auto
  show ?thesis
    unfolding day_less_iff [OF v] date_text_def prod.case appendInt_def if_not_P [OF n(3)]
      if_not_P [OF n(4)] append_assoc append_Cons append_Nil zpad_cmp [OF f(1,2)] zpad_cmp [OF f(3,4)]
      zpad_cmp [OF g] lex_same_char n(1,2)
    by auto
qed

lemma FormatTime_less:
  assumes "printable s" "printable t"
  shows "FormatTime s < FormatTime t \<longleftrightarrow> s < t"
proof -
  obtain y m d where ds: "date_of_day (s div ns_per_day) = (y, m, d)" by (metis prod_cases3)
  obtain y' m' d' where dt: "date_of_day (t div ns_per_day) = (y', m', d')" by (metis prod_cases3)
  note vs = date_of_day_correct [OF ds] and vt = date_of_day_correct [OF dt]
  have y: "0 \<le> y" "y \<le> 9999" "0 \<le> y'" "y' \<le> 9999"
    using assms ds dt by (auto simp: printable_def year_of_def)
  have c: "nat (u mod ns_per_day) < 86400000000000" for u
    using pos_mod_bound [of ns_per_day u] by (simp add: ns_per_day_def)
  have same: "(y, m, d) = (y', m', d') \<longleftrightarrow> s div ns_per_day = t div ns_per_day"
    using ds dt vs vt by (metis Pair_inject)
  have "FormatTime s < FormatTime t \<longleftrightarrow>
      s div ns_per_day < t div ns_per_day \<or>
      (s div ns_per_day = t div ns_per_day \<and> nat (s mod ns_per_day) < nat (t mod ns_per_day))"
    unfolding FormatTime_def ds dt
    using date_text_less [OF conjunct1 [OF vs] conjunct1 [OF vt] y] vs vt same
      clock_text_less [OF c c, of s "''Z''" t]
    unfolding append_assoc [symmetric] by (simp only: prod.inject) auto
  also have "\<dots> \<longleftrightarrow> s < t"
  proof -
    have p: "0 \<le> u mod ns_per_day" "u mod ns_per_day < ns_per_day" for u
      by (simp_all add: ns_per_day_def)
    have "s = s div ns_per_day * ns_per_day + s mod ns_per_day"
      "t = t div ns_per_day * ns_per_day + t mod ns_per_day" by simp_all
    with p [of s] p [of t] show ?thesis
      by (smt (verit) nat_less_eq_zless zdiv_mono1 ns_per_day_def)
  qed
  finally show ?thesis .
qed

lemma FormatTime_le:
  "printable s \<Longrightarrow> printable t \<Longrightarrow> FormatTime s \<le> FormatTime t \<longleftrightarrow> s \<le> t"
  using FormatTime_less [of t s] by (simp add: linorder_not_less [symmetric])

lemma FormatTime_inj:
  "printable s \<Longrightarrow> printable t \<Longrightarrow> FormatTime s = FormatTime t \<longleftrightarrow> s = t"
  by (metis parse_FormatTime sum.inject(2))

end
