(* ===== verification/Models.thy ===== *)
theory Models
  imports Timefmt Json Registry
begin

text \<open>
  The data of \<open>internal/models\<close>: executions, their outputs and audit entries, the execution a
  request creates (\<open>ExecutionFromRequest\<close>), and the forms the API returns (\<open>ToOpenAPI\<close>).

  A \<open>uuid.UUID\<close> is represented by its canonical text, so \<open>String()\<close> is the identity;
  \<open>uuid.Parse\<close> belongs to a library and is a parameter where it is used.  The JSON text of a
  \<open>map[string]string\<close> is produced and read by \<open>encoding/json\<close>, a parameter (\<open>params_codec\<close>).
\<close>

type_synonym uuid = string

record execution =
  ex_ID :: uuid
  ex_Action :: string
  ex_Status :: string
  ex_ApprovalState :: "string option"
  ex_Username :: "string option"
  ex_TargetCluster :: string
  ex_Jira :: "string option"
  ex_DryRun :: "bool option"
  ex_Force :: "bool option"
  ex_Params :: "string option"
  ex_Scope :: "string option"
  ex_Type :: "string option"
  ex_Revision :: "string option"
  ex_ManifestWorkName :: "string option"
  ex_RunnerSeconds :: "int option"
  ex_UploadSeconds :: "int option"
  ex_DurationSeconds :: "int option"
  ex_CreatedAt :: gotime
  ex_UpdatedAt :: gotime
  ex_CompletedAt :: "gotime option"

record audit_entry =
  ae_ID :: uuid
  ae_Timestamp :: gotime
  ae_Method :: string
  ae_Path :: string
  ae_Username :: string
  ae_StatusCode :: int
  ae_Action :: "string option"
  ae_ExecutionID :: "string option"
  ae_Jira :: "string option"
  ae_ApprovalState :: "string option"
  ae_TargetCluster :: "string option"

record execution_output =
  eo_Message :: string
  eo_Resources :: "object list"

record execution_request =
  rq_DryRun :: "bool option"
  rq_Force :: "bool option"
  rq_Jira :: string
  rq_Params :: "(string \<times> string) list option"
  rq_TargetCluster :: string

record params_codec =
  pc_marshal :: "(string \<times> string) list \<Rightarrow> string result"
  pc_unmarshal :: "string \<Rightarrow> (string \<times> string) list result"

section \<open>From a request\<close>

definition ExecutionFromRequest ::
  "params_codec \<Rightarrow> uuid \<Rightarrow> gotime \<Rightarrow> string \<Rightarrow> execution_request \<Rightarrow> string \<Rightarrow> execution"
where
  "ExecutionFromRequest pc new_id now action req username =
    \<lparr>ex_ID = new_id, ex_Action = action, ex_Status = ''pending'',
     ex_ApprovalState = Some ''not_required'', ex_Username = Some username,
     ex_TargetCluster = rq_TargetCluster req, ex_Jira = Some (rq_Jira req),
     ex_DryRun = rq_DryRun req, ex_Force = rq_Force req,
     ex_Params =
       (case rq_Params req of
          None \<Rightarrow> None
        | Some m \<Rightarrow> (case pc_marshal pc m of Inl e \<Rightarrow> None | Inr raw \<Rightarrow> Some raw)),
     ex_Scope = None, ex_Type = None, ex_Revision = None, ex_ManifestWorkName = None,
     ex_RunnerSeconds = None, ex_UploadSeconds = None, ex_DurationSeconds = None,
     ex_CreatedAt = now, ex_UpdatedAt = now, ex_CompletedAt = None\<rparr>"

section \<open>The API's forms\<close>

record hal_link =
  hl_Href :: string
  hl_Method :: string

record execution_links =
  xl_Self :: hal_link
  xl_Output :: "hal_link option"

record api_execution =
  ox_Links :: "execution_links option"
  ox_Id :: uuid
  ox_Action :: string
  ox_Status :: string
  ox_ApprovalState :: "string option"
  ox_Username :: "string option"
  ox_TargetCluster :: string
  ox_Jira :: "string option"
  ox_DryRun :: "bool option"
  ox_Force :: "bool option"
  ox_Params :: "(string \<times> string) list option"
  ox_Scope :: "string option"
  ox_Type :: "string option"
  ox_Revision :: "string option"
  ox_ManifestWorkName :: "string option"
  ox_RunnerSeconds :: "int option"
  ox_UploadSeconds :: "int option"
  ox_DurationSeconds :: "int option"
  ox_CreatedAt :: gotime
  ox_UpdatedAt :: gotime
  ox_CompletedAt :: "gotime option"

definition exec_ToOpenAPI :: "params_codec \<Rightarrow> execution \<Rightarrow> api_execution" where
  "exec_ToOpenAPI pc e =
    \<lparr>ox_Links = None, ox_Id = ex_ID e, ox_Action = ex_Action e, ox_Status = ex_Status e,
     ox_ApprovalState = ex_ApprovalState e, ox_Username = ex_Username e,
     ox_TargetCluster = ex_TargetCluster e, ox_Jira = ex_Jira e, ox_DryRun = ex_DryRun e,
     ox_Force = ex_Force e,
     ox_Params =
       (case ex_Params e of
          None \<Rightarrow> None
        | Some raw \<Rightarrow> (case pc_unmarshal pc raw of Inl err \<Rightarrow> None | Inr m \<Rightarrow> Some m)),
     ox_Scope = ex_Scope e, ox_Type = ex_Type e, ox_Revision = ex_Revision e,
     ox_ManifestWorkName = ex_ManifestWorkName e, ox_RunnerSeconds = ex_RunnerSeconds e,
     ox_UploadSeconds = ex_UploadSeconds e, ox_DurationSeconds = ex_DurationSeconds e,
     ox_CreatedAt = ex_CreatedAt e, ox_UpdatedAt = ex_UpdatedAt e, ox_CompletedAt = ex_CompletedAt e\<rparr>"

text \<open>\<open>openapi.AuditEntry\<close> has the fields of \<open>models.AuditEntry\<close>, under their API names.\<close>

record api_audit_entry =
  oa_Id :: uuid
  oa_Timestamp :: gotime
  oa_Method :: string
  oa_Path :: string
  oa_Username :: string
  oa_StatusCode :: int
  oa_Action :: "string option"
  oa_ExecutionId :: "string option"
  oa_Jira :: "string option"
  oa_ApprovalState :: "string option"
  oa_TargetCluster :: "string option"

definition audit_ToOpenAPI :: "audit_entry \<Rightarrow> api_audit_entry" where
  "audit_ToOpenAPI a =
    \<lparr>oa_Id = ae_ID a, oa_Timestamp = ae_Timestamp a, oa_Method = ae_Method a, oa_Path = ae_Path a,
     oa_Username = ae_Username a, oa_StatusCode = ae_StatusCode a, oa_Action = ae_Action a,
     oa_ExecutionId = ae_ExecutionID a, oa_Jira = ae_Jira a, oa_ApprovalState = ae_ApprovalState a,
     oa_TargetCluster = ae_TargetCluster a\<rparr>"

record output_links =
  ol_Self :: hal_link
  ol_Execution :: hal_link

record api_output =
  oo_Links :: "output_links option"
  oo_Message :: string
  oo_Resources :: "object list"

definition output_ToOpenAPI :: "execution_output \<Rightarrow> api_output" where
  "output_ToOpenAPI o' = \<lparr>oo_Links = None, oo_Message = eo_Message o', oo_Resources = eo_Resources o'\<rparr>"

text \<open>\<open>OutputFromActionResult\<close> turns nil resources into an empty list; its error is always nil.\<close>

definition OutputFromActionResult :: "action_result option \<Rightarrow> execution_output option result" where
  "OutputFromActionResult r =
    (case r of
       None \<Rightarrow> Inr None
     | Some a \<Rightarrow>
       Inr (Some \<lparr>eo_Message = ares_Message a,
                  eo_Resources = (case ares_Resources a of None \<Rightarrow> [] | Some rs \<Rightarrow> rs)\<rparr>))"

end
