(* ===== verification/Store.thy ===== *)
theory Store
  imports Models Effects
begin

text \<open>
  The store interface of \<open>internal/store/store.go\<close> and what both implementations share
  (\<open>shared.go\<close>, and the clamps of \<open>sqlite.go\<close>): filters, list results, the interface as a record
  of operations, and the \<open>WHERE\<close> clauses built from a filter, kept as the source keeps them: a
  list of clause texts and a list of arguments, matched by position.
\<close>

record execution_filter =
  ef_Status :: "string option"
  ef_Action :: "string option"
  ef_Target :: "string option"
  ef_Operator :: "string option"
  ef_Scope :: "string option"
  ef_Type :: "string option"
  ef_ApprovalState :: "string option"
  ef_DryRun :: "bool option"
  ef_Force :: "bool option"
  ef_Since :: "gotime option"
  ef_Limit :: int
  ef_Offset :: int

record execution_list_result =
  el_Items :: "execution list"
  el_Total :: int
  el_Limit :: int
  el_Offset :: int

record audit_filter =
  af_Action :: "string option"
  af_Target :: "string option"
  af_Operator :: "string option"
  af_Method :: "string option"
  af_ApprovalState :: "string option"
  af_Since :: "gotime option"
  af_Limit :: int
  af_Offset :: int

record audit_list_result =
  al_Items :: "audit_entry list"
  al_Total :: int
  al_Limit :: int
  al_Offset :: int

text \<open>The interface: every operation acts on the state of the store.\<close>

record 's Store =
  st_CreateExecution :: "execution \<Rightarrow> ('s, unit) act"
  st_GetExecution :: "uuid \<Rightarrow> ('s, execution) act"
  st_GetExecutionOutput :: "uuid \<Rightarrow> ('s, execution_output) act"
  st_ListExecutions :: "execution_filter \<Rightarrow> ('s, execution_list_result) act"
  st_UpdateExecutionWithResult ::
    "uuid \<Rightarrow> string \<Rightarrow> gotime option \<Rightarrow> execution_output option \<Rightarrow> ('s, unit) act"
  st_ClaimNextExecution :: "('s, execution) act"
  st_CreateAuditEntry :: "audit_entry \<Rightarrow> ('s, unit) act"
  st_ListAuditEntries :: "audit_filter \<Rightarrow> ('s, audit_list_result) act"

section \<open>Clauses\<close>

datatype sqlval = SText string | SBool bool | SInt int | STime int

type_synonym sql_where = "string list \<times> sqlval list"

definition where_arg :: "string \<Rightarrow> ('a \<Rightarrow> sqlval) \<Rightarrow> 'a option \<Rightarrow> sql_where \<Rightarrow> sql_where" where
  "where_arg c v o' w = (case o' of None \<Rightarrow> w | Some x \<Rightarrow> (fst w @ [c], snd w @ [v x]))"

definition buildExecutionWhere :: "execution_filter \<Rightarrow> sql_where" where
  "buildExecutionWhere f =
    (let w = ([], []);
         w = where_arg ''status = ?'' SText (ef_Status f) w;
         w = where_arg ''action = ?'' SText (ef_Action f) w;
         w = where_arg ''target_cluster = ?'' SText (ef_Target f) w;
         w = where_arg ''username = ?'' SText (ef_Operator f) w;
         w = where_arg ''scope = ?'' SText (ef_Scope f) w;
         w = where_arg ''type = ?'' SText (ef_Type f) w;
         w = where_arg ''approval_state = ?'' SText (ef_ApprovalState f) w;
         w = where_arg ''dry_run = ?'' SBool (ef_DryRun f) w
     in where_arg ''force = ?'' SBool (ef_Force f) w)"

definition buildAuditWhere :: "audit_filter \<Rightarrow> sql_where" where
  "buildAuditWhere f =
    (let w = ([], []);
         w = where_arg ''action = ?'' SText (af_Action f) w;
         w = where_arg ''target_cluster = ?'' SText (af_Target f) w;
         w = where_arg ''username = ?'' SText (af_Operator f) w;
         w = where_arg ''method = ?'' SText (af_Method f) w
     in where_arg ''approval_state = ?'' SText (af_ApprovalState f) w)"

definition clampLimit :: "int \<Rightarrow> int \<Rightarrow> int \<Rightarrow> int" where
  "clampLimit v defaultVal mx = (if v \<le> 0 then defaultVal else if v > mx then mx else v)"

definition clampOffset :: "int \<Rightarrow> int" where
  "clampOffset v = (if v < 0 then 0 else v)"

lemma clampLimit_bounds:
  "1 \<le> defaultVal \<Longrightarrow> defaultVal \<le> mx \<Longrightarrow> 1 \<le> clampLimit v defaultVal mx \<and> clampLimit v defaultVal mx \<le> mx"
  by (simp add: clampLimit_def)

end
