(* ===== verification/Sql.thy ===== *)
theory Sql
  imports Store
begin

text \<open>
  The relational database under both stores: its three tables as lists of rows in insertion order
  (\<open>internal/store/migrations\<close>), the SQL statements the stores issue, and transactions.
  Timestamps are kept in a column type \<open>'t\<close>, text in SQLite and a native timestamp in Postgres,
  and reach a comparison through \<open>tcol\<close>.

  A \<open>call\<close> carries what one operation meets outside the program: which of its statements fail and
  with what text, whether a write that reported an error was applied all the same (the connection
  may be lost after the commit), the clock, the id \<open>uuid.New()\<close> gives, and the rows other
  transactions hold locked.  A \<open>lib\<close> is fixed: \<open>uuid.Parse\<close>, the JSON codec of the resources,
  whether foreign keys are enforced, and the resolution of the native timestamp column.
\<close>

record 't execution_row =
  xr_ID :: string
  xr_Action :: string
  xr_Status :: string
  xr_ApprovalState :: "string option"
  xr_Username :: "string option"
  xr_TargetCluster :: string
  xr_Jira :: "string option"
  xr_DryRun :: "bool option"
  xr_Force :: "bool option"
  xr_Params :: "string option"
  xr_Scope :: "string option"
  xr_Type :: "string option"
  xr_Revision :: "string option"
  xr_ManifestWorkName :: "string option"
  xr_RunnerSeconds :: "int option"
  xr_UploadSeconds :: "int option"
  xr_DurationSeconds :: "int option"
  xr_CreatedAt :: 't
  xr_UpdatedAt :: 't
  xr_CompletedAt :: "'t option"

record output_row =
  or_ID :: string
  or_ExecId :: string
  or_Message :: string
  or_Resources :: string

record 't audit_row =
  ar_ID :: string
  ar_Timestamp :: 't
  ar_Method :: string
  ar_Path :: string
  ar_Username :: string
  ar_StatusCode :: int
  ar_Action :: "string option"
  ar_ExecutionID :: "string option"
  ar_Jira :: "string option"
  ar_ApprovalState :: "string option"
  ar_TargetCluster :: "string option"

record 't db =
  db_executions :: "'t execution_row list"
  db_outputs :: "output_row list"
  db_audit :: "'t audit_row list"

datatype stmt =
    S_Begin | S_Insert | S_Select | S_SelectId | S_Update | S_RowsAffected | S_Delete
  | S_InsertOutput | S_OutputRowsAffected | S_Count | S_Commit

record call =
  c_fault :: "stmt \<Rightarrow> string option"
  c_applied :: bool
  c_now :: gotime
  c_new_id :: uuid
  c_locked :: "string list"

record lib =
  l_parse :: "string \<Rightarrow> uuid result"
  l_marshal :: "object list \<Rightarrow> string result"
  l_unmarshal :: "string \<Rightarrow> object list result"
  l_enforce_fk :: bool
  l_tick :: nat

section \<open>Statements\<close>

text \<open>A statement fails before it acts, or acts; a failed statement of a transaction aborts it.\<close>

definition stmt :: "call \<Rightarrow> stmt \<Rightarrow> ('s, 'a) act \<Rightarrow> ('s, 'a) act" where
  "stmt c s m d = (case c_fault c s of Some e \<Rightarrow> (Inl (ErrExt e), d) | None \<Rightarrow> m d)"

text \<open>A write outside a transaction: an error may hide that it was applied.\<close>

definition autocommit :: "call \<Rightarrow> stmt \<Rightarrow> ('s, unit) act \<Rightarrow> ('s, unit) act" where
  "autocommit c s m d =
    (case c_fault c s of
       Some e \<Rightarrow> (Inl (ErrExt e), if c_applied c then snd (m d) else d)
     | None \<Rightarrow> m d)"

definition query :: "('s \<Rightarrow> 'a) \<Rightarrow> ('s, 'a) act" where
  "query f d = (Inr (f d), d)"

text \<open>
  \<open>BeginTx\<close>, the body, \<open>Commit\<close>, and the deferred \<open>Rollback\<close> on every other path.
\<close>

definition transaction ::
  "call \<Rightarrow> string \<Rightarrow> string \<Rightarrow> ('s, 'a) act \<Rightarrow> ('s, 'a) act"
where
  "transaction c begin_msg commit_msg body d =
    (case c_fault c S_Begin of
       Some e \<Rightarrow> (Inl (Errw begin_msg [] (ErrExt e)), d)
     | None \<Rightarrow>
       (case body d of
          (Inl e, _) \<Rightarrow> (Inl e, d)
        | (Inr a, d') \<Rightarrow>
          (case c_fault c S_Commit of
             Some e \<Rightarrow> (Inl (Errw commit_msg [] (ErrExt e)), if c_applied c then d' else d)
           | None \<Rightarrow> (Inr a, d'))))"

definition insert_execution :: "'t execution_row \<Rightarrow> ('t db, unit) act" where
  "insert_execution r d =
    (if xr_ID r \<in> set (map xr_ID (db_executions d)) then (Inl (ErrExt ''duplicate key''), d)
     else (Inr (), d\<lparr>db_executions := db_executions d @ [r]\<rparr>))"

definition select_execution :: "string \<Rightarrow> 't db \<Rightarrow> 't execution_row option" where
  "select_execution i d = find (\<lambda>r. xr_ID r = i) (db_executions d)"

definition select_output :: "string \<Rightarrow> 't db \<Rightarrow> output_row option" where
  "select_output i d = find (\<lambda>r. or_ExecId r = i) (db_outputs d)"

text \<open>\<open>UPDATE executions SET ... WHERE id = ?\<close> gives the number of rows it changed.\<close>

definition update_execution ::
  "string \<Rightarrow> ('t execution_row \<Rightarrow> 't execution_row) \<Rightarrow> ('t db, nat) act"
where
  "update_execution i f d =
    (Inr (length (filter (\<lambda>r. xr_ID r = i) (db_executions d))),
     d\<lparr>db_executions := map (\<lambda>r. if xr_ID r = i then f r else r) (db_executions d)\<rparr>)"

definition delete_outputs :: "string \<Rightarrow> ('t db, unit) act" where
  "delete_outputs i d = (Inr (), d\<lparr>db_outputs := filter (\<lambda>r. or_ExecId r \<noteq> i) (db_outputs d)\<rparr>)"

definition insert_output :: "lib \<Rightarrow> output_row \<Rightarrow> ('t db, unit) act" where
  "insert_output l r d =
    (if or_ID r \<in> set (map or_ID (db_outputs d)) then (Inl (ErrExt ''duplicate key''), d)
     else if l_enforce_fk l \<and> or_ExecId r \<notin> set (map xr_ID (db_executions d))
     then (Inl (ErrExt ''foreign key violation''), d)
     else (Inr (), d\<lparr>db_outputs := db_outputs d @ [r]\<rparr>))"

definition insert_audit :: "lib \<Rightarrow> 't audit_row \<Rightarrow> ('t db, unit) act" where
  "insert_audit l r d =
    (if ar_ID r \<in> set (map ar_ID (db_audit d)) then (Inl (ErrExt ''duplicate key''), d)
     else if l_enforce_fk l \<and>
       (case ar_ExecutionID r of None \<Rightarrow> False | Some i \<Rightarrow> i \<notin> set (map xr_ID (db_executions d)))
     then (Inl (ErrExt ''foreign key violation''), d)
     else (Inr (), d\<lparr>db_audit := db_audit d @ [r]\<rparr>))"

text \<open>A query for one row: no row is \<open>ErrNotFound\<close>, any other failure is wrapped.\<close>

definition query_row :: "call \<Rightarrow> stmt \<Rightarrow> string \<Rightarrow> ('s \<Rightarrow> 'r option) \<Rightarrow> ('s, 'r) act" where
  "query_row c s msg f =
    seq (wrap_err msg [] (stmt c s (query f)))
      (\<lambda>r. case r of None \<Rightarrow> fail ErrNotFound | Some x \<Rightarrow> ret x)"

definition affects :: "nat \<Rightarrow> ('s, unit) act \<Rightarrow> ('s, nat) act" where
  "affects n m = seq m (\<lambda>_. ret n)"

section \<open>Conditions and order\<close>

definition execution_column :: "('t \<Rightarrow> sqlval) \<Rightarrow> 't execution_row \<Rightarrow> string \<Rightarrow> sqlval option" where
  "execution_column tcol r n =
    (if n = ''status'' then Some (SText (xr_Status r))
     else if n = ''action'' then Some (SText (xr_Action r))
     else if n = ''target_cluster'' then Some (SText (xr_TargetCluster r))
     else if n = ''username'' then map_option SText (xr_Username r)
     else if n = ''scope'' then map_option SText (xr_Scope r)
     else if n = ''type'' then map_option SText (xr_Type r)
     else if n = ''approval_state'' then map_option SText (xr_ApprovalState r)
     else if n = ''dry_run'' then map_option SBool (xr_DryRun r)
     else if n = ''force'' then map_option SBool (xr_Force r)
     else if n = ''created_at'' then Some (tcol (xr_CreatedAt r))
     else None)"

definition audit_column :: "('t \<Rightarrow> sqlval) \<Rightarrow> 't audit_row \<Rightarrow> string \<Rightarrow> sqlval option" where
  "audit_column tcol r n =
    (if n = ''action'' then map_option SText (ar_Action r)
     else if n = ''target_cluster'' then map_option SText (ar_TargetCluster r)
     else if n = ''username'' then Some (SText (ar_Username r))
     else if n = ''method'' then Some (SText (ar_Method r))
     else if n = ''approval_state'' then map_option SText (ar_ApprovalState r)
     else if n = ''timestamp'' then Some (tcol (ar_Timestamp r))
     else None)"

fun sql_ge :: "sqlval \<Rightarrow> sqlval \<Rightarrow> bool" where
  "sql_ge (SText a) (SText b) = (b \<le> a)"
| "sql_ge (STime a) (STime b) = (b \<le> a)"
| "sql_ge v w = False"

text \<open>A clause is a column, an operator and a placeholder; a NULL column satisfies none.\<close>

definition sql_holds :: "(string \<Rightarrow> sqlval option) \<Rightarrow> string \<Rightarrow> sqlval \<Rightarrow> bool" where
  "sql_holds col clause arg =
    (case Cut CHR '' '' clause of (n, op, _) \<Rightarrow>
     case col n of
       None \<Rightarrow> False
     | Some v \<Rightarrow> (op = ''= ?'' \<and> v = arg) \<or> (op = ''>= ?'' \<and> sql_ge v arg))"

text \<open>\<open>WHERE a AND b ...\<close>, each placeholder bound to the argument at its position.\<close>

definition where_holds :: "(string \<Rightarrow> sqlval option) \<Rightarrow> sql_where \<Rightarrow> bool" where
  "where_holds col w = list_all2 (sql_holds col) (fst w) (snd w)"

text \<open>\<open>ORDER BY t ASC, id ASC\<close> and \<open>ORDER BY t DESC, id ASC\<close>, and \<open>LIMIT n OFFSET k\<close>.\<close>

definition asc_by :: "('r \<Rightarrow> 't :: linorder) \<Rightarrow> ('r \<Rightarrow> string) \<Rightarrow> 'r \<Rightarrow> 'r \<Rightarrow> bool" where
  "asc_by t i r s \<longleftrightarrow> t r < t s \<or> (t r = t s \<and> i r \<le> i s)"

definition desc_by :: "('r \<Rightarrow> 't :: linorder) \<Rightarrow> ('r \<Rightarrow> string) \<Rightarrow> 'r \<Rightarrow> 'r \<Rightarrow> bool" where
  "desc_by t i r s \<longleftrightarrow> t s < t r \<or> (t r = t s \<and> i r \<le> i s)"

definition page :: "int \<Rightarrow> int \<Rightarrow> 'a list \<Rightarrow> 'a list" where
  "page limit offset xs = take (nat limit) (drop (nat offset) xs)"

text \<open>The Go loop that decodes the rows of a result and stops at the first that fails.\<close>

fun decode_all :: "('r \<Rightarrow> 'a result) \<Rightarrow> 'r list \<Rightarrow> 'a list result" where
  "decode_all f [] = Inr []"
| "decode_all f (r # rs) =
    (case f r of
       Inl e \<Rightarrow> Inl e
     | Inr a \<Rightarrow> (case decode_all f rs of Inl e \<Rightarrow> Inl e | Inr as \<Rightarrow> Inr (a # as)))"

section \<open>Lemmas on statements\<close>

lemma asc_by_preorder: "total_preorder (asc_by t i)"
  by (auto simp: total_preorder_def asc_by_def)

lemma desc_by_preorder: "total_preorder (desc_by t i)"
  by (auto simp: total_preorder_def desc_by_def)

lemma find_map: "find P (map f xs) = map_option f (find (P \<circ> f) xs)"
  by (induction xs) auto

lemma insort_by_map:
  "(\<And>y. y \<in> set xs \<Longrightarrow> le (f x) (f y) = le' x y) \<Longrightarrow>
   insort_by le (f x) (map f xs) = map f (insort_by le' x xs)"
  by (induction xs) auto

lemma sort_by_map:
  "(\<And>x y. x \<in> set xs \<Longrightarrow> y \<in> set xs \<Longrightarrow> le (f x) (f y) = le' x y) \<Longrightarrow>
   sort_by le (map f xs) = map f (sort_by le' xs)"
proof (induction xs)
  case (Cons a xs)
  then show ?case using insort_by_map [of "sort_by le' xs" le f a le'] by simp
qed simp

lemma decode_all_map:
  "(\<And>x. x \<in> set xs \<Longrightarrow> g (f x) = Inr x) \<Longrightarrow> decode_all g (map f xs) = Inr xs"
  by (induction xs) auto

lemma page_map: "page l k (map f xs) = map f (page l k xs)"
  by (simp add: page_def take_map drop_map)

lemma set_page: "set (page l k xs) \<subseteq> set xs"
  by (metis page_def set_drop_subset set_take_subset subset_trans)

lemma stmt_ok [simp]: "c_fault c s = None \<Longrightarrow> stmt c s m = m"
  by (simp add: stmt_def fun_eq_iff)

lemma autocommit_ok [simp]: "c_fault c s = None \<Longrightarrow> autocommit c s m = m"
  by (simp add: autocommit_def fun_eq_iff)

text \<open>An operation run in a transaction leaves the database alone or does all of its work.\<close>

lemma transaction_InrD:
  "transaction c b m body d = (Inr a, d') \<Longrightarrow> body d = (Inr a, d')"
  by (auto simp: transaction_def split: option.splits prod.splits sum.splits)

lemma transaction_atomic:
  "transaction c b m body d = (r, d') \<Longrightarrow> d' = d \<or> (\<exists>a. body d = (Inr a, d'))"
  by (auto simp: transaction_def split: option.splits prod.splits sum.splits if_splits)

lemma transaction_err:
  "transaction c b m body d = (Inl e, d') \<Longrightarrow> c_applied c = False \<Longrightarrow> d' = d"
  by (auto simp: transaction_def split: option.splits prod.splits sum.splits if_splits)

lemma transaction_not_found:
  "transaction c b m body d = (Inl e, d') \<Longrightarrow> is_not_found e \<Longrightarrow> d' = d \<and> fst (body d) = Inl e"
  by (auto simp: transaction_def split: option.splits prod.splits sum.splits if_splits)

lemma list_all2_snoc: "list_all2 P (xs @ [x]) (ys @ [y]) \<longleftrightarrow> list_all2 P xs ys \<and> P x y"
proof (cases "length xs = length ys")
  case True
  then show ?thesis by (simp add: list_all2_append)
next
  case False
  then have "length (xs @ [x]) \<noteq> length (ys @ [y])" by simp
  with False show ?thesis using list_all2_lengthD by blast
qed

lemma where_holds_arg [simp]:
  "where_holds col (where_arg c v x w) \<longleftrightarrow>
    where_holds col w \<and> (case x of None \<Rightarrow> True | Some a \<Rightarrow> sql_holds col c (v a))"
  by (simp add: where_holds_def where_arg_def list_all2_snoc split: option.splits)

lemma execution_clauses:
  "sql_holds (execution_column tcol r) ''status = ?'' (SText s) \<longleftrightarrow> Some (xr_Status r) = Some s"
  "sql_holds (execution_column tcol r) ''action = ?'' (SText s) \<longleftrightarrow> Some (xr_Action r) = Some s"
  "sql_holds (execution_column tcol r) ''target_cluster = ?'' (SText s) \<longleftrightarrow> Some (xr_TargetCluster r) = Some s"
  "sql_holds (execution_column tcol r) ''username = ?'' (SText s) \<longleftrightarrow> xr_Username r = Some s"
  "sql_holds (execution_column tcol r) ''scope = ?'' (SText s) \<longleftrightarrow> xr_Scope r = Some s"
  "sql_holds (execution_column tcol r) ''type = ?'' (SText s) \<longleftrightarrow> xr_Type r = Some s"
  "sql_holds (execution_column tcol r) ''approval_state = ?'' (SText s) \<longleftrightarrow> xr_ApprovalState r = Some s"
  "sql_holds (execution_column tcol r) ''dry_run = ?'' (SBool b) \<longleftrightarrow> xr_DryRun r = Some b"
  "sql_holds (execution_column tcol r) ''force = ?'' (SBool b) \<longleftrightarrow> xr_Force r = Some b"
  "sql_holds (execution_column tcol r) ''created_at >= ?'' v \<longleftrightarrow> sql_ge (tcol (xr_CreatedAt r)) v"
  by (auto simp: sql_holds_def execution_column_def split: option.splits)

lemma audit_clauses:
  "sql_holds (audit_column tcol r) ''action = ?'' (SText s) \<longleftrightarrow> ar_Action r = Some s"
  "sql_holds (audit_column tcol r) ''target_cluster = ?'' (SText s) \<longleftrightarrow> ar_TargetCluster r = Some s"
  "sql_holds (audit_column tcol r) ''username = ?'' (SText s) \<longleftrightarrow> Some (ar_Username r) = Some s"
  "sql_holds (audit_column tcol r) ''method = ?'' (SText s) \<longleftrightarrow> Some (ar_Method r) = Some s"
  "sql_holds (audit_column tcol r) ''approval_state = ?'' (SText s) \<longleftrightarrow> ar_ApprovalState r = Some s"
  "sql_holds (audit_column tcol r) ''timestamp >= ?'' v \<longleftrightarrow> sql_ge (tcol (ar_Timestamp r)) v"
  by (auto simp: sql_holds_def audit_column_def split: option.splits)

lemma where_holds_Nil [simp]: "where_holds col ([], [])"
  by (simp add: where_holds_def)

lemma list_all2_filter:
  "list_all2 R xs ys \<Longrightarrow> (\<And>x y. R x y \<Longrightarrow> P x = Q y) \<Longrightarrow> list_all2 R (filter P xs) (filter Q ys)"
  by (induction rule: list_all2_induct) auto

definition fault_free :: "call \<Rightarrow> bool" where
  "fault_free c \<longleftrightarrow> c_fault c = (\<lambda>_. None)"

lemma fault_freeD [simp]: "fault_free c \<Longrightarrow> c_fault c s = None"
  by (simp add: fault_free_def)

end
