(* ===== verification/Store_Spec.thy ===== *)
theory Store_Spec
  imports Sql
begin

text \<open>
  What a store promises, stated on the models of \<open>internal/models\<close> instead of rows: the executions
  in the order they were created, the output of each, and the audit entries.  \<open>represents\<close> relates
  a database to such a state; the locale \<open>row_codec\<close> is what a store's row type owes for its
  statements to act on the rows as the specification acts on the models.  \<open>norm\<close> is what the
  timestamp column keeps of an instant.
\<close>

record spec =
  sp_executions :: "execution list"
  sp_outputs :: "(uuid \<times> execution_output) list"
  sp_audit :: "audit_entry list"

definition norm_execution :: "(gotime \<Rightarrow> gotime) \<Rightarrow> execution \<Rightarrow> execution" where
  "norm_execution norm e =
    e\<lparr>ex_CreatedAt := norm (ex_CreatedAt e), ex_UpdatedAt := norm (ex_UpdatedAt e),
      ex_CompletedAt := map_option norm (ex_CompletedAt e)\<rparr>"

definition spec_create :: "(gotime \<Rightarrow> gotime) \<Rightarrow> execution \<Rightarrow> spec \<Rightarrow> spec option" where
  "spec_create norm e sp =
    (if ex_ID e \<in> set (map ex_ID (sp_executions sp)) then None
     else Some (sp\<lparr>sp_executions := sp_executions sp @ [norm_execution norm e]\<rparr>))"

definition spec_get :: "uuid \<Rightarrow> spec \<Rightarrow> execution option" where
  "spec_get i sp = find (\<lambda>e. ex_ID e = i) (sp_executions sp)"

definition spec_output :: "uuid \<Rightarrow> spec \<Rightarrow> execution_output option" where
  "spec_output i sp = map_of (sp_outputs sp) i"

text \<open>The pending execution created first, the smaller id first among equals.\<close>

definition spec_oldest :: "(execution \<Rightarrow> bool) \<Rightarrow> spec \<Rightarrow> execution option" where
  "spec_oldest free sp =
    (case sort_by (asc_by ex_CreatedAt ex_ID)
            (filter (\<lambda>e. ex_Status e = ''pending'' \<and> free e) (sp_executions sp)) of
       [] \<Rightarrow> None
     | e # _ \<Rightarrow> Some e)"

definition spec_set :: "uuid \<Rightarrow> (execution \<Rightarrow> execution) \<Rightarrow> spec \<Rightarrow> spec" where
  "spec_set i f sp =
    sp\<lparr>sp_executions := map (\<lambda>e. if ex_ID e = i then f e else e) (sp_executions sp)\<rparr>"

definition claimed :: "gotime \<Rightarrow> execution \<Rightarrow> execution" where
  "claimed now e = e\<lparr>ex_Status := ''running'', ex_UpdatedAt := now\<rparr>"

definition spec_claim :: "(execution \<Rightarrow> bool) \<Rightarrow> gotime \<Rightarrow> spec \<Rightarrow> (execution \<times> spec) option" where
  "spec_claim free now sp =
    (case spec_oldest free sp of
       None \<Rightarrow> None
     | Some e \<Rightarrow> Some (claimed now e, spec_set (ex_ID e) (claimed now) sp))"

definition finished :: "string \<Rightarrow> gotime \<Rightarrow> gotime option \<Rightarrow> execution \<Rightarrow> execution" where
  "finished status now completedAt e =
    e\<lparr>ex_Status := status, ex_UpdatedAt := now, ex_CompletedAt := completedAt\<rparr>"

definition spec_update ::
  "(gotime \<Rightarrow> gotime) \<Rightarrow> uuid \<Rightarrow> string \<Rightarrow> gotime \<Rightarrow> gotime option \<Rightarrow> execution_output option \<Rightarrow>
    spec \<Rightarrow> spec option"
where
  "spec_update norm i status now completedAt out sp =
    (if i \<notin> set (map ex_ID (sp_executions sp)) then None
     else Some ((spec_set i (finished status (norm now) (map_option norm completedAt)) sp)
       \<lparr>sp_outputs := filter (\<lambda>(j, _). j \<noteq> i) (sp_outputs sp) @
          (case out of None \<Rightarrow> [] | Some x \<Rightarrow> [(i, x)])\<rparr>))"

definition opt_matches :: "'a option \<Rightarrow> 'a option \<Rightarrow> bool" where
  "opt_matches want have = (case want of None \<Rightarrow> True | Some w \<Rightarrow> have = Some w)"

definition spec_matches :: "(gotime \<Rightarrow> gotime) \<Rightarrow> execution_filter \<Rightarrow> execution \<Rightarrow> bool" where
  "spec_matches norm f e \<longleftrightarrow>
    opt_matches (ef_Status f) (Some (ex_Status e)) \<and> opt_matches (ef_Action f) (Some (ex_Action e)) \<and>
    opt_matches (ef_Target f) (Some (ex_TargetCluster e)) \<and> opt_matches (ef_Operator f) (ex_Username e) \<and>
    opt_matches (ef_Scope f) (ex_Scope e) \<and> opt_matches (ef_Type f) (ex_Type e) \<and>
    opt_matches (ef_ApprovalState f) (ex_ApprovalState e) \<and> opt_matches (ef_DryRun f) (ex_DryRun e) \<and>
    opt_matches (ef_Force f) (ex_Force e) \<and>
    (case ef_Since f of None \<Rightarrow> True | Some t \<Rightarrow> norm t \<le> ex_CreatedAt e)"

definition spec_list :: "(gotime \<Rightarrow> gotime) \<Rightarrow> execution_filter \<Rightarrow> spec \<Rightarrow> execution_list_result" where
  "spec_list norm f sp =
    (let es = filter (spec_matches norm f) (sp_executions sp);
         limit = clampLimit (ef_Limit f) 20 100; offset = clampOffset (ef_Offset f)
     in \<lparr>el_Items = page limit offset (sort_by (desc_by ex_CreatedAt ex_ID) es),
         el_Total = int (length es), el_Limit = limit, el_Offset = offset\<rparr>)"

text \<open>The audit log: an entry about an execution the store does not know is refused where foreign keys are enforced.\<close>

definition norm_audit :: "(gotime \<Rightarrow> gotime) \<Rightarrow> audit_entry \<Rightarrow> audit_entry" where
  "norm_audit norm a = a\<lparr>ae_Timestamp := norm (ae_Timestamp a)\<rparr>"

definition spec_audit :: "bool \<Rightarrow> (gotime \<Rightarrow> gotime) \<Rightarrow> audit_entry \<Rightarrow> spec \<Rightarrow> spec option" where
  "spec_audit foreign_keys norm a sp =
    (if ae_ID a \<in> set (map ae_ID (sp_audit sp)) then None
     else if foreign_keys \<and> (case ae_ExecutionID a of
       None \<Rightarrow> False | Some i \<Rightarrow> i \<notin> set (map ex_ID (sp_executions sp))) then None
     else Some (sp\<lparr>sp_audit := sp_audit sp @ [norm_audit norm a]\<rparr>))"

definition spec_audit_matches :: "(gotime \<Rightarrow> gotime) \<Rightarrow> audit_filter \<Rightarrow> audit_entry \<Rightarrow> bool" where
  "spec_audit_matches norm f a \<longleftrightarrow>
    opt_matches (af_Action f) (ae_Action a) \<and> opt_matches (af_Target f) (ae_TargetCluster a) \<and>
    opt_matches (af_Operator f) (Some (ae_Username a)) \<and> opt_matches (af_Method f) (Some (ae_Method a)) \<and>
    opt_matches (af_ApprovalState f) (ae_ApprovalState a) \<and>
    (case af_Since f of None \<Rightarrow> True | Some t \<Rightarrow> norm t \<le> ae_Timestamp a)"

definition spec_audits :: "(gotime \<Rightarrow> gotime) \<Rightarrow> audit_filter \<Rightarrow> spec \<Rightarrow> audit_list_result" where
  "spec_audits norm f sp =
    (let es = filter (spec_audit_matches norm f) (sp_audit sp);
         limit = clampLimit (af_Limit f) 50 200; offset = clampOffset (af_Offset f)
     in \<lparr>al_Items = page limit offset (sort_by (desc_by ae_Timestamp ae_ID) es),
         al_Total = int (length es), al_Limit = limit, al_Offset = offset\<rparr>)"

lemma find_unique: "x \<in> set xs \<Longrightarrow> distinct (map f xs) \<Longrightarrow> find (\<lambda>y. f y = f x) xs = Some x"
  by (induction xs) auto

lemma spec_get_set:
  "(\<And>e. ex_ID (f e) = ex_ID e) \<Longrightarrow>
   spec_get i (spec_set j f sp) = map_option (\<lambda>e. if i = j then f e else e) (spec_get i sp)"
proof -
  have "find (\<lambda>e. ex_ID e = i) (map (\<lambda>e. if ex_ID e = j then f e else e) es) =
      map_option (\<lambda>e. if i = j then f e else e) (find (\<lambda>e. ex_ID e = i) es)"
    if "\<And>e. ex_ID (f e) = ex_ID e" for es
    using that by (induction es) auto
  then show "(\<And>e. ex_ID (f e) = ex_ID e) \<Longrightarrow> ?thesis"
    by (simp add: spec_get_def spec_set_def)
qed

lemma spec_set_others [simp]:
  "sp_outputs (spec_set i f sp) = sp_outputs sp" "sp_audit (spec_set i f sp) = sp_audit sp"
  by (simp_all add: spec_set_def)

lemma norm_execution_id [simp]: "norm_execution (\<lambda>t. t) e = e"
  by (simp add: norm_execution_def option.map_ident)

lemmas run_simps = seq_def wrap_err_def ret_def fail_def lift_def query_row_def query_def affects_def

definition canonical :: "lib \<Rightarrow> uuid \<Rightarrow> bool" where
  "canonical l i \<longleftrightarrow> l_parse l i = Inr i"

text \<open>What an update needs of the library: the output's resources survive their JSON text.\<close>

definition output_ok :: "lib \<Rightarrow> call \<Rightarrow> 't db \<Rightarrow> execution_output option \<Rightarrow> bool" where
  "output_ok l c d out =
    (case out of
       None \<Rightarrow> True
     | Some x \<Rightarrow>
       c_new_id c \<notin> set (map or_ID (db_outputs d)) \<and>
       (case l_marshal l (eo_Resources x) of
          Inl _ \<Rightarrow> False
        | Inr txt \<Rightarrow> l_unmarshal l txt = Inr (eo_Resources x)))"

section \<open>Rows that stand for models\<close>

definition output_represents :: "lib \<Rightarrow> output_row \<Rightarrow> uuid \<times> execution_output \<Rightarrow> bool" where
  "output_represents l r x \<longleftrightarrow>
    or_ExecId r = fst x \<and> or_Message r = eo_Message (snd x) \<and>
    l_unmarshal l (or_Resources r) = Inr (eo_Resources (snd x))"

locale row_codec =
  fixes l :: lib
    and row :: "execution \<Rightarrow> 't :: linorder execution_row"
    and model :: "'t execution_row \<Rightarrow> execution result"
    and enc :: "gotime \<Rightarrow> 't"
    and tcol :: "'t \<Rightarrow> sqlval"
    and arg :: "gotime \<Rightarrow> sqlval"
    and norm :: "gotime \<Rightarrow> gotime"
    and time_ok :: "gotime \<Rightarrow> bool"
    and stored :: "execution \<Rightarrow> bool"
    and audit_row :: "audit_entry \<Rightarrow> 't audit_row"
    and audit_model :: "'t audit_row \<Rightarrow> audit_entry result"
    and audit_stored :: "audit_entry \<Rightarrow> bool"
  assumes model_row: "stored e \<Longrightarrow> model (row e) = Inr e"
    and row_ID: "xr_ID (row e) = ex_ID e"
    and row_Status: "xr_Status (row e) = ex_Status e"
    and row_Action: "xr_Action (row e) = ex_Action e"
    and row_Target: "xr_TargetCluster (row e) = ex_TargetCluster e"
    and row_Username: "xr_Username (row e) = ex_Username e"
    and row_Scope: "xr_Scope (row e) = ex_Scope e"
    and row_Type: "xr_Type (row e) = ex_Type e"
    and row_Approval: "xr_ApprovalState (row e) = ex_ApprovalState e"
    and row_DryRun: "xr_DryRun (row e) = ex_DryRun e"
    and row_Force: "xr_Force (row e) = ex_Force e"
    and row_created: "stored e \<Longrightarrow> stored f \<Longrightarrow>
          xr_CreatedAt (row e) \<le> xr_CreatedAt (row f) \<longleftrightarrow> ex_CreatedAt e \<le> ex_CreatedAt f"
    and row_norm: "row (norm_execution norm e) = row e"
    and row_claimed: "row (claimed (norm t) e) =
          (row e)\<lparr>xr_Status := ''running'', xr_UpdatedAt := enc t\<rparr>"
    and row_finished: "row (finished s (norm t) (map_option norm u) e) =
          (row e)\<lparr>xr_Status := s, xr_UpdatedAt := enc t, xr_CompletedAt := map_option enc u\<rparr>"
    and stored_claimed: "stored e \<Longrightarrow> time_ok t \<Longrightarrow> stored (claimed (norm t) e)"
    and stored_finished: "stored e \<Longrightarrow> time_ok t \<Longrightarrow> pred_option time_ok u \<Longrightarrow>
          stored (finished s (norm t) (map_option norm u) e)"
    and since_col: "stored e \<Longrightarrow> time_ok t \<Longrightarrow>
          sql_ge (tcol (xr_CreatedAt (row e))) (arg t) \<longleftrightarrow> norm t \<le> ex_CreatedAt e"
    and audit_model_row: "audit_stored a \<Longrightarrow> audit_model (audit_row a) = Inr a"
    and audit_ID: "ar_ID (audit_row a) = ae_ID a"
    and audit_Execution: "ar_ExecutionID (audit_row a) = ae_ExecutionID a"
    and audit_Action: "ar_Action (audit_row a) = ae_Action a"
    and audit_Target: "ar_TargetCluster (audit_row a) = ae_TargetCluster a"
    and audit_Username: "ar_Username (audit_row a) = ae_Username a"
    and audit_Method: "ar_Method (audit_row a) = ae_Method a"
    and audit_Approval: "ar_ApprovalState (audit_row a) = ae_ApprovalState a"
    and audit_time: "audit_stored a \<Longrightarrow> audit_stored b \<Longrightarrow>
          ar_Timestamp (audit_row a) \<le> ar_Timestamp (audit_row b) \<longleftrightarrow> ae_Timestamp a \<le> ae_Timestamp b"
    and audit_norm: "audit_row (norm_audit norm a) = audit_row a"
    and audit_since_col: "audit_stored a \<Longrightarrow> time_ok t \<Longrightarrow>
          sql_ge (tcol (ar_Timestamp (audit_row a))) (arg t) \<longleftrightarrow> norm t \<le> ae_Timestamp a"
begin

definition represents :: "'t db \<Rightarrow> spec \<Rightarrow> bool" where
  "represents d sp \<longleftrightarrow>
    db_executions d = map row (sp_executions sp) \<and> (\<forall>e \<in> set (sp_executions sp). stored e) \<and>
    distinct (map ex_ID (sp_executions sp)) \<and>
    list_all2 (output_represents l) (db_outputs d) (sp_outputs sp) \<and>
    db_audit d = map audit_row (sp_audit sp) \<and> (\<forall>a \<in> set (sp_audit sp). audit_stored a)"

lemmas row_simps = row_ID row_Status row_Action row_Target row_Username row_Scope row_Type
  row_Approval row_DryRun row_Force

lemma row_same_created:
  assumes "stored e" "stored f"
  shows "xr_CreatedAt (row e) = xr_CreatedAt (row f) \<longleftrightarrow> ex_CreatedAt e = ex_CreatedAt f"
  using row_created [OF assms] row_created [OF assms(2) assms(1)] by (auto simp: order_eq_iff)

lemma row_created_less:
  assumes "stored e" "stored f"
  shows "xr_CreatedAt (row e) < xr_CreatedAt (row f) \<longleftrightarrow> ex_CreatedAt e < ex_CreatedAt f"
  using row_created [OF assms(2) assms(1)] by (simp add: linorder_not_le [symmetric])

lemma asc_row:
  "stored e \<Longrightarrow> stored f \<Longrightarrow>
   asc_by xr_CreatedAt xr_ID (row e) (row f) = asc_by ex_CreatedAt ex_ID e f"
  by (simp add: asc_by_def row_created_less row_same_created row_ID)

lemma desc_row:
  "stored e \<Longrightarrow> stored f \<Longrightarrow>
   desc_by xr_CreatedAt xr_ID (row e) (row f) = desc_by ex_CreatedAt ex_ID e f"
  by (simp add: desc_by_def row_created_less row_same_created row_ID)

lemma select_row:
  "represents d sp \<Longrightarrow> select_execution i d = map_option row (spec_get i sp)"
  by (simp add: represents_def select_execution_def spec_get_def find_map comp_def row_ID)

lemma spec_get_stored: "represents d sp \<Longrightarrow> spec_get i sp = Some e \<Longrightarrow> stored e"
  by (auto simp: represents_def spec_get_def dest: find_SomeD)

lemma sorted_pending:
  assumes "represents d sp"
  shows "sort_by (asc_by xr_CreatedAt xr_ID) (filter (\<lambda>r. P (xr_Status r) (xr_ID r)) (db_executions d)) =
    map row (sort_by (asc_by ex_CreatedAt ex_ID)
      (filter (\<lambda>e. P (ex_Status e) (ex_ID e)) (sp_executions sp)))"
proof -
  have "filter (\<lambda>r. P (xr_Status r) (xr_ID r)) (db_executions d) =
      map row (filter (\<lambda>e. P (ex_Status e) (ex_ID e)) (sp_executions sp))"
    using assms by (simp add: represents_def filter_map comp_def row_simps)
  moreover have "stored e" if "e \<in> set (filter Q (sp_executions sp))" for e Q
    using assms that by (auto simp: represents_def)
  ultimately show ?thesis by (auto intro!: sort_by_map asc_row)
qed

lemma represents_set:
  assumes r: "represents d sp"
    and f: "\<And>e. stored e \<Longrightarrow> row (f e) = g (row e)" "\<And>e. stored e \<Longrightarrow> stored (f e)"
    and i: "\<And>e. ex_ID (f e) = ex_ID e"
  shows "represents (d\<lparr>db_executions := map (\<lambda>x. if xr_ID x = i then g x else x) (db_executions d)\<rparr>)
    (spec_set i f sp)"
proof -
  have "ex_ID \<circ> (\<lambda>e. if ex_ID e = i then f e else e) = ex_ID"
    by (auto simp: i)
  then show ?thesis
    using r f by (auto simp: represents_def spec_set_def row_ID)
qed

lemma represents_create:
  assumes "represents d sp" "stored (norm_execution norm e)"
  shows "case spec_create norm e sp of
      None \<Rightarrow> insert_execution (row e) d = (Inl (ErrExt ''duplicate key''), d)
    | Some sp' \<Rightarrow> \<exists>d'. insert_execution (row e) d = (Inr (), d') \<and> represents d' sp'"
proof -
  have "ex_ID (norm_execution norm e) = ex_ID e" by (simp add: norm_execution_def)
  moreover have "map xr_ID (db_executions d) = map ex_ID (sp_executions sp)"
    using assms(1) by (simp add: represents_def row_ID)
  ultimately show ?thesis
    using assms row_ID [of e] by (auto simp: spec_create_def insert_execution_def represents_def row_norm)
qed

lemma spec_oldest_mem: "spec_oldest free sp = Some e \<Longrightarrow>
    e \<in> set (sp_executions sp) \<and> ex_Status e = ''pending'' \<and> free e"
proof -
  assume a: "spec_oldest free sp = Some e"
  then obtain es where "sort_by (asc_by ex_CreatedAt ex_ID)
      (filter (\<lambda>e. ex_Status e = ''pending'' \<and> free e) (sp_executions sp)) = e # es"
    by (auto simp: spec_oldest_def split: list.splits)
  then have "e \<in> set (sort_by (asc_by ex_CreatedAt ex_ID)
      (filter (\<lambda>e. ex_Status e = ''pending'' \<and> free e) (sp_executions sp)))"
    by simp
  then show ?thesis by simp
qed

lemma represents_claim:
  assumes "represents d sp" "time_ok t" "spec_oldest free sp = Some e"
  shows "spec_get (ex_ID e) (spec_set (ex_ID e) (claimed (norm t)) sp) = Some (claimed (norm t) e)"
    and "represents (d\<lparr>db_executions := map (\<lambda>x. if xr_ID x = ex_ID e
           then x\<lparr>xr_Status := ''running'', xr_UpdatedAt := enc t\<rparr> else x) (db_executions d)\<rparr>)
         (spec_set (ex_ID e) (claimed (norm t)) sp)"
    and "stored (claimed (norm t) e)"
proof -
  have m: "e \<in> set (sp_executions sp)" using spec_oldest_mem [OF assms(3)] by simp
  have d: "distinct (map ex_ID (sp_executions sp))" using assms(1) by (simp add: represents_def)
  from m show "stored (claimed (norm t) e)"
    using assms stored_claimed by (auto simp: represents_def)
  show "represents (d\<lparr>db_executions := map (\<lambda>x. if xr_ID x = ex_ID e
           then x\<lparr>xr_Status := ''running'', xr_UpdatedAt := enc t\<rparr> else x) (db_executions d)\<rparr>)
         (spec_set (ex_ID e) (claimed (norm t)) sp)"
    by (rule represents_set [OF assms(1)])
      (auto simp: row_claimed stored_claimed assms(2), simp add: claimed_def)
  have "spec_get (ex_ID e) sp = Some e"
    using m d unfolding spec_get_def by (rule find_unique)
  then show "spec_get (ex_ID e) (spec_set (ex_ID e) (claimed (norm t)) sp) = Some (claimed (norm t) e)"
    by (simp add: spec_get_set claimed_def)
qed

lemma where_row:
  assumes "stored e" "pred_option time_ok (ef_Since f)"
  shows "where_holds (execution_column tcol (row e))
      (where_arg ''created_at >= ?'' arg (ef_Since f) (buildExecutionWhere f)) \<longleftrightarrow> spec_matches norm f e"
proof -
  have since: "(case ef_Since f of None \<Rightarrow> True | Some t \<Rightarrow> sql_ge (tcol (xr_CreatedAt (row e))) (arg t)) \<longleftrightarrow>
    (case ef_Since f of None \<Rightarrow> True | Some t \<Rightarrow> norm t \<le> ex_CreatedAt e)"
    using since_col assms by (cases "ef_Since f") auto
  show ?thesis
    unfolding where_holds_arg where_holds_Nil execution_clauses since buildExecutionWhere_def Let_def
      spec_matches_def opt_matches_def row_simps
    by (simp only: where_holds_Nil simp_thms conj_assoc)
qed

lemma list_rows:
  assumes r: "represents d sp" and t: "pred_option time_ok (ef_Since f)"
    and w: "w = where_arg ''created_at >= ?'' arg (ef_Since f) (buildExecutionWhere f)"
  shows "filter (\<lambda>r. where_holds (execution_column tcol r) w) (db_executions d) =
      map row (filter (spec_matches norm f) (sp_executions sp))"
    and "decode_all model (page a b (sort_by (desc_by xr_CreatedAt xr_ID)
        (filter (\<lambda>r. where_holds (execution_column tcol r) w) (db_executions d)))) =
      Inr (page a b (sort_by (desc_by ex_CreatedAt ex_ID)
        (filter (spec_matches norm f) (sp_executions sp))))"
proof -
  have st: "stored e" if "e \<in> set (sp_executions sp)" for e
    using r that by (auto simp: represents_def)
  have "filter (\<lambda>r. where_holds (execution_column tcol r) w) (db_executions d) =
      map row (filter (\<lambda>e. where_holds (execution_column tcol (row e)) w) (sp_executions sp))"
    using r by (simp add: represents_def filter_map comp_def)
  also have "filter (\<lambda>e. where_holds (execution_column tcol (row e)) w) (sp_executions sp) =
      filter (spec_matches norm f) (sp_executions sp)"
    using where_row [OF st t] w by (auto intro: filter_cong)
  finally show m: "filter (\<lambda>r. where_holds (execution_column tcol r) w) (db_executions d) =
      map row (filter (spec_matches norm f) (sp_executions sp))" .
  let ?s = "sort_by (desc_by ex_CreatedAt ex_ID) (filter (spec_matches norm f) (sp_executions sp))"
  have "sort_by (desc_by xr_CreatedAt xr_ID) (map row (filter (spec_matches norm f) (sp_executions sp))) =
      map row ?s"
    using st by (auto intro!: sort_by_map desc_row)
  moreover have "decode_all model (map row (page a b ?s)) = Inr (page a b ?s)"
    using st set_page [of a b ?s] by (intro decode_all_map model_row) auto
  ultimately show "decode_all model (page a b (sort_by (desc_by xr_CreatedAt xr_ID)
        (filter (\<lambda>r. where_holds (execution_column tcol r) w) (db_executions d)))) = Inr (page a b ?s)"
    unfolding m by (simp add: page_map)
qed

lemma select_output_row:
  assumes "represents d sp"
  shows "rel_option (\<lambda>r o'. output_represents l r (i, o')) (select_output i d) (spec_output i sp)"
proof -
  have "list_all2 (output_represents l) (db_outputs d) (sp_outputs sp)"
    using assms by (simp add: represents_def)
  then show ?thesis unfolding select_output_def spec_output_def
    by (induction rule: list_all2_induct) (auto simp: output_represents_def)
qed

lemma represents_finish:
  assumes r: "represents d sp" and t: "time_ok t" "pred_option time_ok u"
  shows "represents (d\<lparr>db_executions := map (\<lambda>x. if xr_ID x = i
           then x\<lparr>xr_Status := s, xr_UpdatedAt := enc t, xr_CompletedAt := map_option enc u\<rparr> else x)
             (db_executions d)\<rparr>)
         (spec_set i (finished s (norm t) (map_option norm u)) sp)"
  by (rule represents_set [OF r])
    (auto simp: row_finished stored_finished t, simp add: finished_def)

lemma represents_outputs:
  assumes "represents d sp" "list_all2 (output_represents l) rs xs"
  shows "represents (d\<lparr>db_outputs := filter (\<lambda>r. or_ExecId r \<noteq> i) (db_outputs d) @ rs\<rparr>)
    (sp\<lparr>sp_outputs := filter (\<lambda>(j, _). j \<noteq> i) (sp_outputs sp) @ xs\<rparr>)"
proof -
  have "list_all2 (output_represents l) (filter (\<lambda>r. or_ExecId r \<noteq> i) (db_outputs d))
      (filter (\<lambda>(j, _). j \<noteq> i) (sp_outputs sp))"
    using assms(1) by (intro list_all2_filter) (auto simp: represents_def output_represents_def)
  with assms show ?thesis by (simp add: represents_def list_all2_appendI)
qed

lemma rows_with_id:
  assumes "represents d sp"
  shows "filter (\<lambda>r. xr_ID r = i) (db_executions d) = [] \<longleftrightarrow> i \<notin> set (map ex_ID (sp_executions sp))"
  using assms by (auto simp: represents_def filter_empty_conv row_ID)

lemmas audit_simps = audit_ID audit_Execution audit_Action audit_Target audit_Username audit_Method audit_Approval

lemma audit_desc_row:
  assumes "audit_stored a" "audit_stored b"
  shows "desc_by ar_Timestamp ar_ID (audit_row a) (audit_row b) = desc_by ae_Timestamp ae_ID a b"
proof -
  have "ar_Timestamp (audit_row b) < ar_Timestamp (audit_row a) \<longleftrightarrow> ae_Timestamp b < ae_Timestamp a"
    using audit_time [OF assms] by (simp add: linorder_not_le [symmetric])
  moreover have "ar_Timestamp (audit_row a) = ar_Timestamp (audit_row b) \<longleftrightarrow> ae_Timestamp a = ae_Timestamp b"
    using audit_time [OF assms] audit_time [OF assms(2,1)] by (auto simp: order_eq_iff)
  ultimately show ?thesis by (simp add: desc_by_def audit_ID)
qed

lemma represents_audit:
  assumes "represents d sp" "audit_stored (norm_audit norm a)"
  shows "case spec_audit (l_enforce_fk l) norm a sp of
      None \<Rightarrow> \<exists>err. insert_audit l (audit_row a) d = (Inl err, d)
    | Some sp' \<Rightarrow> \<exists>d'. insert_audit l (audit_row a) d = (Inr (), d') \<and> represents d' sp'"
proof -
  have ids: "set (map ar_ID (db_audit d)) = set (map ae_ID (sp_audit sp))"
      "set (map xr_ID (db_executions d)) = set (map ex_ID (sp_executions sp))"
    using assms(1) by (auto simp: represents_def audit_ID row_ID)
  have kept: "represents (d\<lparr>db_audit := db_audit d @ [audit_row a]\<rparr>) (sp\<lparr>sp_audit := sp_audit sp @ [norm_audit norm a]\<rparr>)"
    using assms by (auto simp: represents_def audit_norm)
  show ?thesis
    using kept unfolding spec_audit_def insert_audit_def audit_simps ids by auto
qed

lemma audit_where_row:
  assumes "audit_stored a" "pred_option time_ok (af_Since f)"
  shows "where_holds (audit_column tcol (audit_row a))
      (where_arg ''timestamp >= ?'' arg (af_Since f) (buildAuditWhere f)) \<longleftrightarrow> spec_audit_matches norm f a"
proof -
  have since: "(case af_Since f of None \<Rightarrow> True | Some t \<Rightarrow> sql_ge (tcol (ar_Timestamp (audit_row a))) (arg t)) \<longleftrightarrow>
    (case af_Since f of None \<Rightarrow> True | Some t \<Rightarrow> norm t \<le> ae_Timestamp a)"
    using audit_since_col assms by (cases "af_Since f") auto
  show ?thesis
    unfolding where_holds_arg where_holds_Nil audit_clauses since buildAuditWhere_def Let_def
      spec_audit_matches_def opt_matches_def audit_simps
    by (simp only: where_holds_Nil simp_thms conj_assoc)
qed

lemma audit_rows:
  assumes r: "represents d sp" and t: "pred_option time_ok (af_Since f)"
    and w: "w = where_arg ''timestamp >= ?'' arg (af_Since f) (buildAuditWhere f)"
  shows "filter (\<lambda>r. where_holds (audit_column tcol r) w) (db_audit d) =
      map audit_row (filter (spec_audit_matches norm f) (sp_audit sp))"
    and "decode_all audit_model (page a b (sort_by (desc_by ar_Timestamp ar_ID)
        (filter (\<lambda>r. where_holds (audit_column tcol r) w) (db_audit d)))) =
      Inr (page a b (sort_by (desc_by ae_Timestamp ae_ID)
        (filter (spec_audit_matches norm f) (sp_audit sp))))"
proof -
  have st: "audit_stored a" if "a \<in> set (sp_audit sp)" for a
    using r that by (auto simp: represents_def)
  have "filter (\<lambda>r. where_holds (audit_column tcol r) w) (db_audit d) =
      map audit_row (filter (\<lambda>a. where_holds (audit_column tcol (audit_row a)) w) (sp_audit sp))"
    using r by (simp add: represents_def filter_map comp_def)
  also have "filter (\<lambda>a. where_holds (audit_column tcol (audit_row a)) w) (sp_audit sp) =
      filter (spec_audit_matches norm f) (sp_audit sp)"
    using audit_where_row [OF st t] w by (auto intro: filter_cong)
  finally show m: "filter (\<lambda>r. where_holds (audit_column tcol r) w) (db_audit d) =
      map audit_row (filter (spec_audit_matches norm f) (sp_audit sp))" .
  let ?s = "sort_by (desc_by ae_Timestamp ae_ID) (filter (spec_audit_matches norm f) (sp_audit sp))"
  have "sort_by (desc_by ar_Timestamp ar_ID) (map audit_row (filter (spec_audit_matches norm f) (sp_audit sp))) =
      map audit_row ?s"
    using st by (auto intro!: sort_by_map audit_desc_row)
  moreover have "decode_all audit_model (map audit_row (page a b ?s)) = Inr (page a b ?s)"
    using st set_page [of a b ?s] by (intro decode_all_map audit_model_row) auto
  ultimately show "decode_all audit_model (page a b (sort_by (desc_by ar_Timestamp ar_ID)
        (filter (\<lambda>r. where_holds (audit_column tcol r) w) (db_audit d)))) = Inr (page a b ?s)"
    unfolding m by (simp add: page_map)
qed

end

end
