(* ===== verification/Sqlite.thy ===== *)
theory Sqlite
  imports Store_Spec
begin

text \<open>
  \<open>internal/store/sqlite.go\<close>: the SQLite store, whose timestamp columns hold text in
  \<open>timeLayout\<close>.  One connection serialises every operation, so an operation is one step on the
  database.  The pragma text of the connection string is \<open>withSQLitePragmas\<close>; its map is iterated
  in an arbitrary order, here the order of the list.
\<close>

definition formatTimePtr :: "gotime option \<Rightarrow> string option" where
  "formatTimePtr t = map_option FormatTime t"

text \<open>The values of the \<open>INSERT\<close> of \<open>CreateExecution\<close>, by column.\<close>

definition sqlite_execution_row :: "execution \<Rightarrow> string execution_row" where
  "sqlite_execution_row e =
    \<lparr>xr_ID = ex_ID e, xr_Action = ex_Action e, xr_Status = ex_Status e,
     xr_ApprovalState = ex_ApprovalState e, xr_Username = ex_Username e,
     xr_TargetCluster = ex_TargetCluster e, xr_Jira = ex_Jira e, xr_DryRun = ex_DryRun e,
     xr_Force = ex_Force e, xr_Params = ex_Params e, xr_Scope = ex_Scope e, xr_Type = ex_Type e,
     xr_Revision = ex_Revision e, xr_ManifestWorkName = ex_ManifestWorkName e,
     xr_RunnerSeconds = ex_RunnerSeconds e, xr_UploadSeconds = ex_UploadSeconds e,
     xr_DurationSeconds = ex_DurationSeconds e, xr_CreatedAt = FormatTime (ex_CreatedAt e),
     xr_UpdatedAt = FormatTime (ex_UpdatedAt e), xr_CompletedAt = formatTimePtr (ex_CompletedAt e)\<rparr>"

definition sqlite_execution_toModel :: "lib \<Rightarrow> string execution_row \<Rightarrow> execution result" where
  "sqlite_execution_toModel l r =
    (case l_parse l (xr_ID r) of
       Inl e \<Rightarrow> Inl (Errw ''parsing execution id: %w'' [] e)
     | Inr i \<Rightarrow>
       (case parse_timeLayout (xr_CreatedAt r) of
          Inl e \<Rightarrow> Inl (Errw ''parsing created_at: %w'' [] e)
        | Inr createdAt \<Rightarrow>
          (case parse_timeLayout (xr_UpdatedAt r) of
             Inl e \<Rightarrow> Inl (Errw ''parsing updated_at: %w'' [] e)
           | Inr updatedAt \<Rightarrow>
             (let exec =
                \<lparr>ex_ID = i, ex_Action = xr_Action r, ex_Status = xr_Status r,
                 ex_ApprovalState = xr_ApprovalState r, ex_Username = xr_Username r,
                 ex_TargetCluster = xr_TargetCluster r, ex_Jira = xr_Jira r, ex_DryRun = xr_DryRun r,
                 ex_Force = xr_Force r, ex_Params = xr_Params r, ex_Scope = xr_Scope r,
                 ex_Type = xr_Type r, ex_Revision = xr_Revision r,
                 ex_ManifestWorkName = xr_ManifestWorkName r, ex_RunnerSeconds = xr_RunnerSeconds r,
                 ex_UploadSeconds = xr_UploadSeconds r, ex_DurationSeconds = xr_DurationSeconds r,
                 ex_CreatedAt = createdAt, ex_UpdatedAt = updatedAt, ex_CompletedAt = None\<rparr>
              in case xr_CompletedAt r of
                   None \<Rightarrow> Inr exec
                 | Some t \<Rightarrow>
                   (case parse_timeLayout t of
                      Inl e \<Rightarrow> Inl (Errw ''parsing completed_at: %w'' [] e)
                    | Inr c \<Rightarrow> Inr (exec\<lparr>ex_CompletedAt := Some c\<rparr>))))))"

definition sqlite_output_toModel :: "lib \<Rightarrow> output_row \<Rightarrow> execution_output result" where
  "sqlite_output_toModel l r =
    (case l_unmarshal l (or_Resources r) of
       Inl e \<Rightarrow> Inl (Errw ''parsing execution output resources: %w'' [] e)
     | Inr rs \<Rightarrow> Inr \<lparr>eo_Message = or_Message r, eo_Resources = rs\<rparr>)"

definition sqlite_audit_row :: "audit_entry \<Rightarrow> string audit_row" where
  "sqlite_audit_row a =
    \<lparr>ar_ID = ae_ID a, ar_Timestamp = FormatTime (ae_Timestamp a), ar_Method = ae_Method a,
     ar_Path = ae_Path a, ar_Username = ae_Username a, ar_StatusCode = ae_StatusCode a,
     ar_Action = ae_Action a, ar_ExecutionID = ae_ExecutionID a, ar_Jira = ae_Jira a,
     ar_ApprovalState = ae_ApprovalState a, ar_TargetCluster = ae_TargetCluster a\<rparr>"

definition sqlite_audit_toModel :: "lib \<Rightarrow> string audit_row \<Rightarrow> audit_entry result" where
  "sqlite_audit_toModel l r =
    (case l_parse l (ar_ID r) of
       Inl e \<Rightarrow> Inl (Errw ''parsing audit entry id: %w'' [] e)
     | Inr i \<Rightarrow>
       (case parse_timeLayout (ar_Timestamp r) of
          Inl e \<Rightarrow> Inl (Errw ''parsing timestamp: %w'' [] e)
        | Inr ts \<Rightarrow>
          Inr \<lparr>ae_ID = i, ae_Timestamp = ts, ae_Method = ar_Method r, ae_Path = ar_Path r,
               ae_Username = ar_Username r, ae_StatusCode = ar_StatusCode r, ae_Action = ar_Action r,
               ae_ExecutionID = ar_ExecutionID r, ae_Jira = ar_Jira r,
               ae_ApprovalState = ar_ApprovalState r, ae_TargetCluster = ar_TargetCluster r\<rparr>))"

section \<open>Operations\<close>

type_synonym sqlite_db = "string db"

definition sqlite_CreateExecution :: "lib \<Rightarrow> call \<Rightarrow> execution \<Rightarrow> (sqlite_db, unit) act" where
  "sqlite_CreateExecution l c e =
    wrap_err ''inserting execution: %w'' []
      (autocommit c S_Insert (insert_execution (sqlite_execution_row e)))"

definition sqlite_GetExecution :: "lib \<Rightarrow> call \<Rightarrow> uuid \<Rightarrow> (sqlite_db, execution) act" where
  "sqlite_GetExecution l c i =
    seq (query_row c S_Select ''querying execution: %w'' (select_execution i))
      (\<lambda>raw. lift (sqlite_execution_toModel l raw))"

definition sqlite_GetExecutionOutput :: "lib \<Rightarrow> call \<Rightarrow> uuid \<Rightarrow> (sqlite_db, execution_output) act" where
  "sqlite_GetExecutionOutput l c i =
    seq (query_row c S_Select ''querying execution output: %w'' (select_output i))
      (\<lambda>raw. lift (sqlite_output_toModel l raw))"

definition sqlite_execution_where :: "execution_filter \<Rightarrow> sql_where" where
  "sqlite_execution_where f =
    where_arg ''created_at >= ?'' (\<lambda>t. SText (FormatTime t)) (ef_Since f) (buildExecutionWhere f)"

definition sqlite_ListExecutions ::
  "lib \<Rightarrow> call \<Rightarrow> execution_filter \<Rightarrow> (sqlite_db, execution_list_result) act"
where
  "sqlite_ListExecutions l c f =
    (let w = sqlite_execution_where f;
         matching = (\<lambda>d. filter (\<lambda>r. where_holds (execution_column SText r) w) (db_executions d))
     in seq (wrap_err ''counting executions: %w'' [] (stmt c S_Count (query (\<lambda>d. length (matching d)))))
         (\<lambda>total.
           let limit = clampLimit (ef_Limit f) 20 100; offset = clampOffset (ef_Offset f) in
           seq (wrap_err ''listing executions: %w'' [] (stmt c S_Select (query (\<lambda>d.
                  page limit offset (sort_by (desc_by xr_CreatedAt xr_ID) (matching d))))))
             (\<lambda>rows. seq (lift (decode_all (sqlite_execution_toModel l) rows))
               (\<lambda>items. ret \<lparr>el_Items = items, el_Total = int total, el_Limit = limit,
                             el_Offset = offset\<rparr>))))"

text \<open>\<open>txExec\<close>: a statement of the transaction, and whether it must change a row.\<close>

definition txExec :: "call \<Rightarrow> stmt \<Rightarrow> (stmt option) \<Rightarrow> ('s, nat) act \<Rightarrow> ('s, unit) act" where
  "txExec c s mustAffectRows m =
    seq (wrap_err ''updating table: %w'' [] (stmt c s m))
      (\<lambda>n. case mustAffectRows of
             None \<Rightarrow> ret ()
           | Some ra \<Rightarrow>
             seq (wrap_err ''checking rows affected: %w'' [] (stmt c ra (ret n)))
               (\<lambda>n. if n = 0 then fail ErrNotFound else ret ()))"

text \<open>The statements of the update, in its transaction.\<close>

definition sqlite_update_body ::
  "lib \<Rightarrow> call \<Rightarrow> uuid \<Rightarrow> string \<Rightarrow> gotime option \<Rightarrow> execution_output option \<Rightarrow> (sqlite_db, unit) act"
where
  "sqlite_update_body l c i status completedAt out =
    seq (wrap_err ''updating execution status: %w'' []
          (txExec c S_Update (Some S_RowsAffected)
            (update_execution i (\<lambda>r. r\<lparr>xr_Status := status, xr_UpdatedAt := FormatTime (c_now c),
                                       xr_CompletedAt := formatTimePtr completedAt\<rparr>))))
     (\<lambda>_. seq (wrap_err ''deleting execution output: %w'' []
                (txExec c S_Delete None (affects 0 (delete_outputs i))))
       (\<lambda>_. case out of
              None \<Rightarrow> ret ()
            | Some o' \<Rightarrow>
              seq (wrap_err ''serialising execution output resources: %w'' []
                    (lift (l_marshal l (eo_Resources o'))))
                (\<lambda>resourcesData. wrap_err ''creating execution output: %w'' []
                  (txExec c S_InsertOutput (Some S_OutputRowsAffected)
                    (affects 1 (insert_output l
                      \<lparr>or_ID = c_new_id c, or_ExecId = i, or_Message = eo_Message o',
                       or_Resources = resourcesData\<rparr>))))))"

definition sqlite_UpdateExecutionWithResult ::
  "lib \<Rightarrow> call \<Rightarrow> uuid \<Rightarrow> string \<Rightarrow> gotime option \<Rightarrow> execution_output option \<Rightarrow> (sqlite_db, unit) act"
where
  "sqlite_UpdateExecutionWithResult l c i status completedAt out =
    transaction c ''initiating transaction: %w'' ''committing transaction: %w''
      (sqlite_update_body l c i status completedAt out)"

text \<open>\<open>SELECT id ... WHERE status = 'pending' ORDER BY created_at ASC, id ASC LIMIT 1\<close>.\<close>

definition oldest_pending :: "'t :: linorder db \<Rightarrow> string option" where
  "oldest_pending d =
    (case page 1 0 (sort_by (asc_by xr_CreatedAt xr_ID)
                      (filter (\<lambda>r. xr_Status r = ''pending'') (db_executions d))) of
       [] \<Rightarrow> None
     | r # _ \<Rightarrow> Some (xr_ID r))"

text \<open>The claim after its row is selected: the update and the read back.\<close>

definition sqlite_claim_row :: "lib \<Rightarrow> call \<Rightarrow> string \<Rightarrow> (sqlite_db, string execution_row) act" where
  "sqlite_claim_row l c i =
    seq (wrap_err ''claiming execution: %w'' [] (stmt c S_Update
          (update_execution i (\<lambda>r. r\<lparr>xr_Status := ''running'', xr_UpdatedAt := FormatTime (c_now c)\<rparr>))))
      (\<lambda>_. seq (wrap_err ''querying claimed execution: %w'' []
                  (stmt c S_Select (query (select_execution i))))
        (\<lambda>raw. case raw of
                 None \<Rightarrow> fail (Errw ''querying claimed execution: %w'' []
                               (ErrExt ''sql: no rows in result set''))
               | Some r \<Rightarrow> ret r))"

definition sqlite_ClaimNextExecution :: "lib \<Rightarrow> call \<Rightarrow> (sqlite_db, execution) act" where
  "sqlite_ClaimNextExecution l c =
    seq (transaction c ''beginning claim transaction: %w'' ''committing claim transaction: %w''
          (seq (query_row c S_SelectId ''selecting next pending execution: %w'' oldest_pending)
            (sqlite_claim_row l c)))
      (\<lambda>raw. lift (sqlite_execution_toModel l raw))"

definition sqlite_CreateAuditEntry :: "lib \<Rightarrow> call \<Rightarrow> audit_entry \<Rightarrow> (sqlite_db, unit) act" where
  "sqlite_CreateAuditEntry l c a =
    wrap_err ''inserting audit entry: %w'' []
      (autocommit c S_Insert (insert_audit l (sqlite_audit_row a)))"

definition sqlite_audit_where :: "audit_filter \<Rightarrow> sql_where" where
  "sqlite_audit_where f =
    where_arg ''timestamp >= ?'' (\<lambda>t. SText (FormatTime t)) (af_Since f) (buildAuditWhere f)"

definition sqlite_ListAuditEntries ::
  "lib \<Rightarrow> call \<Rightarrow> audit_filter \<Rightarrow> (sqlite_db, audit_list_result) act"
where
  "sqlite_ListAuditEntries l c f =
    (let w = sqlite_audit_where f;
         matching = (\<lambda>d. filter (\<lambda>r. where_holds (audit_column SText r) w) (db_audit d))
     in seq (wrap_err ''counting audit entries: %w'' [] (stmt c S_Count (query (\<lambda>d. length (matching d)))))
         (\<lambda>total.
           let limit = clampLimit (af_Limit f) 50 200; offset = clampOffset (af_Offset f) in
           seq (wrap_err ''listing audit entries: %w'' [] (stmt c S_Select (query (\<lambda>d.
                  page limit offset (sort_by (desc_by ar_Timestamp ar_ID) (matching d))))))
             (\<lambda>rows. seq (lift (decode_all (sqlite_audit_toModel l) rows))
               (\<lambda>items. ret \<lparr>al_Items = items, al_Total = int total, al_Limit = limit,
                             al_Offset = offset\<rparr>))))"

text \<open>\<open>SQLiteStore\<close> as a \<open>Store\<close>.\<close>

definition SQLiteStore :: "lib \<Rightarrow> call \<Rightarrow> sqlite_db Store" where
  "SQLiteStore l c =
    \<lparr>st_CreateExecution = sqlite_CreateExecution l c,
     st_GetExecution = sqlite_GetExecution l c,
     st_GetExecutionOutput = sqlite_GetExecutionOutput l c,
     st_ListExecutions = sqlite_ListExecutions l c,
     st_UpdateExecutionWithResult = sqlite_UpdateExecutionWithResult l c,
     st_ClaimNextExecution = sqlite_ClaimNextExecution l c,
     st_CreateAuditEntry = sqlite_CreateAuditEntry l c,
     st_ListAuditEntries = sqlite_ListAuditEntries l c\<rparr>"

section \<open>The connection string\<close>

fun add_pragmas :: "(string \<times> string) list \<Rightarrow> string \<Rightarrow> string \<Rightarrow> string" where
  "add_pragmas [] dsn sep = dsn"
| "add_pragmas ((k, v) # ps) dsn sep =
    (if \<not> Contains dsn (k @ ''='') then add_pragmas ps (dsn @ sep @ k @ ''='' @ v) ''&''
     else add_pragmas ps dsn sep)"

definition withSQLitePragmas :: "string \<Rightarrow> (string \<times> string) list \<Rightarrow> string" where
  "withSQLitePragmas dsn pragmas = add_pragmas pragmas dsn (if CHR ''?'' \<in> set dsn then ''&'' else ''?'')"

section \<open>The rows stand for the models\<close>

definition sqlite_stored :: "lib \<Rightarrow> execution \<Rightarrow> bool" where
  "sqlite_stored l e \<longleftrightarrow>
    canonical l (ex_ID e) \<and> printable (ex_CreatedAt e) \<and> printable (ex_UpdatedAt e) \<and>
    pred_option printable (ex_CompletedAt e)"

lemma sqlite_roundtrip: "sqlite_stored l e \<Longrightarrow> sqlite_execution_toModel l (sqlite_execution_row e) = Inr e"
  by (cases "ex_CompletedAt e")
    (auto simp: sqlite_stored_def canonical_def sqlite_execution_toModel_def sqlite_execution_row_def
      formatTimePtr_def)

definition sqlite_audit_stored :: "lib \<Rightarrow> audit_entry \<Rightarrow> bool" where
  "sqlite_audit_stored l a \<longleftrightarrow> canonical l (ae_ID a) \<and> printable (ae_Timestamp a)"

lemma sqlite_audit_roundtrip: "sqlite_audit_stored l a \<Longrightarrow> sqlite_audit_toModel l (sqlite_audit_row a) = Inr a"
  by (simp add: sqlite_audit_stored_def canonical_def sqlite_audit_toModel_def sqlite_audit_row_def)

interpretation sqlite: row_codec l sqlite_execution_row "sqlite_execution_toModel l" FormatTime SText
  "\<lambda>t. SText (FormatTime t)" "\<lambda>t. t" printable "sqlite_stored l" sqlite_audit_row
  "sqlite_audit_toModel l" "sqlite_audit_stored l"
  for l
proof unfold_locales
  show "sqlite_stored l e \<Longrightarrow> sqlite_execution_toModel l (sqlite_execution_row e) = Inr e" for e
    by (rule sqlite_roundtrip)
next
  fix e f
  assume "sqlite_stored l e" "sqlite_stored l f"
  then show "xr_CreatedAt (sqlite_execution_row e) \<le> xr_CreatedAt (sqlite_execution_row f) \<longleftrightarrow>
      ex_CreatedAt e \<le> ex_CreatedAt f"
    by (simp add: sqlite_stored_def sqlite_execution_row_def FormatTime_le)
next
  fix e t
  assume "sqlite_stored l e" "printable t"
  then show "sql_ge (SText (xr_CreatedAt (sqlite_execution_row e))) (SText (FormatTime t)) \<longleftrightarrow>
      t \<le> ex_CreatedAt e"
    by (simp add: sqlite_stored_def sqlite_execution_row_def FormatTime_le)
next
  show "sqlite_audit_stored l a \<Longrightarrow> sqlite_audit_toModel l (sqlite_audit_row a) = Inr a" for a
    by (rule sqlite_audit_roundtrip)
qed (auto simp: sqlite_audit_row_def sqlite_audit_stored_def norm_audit_def FormatTime_le sqlite_execution_row_def claimed_def finished_def sqlite_stored_def
      formatTimePtr_def option.map_ident)

section \<open>Every operation does what the specification says\<close>

lemma sqlite_create_sim:
  assumes "sqlite.represents l d sp" "fault_free c" "sqlite_stored l e"
  shows "case spec_create (\<lambda>t. t) e sp of
      None \<Rightarrow> \<exists>err. sqlite_CreateExecution l c e d = (Inl err, d)
    | Some sp' \<Rightarrow> \<exists>d'. sqlite_CreateExecution l c e d = (Inr (), d') \<and> sqlite.represents l d' sp'"
  using sqlite.represents_create [OF assms(1), of e] assms(2,3)
  by (auto simp: sqlite_CreateExecution_def wrap_err_def split: option.splits)

lemma sqlite_get_sim:
  assumes "sqlite.represents l d sp" "fault_free c"
  shows "sqlite_GetExecution l c i d =
    (case spec_get i sp of None \<Rightarrow> Inl ErrNotFound | Some e \<Rightarrow> Inr e, d)"
  using sqlite.select_row [OF assms(1), of i] sqlite.spec_get_stored [OF assms(1), of i] assms(2)
  by (auto simp: sqlite_GetExecution_def run_simps sqlite_roundtrip split: option.splits)

lemma sqlite_output_sim:
  assumes "sqlite.represents l d sp" "fault_free c"
  shows "sqlite_GetExecutionOutput l c i d =
    (case spec_output i sp of None \<Rightarrow> Inl ErrNotFound | Some x \<Rightarrow> Inr x, d)"
  using sqlite.select_output_row [OF assms(1), of i] assms(2)
  by (auto simp: sqlite_GetExecutionOutput_def run_simps sqlite_output_toModel_def output_represents_def
      rel_option_iff split: option.splits)

lemma sqlite_oldest:
  assumes "sqlite.represents l d sp"
  shows "oldest_pending d = map_option ex_ID (spec_oldest (\<lambda>_. True) sp)"
  using sqlite.sorted_pending [OF assms, of "\<lambda>s i. s = ''pending''"]
  by (auto simp: oldest_pending_def spec_oldest_def page_def sqlite.row_ID split: list.splits)

lemma sqlite_claim_sim:
  assumes "sqlite.represents l d sp" "fault_free c" "printable (c_now c)"
  shows "case spec_claim (\<lambda>_. True) (c_now c) sp of
      None \<Rightarrow> sqlite_ClaimNextExecution l c d = (Inl ErrNotFound, d)
    | Some (e, sp') \<Rightarrow> \<exists>d'. sqlite_ClaimNextExecution l c d = (Inr e, d') \<and> sqlite.represents l d' sp'"
proof (cases "spec_oldest (\<lambda>_. True) sp")
  case None
  with assms sqlite_oldest [OF assms(1)] show ?thesis
    by (simp add: spec_claim_def sqlite_ClaimNextExecution_def transaction_def run_simps txExec_def)
next
  case (Some e)
  let ?d = "d\<lparr>db_executions := map (\<lambda>x. if xr_ID x = ex_ID e
    then x\<lparr>xr_Status := ''running'', xr_UpdatedAt := FormatTime (c_now c)\<rparr> else x) (db_executions d)\<rparr>"
  note r = sqlite.represents_claim [OF assms(1,3) Some]
  have "select_execution (ex_ID e) ?d = Some (sqlite_execution_row (claimed (c_now c) e))"
    using sqlite.select_row [OF r(2), of "ex_ID e"] r(1) by simp
  with Some assms r sqlite_oldest [OF assms(1)] show ?thesis
    by (simp add: spec_claim_def sqlite_ClaimNextExecution_def sqlite_claim_row_def transaction_def run_simps
        update_execution_def sqlite_roundtrip)
qed

lemma sqlite_list_sim:
  assumes "sqlite.represents l d sp" "fault_free c" "pred_option printable (ef_Since f)"
  shows "sqlite_ListExecutions l c f d = (Inr (spec_list (\<lambda>t. t) f sp), d)"
  using sqlite.list_rows [OF assms(1,3) refl] assms(2)
  by (simp add: sqlite_ListExecutions_def sqlite_execution_where_def run_simps spec_list_def Let_def)

lemma sqlite_update_sim:
  assumes r: "sqlite.represents l d sp" and c: "fault_free c" "printable (c_now c)"
    and t: "pred_option printable completedAt" and out: "output_ok l c d out"
  shows "case spec_update (\<lambda>t. t) i status (c_now c) completedAt out sp of
      None \<Rightarrow> \<exists>err. sqlite_UpdateExecutionWithResult l c i status completedAt out d = (Inl err, d)
        \<and> is_not_found err
    | Some sp' \<Rightarrow> \<exists>d'. sqlite_UpdateExecutionWithResult l c i status completedAt out d = (Inr (), d')
        \<and> sqlite.represents l d' sp'"
proof (cases "i \<in> set (map ex_ID (sp_executions sp))")
  case False
  with c sqlite.rows_with_id [OF r, of i] show ?thesis
    by (simp add: spec_update_def sqlite_UpdateExecutionWithResult_def sqlite_update_body_def transaction_def run_simps txExec_def
        update_execution_def del: filter_False)
next
  case True
  then have n: "filter (\<lambda>r. xr_ID r = i) (db_executions d) \<noteq> []"
    using sqlite.rows_with_id [OF r, of i] by simp
  let ?d = "d\<lparr>db_executions := map (\<lambda>x. if xr_ID x = i then x\<lparr>xr_Status := status,
    xr_UpdatedAt := FormatTime (c_now c), xr_CompletedAt := map_option FormatTime completedAt\<rparr> else x)
      (db_executions d)\<rparr>"
  let ?sp = "spec_set i (finished status (c_now c) (map_option (\<lambda>t. t) completedAt)) sp"
  have e: "sqlite.represents l ?d ?sp" by (rule sqlite.represents_finish [OF r c(2) t])
  show ?thesis
  proof (cases out)
    case None
    with True c n sqlite.represents_outputs [OF e, of "[]" "[]" i] show ?thesis
      by (simp add: spec_update_def sqlite_UpdateExecutionWithResult_def sqlite_update_body_def transaction_def run_simps txExec_def
          update_execution_def delete_outputs_def formatTimePtr_def option.map_ident)
  next
    case (Some x)
    then obtain raw where x: "l_marshal l (eo_Resources x) = Inr raw" "l_unmarshal l raw = Inr (eo_Resources x)"
      "c_new_id c \<notin> set (map or_ID (db_outputs d))"
      using out by (auto simp: output_ok_def split: sum.splits)
    have "i \<in> set (map xr_ID (db_executions ?d))"
      using True e by (auto simp: sqlite.represents_def sqlite.row_ID spec_set_def finished_def)
    with Some True c n x sqlite.represents_outputs [OF e, of "[\<lparr>or_ID = c_new_id c, or_ExecId = i,
        or_Message = eo_Message x, or_Resources = raw\<rparr>]" "[(i, x)]" i]
    show ?thesis
      by (auto simp: spec_update_def sqlite_UpdateExecutionWithResult_def sqlite_update_body_def transaction_def run_simps txExec_def
          update_execution_def delete_outputs_def insert_output_def formatTimePtr_def option.map_ident
          output_represents_def)
  qed
qed

lemma sqlite_audit_sim:
  assumes "sqlite.represents l d sp" "fault_free c" "sqlite_audit_stored l a"
  shows "case spec_audit (l_enforce_fk l) (\<lambda>t. t) a sp of
      None \<Rightarrow> \<exists>err. sqlite_CreateAuditEntry l c a d = (Inl err, d)
    | Some sp' \<Rightarrow> \<exists>d'. sqlite_CreateAuditEntry l c a d = (Inr (), d') \<and> sqlite.represents l d' sp'"
  using sqlite.represents_audit [OF assms(1), of a] assms(2,3)
  by (auto simp: sqlite_CreateAuditEntry_def wrap_err_def norm_audit_def split: option.splits)

lemma sqlite_audits_sim:
  assumes "sqlite.represents l d sp" "fault_free c" "pred_option printable (af_Since f)"
  shows "sqlite_ListAuditEntries l c f d = (Inr (spec_audits (\<lambda>t. t) f sp), d)"
  using sqlite.audit_rows [OF assms(1,3) refl] assms(2)
  by (simp add: sqlite_ListAuditEntries_def sqlite_audit_where_def run_simps spec_audits_def Let_def)

end
