(* ===== verification/Postgres.thy ===== *)
theory Postgres
  imports Store_Spec
begin

text \<open>
  \<open>internal/store/postgres.go\<close>: the PostgreSQL store.  Its timestamps are native; a column of type
  \<open>TIMESTAMPTZ\<close> keeps whole ticks of the database's resolution (\<open>l_tick\<close> nanoseconds, 1000 in
  PostgreSQL).  Several transactions run at once: \<open>FOR UPDATE SKIP LOCKED\<close> passes over the rows
  that others hold (\<open>c_locked\<close>).  \<open>PostgresStore\<close> treats one operation as one step;
  \<open>Pg_Concurrency\<close> interleaves the parts of concurrent claims.
\<close>

definition pg_time :: "lib \<Rightarrow> gotime \<Rightarrow> int" where
  "pg_time l t = t div int (l_tick l)"

definition pg_scan_time :: "lib \<Rightarrow> int \<Rightarrow> gotime" where
  "pg_scan_time l v = v * int (l_tick l)"

text \<open>The values of the \<open>INSERT\<close> of \<open>CreateExecution\<close>, by column.\<close>

definition pg_execution_row :: "lib \<Rightarrow> execution \<Rightarrow> int execution_row" where
  "pg_execution_row l e =
    \<lparr>xr_ID = ex_ID e, xr_Action = ex_Action e, xr_Status = ex_Status e,
     xr_ApprovalState = ex_ApprovalState e, xr_Username = ex_Username e,
     xr_TargetCluster = ex_TargetCluster e, xr_Jira = ex_Jira e, xr_DryRun = ex_DryRun e,
     xr_Force = ex_Force e, xr_Params = ex_Params e, xr_Scope = ex_Scope e, xr_Type = ex_Type e,
     xr_Revision = ex_Revision e, xr_ManifestWorkName = ex_ManifestWorkName e,
     xr_RunnerSeconds = ex_RunnerSeconds e, xr_UploadSeconds = ex_UploadSeconds e,
     xr_DurationSeconds = ex_DurationSeconds e, xr_CreatedAt = pg_time l (ex_CreatedAt e),
     xr_UpdatedAt = pg_time l (ex_UpdatedAt e),
     xr_CompletedAt = map_option (pg_time l) (ex_CompletedAt e)\<rparr>"

definition pg_execution_toModel :: "lib \<Rightarrow> int execution_row \<Rightarrow> execution result" where
  "pg_execution_toModel l r =
    (case l_parse l (xr_ID r) of
       Inl e \<Rightarrow> Inl (Errw ''parsing execution id: %w'' [] e)
     | Inr i \<Rightarrow>
       Inr \<lparr>ex_ID = i, ex_Action = xr_Action r, ex_Status = xr_Status r,
            ex_ApprovalState = xr_ApprovalState r, ex_Username = xr_Username r,
            ex_TargetCluster = xr_TargetCluster r, ex_Jira = xr_Jira r, ex_DryRun = xr_DryRun r,
            ex_Force = xr_Force r, ex_Params = xr_Params r, ex_Scope = xr_Scope r,
            ex_Type = xr_Type r, ex_Revision = xr_Revision r,
            ex_ManifestWorkName = xr_ManifestWorkName r, ex_RunnerSeconds = xr_RunnerSeconds r,
            ex_UploadSeconds = xr_UploadSeconds r, ex_DurationSeconds = xr_DurationSeconds r,
            ex_CreatedAt = pg_scan_time l (xr_CreatedAt r), ex_UpdatedAt = pg_scan_time l (xr_UpdatedAt r),
            ex_CompletedAt = map_option (pg_scan_time l) (xr_CompletedAt r)\<rparr>)"

definition pg_output_toModel :: "lib \<Rightarrow> output_row \<Rightarrow> execution_output result" where
  "pg_output_toModel l r =
    (case l_unmarshal l (or_Resources r) of
       Inl e \<Rightarrow> Inl (Errw ''parsing execution output resources: %w'' [] e)
     | Inr rs \<Rightarrow> Inr \<lparr>eo_Message = or_Message r, eo_Resources = rs\<rparr>)"

definition pg_audit_row :: "lib \<Rightarrow> audit_entry \<Rightarrow> int audit_row" where
  "pg_audit_row l a =
    \<lparr>ar_ID = ae_ID a, ar_Timestamp = pg_time l (ae_Timestamp a), ar_Method = ae_Method a,
     ar_Path = ae_Path a, ar_Username = ae_Username a, ar_StatusCode = ae_StatusCode a,
     ar_Action = ae_Action a, ar_ExecutionID = ae_ExecutionID a, ar_Jira = ae_Jira a,
     ar_ApprovalState = ae_ApprovalState a, ar_TargetCluster = ae_TargetCluster a\<rparr>"

definition pg_audit_toModel :: "lib \<Rightarrow> int audit_row \<Rightarrow> audit_entry result" where
  "pg_audit_toModel l r =
    (case l_parse l (ar_ID r) of
       Inl e \<Rightarrow> Inl (Errw ''parsing audit entry id: %w'' [] e)
     | Inr i \<Rightarrow>
       Inr \<lparr>ae_ID = i, ae_Timestamp = pg_scan_time l (ar_Timestamp r), ae_Method = ar_Method r,
            ae_Path = ar_Path r, ae_Username = ar_Username r, ae_StatusCode = ar_StatusCode r,
            ae_Action = ar_Action r, ae_ExecutionID = ar_ExecutionID r, ae_Jira = ar_Jira r,
            ae_ApprovalState = ar_ApprovalState r, ae_TargetCluster = ar_TargetCluster r\<rparr>)"

section \<open>Operations\<close>

type_synonym pg_db = "int db"

definition pg_CreateExecution :: "lib \<Rightarrow> call \<Rightarrow> execution \<Rightarrow> (pg_db, unit) act" where
  "pg_CreateExecution l c e =
    wrap_err ''inserting execution: %w'' []
      (autocommit c S_Insert (insert_execution (pg_execution_row l e)))"

definition pg_GetExecution :: "lib \<Rightarrow> call \<Rightarrow> uuid \<Rightarrow> (pg_db, execution) act" where
  "pg_GetExecution l c i =
    seq (query_row c S_Select ''querying execution: %w'' (select_execution i))
      (\<lambda>raw. lift (pg_execution_toModel l raw))"

definition pg_GetExecutionOutput :: "lib \<Rightarrow> call \<Rightarrow> uuid \<Rightarrow> (pg_db, execution_output) act" where
  "pg_GetExecutionOutput l c i =
    seq (query_row c S_Select ''querying execution output: %w'' (select_output i))
      (\<lambda>raw. lift (pg_output_toModel l raw))"

definition pg_execution_where :: "lib \<Rightarrow> execution_filter \<Rightarrow> sql_where" where
  "pg_execution_where l f =
    where_arg ''created_at >= ?'' (\<lambda>t. STime (pg_time l t)) (ef_Since f) (buildExecutionWhere f)"

definition pg_ListExecutions ::
  "lib \<Rightarrow> call \<Rightarrow> execution_filter \<Rightarrow> (pg_db, execution_list_result) act"
where
  "pg_ListExecutions l c f =
    (let w = pg_execution_where l f;
         matching = (\<lambda>d. filter (\<lambda>r. where_holds (execution_column STime r) w) (db_executions d))
     in seq (wrap_err ''counting executions: %w'' [] (stmt c S_Count (query (\<lambda>d. length (matching d)))))
         (\<lambda>total.
           let limit = clampLimit (ef_Limit f) 20 100; offset = clampOffset (ef_Offset f) in
           seq (wrap_err ''listing executions: %w'' [] (stmt c S_Select (query (\<lambda>d.
                  page limit offset (sort_by (desc_by xr_CreatedAt xr_ID) (matching d))))))
             (\<lambda>rows. seq (lift (decode_all (pg_execution_toModel l) rows))
               (\<lambda>items. ret \<lparr>el_Items = items, el_Total = int total, el_Limit = limit,
                             el_Offset = offset\<rparr>))))"

text \<open>The statements of the update, in its transaction.\<close>

definition pg_update_body ::
  "lib \<Rightarrow> call \<Rightarrow> uuid \<Rightarrow> string \<Rightarrow> gotime option \<Rightarrow> execution_output option \<Rightarrow> (pg_db, unit) act"
where
  "pg_update_body l c i status completedAt out =
    seq (wrap_err ''updating execution status: %w'' [] (stmt c S_Update
          (update_execution i (\<lambda>r. r\<lparr>xr_Status := status, xr_UpdatedAt := pg_time l (c_now c),
                                     xr_CompletedAt := map_option (pg_time l) completedAt\<rparr>))))
     (\<lambda>n. seq (wrap_err ''checking rows affected: %w'' [] (stmt c S_RowsAffected (ret n)))
       (\<lambda>n. if n = 0 then fail (Errw ''updating execution status: %w'' [] ErrNotFound)
         else seq (wrap_err ''deleting execution output: %w'' [] (stmt c S_Delete (delete_outputs i)))
           (\<lambda>_. case out of
                  None \<Rightarrow> ret ()
                | Some o' \<Rightarrow>
                  seq (wrap_err ''serialising execution output resources: %w'' []
                        (lift (l_marshal l (eo_Resources o'))))
                    (\<lambda>resourcesData. wrap_err ''creating execution output: %w'' []
                      (stmt c S_InsertOutput (insert_output l
                        \<lparr>or_ID = c_new_id c, or_ExecId = i, or_Message = eo_Message o',
                         or_Resources = resourcesData\<rparr>))))))"

definition pg_UpdateExecutionWithResult ::
  "lib \<Rightarrow> call \<Rightarrow> uuid \<Rightarrow> string \<Rightarrow> gotime option \<Rightarrow> execution_output option \<Rightarrow> (pg_db, unit) act"
where
  "pg_UpdateExecutionWithResult l c i status completedAt out =
    transaction c ''initiating transaction: %w'' ''committing transaction: %w''
      (pg_update_body l c i status completedAt out)"

text \<open>
  \<open>SELECT id ... WHERE status = 'pending' ORDER BY created_at ASC, id ASC LIMIT 1 FOR UPDATE SKIP
  LOCKED\<close>.
\<close>

definition oldest_unlocked_pending :: "string list \<Rightarrow> 't :: linorder db \<Rightarrow> string option" where
  "oldest_unlocked_pending locked d =
    (case page 1 0 (sort_by (asc_by xr_CreatedAt xr_ID)
                      (filter (\<lambda>r. xr_Status r = ''pending'' \<and> xr_ID r \<notin> set locked) (db_executions d))) of
       [] \<Rightarrow> None
     | r # _ \<Rightarrow> Some (xr_ID r))"

text \<open>The claim after its row is selected and locked: the update and the read back.\<close>

definition pg_claim_row :: "lib \<Rightarrow> call \<Rightarrow> string \<Rightarrow> (pg_db, int execution_row) act" where
  "pg_claim_row l c i =
    seq (wrap_err ''claiming execution: %w'' [] (stmt c S_Update
          (update_execution i (\<lambda>r. r\<lparr>xr_Status := ''running'', xr_UpdatedAt := pg_time l (c_now c)\<rparr>))))
      (\<lambda>_. seq (wrap_err ''querying claimed execution: %w'' []
                  (stmt c S_Select (query (select_execution i))))
        (\<lambda>raw. case raw of
                 None \<Rightarrow> fail (Errw ''querying claimed execution: %w'' []
                               (ErrExt ''sql: no rows in result set''))
               | Some r \<Rightarrow> ret r))"

definition pg_ClaimNextExecution :: "lib \<Rightarrow> call \<Rightarrow> (pg_db, execution) act" where
  "pg_ClaimNextExecution l c =
    seq (transaction c ''beginning claim transaction: %w'' ''committing claim transaction: %w''
          (seq (query_row c S_SelectId ''selecting next pending execution: %w''
                 (oldest_unlocked_pending (c_locked c)))
            (pg_claim_row l c)))
      (\<lambda>raw. lift (pg_execution_toModel l raw))"

definition pg_CreateAuditEntry :: "lib \<Rightarrow> call \<Rightarrow> audit_entry \<Rightarrow> (pg_db, unit) act" where
  "pg_CreateAuditEntry l c a =
    wrap_err ''inserting audit entry: %w'' []
      (autocommit c S_Insert (insert_audit l (pg_audit_row l a)))"

definition pg_audit_where :: "lib \<Rightarrow> audit_filter \<Rightarrow> sql_where" where
  "pg_audit_where l f =
    where_arg ''timestamp >= ?'' (\<lambda>t. STime (pg_time l t)) (af_Since f) (buildAuditWhere f)"

definition pg_ListAuditEntries :: "lib \<Rightarrow> call \<Rightarrow> audit_filter \<Rightarrow> (pg_db, audit_list_result) act" where
  "pg_ListAuditEntries l c f =
    (let w = pg_audit_where l f;
         matching = (\<lambda>d. filter (\<lambda>r. where_holds (audit_column STime r) w) (db_audit d))
     in seq (wrap_err ''counting audit entries: %w'' [] (stmt c S_Count (query (\<lambda>d. length (matching d)))))
         (\<lambda>total.
           let limit = clampLimit (af_Limit f) 50 200; offset = clampOffset (af_Offset f) in
           seq (wrap_err ''listing audit entries: %w'' [] (stmt c S_Select (query (\<lambda>d.
                  page limit offset (sort_by (desc_by ar_Timestamp ar_ID) (matching d))))))
             (\<lambda>rows. seq (lift (decode_all (pg_audit_toModel l) rows))
               (\<lambda>items. ret \<lparr>al_Items = items, al_Total = int total, al_Limit = limit,
                             al_Offset = offset\<rparr>))))"

text \<open>\<open>PostgresStore\<close> as a \<open>Store\<close>.\<close>

definition PostgresStore :: "lib \<Rightarrow> call \<Rightarrow> pg_db Store" where
  "PostgresStore l c =
    \<lparr>st_CreateExecution = pg_CreateExecution l c,
     st_GetExecution = pg_GetExecution l c,
     st_GetExecutionOutput = pg_GetExecutionOutput l c,
     st_ListExecutions = pg_ListExecutions l c,
     st_UpdateExecutionWithResult = pg_UpdateExecutionWithResult l c,
     st_ClaimNextExecution = pg_ClaimNextExecution l c,
     st_CreateAuditEntry = pg_CreateAuditEntry l c,
     st_ListAuditEntries = pg_ListAuditEntries l c\<rparr>"

section \<open>The rows stand for the models\<close>

definition pg_norm :: "lib \<Rightarrow> gotime \<Rightarrow> gotime" where
  "pg_norm l t = pg_scan_time l (pg_time l t)"

definition pg_stored :: "lib \<Rightarrow> execution \<Rightarrow> bool" where
  "pg_stored l e \<longleftrightarrow>
    canonical l (ex_ID e) \<and> pg_norm l (ex_CreatedAt e) = ex_CreatedAt e \<and>
    pg_norm l (ex_UpdatedAt e) = ex_UpdatedAt e \<and>
    map_option (pg_norm l) (ex_CompletedAt e) = ex_CompletedAt e"

lemma pg_time_norm [simp]: "pg_time l (pg_norm l t) = pg_time l t"
  by (simp add: pg_norm_def pg_scan_time_def pg_time_def)

lemma pg_norm_norm [simp]: "pg_norm l (pg_norm l t) = pg_norm l t"
  by (simp add: pg_norm_def [of l "pg_norm l t"]) (simp add: pg_norm_def)

lemma pg_time_le: "pg_time l s \<le> pg_time l t \<longleftrightarrow> pg_norm l s \<le> pg_norm l t"
  by (cases "l_tick l = 0") (auto simp: pg_norm_def pg_time_def pg_scan_time_def)

lemma pg_norm_twice [simp]: "map_option (pg_norm l) (map_option (pg_norm l) x) = map_option (pg_norm l) x"
  by (cases x) simp_all

lemma pg_roundtrip_norm:
  "canonical l (ex_ID e) \<Longrightarrow>
   pg_execution_toModel l (pg_execution_row l e) = Inr (norm_execution (pg_norm l) e)"
  by (cases e, rename_tac ca ua c, case_tac c)
    (simp_all add: pg_execution_toModel_def pg_execution_row_def norm_execution_def canonical_def pg_norm_def)

lemma pg_stored_fix: "pg_stored l e \<Longrightarrow> norm_execution (pg_norm l) e = e"
  by (cases e) (simp add: pg_stored_def norm_execution_def)

lemma pg_roundtrip: "pg_stored l e \<Longrightarrow> pg_execution_toModel l (pg_execution_row l e) = Inr e"
  using pg_roundtrip_norm [of l e] pg_stored_fix [of l e] by (simp add: pg_stored_def)

lemma pg_norm_stored: "canonical l (ex_ID e) \<Longrightarrow> pg_stored l (norm_execution (pg_norm l) e)"
  by (simp add: pg_stored_def norm_execution_def)

lemma pg_time_option [simp]: "map_option (pg_time l) (map_option (pg_norm l) x) = map_option (pg_time l) x"
  by (cases x) simp_all

definition pg_audit_stored :: "lib \<Rightarrow> audit_entry \<Rightarrow> bool" where
  "pg_audit_stored l a \<longleftrightarrow> canonical l (ae_ID a) \<and> pg_norm l (ae_Timestamp a) = ae_Timestamp a"

lemma pg_audit_roundtrip: "pg_audit_stored l a \<Longrightarrow> pg_audit_toModel l (pg_audit_row l a) = Inr a"
  by (simp add: pg_audit_stored_def canonical_def pg_audit_toModel_def pg_audit_row_def pg_norm_def)

interpretation pg: row_codec l "pg_execution_row l" "pg_execution_toModel l" "pg_time l" STime
  "\<lambda>t. STime (pg_time l t)" "pg_norm l" "\<lambda>_. True" "pg_stored l" "pg_audit_row l"
  "pg_audit_toModel l" "pg_audit_stored l"
  for l
proof unfold_locales
  show "pg_stored l e \<Longrightarrow> pg_execution_toModel l (pg_execution_row l e) = Inr e" for e
    by (rule pg_roundtrip)
next
  fix e f
  assume "pg_stored l e" "pg_stored l f"
  then show "xr_CreatedAt (pg_execution_row l e) \<le> xr_CreatedAt (pg_execution_row l f) \<longleftrightarrow>
      ex_CreatedAt e \<le> ex_CreatedAt f"
    by (simp add: pg_execution_row_def pg_time_le pg_stored_def)
next
  fix e t
  assume "pg_stored l e"
  then show "sql_ge (STime (xr_CreatedAt (pg_execution_row l e))) (STime (pg_time l t)) \<longleftrightarrow>
      pg_norm l t \<le> ex_CreatedAt e"
    by (simp add: pg_execution_row_def pg_time_le pg_stored_def)
next
  show "pg_audit_stored l a \<Longrightarrow> pg_audit_toModel l (pg_audit_row l a) = Inr a" for a
    by (rule pg_audit_roundtrip)
qed (simp_all add: pg_audit_row_def pg_audit_stored_def norm_audit_def pg_time_le pg_execution_row_def claimed_def finished_def norm_execution_def pg_stored_def)

section \<open>Every operation does what the specification says\<close>

lemma pg_create_sim:
  assumes "pg.represents l d sp" "fault_free c" "canonical l (ex_ID e)"
  shows "case spec_create (pg_norm l) e sp of
      None \<Rightarrow> \<exists>err. pg_CreateExecution l c e d = (Inl err, d)
    | Some sp' \<Rightarrow> \<exists>d'. pg_CreateExecution l c e d = (Inr (), d') \<and> pg.represents l d' sp'"
  using pg.represents_create [OF assms(1) pg_norm_stored [OF assms(3)]] assms(2)
  by (auto simp: pg_CreateExecution_def wrap_err_def split: option.splits)

lemma pg_get_sim:
  assumes "pg.represents l d sp" "fault_free c"
  shows "pg_GetExecution l c i d =
    (case spec_get i sp of None \<Rightarrow> Inl ErrNotFound | Some e \<Rightarrow> Inr e, d)"
  using pg.select_row [OF assms(1), of i] pg.spec_get_stored [OF assms(1), of i] assms(2)
  by (auto simp: pg_GetExecution_def run_simps pg_roundtrip split: option.splits)

lemma pg_output_sim:
  assumes "pg.represents l d sp" "fault_free c"
  shows "pg_GetExecutionOutput l c i d =
    (case spec_output i sp of None \<Rightarrow> Inl ErrNotFound | Some x \<Rightarrow> Inr x, d)"
  using pg.select_output_row [OF assms(1), of i] assms(2)
  by (auto simp: pg_GetExecutionOutput_def run_simps pg_output_toModel_def output_represents_def
      rel_option_iff split: option.splits)

definition unlocked :: "call \<Rightarrow> execution \<Rightarrow> bool" where
  "unlocked c e \<longleftrightarrow> ex_ID e \<notin> set (c_locked c)"

lemma pg_oldest:
  assumes "pg.represents l d sp"
  shows "oldest_unlocked_pending (c_locked c) d = map_option ex_ID (spec_oldest (unlocked c) sp)"
  using pg.sorted_pending [OF assms, of "\<lambda>s i. s = ''pending'' \<and> i \<notin> set (c_locked c)"]
  by (auto simp: oldest_unlocked_pending_def spec_oldest_def page_def pg.row_ID unlocked_def
      split: list.splits)

lemma pg_claim_sim:
  assumes "pg.represents l d sp" "fault_free c"
  shows "case spec_claim (unlocked c) (pg_norm l (c_now c)) sp of
      None \<Rightarrow> pg_ClaimNextExecution l c d = (Inl ErrNotFound, d)
    | Some (e, sp') \<Rightarrow> \<exists>d'. pg_ClaimNextExecution l c d = (Inr e, d') \<and> pg.represents l d' sp'"
proof (cases "spec_oldest (unlocked c) sp")
  case None
  with assms pg_oldest [OF assms(1), of c] show ?thesis
    by (simp add: spec_claim_def pg_ClaimNextExecution_def transaction_def run_simps)
next
  case (Some e)
  let ?d = "d\<lparr>db_executions := map (\<lambda>x. if xr_ID x = ex_ID e
    then x\<lparr>xr_Status := ''running'', xr_UpdatedAt := pg_time l (c_now c)\<rparr> else x) (db_executions d)\<rparr>"
  note r = pg.represents_claim [OF assms(1) TrueI Some, of "c_now c"]
  have "select_execution (ex_ID e) ?d = Some (pg_execution_row l (claimed (pg_norm l (c_now c)) e))"
    using pg.select_row [OF r(2), of "ex_ID e"] r(1) by simp
  with Some assms r pg_oldest [OF assms(1), of c] show ?thesis
    by (simp add: spec_claim_def pg_ClaimNextExecution_def pg_claim_row_def transaction_def run_simps
        update_execution_def pg_roundtrip)
qed

lemma pg_list_sim:
  assumes "pg.represents l d sp" "fault_free c"
  shows "pg_ListExecutions l c f d = (Inr (spec_list (pg_norm l) f sp), d)"
proof -
  have "pred_option (\<lambda>_. True) (ef_Since f)" by (cases "ef_Since f") auto
  from pg.list_rows [OF assms(1) this refl] assms(2) show ?thesis
    by (simp add: pg_ListExecutions_def pg_execution_where_def run_simps spec_list_def Let_def)
qed

lemma pg_update_sim:
  assumes r: "pg.represents l d sp" and c: "fault_free c" and out: "output_ok l c d out"
  shows "case spec_update (pg_norm l) i status (c_now c) completedAt out sp of
      None \<Rightarrow> \<exists>err. pg_UpdateExecutionWithResult l c i status completedAt out d = (Inl err, d)
        \<and> is_not_found err
    | Some sp' \<Rightarrow> \<exists>d'. pg_UpdateExecutionWithResult l c i status completedAt out d = (Inr (), d')
        \<and> pg.represents l d' sp'"
proof (cases "i \<in> set (map ex_ID (sp_executions sp))")
  case False
  with c pg.rows_with_id [OF r, of i] show ?thesis
    by (simp add: spec_update_def pg_UpdateExecutionWithResult_def pg_update_body_def transaction_def run_simps
        update_execution_def del: filter_False)
next
  case True
  then have n: "filter (\<lambda>r. xr_ID r = i) (db_executions d) \<noteq> []"
    using pg.rows_with_id [OF r, of i] by simp
  let ?d = "d\<lparr>db_executions := map (\<lambda>x. if xr_ID x = i then x\<lparr>xr_Status := status,
    xr_UpdatedAt := pg_time l (c_now c), xr_CompletedAt := map_option (pg_time l) completedAt\<rparr> else x)
      (db_executions d)\<rparr>"
  let ?sp = "spec_set i (finished status (pg_norm l (c_now c)) (map_option (pg_norm l) completedAt)) sp"
  have "pred_option (\<lambda>_. True) completedAt" by (cases completedAt) auto
  then have e: "pg.represents l ?d ?sp" by (intro pg.represents_finish [OF r]) auto
  show ?thesis
  proof (cases out)
    case None
    with True c n pg.represents_outputs [OF e, of "[]" "[]" i] show ?thesis
      by (simp add: spec_update_def pg_UpdateExecutionWithResult_def pg_update_body_def transaction_def run_simps
          update_execution_def delete_outputs_def)
  next
    case (Some x)
    then obtain raw where x: "l_marshal l (eo_Resources x) = Inr raw" "l_unmarshal l raw = Inr (eo_Resources x)"
      "c_new_id c \<notin> set (map or_ID (db_outputs d))"
      using out by (auto simp: output_ok_def split: sum.splits)
    have "i \<in> set (map xr_ID (db_executions ?d))"
      using True e by (auto simp: pg.represents_def pg.row_ID spec_set_def finished_def)
    with Some True c n x pg.represents_outputs [OF e, of "[\<lparr>or_ID = c_new_id c, or_ExecId = i,
        or_Message = eo_Message x, or_Resources = raw\<rparr>]" "[(i, x)]" i]
    show ?thesis
      by (auto simp: spec_update_def pg_UpdateExecutionWithResult_def pg_update_body_def transaction_def run_simps
          update_execution_def delete_outputs_def insert_output_def output_represents_def)
  qed
qed

lemma pg_audit_sim:
  assumes "pg.represents l d sp" "fault_free c" "canonical l (ae_ID a)"
  shows "case spec_audit (l_enforce_fk l) (pg_norm l) a sp of
      None \<Rightarrow> \<exists>err. pg_CreateAuditEntry l c a d = (Inl err, d)
    | Some sp' \<Rightarrow> \<exists>d'. pg_CreateAuditEntry l c a d = (Inr (), d') \<and> pg.represents l d' sp'"
proof -
  have "pg_audit_stored l (norm_audit (pg_norm l) a)"
    using assms(3) by (simp add: pg_audit_stored_def norm_audit_def)
  from pg.represents_audit [OF assms(1) this] assms(2) show ?thesis
    by (auto simp: pg_CreateAuditEntry_def wrap_err_def split: option.splits)
qed

lemma pg_audits_sim:
  assumes "pg.represents l d sp" "fault_free c"
  shows "pg_ListAuditEntries l c f d = (Inr (spec_audits (pg_norm l) f sp), d)"
proof -
  have "pred_option (\<lambda>_. True) (af_Since f)" by (cases "af_Since f") auto
  from pg.audit_rows [OF assms(1) this refl] assms(2) show ?thesis
    by (simp add: pg_ListAuditEntries_def pg_audit_where_def run_simps spec_audits_def Let_def)
qed

end
