(* ===== verification/Store_Laws.thy ===== *)
theory Store_Laws
  imports Sqlite Postgres
begin

text \<open>
  The contract the worker pool and the handlers rely on, as a locale over any store: how each
  operation moves the status of the executions, whatever statements fail.  Both stores provide it.
\<close>

definition statuses :: "'t db \<Rightarrow> uuid \<Rightarrow> string option" where
  "statuses d = map_of (map (\<lambda>r. (xr_ID r, xr_Status r)) (db_executions d))"

definition good_db :: "lib \<Rightarrow> 't db \<Rightarrow> bool" where
  "good_db l d \<longleftrightarrow> distinct (map xr_ID (db_executions d)) \<and> list_all (canonical l) (map xr_ID (db_executions d))"

definition set_status :: "uuid \<Rightarrow> string \<Rightarrow> (uuid \<Rightarrow> string option) \<Rightarrow> uuid \<Rightarrow> string option" where
  "set_status i st v = v(i \<mapsto> st)"

locale execution_store =
  fixes stores :: "'s Store set"
    and view :: "'s \<Rightarrow> uuid \<Rightarrow> string option"
    and good :: "'s \<Rightarrow> bool"
    and canon :: "uuid \<Rightarrow> bool"
  assumes create_law: "st \<in> stores \<Longrightarrow> good s \<Longrightarrow> canon (ex_ID e) \<Longrightarrow>
      st_CreateExecution st e s = (ru, s') \<Longrightarrow>
      good s' \<and> (case ru of
         Inr _ \<Rightarrow> view s (ex_ID e) = None \<and> view s' = set_status (ex_ID e) (ex_Status e) (view s)
       | Inl _ \<Rightarrow> view s' = view s \<or>
           (view s (ex_ID e) = None \<and> view s' = set_status (ex_ID e) (ex_Status e) (view s)))"
    and claim_law: "st \<in> stores \<Longrightarrow> good s \<Longrightarrow> st_ClaimNextExecution st s = (r, s') \<Longrightarrow>
      good s' \<and> (case r of
         Inr e \<Rightarrow> view s (ex_ID e) = Some ''pending'' \<and> view s' = set_status (ex_ID e) ''running'' (view s)
       | Inl err \<Rightarrow> view s' = view s \<or> (\<not> is_not_found err \<and>
           (\<exists>i. view s i = Some ''pending'' \<and> view s' = set_status i ''running'' (view s))))"
    and update_law: "st \<in> stores \<Longrightarrow> good s \<Longrightarrow>
      st_UpdateExecutionWithResult st i status u out s = (ru, s') \<Longrightarrow>
      good s' \<and> (case ru of
         Inr _ \<Rightarrow> view s i \<noteq> None \<and> view s' = set_status i status (view s)
       | Inl _ \<Rightarrow> view s' = view s \<or> (view s i \<noteq> None \<and> view s' = set_status i status (view s)))"
    and get_law: "st \<in> stores \<Longrightarrow> good s \<Longrightarrow> st_GetExecution st i s = (r, s') \<Longrightarrow>
      s' = s \<and> (case r of Inr e \<Rightarrow> ex_ID e = i \<and> view s i = Some (ex_Status e) | Inl _ \<Rightarrow> True)"
    and output_law: "st \<in> stores \<Longrightarrow> st_GetExecutionOutput st i s = (ro, s') \<Longrightarrow> s' = s"
    and list_law: "st \<in> stores \<Longrightarrow> st_ListExecutions st f s = (rl, s') \<Longrightarrow> s' = s"
    and audit_law: "st \<in> stores \<Longrightarrow> good s \<Longrightarrow> st_CreateAuditEntry st a s = (ru, s') \<Longrightarrow>
      good s' \<and> view s' = view s"
    and audits_law: "st \<in> stores \<Longrightarrow> st_ListAuditEntries st g s = (ra, s') \<Longrightarrow> s' = s"
begin

text \<open>No operation forgets an execution.\<close>

lemma kept:
  "st \<in> stores \<Longrightarrow> good s \<Longrightarrow> st_ClaimNextExecution st s = (r, s') \<Longrightarrow> view s i \<noteq> None \<Longrightarrow> view s' i \<noteq> None"
  using claim_law [of st s r s'] by (auto simp: set_status_def split: sum.splits)

end

section \<open>Statuses under the statements\<close>

lemma statuses_None: "statuses d i = None \<longleftrightarrow> i \<notin> set (map xr_ID (db_executions d))"
  by (simp add: statuses_def map_of_eq_None_iff image_image)

lemma map_of_snoc: "k \<notin> set (map fst xs) \<Longrightarrow> map_of (xs @ [(k, v)]) = (map_of xs)(k \<mapsto> v)"
  by (induction xs) (auto simp: fun_eq_iff)

lemma statuses_insert:
  assumes "xr_ID r \<notin> set (map xr_ID (db_executions d))"
  shows "statuses (d\<lparr>db_executions := db_executions d @ [r]\<rparr>) = set_status (xr_ID r) (xr_Status r) (statuses d)"
proof -
  have "xr_ID r \<notin> set (map fst (map (\<lambda>r. (xr_ID r, xr_Status r)) (db_executions d)))"
    using assms by (simp add: image_image)
  from map_of_snoc [OF this] show ?thesis
    by (simp add: statuses_def set_status_def del: map_of_append)
qed

lemma statuses_update:
  assumes "\<And>r. xr_ID (f r) = xr_ID r" "\<And>r. xr_Status (f r) = st"
  shows "statuses (d\<lparr>db_executions := map (\<lambda>r. if xr_ID r = i then f r else r) (db_executions d)\<rparr>) =
    (if i \<in> set (map xr_ID (db_executions d)) then set_status i st (statuses d) else statuses d)"
proof -
  have "map_of (map (\<lambda>r. (xr_ID r, xr_Status r)) (map (\<lambda>r. if xr_ID r = i then f r else r) rs)) =
      (if i \<in> set (map xr_ID rs) then (map_of (map (\<lambda>r. (xr_ID r, xr_Status r)) rs))(i \<mapsto> st)
       else map_of (map (\<lambda>r. (xr_ID r, xr_Status r)) rs))" for rs
    by (induction rs) (auto simp: assms fun_eq_iff)
  then show ?thesis by (simp add: statuses_def set_status_def)
qed

lemma statuses_row:
  "distinct (map xr_ID rs) \<Longrightarrow> r \<in> set rs \<Longrightarrow>
   map_of (map (\<lambda>r. (xr_ID r, xr_Status r)) rs) (xr_ID r) = Some (xr_Status r)"
  by (rule map_of_is_SomeI) (auto simp: comp_def)

lemma good_db_update:
  assumes "good_db l d" "\<And>r. xr_ID (f r) = xr_ID r"
  shows "good_db l (d\<lparr>db_executions := map (\<lambda>r. if xr_ID r = i then f r else r) (db_executions d)\<rparr>)"
proof -
  have "map xr_ID (map (\<lambda>r. if xr_ID r = i then f r else r) rs) = map xr_ID rs" for rs
    using assms(2) by simp
  with assms(1) show ?thesis by (simp add: good_db_def del: map_map)
qed

lemma select_update:
  assumes "\<And>r. xr_ID (f r) = xr_ID r"
  shows "select_execution i (d\<lparr>db_executions := map (\<lambda>r. if xr_ID r = i then f r else r) (db_executions d)\<rparr>) =
    map_option f (select_execution i d)"
proof -
  have "find (\<lambda>r. xr_ID r = i) (map (\<lambda>r. if xr_ID r = i then f r else r) rs) =
      map_option f (find (\<lambda>r. xr_ID r = i) rs)" for rs
    using assms by (induction rs) auto
  then show ?thesis by (simp add: select_execution_def)
qed

lemma select_executionD:
  "select_execution i d = Some r \<Longrightarrow> r \<in> set (db_executions d) \<and> xr_ID r = i"
  by (auto simp: select_execution_def dest: find_SomeD)

lemma select_status:
  "good_db l d \<Longrightarrow> select_execution i d = Some r \<Longrightarrow>
   canonical l i \<and> xr_ID r = i \<and> statuses d i = Some (xr_Status r)"
  using select_executionD [of i d r] statuses_row [of "db_executions d" r]
  by (auto simp: good_db_def statuses_def list_all_iff)

lemma hd_page_sort: "page 1 0 (sort_by le xs) = r # rs \<Longrightarrow> r \<in> set xs"
proof -
  assume "page 1 0 (sort_by le xs) = r # rs"
  then have "r \<in> set (page 1 0 (sort_by le xs))" by simp
  with set_page [of 1 0 "sort_by le xs"] show ?thesis by auto
qed

lemma oldest_status:
  assumes "good_db l d"
  shows "oldest_pending d = Some i \<Longrightarrow> statuses d i = Some ''pending''"
    and "oldest_unlocked_pending locked d = Some i \<Longrightarrow> statuses d i = Some ''pending'' \<and> i \<notin> set locked"
proof -
  have "statuses d (xr_ID r) = Some (xr_Status r)" if "r \<in> set (db_executions d)" for r
    using statuses_row [of "db_executions d" r] assms that by (simp add: good_db_def statuses_def)
  then show "oldest_pending d = Some i \<Longrightarrow> statuses d i = Some ''pending''"
    "oldest_unlocked_pending locked d = Some i \<Longrightarrow> statuses d i = Some ''pending'' \<and> i \<notin> set locked"
    by (auto simp: oldest_pending_def oldest_unlocked_pending_def split: list.splits dest!: hd_page_sort)
qed

section \<open>Claiming\<close>

lemma claim_update:
  assumes "good_db l d" "statuses d i = Some ''pending''"
    and f: "\<And>r. xr_ID (f r) = xr_ID r" "\<And>r. xr_Status (f r) = ''running''"
    and d': "d' = d\<lparr>db_executions := map (\<lambda>r. if xr_ID r = i then f r else r) (db_executions d)\<rparr>"
  shows "good_db l d'" "statuses d' = set_status i ''running'' (statuses d)"
    "select_execution i d' = Some raw \<Longrightarrow> xr_ID raw = i \<and> canonical l i"
proof -
  have "i \<in> set (map xr_ID (db_executions d))" using assms(2) statuses_None [of d i] by simp
  then show st: "statuses d' = set_status i ''running'' (statuses d)"
    unfolding d' using statuses_update [of f "''running''" i d, OF f] by simp
  show g: "good_db l d'" unfolding d' by (rule good_db_update [OF assms(1) f(1)])
  show "select_execution i d' = Some raw \<Longrightarrow> xr_ID raw = i \<and> canonical l i"
    using select_status [OF g] by blast
qed

lemma query_row_Inr:
  "query_row c s m f d = (Inr x, d') \<Longrightarrow> f d = Some x \<and> d' = d"
  by (auto simp: query_row_def seq_def wrap_err_def stmt_def query_def fail_def ret_def
      split: option.splits prod.splits sum.splits)

text \<open>What a claim transaction that reaches its end has done, in either store.\<close>

definition claims :: "lib \<Rightarrow> 't db \<Rightarrow> 't execution_row \<Rightarrow> 't db \<Rightarrow> bool" where
  "claims l d raw d' \<longleftrightarrow>
    good_db l d' \<and> canonical l (xr_ID raw) \<and> statuses d (xr_ID raw) = Some ''pending'' \<and>
    statuses d' = set_status (xr_ID raw) ''running'' (statuses d)"

lemma sqlite_claim_body:
  assumes "good_db l d"
    and "seq (query_row c S_SelectId m oldest_pending) (sqlite_claim_row l c) d = (Inr raw, d')"
  shows "claims l d raw d'"
proof -
  from assms(2) obtain i d1 where q: "query_row c S_SelectId m oldest_pending d = (Inr i, d1)"
    and b: "sqlite_claim_row l c i d1 = (Inr raw, d')" by (rule seq_InrE)
  note o = query_row_Inr [OF q]
  let ?f = "\<lambda>r. r\<lparr>xr_Status := ''running'', xr_UpdatedAt := FormatTime (c_now c)\<rparr>"
  from b o have d': "d' = d\<lparr>db_executions := map (\<lambda>r. if xr_ID r = i then ?f r else r) (db_executions d)\<rparr>"
    and s: "select_execution i d' = Some raw"
    by (auto simp: sqlite_claim_row_def seq_def wrap_err_def stmt_def query_def fail_def ret_def
        update_execution_def split: option.splits prod.splits sum.splits)
  have p: "statuses d i = Some ''pending''" using oldest_status(1) [OF assms(1)] o by simp
  note u = claim_update [OF assms(1) p _ _ d', simplified]
  show ?thesis using u(1,2) u(3) [OF s] p by (simp add: claims_def)
qed

lemma pg_claim_body:
  assumes "good_db l d"
    and "seq (query_row c S_SelectId m (oldest_unlocked_pending lk)) (pg_claim_row l c) d = (Inr raw, d')"
  shows "claims l d raw d' \<and> xr_ID raw \<notin> set lk"
proof -
  from assms(2) obtain i d1 where q: "query_row c S_SelectId m (oldest_unlocked_pending lk) d = (Inr i, d1)"
    and b: "pg_claim_row l c i d1 = (Inr raw, d')" by (rule seq_InrE)
  note o = query_row_Inr [OF q]
  let ?f = "\<lambda>r. r\<lparr>xr_Status := ''running'', xr_UpdatedAt := pg_time l (c_now c)\<rparr>"
  from b o have d': "d' = d\<lparr>db_executions := map (\<lambda>r. if xr_ID r = i then ?f r else r) (db_executions d)\<rparr>"
    and s: "select_execution i d' = Some raw"
    by (auto simp: pg_claim_row_def seq_def wrap_err_def stmt_def query_def fail_def ret_def
        update_execution_def split: option.splits prod.splits sum.splits)
  have p: "statuses d i = Some ''pending''" "i \<notin> set lk" using oldest_status(2) [OF assms(1)] o by auto
  note u = claim_update [OF assms(1) p(1) _ _ d', simplified]
  show ?thesis using u(1,2) u(3) [OF s] p by (simp add: claims_def)
qed

text \<open>
  The claim as a whole: a transaction, then the decoding of the row.  An error leaves the statuses
  alone, except that a commit reported as failed may have been applied and that a row that does not
  decode is already claimed; neither is \<open>ErrNotFound\<close>.
\<close>

lemma claim_effect:
  assumes g: "good_db l d"
    and op: "seq (transaction c ''beginning claim transaction: %w'' ''committing claim transaction: %w'' body)
        (\<lambda>raw. lift (toModel raw)) d = (r, d')"
    and body: "\<And>raw d'. body d = (Inr raw, d') \<Longrightarrow> claims l d raw d'"
    and id: "\<And>raw e. canonical l (xr_ID raw) \<Longrightarrow> toModel raw = Inr e \<Longrightarrow> ex_ID e = xr_ID raw"
    and err: "\<And>raw e. canonical l (xr_ID raw) \<Longrightarrow> toModel raw = Inl e \<Longrightarrow> \<not> is_not_found e"
  shows "good_db l d' \<and> (case r of
      Inr e \<Rightarrow> statuses d (ex_ID e) = Some ''pending'' \<and>
        statuses d' = set_status (ex_ID e) ''running'' (statuses d)
    | Inl err \<Rightarrow> statuses d' = statuses d \<or> (\<not> is_not_found err \<and>
        (\<exists>i. statuses d i = Some ''pending'' \<and> statuses d' = set_status i ''running'' (statuses d))))"
proof -
  let ?b = "''beginning claim transaction: %w''" and ?m = "''committing claim transaction: %w''"
  obtain rt d1 where t: "transaction c ?b ?m body d = (rt, d1)" by (cases "transaction c ?b ?m body d")
  show ?thesis
  proof (cases rt)
    case (Inr raw)
    note cl = body [OF transaction_InrD [OF t [unfolded Inr]]]
    have "d' = d1" "r = toModel raw" using op t Inr by (auto simp: seq_def lift_def)
    with cl id [of raw] err [of raw] show ?thesis by (auto simp: claims_def split: sum.splits)
  next
    case (Inl e)
    have d: "d' = d1" "r = Inl e" using op t Inl by (auto simp: seq_def)
    from transaction_atomic [OF t] show ?thesis
    proof
      assume "d1 = d"
      with d g show ?thesis by simp
    next
      assume "\<exists>a. body d = (Inr a, d1)"
      then obtain raw where b: "body d = (Inr raw, d1)" by blast
      have "\<not> is_not_found e" using transaction_not_found [OF t [unfolded Inl]] b by auto
      with body [OF b] d show ?thesis by (auto simp: claims_def)
    qed
  qed
qed

section \<open>The other operations\<close>

lemma autocommit_cases:
  "autocommit c s m d = (r, d') \<Longrightarrow>
   (d' = d \<and> (\<exists>e. r = Inl e)) \<or> m d = (r, d') \<or> (d' = snd (m d) \<and> (\<exists>e. r = Inl e))"
  by (auto simp: autocommit_def split: option.splits if_splits)

lemma insert_effect:
  assumes "good_db l d" "canonical l (xr_ID row)" "insert_execution row d = (r, d')"
  shows "good_db l d' \<and> (case r of
      Inr _ \<Rightarrow> statuses d (xr_ID row) = None \<and>
        statuses d' = set_status (xr_ID row) (xr_Status row) (statuses d)
    | Inl _ \<Rightarrow> d' = d)"
  using assms statuses_None [of d "xr_ID row"] statuses_insert [of row d]
  by (auto simp: insert_execution_def good_db_def split: if_splits)

lemma create_effect:
  assumes g: "good_db l d" and i: "canonical l (xr_ID row)"
    and op: "wrap_err m [] (autocommit c S_Insert (insert_execution row)) d = (r, d')"
  shows "good_db l d' \<and> (case r of
      Inr _ \<Rightarrow> statuses d (xr_ID row) = None \<and>
        statuses d' = set_status (xr_ID row) (xr_Status row) (statuses d)
    | Inl _ \<Rightarrow> statuses d' = statuses d \<or> (statuses d (xr_ID row) = None \<and>
        statuses d' = set_status (xr_ID row) (xr_Status row) (statuses d)))"
proof -
  obtain r0 d0 where a: "autocommit c S_Insert (insert_execution row) d = (r0, d0)"
    by (cases "autocommit c S_Insert (insert_execution row) d")
  obtain r1 d1 where n: "insert_execution row d = (r1, d1)" by (cases "insert_execution row d")
  have w: "d' = d0" "(\<exists>e. r = Inl e) \<longleftrightarrow> (\<exists>e. r0 = Inl e)"
    using op a by (auto simp: wrap_err_def split: sum.splits)
  from autocommit_cases [OF a] insert_effect [OF g i n] w g n show ?thesis
    by (cases r; cases r0; cases r1) auto
qed

lemma update_rows:
  assumes g: "good_db l d" and f: "\<And>r. xr_ID (f r) = xr_ID r" "\<And>r. xr_Status (f r) = st"
    and i: "filter (\<lambda>r. xr_ID r = i) (db_executions d) \<noteq> []"
    and d': "db_executions d' = map (\<lambda>r. if xr_ID r = i then f r else r) (db_executions d)"
  shows "good_db l d' \<and> statuses d i \<noteq> None \<and> statuses d' = set_status i st (statuses d)"
proof -
  let ?d = "d\<lparr>db_executions := map (\<lambda>r. if xr_ID r = i then f r else r) (db_executions d)\<rparr>"
  have mem: "i \<in> set (map xr_ID (db_executions d))" using i by (auto simp: filter_empty_conv)
  have "statuses d' = statuses ?d" "good_db l d' = good_db l ?d"
    using d' by (simp_all add: statuses_def good_db_def)
  with good_db_update [OF g f(1)] statuses_update [of f st i d, OF f] mem statuses_None [of d i]
  show ?thesis by simp
qed

lemma update_effect:
  assumes g: "good_db l d" and op: "transaction c b m body d = (r, d')"
    and body: "\<And>d'. body d = (Inr (), d') \<Longrightarrow>
      good_db l d' \<and> statuses d i \<noteq> None \<and> statuses d' = set_status i st (statuses d)"
  shows "good_db l d' \<and> (case r of
      Inr _ \<Rightarrow> statuses d i \<noteq> None \<and> statuses d' = set_status i st (statuses d)
    | Inl _ \<Rightarrow> statuses d' = statuses d \<or> (statuses d i \<noteq> None \<and> statuses d' = set_status i st (statuses d)))"
proof (cases r)
  case (Inr a)
  with transaction_InrD [of c b m body d a d'] op body show ?thesis by simp
next
  case (Inl e)
  with transaction_atomic [OF op] g body show ?thesis by auto
qed

lemma sqlite_update_rows:
  assumes "sqlite_update_body l c i status completedAt out d = (Inr (), d')"
  shows "filter (\<lambda>r. xr_ID r = i) (db_executions d) \<noteq> []"
    and "db_executions d' = map (\<lambda>r. if xr_ID r = i then r\<lparr>xr_Status := status,
      xr_UpdatedAt := FormatTime (c_now c), xr_CompletedAt := formatTimePtr completedAt\<rparr> else r) (db_executions d)"
  using assms
  by (auto simp: sqlite_update_body_def run_simps txExec_def stmt_def update_execution_def
      delete_outputs_def insert_output_def
      split: option.splits prod.splits sum.splits if_splits)

lemma sqlite_update_outputs:
  "sqlite_update_body l c i status completedAt out d = (Inr (), d') \<Longrightarrow>
    map or_Message (filter (\<lambda>r. or_ExecId r = i) (db_outputs d')) =
      (case out of None \<Rightarrow> [] | Some x \<Rightarrow> [eo_Message x])"
  by (auto simp: sqlite_update_body_def run_simps txExec_def stmt_def update_execution_def
      delete_outputs_def insert_output_def
      split: option.splits prod.splits sum.splits if_splits)

lemma sqlite_update_body:
  assumes "good_db l d" "sqlite_update_body l c i status completedAt out d = (Inr (), d')"
  shows "good_db l d' \<and> statuses d i \<noteq> None \<and> statuses d' = set_status i status (statuses d)"
  by (rule update_rows [OF assms(1) _ _ sqlite_update_rows [OF assms(2)]]) simp_all

lemma pg_update_rows:
  assumes "pg_update_body l c i status completedAt out d = (Inr (), d')"
  shows "filter (\<lambda>r. xr_ID r = i) (db_executions d) \<noteq> []"
    and "db_executions d' = map (\<lambda>r. if xr_ID r = i then r\<lparr>xr_Status := status,
      xr_UpdatedAt := pg_time l (c_now c), xr_CompletedAt := map_option (pg_time l) completedAt\<rparr> else r) (db_executions d)"
  using assms
  by (auto simp: pg_update_body_def run_simps stmt_def update_execution_def
      delete_outputs_def insert_output_def
      split: option.splits prod.splits sum.splits if_splits)

lemma pg_update_outputs:
  "pg_update_body l c i status completedAt out d = (Inr (), d') \<Longrightarrow>
    map or_Message (filter (\<lambda>r. or_ExecId r = i) (db_outputs d')) =
      (case out of None \<Rightarrow> [] | Some x \<Rightarrow> [eo_Message x])"
  by (auto simp: pg_update_body_def run_simps stmt_def update_execution_def
      delete_outputs_def insert_output_def
      split: option.splits prod.splits sum.splits if_splits)

lemma pg_update_body:
  assumes "good_db l d" "pg_update_body l c i status completedAt out d = (Inr (), d')"
  shows "good_db l d' \<and> statuses d i \<noteq> None \<and> statuses d' = set_status i status (statuses d)"
  by (rule update_rows [OF assms(1) _ _ pg_update_rows [OF assms(2)]]) simp_all

lemma get_effect:
  assumes g: "good_db l d"
    and op: "seq (query_row c S_Select m (select_execution i)) (\<lambda>raw. lift (toModel raw)) d = (r, d')"
    and model: "\<And>raw e. canonical l (xr_ID raw) \<Longrightarrow> toModel raw = Inr e \<Longrightarrow>
      ex_ID e = xr_ID raw \<and> ex_Status e = xr_Status raw"
  shows "d' = d \<and> (case r of Inr e \<Rightarrow> ex_ID e = i \<and> statuses d i = Some (ex_Status e) | Inl _ \<Rightarrow> True)"
proof (cases "query_row c S_Select m (select_execution i) d")
  case (Pair rq d1)
  show ?thesis
  proof (cases rq)
    case (Inr raw)
    with Pair query_row_Inr [of c S_Select m "select_execution i" d raw d1]
    have "select_execution i d = Some raw" "d1 = d" by auto
    with select_status [OF g] model [of raw] op Pair Inr show ?thesis
      by (auto simp: seq_def lift_def split: sum.splits)
  next
    case (Inl e)
    with Pair op show ?thesis
      by (auto simp: seq_def query_row_def wrap_err_def stmt_def query_def fail_def ret_def
          split: option.splits prod.splits sum.splits)
  qed
qed

lemma query_row_state: "snd (query_row c s m f d) = d"
  by (auto simp: query_row_def run_simps stmt_def split: option.splits prod.splits sum.splits)

lemma read_state: "seq (query_row c s m f) (\<lambda>raw. lift (g raw)) d = (r, d') \<Longrightarrow> d' = d"
  using query_row_state [of c s m f d] by (auto simp: seq_def lift_def split: prod.splits sum.splits)

lemma list_state:
  "seq (wrap_err m1 [] (stmt c S_Count (query f)))
     (\<lambda>n. seq (wrap_err m2 [] (stmt c S_Select (query g)))
       (\<lambda>rows. seq (lift (h rows)) (\<lambda>items. ret (k n items)))) d = (r, d') \<Longrightarrow> d' = d"
  by (auto simp: run_simps stmt_def split: option.splits prod.splits sum.splits)

lemma audit_effect:
  assumes "good_db l d" "wrap_err m [] (autocommit c S_Insert (insert_audit l row)) d = (r, d')"
  shows "good_db l d' \<and> statuses d' = statuses d"
proof -
  have "db_executions d' = db_executions d"
    using assms(2) by (auto simp: wrap_err_def autocommit_def insert_audit_def
        split: option.splits prod.splits sum.splits if_splits)
  with assms(1) show ?thesis by (simp add: good_db_def statuses_def)
qed

section \<open>Both stores keep the contract\<close>

definition sqlite_stores :: "lib \<Rightarrow> sqlite_db Store set" where
  "sqlite_stores l = range (SQLiteStore l)"

definition pg_stores :: "lib \<Rightarrow> pg_db Store set" where
  "pg_stores l = range (PostgresStore l)"

lemma sqlite_model_id:
  "canonical l (xr_ID raw) \<Longrightarrow> sqlite_execution_toModel l raw = Inr e \<Longrightarrow>
   ex_ID e = xr_ID raw \<and> ex_Status e = xr_Status raw"
  by (auto simp: sqlite_execution_toModel_def canonical_def Let_def split: sum.splits option.splits)

lemma sqlite_model_err:
  "canonical l (xr_ID raw) \<Longrightarrow> sqlite_execution_toModel l raw = Inl e \<Longrightarrow> \<not> is_not_found e"
  by (auto simp: sqlite_execution_toModel_def canonical_def Let_def parse_timeLayout_def
      split: sum.splits option.splits)

lemma pg_model_id:
  "canonical l (xr_ID raw) \<Longrightarrow> pg_execution_toModel l raw = Inr e \<Longrightarrow>
   ex_ID e = xr_ID raw \<and> ex_Status e = xr_Status raw"
  by (auto simp: pg_execution_toModel_def canonical_def split: sum.splits)

lemma pg_model_err:
  "canonical l (xr_ID raw) \<Longrightarrow> pg_execution_toModel l raw = Inl e \<Longrightarrow> \<not> is_not_found e"
  by (auto simp: pg_execution_toModel_def canonical_def split: sum.splits)

interpretation sqlite_store: execution_store "sqlite_stores l" statuses "good_db l" "canonical l"
  for l
proof unfold_locales
  fix st d e ru d'
  assume "st \<in> sqlite_stores l" "good_db l d" "canonical l (ex_ID e)"
    "st_CreateExecution st e d = (ru, d')"
  then obtain c where c: "good_db l d" "canonical l (xr_ID (sqlite_execution_row e))"
    "sqlite_CreateExecution l c e d = (ru, d')"
    by (auto simp: sqlite_stores_def SQLiteStore_def sqlite.row_ID)
  show "good_db l d' \<and> (case ru of
      Inr _ \<Rightarrow> statuses d (ex_ID e) = None \<and> statuses d' = set_status (ex_ID e) (ex_Status e) (statuses d)
    | Inl _ \<Rightarrow> statuses d' = statuses d \<or> (statuses d (ex_ID e) = None \<and>
        statuses d' = set_status (ex_ID e) (ex_Status e) (statuses d)))"
    using create_effect [OF c(1,2) c(3) [unfolded sqlite_CreateExecution_def]]
    by (simp only: sqlite.row_ID sqlite.row_Status)
next
  fix st d r d'
  assume "st \<in> sqlite_stores l" "good_db l d" "st_ClaimNextExecution st d = (r, d')"
  then obtain c where c: "good_db l d" "sqlite_ClaimNextExecution l c d = (r, d')"
    by (auto simp: sqlite_stores_def SQLiteStore_def)
  show "good_db l d' \<and> (case r of
      Inr e \<Rightarrow> statuses d (ex_ID e) = Some ''pending'' \<and>
        statuses d' = set_status (ex_ID e) ''running'' (statuses d)
    | Inl err \<Rightarrow> statuses d' = statuses d \<or> (\<not> is_not_found err \<and>
        (\<exists>i. statuses d i = Some ''pending'' \<and> statuses d' = set_status i ''running'' (statuses d))))"
    by (rule claim_effect [OF c(1) c(2) [unfolded sqlite_ClaimNextExecution_def] sqlite_claim_body [OF c(1)]])
      (auto dest: sqlite_model_id sqlite_model_err)
next
  fix st d i status u out ru d'
  assume "st \<in> sqlite_stores l" "good_db l d"
    "st_UpdateExecutionWithResult st i status u out d = (ru, d')"
  then obtain c where c: "good_db l d" "sqlite_UpdateExecutionWithResult l c i status u out d = (ru, d')"
    by (auto simp: sqlite_stores_def SQLiteStore_def)
  show "good_db l d' \<and> (case ru of
      Inr _ \<Rightarrow> statuses d i \<noteq> None \<and> statuses d' = set_status i status (statuses d)
    | Inl _ \<Rightarrow> statuses d' = statuses d \<or>
        (statuses d i \<noteq> None \<and> statuses d' = set_status i status (statuses d)))"
    by (rule update_effect [OF c(1) c(2) [unfolded sqlite_UpdateExecutionWithResult_def]
          sqlite_update_body [OF c(1)]])
next
  fix st d i r d'
  assume "st \<in> sqlite_stores l" "good_db l d" "st_GetExecution st i d = (r, d')"
  then obtain c where c: "good_db l d" "sqlite_GetExecution l c i d = (r, d')"
    by (auto simp: sqlite_stores_def SQLiteStore_def)
  show "d' = d \<and> (case r of Inr e \<Rightarrow> ex_ID e = i \<and> statuses d i = Some (ex_Status e) | Inl _ \<Rightarrow> True)"
    by (rule get_effect [OF c(1) c(2) [unfolded sqlite_GetExecution_def] sqlite_model_id])
qed (auto simp: sqlite_stores_def SQLiteStore_def sqlite_GetExecutionOutput_def sqlite_ListExecutions_def
      sqlite_CreateAuditEntry_def sqlite_ListAuditEntries_def Let_def
      dest: read_state list_state audit_effect)

interpretation pg_store: execution_store "pg_stores l" statuses "good_db l" "canonical l"
  for l
proof unfold_locales
  fix st d e ru d'
  assume "st \<in> pg_stores l" "good_db l d" "canonical l (ex_ID e)"
    "st_CreateExecution st e d = (ru, d')"
  then obtain c where c: "good_db l d" "canonical l (xr_ID (pg_execution_row l e))"
    "pg_CreateExecution l c e d = (ru, d')"
    by (auto simp: pg_stores_def PostgresStore_def pg.row_ID)
  show "good_db l d' \<and> (case ru of
      Inr _ \<Rightarrow> statuses d (ex_ID e) = None \<and> statuses d' = set_status (ex_ID e) (ex_Status e) (statuses d)
    | Inl _ \<Rightarrow> statuses d' = statuses d \<or> (statuses d (ex_ID e) = None \<and>
        statuses d' = set_status (ex_ID e) (ex_Status e) (statuses d)))"
    using create_effect [OF c(1,2) c(3) [unfolded pg_CreateExecution_def]]
    by (simp only: pg.row_ID pg.row_Status)
next
  fix st d r d'
  assume "st \<in> pg_stores l" "good_db l d" "st_ClaimNextExecution st d = (r, d')"
  then obtain c where c: "good_db l d" "pg_ClaimNextExecution l c d = (r, d')"
    by (auto simp: pg_stores_def PostgresStore_def)
  show "good_db l d' \<and> (case r of
      Inr e \<Rightarrow> statuses d (ex_ID e) = Some ''pending'' \<and>
        statuses d' = set_status (ex_ID e) ''running'' (statuses d)
    | Inl err \<Rightarrow> statuses d' = statuses d \<or> (\<not> is_not_found err \<and>
        (\<exists>i. statuses d i = Some ''pending'' \<and> statuses d' = set_status i ''running'' (statuses d))))"
    by (rule claim_effect [OF c(1) c(2) [unfolded pg_ClaimNextExecution_def]
          pg_claim_body [OF c(1), THEN conjunct1]])
      (auto dest: pg_model_id pg_model_err)
next
  fix st d i status u out ru d'
  assume "st \<in> pg_stores l" "good_db l d" "st_UpdateExecutionWithResult st i status u out d = (ru, d')"
  then obtain c where c: "good_db l d" "pg_UpdateExecutionWithResult l c i status u out d = (ru, d')"
    by (auto simp: pg_stores_def PostgresStore_def)
  show "good_db l d' \<and> (case ru of
      Inr _ \<Rightarrow> statuses d i \<noteq> None \<and> statuses d' = set_status i status (statuses d)
    | Inl _ \<Rightarrow> statuses d' = statuses d \<or>
        (statuses d i \<noteq> None \<and> statuses d' = set_status i status (statuses d)))"
    by (rule update_effect [OF c(1) c(2) [unfolded pg_UpdateExecutionWithResult_def] pg_update_body [OF c(1)]])
next
  fix st d i r d'
  assume "st \<in> pg_stores l" "good_db l d" "st_GetExecution st i d = (r, d')"
  then obtain c where c: "good_db l d" "pg_GetExecution l c i d = (r, d')"
    by (auto simp: pg_stores_def PostgresStore_def)
  show "d' = d \<and> (case r of Inr e \<Rightarrow> ex_ID e = i \<and> statuses d i = Some (ex_Status e) | Inl _ \<Rightarrow> True)"
    by (rule get_effect [OF c(1) c(2) [unfolded pg_GetExecution_def] pg_model_id])
qed (auto simp: pg_stores_def PostgresStore_def pg_GetExecutionOutput_def pg_ListExecutions_def
      pg_CreateAuditEntry_def pg_ListAuditEntries_def Let_def
      dest: read_state list_state audit_effect)

end
