(* ===== verification/Worker.thy ===== *)
theory Worker
  imports Executor Store_Laws Duration
begin

text \<open>
  \<open>internal/worker\<close>: running one claimed execution through the executor
  (\<open>executor_runner.go\<close>), the worker loop, and the pool (\<open>pool.go\<close>).  The pool is a step
  relation: any number of workers share the store, the API inserts executions at any time, every
  store call may meet different faults, and the scheduler picks who moves.  The deadline of a run
  (\<open>executionTimeout\<close>) only reaches the services it calls, whose answers are parameters.
\<close>

section \<open>Running one execution\<close>

record run_result =
  rr_Status :: string
  rr_Reason :: string
  rr_Output :: "action_result option"

definition runResultError :: "goerr \<Rightarrow> run_result" where
  "runResultError e = \<lparr>rr_Status = ''failed'', rr_Reason = err_text e, rr_Output = None\<rparr>"

definition resolveAction :: "string \<Rightarrow> action result" where
  "resolveAction name =
    (case CreateAction name of None \<Rightarrow> Inl (Errf ''unknown action %q'' [name]) | Some a \<Rightarrow> Inr a)"

definition decodeParams :: "params_codec \<Rightarrow> string option \<Rightarrow> (string \<times> string) list result" where
  "decodeParams pc raw =
    (case raw of
       None \<Rightarrow> Inr []
     | Some r \<Rightarrow>
       (case pc_unmarshal pc r of
          Inl e \<Rightarrow> Inl (Errw ''failed to decode execution params: %w'' [] e)
        | Inr m \<Rightarrow> Inr m))"

definition NewExecutorRunner_timeout :: "int \<Rightarrow> int" where
  "NewExecutorRunner_timeout t = (if t \<le> 0 then 2 * minute else t)"

text \<open>A run ends with a result, or the action panics, which ends the process.\<close>

datatype run_outcome = Ran run_result | RunPanics string

definition runner_request :: "execution \<Rightarrow> action \<Rightarrow> (string \<times> string) list \<Rightarrow> exec_request" where
  "runner_request e act params =
    \<lparr>er_CallerID = (case ex_Username e of None \<Rightarrow> [] | Some u \<Rightarrow> u), er_ClusterID = ex_TargetCluster e,
     er_ClusterVersion = [], er_Action = act, er_Target = None, er_Params = params\<rparr>"

definition Run :: "'p scope list \<Rightarrow> params_codec \<Rightarrow> execution \<Rightarrow> 'p world \<Rightarrow> run_outcome \<times> 'p world" where
  "Run scopes pc e w =
    (case resolveAction (ex_Action e) of
       Inl err \<Rightarrow> (Ran (runResultError err), w)
     | Inr act \<Rightarrow>
       (case decodeParams pc (ex_Params e) of
          Inl err \<Rightarrow> (Ran (runResultError err), w)
        | Inr params \<Rightarrow>
          (case Execute scopes (runner_request e act params) w of
             (Panicked m, w') \<Rightarrow> (RunPanics m, w')
           | (Returned res, w') \<Rightarrow>
             (case res_Error res of
                Some err \<Rightarrow> (Ran (runResultError err), w')
              | None \<Rightarrow>
                if \<not> res_Allowed res
                then (Ran (runResultError (Errf ''denied: %s'' [res_Reason res])), w')
                else (Ran \<lparr>rr_Status = ''succeeded'', rr_Reason = [], rr_Output = res_Output res\<rparr>, w')))))"

lemma Run_status:
  "Run scopes pc e w = (Ran rr, w') \<Longrightarrow> rr_Status rr \<in> {''succeeded'', ''failed''}"
  by (auto simp: Run_def runResultError_def split: sum.splits prod.splits exec_return.splits option.splits if_splits)

section \<open>The pool\<close>

record pool_config =
  pc_concurrency :: int
  pc_pollInterval :: int

definition New_pool :: "int \<Rightarrow> int \<Rightarrow> pool_config" where
  "New_pool concurrency pollInterval =
    \<lparr>pc_concurrency = (if concurrency < 1 then 1 else concurrency),
     pc_pollInterval = (if pollInterval \<le> 0 then 5 * second else pollInterval)\<rparr>"

text \<open>
  Where a worker is: at the top of its loop, processing an execution, waiting in the \<open>select\<close>, or
  gone.
\<close>

datatype worker_state = AtTop | Processing execution | Waiting | Stopped

text \<open>\<open>process\<close>: the result of the run is stored; the store's error is only logged.\<close>

definition terminal_update ::
  "'s Store \<Rightarrow> uuid \<Rightarrow> run_result \<Rightarrow> gotime \<Rightarrow> ('s, unit) act"
where
  "terminal_update st i rr completedAt =
    (case OutputFromActionResult (rr_Output rr) of
       Inl e \<Rightarrow> st_UpdateExecutionWithResult st i ''failed'' (Some completedAt) None
     | Inr out \<Rightarrow> st_UpdateExecutionWithResult st i (rr_Status rr) (Some completedAt) out)"

text \<open>The \<open>switch\<close> on the result of a claim.\<close>

definition after_claim :: "bool \<Rightarrow> execution result \<Rightarrow> worker_state" where
  "after_claim cancelled r =
    (case r of
       Inr e \<Rightarrow> Processing e
     | Inl err \<Rightarrow> if is_not_found err then Waiting else if cancelled then Stopped else Waiting)"

record ('s, 'p) pool =
  p_db :: 's
  p_world :: "'p world"
  p_workers :: "worker_state list"
  p_notify :: bool
  p_cancelled :: bool
  p_claimed :: "uuid list"
  p_errors :: "uuid option list"

text \<open>
  \<open>p_notify\<close> is the channel of capacity one: \<open>Notify\<close> fills it and never blocks.  \<open>p_claimed\<close> is
  the history of successful claims, \<open>p_errors\<close> that of the store's errors in claims (None) and in
  final updates; the program does not keep them.  A panic of an action ends the process, so it has
  no step.
\<close>

definition Notify :: "('s, 'p) pool \<Rightarrow> ('s, 'p) pool" where
  "Notify p = p\<lparr>p_notify := True\<rparr>"

definition Start :: "pool_config \<Rightarrow> 's \<Rightarrow> 'p world \<Rightarrow> ('s, 'p) pool" where
  "Start cfg s w =
    \<lparr>p_db = s, p_world = w, p_workers = replicate (nat (pc_concurrency cfg)) AtTop, p_notify = False,
     p_cancelled = False, p_claimed = [], p_errors = []\<rparr>"

definition at_worker :: "nat \<Rightarrow> worker_state \<Rightarrow> ('s, 'p) pool \<Rightarrow> ('s, 'p) pool" where
  "at_worker i ws p = p\<lparr>p_workers := (p_workers p)[i := ws]\<rparr>"

inductive pool_step ::
  "'s Store set \<Rightarrow> (uuid \<Rightarrow> bool) \<Rightarrow> 'p scope list \<Rightarrow> params_codec \<Rightarrow> ('s, 'p) pool \<Rightarrow> ('s, 'p) pool \<Rightarrow> bool"
  for S canon scopes pc
where
  submit: "st \<in> S \<Longrightarrow> canon (ex_ID e) \<Longrightarrow> ex_Status e = ''pending'' \<Longrightarrow>
    st_CreateExecution st e (p_db p) = (r, s') \<Longrightarrow>
    p' = (if (\<exists>u. r = Inr u) then Notify (p\<lparr>p_db := s'\<rparr>) else p\<lparr>p_db := s'\<rparr>) \<Longrightarrow>
    pool_step S canon scopes pc p p'"
| audit: "st \<in> S \<Longrightarrow> st_CreateAuditEntry st a (p_db p) = (r, s') \<Longrightarrow>
    pool_step S canon scopes pc p (p\<lparr>p_db := s'\<rparr>)"
| cancel: "pool_step S canon scopes pc p (p\<lparr>p_cancelled := True\<rparr>)"
| leave: "i < length (p_workers p) \<Longrightarrow> p_workers p ! i \<in> {AtTop, Waiting} \<Longrightarrow> p_cancelled p \<Longrightarrow>
    pool_step S canon scopes pc p (at_worker i Stopped p)"
| claim: "i < length (p_workers p) \<Longrightarrow> p_workers p ! i = AtTop \<Longrightarrow> st \<in> S \<Longrightarrow>
    st_ClaimNextExecution st (p_db p) = (r, s') \<Longrightarrow>
    pool_step S canon scopes pc p
      (at_worker i (after_claim (p_cancelled p) r)
        (p\<lparr>p_db := s', p_claimed := p_claimed p @ (case r of Inr e \<Rightarrow> [ex_ID e] | Inl _ \<Rightarrow> []),
           p_errors := p_errors p @ (case r of Inr e \<Rightarrow> [] | Inl err \<Rightarrow> if is_not_found err then [] else [None])\<rparr>))"
| finish: "i < length (p_workers p) \<Longrightarrow> p_workers p ! i = Processing e \<Longrightarrow> st \<in> S \<Longrightarrow>
    Run scopes pc e (p_world p) = (Ran rr, w') \<Longrightarrow>
    terminal_update st (ex_ID e) rr completedAt (p_db p) = (r, s') \<Longrightarrow>
    pool_step S canon scopes pc p
      (at_worker i AtTop
        (p\<lparr>p_db := s', p_world := w',
           p_errors := p_errors p @ (case r of Inr _ \<Rightarrow> [] | Inl _ \<Rightarrow> [Some (ex_ID e)])\<rparr>))"
| notified: "i < length (p_workers p) \<Longrightarrow> p_workers p ! i = Waiting \<Longrightarrow> p_notify p \<Longrightarrow>
    pool_step S canon scopes pc p (at_worker i AtTop (p\<lparr>p_notify := False\<rparr>))"
| ticked: "i < length (p_workers p) \<Longrightarrow> p_workers p ! i = Waiting \<Longrightarrow>
    pool_step S canon scopes pc p (at_worker i AtTop p)"

inductive pool_reach ::
  "'s Store set \<Rightarrow> (uuid \<Rightarrow> bool) \<Rightarrow> 'p scope list \<Rightarrow> params_codec \<Rightarrow> ('s, 'p) pool \<Rightarrow> ('s, 'p) pool \<Rightarrow> bool"
  for S canon scopes pc p0
where
  start: "pool_reach S canon scopes pc p0 p0"
| step: "pool_reach S canon scopes pc p0 p \<Longrightarrow> pool_step S canon scopes pc p p' \<Longrightarrow>
    pool_reach S canon scopes pc p0 p'"

inductive_cases pool_stepE: "pool_step S canon scopes pc p p'"

section \<open>What the pool keeps, over any store\<close>

text \<open>The moves of an execution's status.\<close>

definition status_move :: "string option \<Rightarrow> string option \<Rightarrow> bool" where
  "status_move a b \<longleftrightarrow>
    a = None \<and> b = Some ''pending'' \<or> a = Some ''pending'' \<and> b = Some ''running'' \<or>
    a = Some ''running'' \<and> b \<in> {Some ''succeeded'', Some ''failed''}"

definition works_on :: "('s, 'p) pool \<Rightarrow> nat \<Rightarrow> uuid \<Rightarrow> bool" where
  "works_on p k i \<longleftrightarrow> k < length (p_workers p) \<and> (\<exists>e. p_workers p ! k = Processing e \<and> ex_ID e = i)"

lemma works_on_at_worker:
  "works_on (at_worker j ws p) k i \<longleftrightarrow>
    (if k = j then k < length (p_workers p) \<and> (\<exists>e. ws = Processing e \<and> ex_ID e = i) else works_on p k i)"
  by (auto simp: works_on_def at_worker_def)

lemma works_on_simps [simp]:
  "works_on (p\<lparr>p_db := s\<rparr>) k i = works_on p k i"
  "works_on (p\<lparr>p_world := w\<rparr>) k i = works_on p k i"
  "works_on (p\<lparr>p_notify := b\<rparr>) k i = works_on p k i"
  "works_on (p\<lparr>p_cancelled := b\<rparr>) k i = works_on p k i"
  "works_on (p\<lparr>p_claimed := c\<rparr>) k i = works_on p k i"
  "works_on (p\<lparr>p_errors := es\<rparr>) k i = works_on p k i"
  "works_on (Notify p) k i = works_on p k i"
  by (simp_all add: works_on_def Notify_def)

lemma at_worker_simps [simp]:
  "p_db (at_worker k ws p) = p_db p" "p_claimed (at_worker k ws p) = p_claimed p"
  "p_errors (at_worker k ws p) = p_errors p"
  "length (p_workers (at_worker k ws p)) = length (p_workers p)"
  by (simp_all add: at_worker_def)

lemma works_on_Start [simp]: "\<not> works_on (Start cfg s w) k i"
  by (auto simp: works_on_def Start_def)

lemma terminal_update_eq:
  "terminal_update st i rr t = st_UpdateExecutionWithResult st i (rr_Status rr) (Some t)
    (case rr_Output rr of None \<Rightarrow> None
     | Some a \<Rightarrow> Some \<lparr>eo_Message = ares_Message a,
         eo_Resources = (case ares_Resources a of None \<Rightarrow> [] | Some rs \<Rightarrow> rs)\<rparr>)"
  by (auto simp: terminal_update_def OutputFromActionResult_def split: option.splits)

context execution_store
begin

definition pool_inv :: "('s, 'p) pool \<Rightarrow> bool" where
  "pool_inv p \<longleftrightarrow>
    good (p_db p) \<and> distinct (p_claimed p) \<and>
    (\<forall>i \<in> set (p_claimed p). view (p_db p) i \<notin> {None, Some ''pending''}) \<and>
    (\<forall>k i. works_on p k i \<longrightarrow> view (p_db p) i = Some ''running'' \<and> i \<in> set (p_claimed p)) \<and>
    (\<forall>k k' i. works_on p k i \<longrightarrow> works_on p k' i \<longrightarrow> k = k')"

text \<open>How one step moves the statuses and the history of claims.\<close>

lemma create_move:
  assumes "st \<in> stores" "good s" "canon (ex_ID e)" "ex_Status e = ''pending''"
    "st_CreateExecution st e s = (r, s')"
  shows "good s' \<and> (view s' = view s \<or> (\<exists>i. view s i = None \<and> view s' = set_status i ''pending'' (view s)))"
  using create_law [OF assms(1-3) assms(5)] assms(4) by (auto split: sum.splits)

lemma claim_move:
  assumes "st \<in> stores" "good s" "st_ClaimNextExecution st s = (r, s')"
  shows "good s' \<and> (case r of
      Inr e \<Rightarrow> view s (ex_ID e) = Some ''pending'' \<and> view s' = set_status (ex_ID e) ''running'' (view s)
    | Inl _ \<Rightarrow> view s' = view s \<or>
        (\<exists>i. view s i = Some ''pending'' \<and> view s' = set_status i ''running'' (view s)))"
  using claim_law [OF assms] by (auto split: sum.splits)

lemma finish_move:
  assumes "st \<in> stores" "good s" "rr_Status rr \<in> {''succeeded'', ''failed''}"
    "terminal_update st i rr t s = (r, s')"
  shows "good s' \<and> (view s' = view s \<or>
    (\<exists>x \<in> {''succeeded'', ''failed''}. view s' = set_status i x (view s)))"
  using update_law [OF assms(1,2) assms(4) [unfolded terminal_update_eq]] assms(3)
  by (auto split: sum.splits)

lemma pool_inv_step:
  assumes "pool_step stores canon scopes pc p p'" "pool_inv p"
  shows "pool_inv p'"
proof -
  have gd: "good (p_db p)" using assms(2) by (simp add: pool_inv_def)
  from assms(1) show ?thesis
proof cases
  case (submit st e r s')
  from create_move [OF submit(1) _ submit(2,3,4)] assms(2)
  have g: "good s'" "view s' = view (p_db p) \<or>
      (\<exists>i. view (p_db p) i = None \<and> view s' = set_status i ''pending'' (view (p_db p)))"
    by (auto simp: pool_inv_def)
  have p': "p_db p' = s'" "p_claimed p' = p_claimed p" "works_on p' k i = works_on p k i" for k i
    using submit(5) by (auto simp: Notify_def)
  from g assms(2) show ?thesis unfolding pool_inv_def p' by (auto simp: set_status_def split: if_splits)
next
  case (audit st a r s')
  have "good s' \<and> view s' = view (p_db p)"
    using audit_law [OF audit(2) _ audit(3)] assms(2) by (simp add: pool_inv_def)
  with audit(1) assms(2) show ?thesis by (simp add: pool_inv_def)
next
  case cancel
  with assms(2) show ?thesis by (simp add: pool_inv_def)
next
  case (leave i)
  with assms(2) show ?thesis by (auto simp: pool_inv_def works_on_at_worker)
next
  case (claim i st r s')
  then have g: "good s' \<and> (case r of
      Inr e \<Rightarrow> view (p_db p) (ex_ID e) = Some ''pending'' \<and>
        view s' = set_status (ex_ID e) ''running'' (view (p_db p))
    | Inl _ \<Rightarrow> view s' = view (p_db p) \<or>
        (\<exists>i. view (p_db p) i = Some ''pending'' \<and> view s' = set_status i ''running'' (view (p_db p))))"
    using claim_move [OF claim(4) gd claim(5)] by simp
  show ?thesis
  proof (cases r)
    case (Inl err)
    with claim g assms(2) show ?thesis
      by (auto simp: pool_inv_def works_on_at_worker after_claim_def set_status_def split: if_splits)
  next
    case (Inr e)
    with claim g assms(2) show ?thesis
      by (auto simp: pool_inv_def works_on_at_worker after_claim_def set_status_def split: if_splits)
  qed
next
  case (finish i e st rr w' completedAt r s')
  then have g: "good s' \<and> (view s' = view (p_db p) \<or>
      (\<exists>x \<in> {''succeeded'', ''failed''}. view s' = set_status (ex_ID e) x (view (p_db p))))"
    using finish_move [OF finish(4) gd Run_status [OF finish(5)] finish(6)] by simp
  have "works_on p i (ex_ID e)" using finish by (auto simp: works_on_def)
  with finish g assms(2) show ?thesis
    by (auto simp: pool_inv_def works_on_at_worker set_status_def split: if_splits)
next
  case (notified i)
  with assms(2) show ?thesis by (auto simp: pool_inv_def works_on_at_worker split: if_splits)
next
  case (ticked i)
  with assms(2) show ?thesis by (auto simp: pool_inv_def works_on_at_worker split: if_splits)
qed
qed

lemma pool_step_move:
  assumes "pool_step stores canon scopes pc p p'" "pool_inv p" "view (p_db p') i \<noteq> view (p_db p) i"
  shows "status_move (view (p_db p) i) (view (p_db p') i) \<and>
    (view (p_db p) i = Some ''running'' \<longrightarrow> (\<exists>k. works_on p k i))"
  using assms(1)
proof cases
  case (submit st e r s')
  from create_move [OF submit(1) _ submit(2,3,4)] assms(2,3) submit(5) show ?thesis
    by (auto simp: pool_inv_def set_status_def status_move_def Notify_def split: if_splits)
next
  case (audit st a r s')
  have "view s' = view (p_db p)"
    using audit_law [OF audit(2) _ audit(3)] assms(2) by (simp add: pool_inv_def)
  with audit(1) assms(3) show ?thesis by simp
next
  case (claim j st r s')
  have db: "p_db p' = s'" using claim(1) by simp
  have gd: "good (p_db p)" using assms(2) by (simp add: pool_inv_def)
  from claim_move [OF claim(4) gd claim(5)] assms(3) show ?thesis
    unfolding db by (auto simp: set_status_def status_move_def split: sum.splits if_splits)
next
  case (finish j e st rr w' completedAt r s')
  have db: "p_db p' = s'" using finish(1) by simp
  have gd: "good (p_db p)" and running: "view (p_db p) (ex_ID e) = Some ''running''" and "works_on p j (ex_ID e)"
    using assms(2) finish(2,3) by (auto simp: pool_inv_def works_on_def)
  with finish_move [OF finish(4) gd Run_status [OF finish(5)] finish(6)] assms(3) show ?thesis
    unfolding db by (auto simp: set_status_def status_move_def split: if_splits)
qed (use assms(3) in simp_all)

lemma pool_inv_reach: "pool_reach stores canon scopes pc p0 p \<Longrightarrow> pool_inv p0 \<Longrightarrow> pool_inv p"
  by (induction rule: pool_reach.induct) (auto intro: pool_inv_step)

lemma keeps_working:
  assumes "works_on p k i" "p_workers p ! j \<in> {AtTop, Waiting, Stopped}"
  shows "works_on (at_worker j ws p) k i"
proof (cases "k = j")
  case True
  with assms show ?thesis by (auto simp: works_on_def)
next
  case False
  with assms(1) show ?thesis by (simp add: works_on_at_worker)
qed

text \<open>
  What is running is being processed, unless it already was when the pool started or the store
  failed: in the final update of that execution, or in a claim.
\<close>

definition accounted :: "(uuid \<Rightarrow> string option) \<Rightarrow> ('s, 'p) pool \<Rightarrow> bool" where
  "accounted v0 p \<longleftrightarrow>
    (\<forall>i. view (p_db p) i = Some ''running'' \<longrightarrow>
      v0 i = Some ''running'' \<or> (\<exists>k. works_on p k i) \<or> Some i \<in> set (p_errors p) \<or> None \<in> set (p_errors p))"

lemma accounted_step:
  assumes "pool_step stores canon scopes pc p p'" "pool_inv p" "accounted v0 p"
  shows "accounted v0 p'"
  unfolding accounted_def
proof (intro allI impI)
  fix i
  assume run: "view (p_db p') i = Some ''running''"
  have gd: "good (p_db p)" using assms(2) by (simp add: pool_inv_def)
  have old: "v0 i = Some ''running'' \<or> (\<exists>k. works_on p k i) \<or> Some i \<in> set (p_errors p) \<or> None \<in> set (p_errors p)"
    if "view (p_db p) i = Some ''running''"
    using assms(3) that by (simp add: accounted_def)
  from assms(1) show "v0 i = Some ''running'' \<or> (\<exists>k. works_on p' k i) \<or> Some i \<in> set (p_errors p') \<or> None \<in> set (p_errors p')"
  proof cases
    case (submit st e r s')
    from create_move [OF submit(1) gd submit(2,3,4)] run submit(5)
    have "view (p_db p) i = Some ''running''" by (auto simp: Notify_def set_status_def split: if_splits)
    from old [OF this] submit(5) show ?thesis by (simp add: Notify_def works_on_def)
  next
    case (audit st a r s')
    with audit_law [OF audit(2) gd audit(3)] run old show ?thesis by simp
  next
    case (leave j)
    with old run keeps_working [of p _ i j Stopped] show ?thesis by auto
  next
    case (claim j st r s')
    note law = claim_law [OF claim(4) gd claim(5)]
    let ?p = "p\<lparr>p_db := s', p_claimed := p_claimed p @ (case r of Inr e \<Rightarrow> [ex_ID e] | Inl _ \<Rightarrow> []),
       p_errors := p_errors p @ (case r of Inr e \<Rightarrow> [] | Inl err \<Rightarrow> if is_not_found err then [] else [None])\<rparr>"
    have keep: "works_on p k i \<Longrightarrow> works_on p' k i" for k
      using keeps_working [of ?p k i j] claim(1,3) by simp
    have errors: "set (p_errors p) \<subseteq> set (p_errors p')" using claim(1) by auto
    show ?thesis
    proof (cases r)
      case (Inl err)
      with law run claim have "view (p_db p) i = Some ''running'' \<or> \<not> is_not_found err"
        by (auto simp: set_status_def split: if_splits)
      then have "view (p_db p) i = Some ''running'' \<or> None \<in> set (p_errors p')" using claim(1) Inl by auto
      with old keep errors show ?thesis by blast
    next
      case (Inr e)
      with law run claim have "view (p_db p) i = Some ''running'' \<or> i = ex_ID e"
        by (auto simp: set_status_def split: if_splits)
      moreover have "works_on p' j (ex_ID e)" using claim(1,2) Inr by (simp add: works_on_at_worker after_claim_def)
      ultimately show ?thesis using old keep errors by blast
    qed
  next
    case (finish j e st rr w' completedAt r s')
    note law = update_law [OF finish(4) gd finish(6) [unfolded terminal_update_eq]]
    have final: "rr_Status rr \<noteq> ''running''" using Run_status [OF finish(5)] by auto
    have keep: "works_on p' k i" if "works_on p k i" "i \<noteq> ex_ID e" for k
    proof -
      have "k \<noteq> j" using that finish(3) by (auto simp: works_on_def)
      with that(1) finish(1) show ?thesis by (simp add: works_on_at_worker)
    qed
    have errors: "set (p_errors p) \<subseteq> set (p_errors p')" using finish(1) by auto
    have "view (p_db p) i = Some ''running'' \<and> (i = ex_ID e \<longrightarrow> Some i \<in> set (p_errors p'))"
      using law final run finish(1) by (auto simp: set_status_def split: sum.splits if_splits)
    with old keep errors show ?thesis by blast
  next
    case (notified j)
    with old run keeps_working [of "p\<lparr>p_notify := False\<rparr>" _ i j AtTop] show ?thesis by auto
  next
    case (ticked j)
    with old run keeps_working [of p _ i j AtTop] show ?thesis by auto
  qed (use old run in auto)
qed

lemma accounted_reach:
  "pool_reach stores canon scopes pc p0 p \<Longrightarrow> pool_inv p0 \<Longrightarrow> accounted v0 p0 \<Longrightarrow> accounted v0 p"
proof (induction rule: pool_reach.induct)
  case (step p p')
  show ?case by (rule accounted_step [OF step(2) pool_inv_reach [OF step(1) step(4)]]) (use step in simp)
qed

lemma accounted_Start: "accounted (view s) (Start cfg s w)"
  by (simp add: accounted_def Start_def)

lemma pool_inv_Start: "good s \<Longrightarrow> pool_inv (Start cfg s w)"
  by (simp add: pool_inv_def) (simp add: Start_def)

text \<open>A status no step leaves stays: a terminal one, or a running execution nobody works on.\<close>

lemma terminal_stays:
  assumes "pool_reach stores canon scopes pc p0 p" "pool_inv p0"
    "view (p_db p0) i = Some x" "x \<notin> {''pending'', ''running''}"
  shows "view (p_db p) i = Some x"
  using assms(1)
proof (induction rule: pool_reach.induct)
  case (step p p')
  have "pool_inv p" by (rule pool_inv_reach [OF step(1) assms(2)])
  with pool_step_move [OF step(2), of i] step(3) assms(4) show ?case by (auto simp: status_move_def)
qed (rule assms(3))

lemma orphan_step:
  assumes "pool_step stores canon scopes pc p p'" "pool_inv p"
    "view (p_db p) i = Some ''running''" "\<forall>k. \<not> works_on p k i"
  shows "view (p_db p') i = Some ''running'' \<and> (\<forall>k. \<not> works_on p' k i)"
proof
  show "view (p_db p') i = Some ''running''"
    using pool_step_move [OF assms(1,2), of i] assms(3,4) by auto
  show "\<forall>k. \<not> works_on p' k i"
    using assms(1)
  proof cases
    case (submit st e r s')
    with assms(4) show ?thesis by (simp add: Notify_def works_on_def)
  next
    case (claim j st r s')
    with claim_move [OF claim(4) _ claim(5)] assms(2-4) show ?thesis
      by (auto simp: pool_inv_def works_on_at_worker after_claim_def split: sum.splits if_splits)
  qed (use assms(4) in \<open>auto simp: works_on_at_worker split: if_splits\<close>)
qed

lemma orphan_stays:
  assumes "pool_reach stores canon scopes pc p0 p" "pool_inv p0"
    "view (p_db p0) i = Some ''running''" "\<forall>k. \<not> works_on p0 k i"
  shows "view (p_db p) i = Some ''running'' \<and> (\<forall>k. \<not> works_on p k i)"
  using assms(1)
proof (induction rule: pool_reach.induct)
  case (step p p')
  show ?case by (rule orphan_step [OF step(2) pool_inv_reach [OF step(1) assms(2)]]) (use step(3) in auto)
qed (use assms(3,4) in auto)

end

end
