(* ===== verification/Worker_Live.thy ===== *)
theory Worker_Live
  imports Worker
begin

text \<open>
  The worker loop of \<open>pool.go\<close> as a function, up to the point where it waits, and its progress: on
  a healthy store the loop claims and runs until nothing is pending.  \<open>live_store\<close> extends the
  contract of \<open>Store_Laws\<close> by what progress needs.
\<close>

text \<open>
  \<open>work\<close> is \<open>workerLoop\<close> without the final \<open>select\<close>: each iteration meets its own store calls
  (faults, clock) and completion time; fuel counts iterations.  No value means that the fuel ran
  out or that an action panicked.
\<close>

fun work ::
  "(nat \<Rightarrow> 's Store) \<Rightarrow> (nat \<Rightarrow> gotime) \<Rightarrow> 'p scope list \<Rightarrow> params_codec \<Rightarrow> bool \<Rightarrow> nat \<Rightarrow>
    's \<Rightarrow> 'p world \<Rightarrow> (worker_state \<times> uuid list \<times> 's \<times> 'p world) option"
where
  "work st t scopes pc cancelled 0 s w = None"
| "work st t scopes pc cancelled (Suc n) s w =
    (if cancelled then Some (Stopped, [], s, w)
     else case st_ClaimNextExecution (st n) s of (r, s1) \<Rightarrow>
       (case after_claim cancelled r of
          Processing e \<Rightarrow>
            (case Run scopes pc e w of
               (RunPanics m, w') \<Rightarrow> None
             | (Ran rr, w') \<Rightarrow>
               (case terminal_update (st n) (ex_ID e) rr (t n) s1 of (_, s2) \<Rightarrow>
                 (case work st t scopes pc cancelled n s2 w' of
                    None \<Rightarrow> None
                  | Some (ws, is, s', w'') \<Rightarrow> Some (ws, ex_ID e # is, s', w''))))
        | AtTop \<Rightarrow> Some (AtTop, [], s1, w)
        | Waiting \<Rightarrow> Some (Waiting, [], s1, w)
        | Stopped \<Rightarrow> Some (Stopped, [], s1, w)))"

definition pending :: "('s \<Rightarrow> uuid \<Rightarrow> string option) \<Rightarrow> 's \<Rightarrow> uuid set" where
  "pending view s = {i. view s i = Some ''pending''}"

definition never_panics :: "'p scope list \<Rightarrow> params_codec \<Rightarrow> bool" where
  "never_panics scopes pc \<longleftrightarrow> (\<forall>e w. \<exists>rr w'. Run scopes pc e w = (Ran rr, w'))"

locale live_store = execution_store stores view good canon
  for stores :: "'s Store set" and view :: "'s \<Rightarrow> uuid \<Rightarrow> string option"
    and good :: "'s \<Rightarrow> bool" and canon :: "uuid \<Rightarrow> bool" +
  fixes healthy :: "'s Store set"
    and sound :: "'s \<Rightarrow> bool"
    and time_ok :: "gotime \<Rightarrow> bool"
  assumes healthy_store: "st \<in> healthy \<Longrightarrow> st \<in> stores"
    and sound_good: "sound s \<Longrightarrow> good s"
    and finite_view: "sound s \<Longrightarrow> finite (dom (view s))"
    and claim_live: "st \<in> healthy \<Longrightarrow> sound s \<Longrightarrow> st_ClaimNextExecution st s = (r, s') \<Longrightarrow>
      sound s' \<and> (case r of Inr _ \<Rightarrow> True | Inl err \<Rightarrow> is_not_found err \<and> s' = s \<and> pending view s = {})"
    and update_live: "st \<in> healthy \<Longrightarrow> sound s \<Longrightarrow> time_ok u \<Longrightarrow>
      st_UpdateExecutionWithResult st i status (Some u) out s = (ru, s') \<Longrightarrow> sound s'"
begin

lemma finite_pending: "sound s \<Longrightarrow> finite (pending view s)"
  by (rule finite_subset [OF _ finite_view]) (auto simp: pending_def)

text \<open>The loop ends and leaves nothing pending; it has run exactly what was pending, each once.\<close>

lemma work_drains:
  assumes "\<And>k. st k \<in> healthy" "\<And>k. time_ok (t k)" "never_panics scopes pc" "sound s"
    "card (pending view s) < n"
  shows "\<exists>is s' w'. work st t scopes pc False n s w = Some (Waiting, is, s', w') \<and>
    pending view s' = {} \<and> set is = pending view s \<and> distinct is"
  using assms(4,5)
proof (induction n arbitrary: s w)
  case (Suc n)
  obtain r s1 where c: "st_ClaimNextExecution (st n) s = (r, s1)"
    by (cases "st_ClaimNextExecution (st n) s")
  note live = claim_live [OF assms(1) Suc.prems(1) c]
  note law = claim_law [OF healthy_store [OF assms(1)] sound_good [OF Suc.prems(1)] c]
  show ?case
  proof (cases r)
    case (Inl err)
    with live c show ?thesis by (simp add: after_claim_def)
  next
    case (Inr e)
    obtain rr w1 where run: "Run scopes pc e w = (Ran rr, w1)"
      using assms(3) unfolding never_panics_def by blast
    obtain ru s2 where u: "terminal_update (st n) (ex_ID e) rr (t n) s1 = (ru, s2)"
      by (cases "terminal_update (st n) (ex_ID e) rr (t n) s1")
    have s1: "sound s1" "view s1 = set_status (ex_ID e) ''running'' (view s)"
      and e: "ex_ID e \<in> pending view s"
      using live law Inr by (auto simp: pending_def)
    have p1: "pending view s1 = pending view s - {ex_ID e}"
      using s1(2) by (auto simp: pending_def set_status_def)
    have s2: "sound s2"
      using update_live [OF assms(1) s1(1) assms(2) u [unfolded terminal_update_eq]] .
    have "view s2 = view s1 \<or> (\<exists>x \<in> {''succeeded'', ''failed''}. view s2 = set_status (ex_ID e) x (view s1))"
      using finish_move [OF healthy_store [OF assms(1)] sound_good [OF s1(1)] Run_status [OF run] u] by simp
    then have p2: "pending view s2 = pending view s1"
      using s1(2) by (auto simp: pending_def set_status_def split: if_splits)
    have "card (pending view s2) < n"
      using Suc.prems(2) card.remove [OF finite_pending [OF Suc.prems(1)] e] unfolding p2 p1 by linarith
    from Suc.IH [OF s2 this, of w1] obtain "is" s' w' where
      "work st t scopes pc False n s2 w1 = Some (Waiting, is, s', w')"
      "pending view s' = {}" "set is = pending view s2" "distinct is" by blast
    moreover from this have "set (ex_ID e # is) = pending view s \<and> distinct (ex_ID e # is)"
      unfolding p2 p1 using e by auto
    ultimately show ?thesis using c Inr run u by (simp add: after_claim_def)
  qed
qed simp

end

section \<open>Both stores are live\<close>

definition decodable :: "('t execution_row \<Rightarrow> execution result) \<Rightarrow> 't db \<Rightarrow> bool" where
  "decodable toModel d \<longleftrightarrow> (\<forall>r \<in> set (db_executions d). \<exists>e. toModel r = Inr e)"

definition sqlite_sound :: "lib \<Rightarrow> sqlite_db \<Rightarrow> bool" where
  "sqlite_sound l d \<longleftrightarrow> good_db l d \<and> decodable (sqlite_execution_toModel l) d"

definition pg_sound :: "lib \<Rightarrow> pg_db \<Rightarrow> bool" where
  "pg_sound l d \<longleftrightarrow> good_db l d"

definition sqlite_healthy :: "lib \<Rightarrow> sqlite_db Store set" where
  "sqlite_healthy l = {SQLiteStore l c | c. fault_free c \<and> printable (c_now c)}"

definition pg_healthy :: "lib \<Rightarrow> pg_db Store set" where
  "pg_healthy l = {PostgresStore l c | c. fault_free c \<and> c_locked c = []}"

lemma finite_statuses: "finite (dom (statuses d))"
  by (simp add: statuses_def finite_dom_map_of)

lemma none_pending:
  assumes "good_db l d"
  shows "oldest_pending d = None \<longleftrightarrow> pending statuses d = {}"
    and "oldest_unlocked_pending [] d = None \<longleftrightarrow> pending statuses d = {}"
proof -
  have "(\<exists>r \<in> set (db_executions d). xr_Status r = ''pending'') \<longleftrightarrow> pending statuses d \<noteq> {}"
    using statuses_row [of "db_executions d"] assms
    by (force simp: pending_def statuses_def good_db_def dest: map_of_SomeD)
  then show "oldest_pending d = None \<longleftrightarrow> pending statuses d = {}"
    "oldest_unlocked_pending [] d = None \<longleftrightarrow> pending statuses d = {}"
    by (auto simp: oldest_pending_def oldest_unlocked_pending_def page_def filter_empty_conv take_Suc
        split: list.splits)
qed

lemma decodable_update:
  assumes "decodable f d" "\<And>r e. f r = Inr e \<Longrightarrow> \<exists>e'. f (g r) = Inr e'"
    "db_executions d' = map (\<lambda>r. if xr_ID r = i then g r else r) (db_executions d)"
  shows "decodable f d'"
  using assms unfolding decodable_def by auto

lemma sqlite_decodes:
  "sqlite_execution_toModel l r = Inr e \<Longrightarrow> printable t \<Longrightarrow>
   \<exists>e'. sqlite_execution_toModel l (r\<lparr>xr_Status := s, xr_UpdatedAt := FormatTime t\<rparr>) = Inr e'"
  "sqlite_execution_toModel l r = Inr e \<Longrightarrow> printable t \<Longrightarrow> printable u \<Longrightarrow>
   \<exists>e'. sqlite_execution_toModel l (r\<lparr>xr_Status := s, xr_UpdatedAt := FormatTime t,
     xr_CompletedAt := formatTimePtr (Some u)\<rparr>) = Inr e'"
  by (auto simp: sqlite_execution_toModel_def formatTimePtr_def Let_def split: sum.splits option.splits)

lemma select_some: "i \<in> set (map xr_ID (db_executions d)) \<Longrightarrow> \<exists>r. select_execution i d = Some r"
  by (cases "select_execution i d") (auto simp: select_execution_def find_None_iff)

text \<open>Without faults a claim either finds nothing or its transaction reaches its end.\<close>

lemma sqlite_claim_run:
  assumes "good_db l d" "fault_free c"
  shows "(case oldest_pending d of
      None \<Rightarrow> sqlite_ClaimNextExecution l c d = (Inl ErrNotFound, d)
    | Some i \<Rightarrow> \<exists>raw d'. raw \<in> set (db_executions d') \<and>
        db_executions d' = map (\<lambda>r. if xr_ID r = i then r\<lparr>xr_Status := ''running'',
          xr_UpdatedAt := FormatTime (c_now c)\<rparr> else r) (db_executions d) \<and>
        sqlite_ClaimNextExecution l c d = (sqlite_execution_toModel l raw, d'))"
proof (cases "oldest_pending d")
  case None
  with assms show ?thesis by (simp add: sqlite_ClaimNextExecution_def transaction_def run_simps)
next
  case (Some i)
  let ?d = "d\<lparr>db_executions := map (\<lambda>r. if xr_ID r = i then r\<lparr>xr_Status := ''running'',
    xr_UpdatedAt := FormatTime (c_now c)\<rparr> else r) (db_executions d)\<rparr>"
  have "statuses d i \<noteq> None" using oldest_status(1) [OF assms(1) Some] by simp
  then have "i \<in> set (map xr_ID (db_executions d))" using statuses_None [of d i] by simp
  then have "\<exists>r. select_execution i ?d = Some r" by (intro select_some) force
  then obtain raw where raw: "select_execution i ?d = Some raw" by blast
  have "sqlite_ClaimNextExecution l c d = (sqlite_execution_toModel l raw, ?d)"
    using Some assms(2) raw
    by (simp add: sqlite_ClaimNextExecution_def sqlite_claim_row_def transaction_def run_simps
        update_execution_def)
  moreover have "raw \<in> set (db_executions ?d)" using select_executionD [OF raw] by blast
  ultimately show ?thesis using Some by (simp only: option.case) (intro exI [of _ raw] exI [of _ ?d], simp)
qed

lemma pg_claim_run:
  assumes "good_db l d" "fault_free c" "c_locked c = []"
  shows "(case oldest_unlocked_pending [] d of
      None \<Rightarrow> pg_ClaimNextExecution l c d = (Inl ErrNotFound, d)
    | Some i \<Rightarrow> \<exists>raw d'. raw \<in> set (db_executions d') \<and>
        db_executions d' = map (\<lambda>r. if xr_ID r = i then r\<lparr>xr_Status := ''running'',
          xr_UpdatedAt := pg_time l (c_now c)\<rparr> else r) (db_executions d) \<and>
        pg_ClaimNextExecution l c d = (pg_execution_toModel l raw, d'))"
proof (cases "oldest_unlocked_pending [] d")
  case None
  with assms show ?thesis by (simp add: pg_ClaimNextExecution_def transaction_def run_simps)
next
  case (Some i)
  let ?d = "d\<lparr>db_executions := map (\<lambda>r. if xr_ID r = i then r\<lparr>xr_Status := ''running'',
    xr_UpdatedAt := pg_time l (c_now c)\<rparr> else r) (db_executions d)\<rparr>"
  have "statuses d i \<noteq> None" using oldest_status(2) [OF assms(1) Some] by simp
  then have "i \<in> set (map xr_ID (db_executions d))" using statuses_None [of d i] by simp
  then have "\<exists>r. select_execution i ?d = Some r" by (intro select_some) force
  then obtain raw where raw: "select_execution i ?d = Some raw" by blast
  have "pg_ClaimNextExecution l c d = (pg_execution_toModel l raw, ?d)"
    using Some assms(2,3) raw
    by (simp add: pg_ClaimNextExecution_def pg_claim_row_def transaction_def run_simps update_execution_def)
  moreover have "raw \<in> set (db_executions ?d)" using select_executionD [OF raw] by blast
  ultimately show ?thesis using Some by (simp only: option.case) (intro exI [of _ raw] exI [of _ ?d], simp)
qed

lemma pg_decodes: "good_db l d \<Longrightarrow> decodable (pg_execution_toModel l) d"
  by (auto simp: decodable_def good_db_def list_all_iff canonical_def pg_execution_toModel_def)

interpretation sqlite_live: live_store "sqlite_stores l" statuses "good_db l" "canonical l"
  "sqlite_healthy l" "sqlite_sound l" printable
  for l
proof unfold_locales
  fix st d r d'
  assume st: "st \<in> sqlite_healthy l" and d: "sqlite_sound l d" and op: "st_ClaimNextExecution st d = (r, d')"
  then obtain c where c: "fault_free c" "printable (c_now c)" "sqlite_ClaimNextExecution l c d = (r, d')"
    by (auto simp: sqlite_healthy_def SQLiteStore_def)
  have g: "good_db l d" and dec: "decodable (sqlite_execution_toModel l) d"
    using d by (simp_all add: sqlite_sound_def)
  have "st \<in> sqlite_stores l" using st by (auto simp: sqlite_healthy_def sqlite_stores_def)
  then have g': "good_db l d'" using sqlite_store.claim_law [OF _ g op] by simp
  show "sqlite_sound l d' \<and>
      (case r of Inr _ \<Rightarrow> True | Inl err \<Rightarrow> is_not_found err \<and> d' = d \<and> pending statuses d = {})"
  proof (cases "oldest_pending d")
    case None
    with sqlite_claim_run [OF g c(1)] c(3) d none_pending(1) [OF g] show ?thesis by simp
  next
    case (Some i)
    with sqlite_claim_run [OF g c(1)] c(3) obtain raw where raw: "raw \<in> set (db_executions d')"
      "db_executions d' = map (\<lambda>r. if xr_ID r = i then r\<lparr>xr_Status := ''running'',
        xr_UpdatedAt := FormatTime (c_now c)\<rparr> else r) (db_executions d)"
      "r = sqlite_execution_toModel l raw" by auto
    have "decodable (sqlite_execution_toModel l) d'"
      by (rule decodable_update [OF dec _ raw(2)]) (auto intro: sqlite_decodes(1) c(2))
    with raw(1,3) g' show ?thesis by (force simp: sqlite_sound_def decodable_def)
  qed
next
  fix st d u i status out ru d'
  assume st: "st \<in> sqlite_healthy l" and d: "sqlite_sound l d" and u: "printable u"
    and op: "st_UpdateExecutionWithResult st i status (Some u) out d = (ru, d')"
  then obtain c where c: "fault_free c" "printable (c_now c)"
    "sqlite_UpdateExecutionWithResult l c i status (Some u) out d = (ru, d')"
    by (auto simp: sqlite_healthy_def SQLiteStore_def)
  have "st \<in> sqlite_stores l" using st by (auto simp: sqlite_healthy_def sqlite_stores_def)
  then have "good_db l d'" using sqlite_store.update_law [OF _ _ op] d by (simp add: sqlite_sound_def)
  moreover have "decodable (sqlite_execution_toModel l) d'"
    using transaction_atomic [OF c(3) [unfolded sqlite_UpdateExecutionWithResult_def]]
  proof
    assume "d' = d"
    with d show ?thesis by (simp add: sqlite_sound_def)
  next
    assume "\<exists>a. sqlite_update_body l c i status (Some u) out d = (Inr a, d')"
    then have e: "db_executions d' = map (\<lambda>r. if xr_ID r = i then r\<lparr>xr_Status := status,
      xr_UpdatedAt := FormatTime (c_now c), xr_CompletedAt := formatTimePtr (Some u)\<rparr> else r) (db_executions d)"
      using sqlite_update_rows(2) by auto
    show ?thesis
      by (rule decodable_update [OF _ _ e]) (use d in \<open>auto simp: sqlite_sound_def intro: sqlite_decodes(2) c(2) u\<close>)
  qed
  ultimately show "sqlite_sound l d'" by (simp add: sqlite_sound_def)
qed (auto simp: sqlite_healthy_def sqlite_stores_def sqlite_sound_def finite_statuses)

interpretation pg_live: live_store "pg_stores l" statuses "good_db l" "canonical l"
  "pg_healthy l" "pg_sound l" "\<lambda>_. True"
  for l
proof unfold_locales
  fix st d r d'
  assume st: "st \<in> pg_healthy l" and d: "pg_sound l d" and op: "st_ClaimNextExecution st d = (r, d')"
  then obtain c where c: "fault_free c" "c_locked c = []" "pg_ClaimNextExecution l c d = (r, d')"
    by (auto simp: pg_healthy_def PostgresStore_def)
  have g: "good_db l d" using d by (simp add: pg_sound_def)
  have "st \<in> pg_stores l" using st by (auto simp: pg_healthy_def pg_stores_def)
  then have g': "good_db l d'" using pg_store.claim_law [OF _ g op] by simp
  show "pg_sound l d' \<and>
      (case r of Inr _ \<Rightarrow> True | Inl err \<Rightarrow> is_not_found err \<and> d' = d \<and> pending statuses d = {})"
  proof (cases "oldest_unlocked_pending [] d")
    case None
    with pg_claim_run [OF g c(1,2)] c(3) d none_pending(2) [OF g] show ?thesis by simp
  next
    case (Some i)
    with pg_claim_run [OF g c(1,2)] c(3) obtain raw where "raw \<in> set (db_executions d')"
      "r = pg_execution_toModel l raw" by auto
    with pg_decodes [OF g'] g' show ?thesis by (force simp: pg_sound_def decodable_def)
  qed
next
  fix st d u i status out ru d'
  assume st: "st \<in> pg_healthy l" and d: "pg_sound l d"
    and op: "st_UpdateExecutionWithResult st i status (Some u) out d = (ru, d')"
  have "st \<in> pg_stores l" using st by (auto simp: pg_healthy_def pg_stores_def)
  then show "pg_sound l d'" using pg_store.update_law [OF _ _ op] d by (simp add: pg_sound_def)
qed (auto simp: pg_healthy_def pg_stores_def pg_sound_def finite_statuses)

end
