(* ===== verification/Store_Claims.thy ===== *)
theory Store_Claims
  imports Store_Laws
begin

text \<open>
  What the stores guarantee: each operation of each store does what the specification of
  \<open>Store_Spec\<close> says, claims are first come first served, and an update is all or nothing whatever
  statement fails.
\<close>

section \<open>A small database\<close>

definition demo_lib :: lib where
  "demo_lib = \<lparr>l_parse = Inr, l_marshal = (\<lambda>_. Inr ''[]''), l_unmarshal = (\<lambda>_. Inr []),
    l_enforce_fk = True, l_tick = 1000\<rparr>"

definition demo_call :: call where
  "demo_call = \<lparr>c_fault = (\<lambda>_. None), c_applied = False, c_now = 9000, c_new_id = ''o'', c_locked = []\<rparr>"

definition demo_execution :: "uuid \<Rightarrow> gotime \<Rightarrow> execution" where
  "demo_execution i t = ExecutionFromRequest \<lparr>pc_marshal = (\<lambda>_. Inr []), pc_unmarshal = (\<lambda>_. Inr [])\<rparr> i t
    ''get'' \<lparr>rq_DryRun = None, rq_Force = None, rq_Jira = ''R-1'', rq_Params = None, rq_TargetCluster = ''c''\<rparr> ''u''"

definition demo_spec :: spec where
  "demo_spec = \<lparr>sp_executions = [demo_execution ''b'' 2000, demo_execution ''a'' 2000, demo_execution ''c'' 5000],
    sp_outputs = [], sp_audit = []\<rparr>"

definition demo_sqlite :: sqlite_db where
  "demo_sqlite = \<lparr>db_executions = map sqlite_execution_row (sp_executions demo_spec), db_outputs = [], db_audit = []\<rparr>"

definition demo_pg :: pg_db where
  "demo_pg = \<lparr>db_executions = map (pg_execution_row demo_lib) (sp_executions demo_spec), db_outputs = [], db_audit = []\<rparr>"

lemmas demo_store_simps = demo_lib_def demo_call_def demo_execution_def demo_spec_def demo_sqlite_def demo_pg_def
  ExecutionFromRequest_def

lemma demo_printable: "printable 2000" "printable 5000" "printable 9000"
  by code_simp+

lemma demo_sqlite_represents: "sqlite.represents demo_lib demo_sqlite demo_spec"
  by (simp add: sqlite.represents_def demo_sqlite_def demo_store_simps sqlite_stored_def canonical_def demo_printable)

lemma demo_pg_represents: "pg.represents demo_lib demo_pg demo_spec"
  by (simp add: pg.represents_def demo_pg_def demo_store_simps pg_stored_def canonical_def pg_norm_def
      pg_time_def pg_scan_time_def)

lemma demo_fault_free: "fault_free demo_call" "c_now demo_call = 9000"
  by (simp_all add: fault_free_def demo_call_def)

lemma demo_oldest:
  "spec_oldest (\<lambda>_. True) demo_spec = Some (demo_execution ''a'' 2000)"
  "spec_oldest (unlocked demo_call) demo_spec = Some (demo_execution ''a'' 2000)"
  by (simp_all add: spec_oldest_def demo_store_simps unlocked_def asc_by_def)

section \<open>Refinement\<close>

text \<open>
  C6. On a database whose rows stand for a state of the specification, every operation of the
  SQLite store, when no statement fails, answers what the specification answers and leaves rows
  that stand for the specification's next state: creation (or a duplicate id is refused), the
  lookups (a missing row is \<open>ErrNotFound\<close>), the claim, the listing with its filter, order and page,
  the final update with its output, and the entries of the audit log and their listing.
\<close>
theorem sqlite_store_refines_the_specification:
  assumes "sqlite.represents l d sp" "fault_free c" "printable (c_now c)"
  shows "(\<forall>e. sqlite_stored l e \<longrightarrow>
      (case spec_create (\<lambda>t. t) e sp of
         None \<Rightarrow> \<exists>err. sqlite_CreateExecution l c e d = (Inl err, d)
       | Some sp' \<Rightarrow> \<exists>d'. sqlite_CreateExecution l c e d = (Inr (), d') \<and> sqlite.represents l d' sp')) \<and>
    (\<forall>i. sqlite_GetExecution l c i d =
      (case spec_get i sp of None \<Rightarrow> Inl ErrNotFound | Some e \<Rightarrow> Inr e, d)) \<and>
    (\<forall>i. sqlite_GetExecutionOutput l c i d =
      (case spec_output i sp of None \<Rightarrow> Inl ErrNotFound | Some x \<Rightarrow> Inr x, d)) \<and>
    (case spec_claim (\<lambda>_. True) (c_now c) sp of
       None \<Rightarrow> sqlite_ClaimNextExecution l c d = (Inl ErrNotFound, d)
     | Some (e, sp') \<Rightarrow> \<exists>d'. sqlite_ClaimNextExecution l c d = (Inr e, d') \<and> sqlite.represents l d' sp') \<and>
    (\<forall>f. pred_option printable (ef_Since f) \<longrightarrow>
      sqlite_ListExecutions l c f d = (Inr (spec_list (\<lambda>t. t) f sp), d)) \<and>
    (\<forall>i status u out. pred_option printable u \<longrightarrow> output_ok l c d out \<longrightarrow>
      (case spec_update (\<lambda>t. t) i status (c_now c) u out sp of
         None \<Rightarrow> \<exists>err. sqlite_UpdateExecutionWithResult l c i status u out d = (Inl err, d) \<and> is_not_found err
       | Some sp' \<Rightarrow> \<exists>d'. sqlite_UpdateExecutionWithResult l c i status u out d = (Inr (), d') \<and>
           sqlite.represents l d' sp')) \<and>
    (\<forall>a. sqlite_audit_stored l a \<longrightarrow>
      (case spec_audit (l_enforce_fk l) (\<lambda>t. t) a sp of
         None \<Rightarrow> \<exists>err. sqlite_CreateAuditEntry l c a d = (Inl err, d)
       | Some sp' \<Rightarrow> \<exists>d'. sqlite_CreateAuditEntry l c a d = (Inr (), d') \<and> sqlite.represents l d' sp')) \<and>
    (\<forall>g. pred_option printable (af_Since g) \<longrightarrow>
      sqlite_ListAuditEntries l c g d = (Inr (spec_audits (\<lambda>t. t) g sp), d))"
  using sqlite_create_sim [OF assms(1,2)] sqlite_get_sim [OF assms(1,2)] sqlite_output_sim [OF assms(1,2)]
    sqlite_claim_sim [OF assms] sqlite_list_sim [OF assms(1,2)] sqlite_update_sim [OF assms]
    sqlite_audit_sim [OF assms(1,2)] sqlite_audits_sim [OF assms(1,2)]
  by (intro conjI allI impI) assumption+

lemma sqlite_refinement_witness:
  "sqlite_GetExecution demo_lib demo_call ''c'' demo_sqlite = (Inr (demo_execution ''c'' 5000), demo_sqlite) \<and>
   fst (sqlite_ClaimNextExecution demo_lib demo_call demo_sqlite) =
     Inr (claimed 9000 (demo_execution ''a'' 2000))"
proof -
  have p: "printable (c_now demo_call)" by (simp add: demo_fault_free demo_printable)
  note r = sqlite_store_refines_the_specification [OF demo_sqlite_represents demo_fault_free(1) p]
  have "spec_get ''c'' demo_spec = Some (demo_execution ''c'' 5000)"
    by (simp add: spec_get_def demo_store_simps)
  with r have "sqlite_GetExecution demo_lib demo_call ''c'' demo_sqlite = (Inr (demo_execution ''c'' 5000), demo_sqlite)"
    by simp
  moreover from r have "fst (sqlite_ClaimNextExecution demo_lib demo_call demo_sqlite) =
      Inr (claimed 9000 (demo_execution ''a'' 2000))"
    by (auto simp: spec_claim_def demo_oldest demo_fault_free)
  ultimately show ?thesis by blast
qed

text \<open>
  C7. The Postgres store refines the same specification, up to the resolution of its timestamp
  columns: instants are stored to the tick, a claim passes over the rows other transactions hold
  locked, and everything else is as in the SQLite store.
\<close>
theorem pg_store_refines_the_specification:
  assumes "pg.represents l d sp" "fault_free c"
  shows "(\<forall>e. canonical l (ex_ID e) \<longrightarrow>
      (case spec_create (pg_norm l) e sp of
         None \<Rightarrow> \<exists>err. pg_CreateExecution l c e d = (Inl err, d)
       | Some sp' \<Rightarrow> \<exists>d'. pg_CreateExecution l c e d = (Inr (), d') \<and> pg.represents l d' sp')) \<and>
    (\<forall>i. pg_GetExecution l c i d = (case spec_get i sp of None \<Rightarrow> Inl ErrNotFound | Some e \<Rightarrow> Inr e, d)) \<and>
    (\<forall>i. pg_GetExecutionOutput l c i d =
      (case spec_output i sp of None \<Rightarrow> Inl ErrNotFound | Some x \<Rightarrow> Inr x, d)) \<and>
    (case spec_claim (unlocked c) (pg_norm l (c_now c)) sp of
       None \<Rightarrow> pg_ClaimNextExecution l c d = (Inl ErrNotFound, d)
     | Some (e, sp') \<Rightarrow> \<exists>d'. pg_ClaimNextExecution l c d = (Inr e, d') \<and> pg.represents l d' sp') \<and>
    (\<forall>f. pg_ListExecutions l c f d = (Inr (spec_list (pg_norm l) f sp), d)) \<and>
    (\<forall>i status u out. output_ok l c d out \<longrightarrow>
      (case spec_update (pg_norm l) i status (c_now c) u out sp of
         None \<Rightarrow> \<exists>err. pg_UpdateExecutionWithResult l c i status u out d = (Inl err, d) \<and> is_not_found err
       | Some sp' \<Rightarrow> \<exists>d'. pg_UpdateExecutionWithResult l c i status u out d = (Inr (), d') \<and>
           pg.represents l d' sp')) \<and>
    (\<forall>a. canonical l (ae_ID a) \<longrightarrow>
      (case spec_audit (l_enforce_fk l) (pg_norm l) a sp of
         None \<Rightarrow> \<exists>err. pg_CreateAuditEntry l c a d = (Inl err, d)
       | Some sp' \<Rightarrow> \<exists>d'. pg_CreateAuditEntry l c a d = (Inr (), d') \<and> pg.represents l d' sp')) \<and>
    (\<forall>g. pg_ListAuditEntries l c g d = (Inr (spec_audits (pg_norm l) g sp), d))"
  using pg_create_sim [OF assms(1,2)] pg_get_sim [OF assms(1,2)] pg_output_sim [OF assms(1,2)]
    pg_claim_sim [OF assms] pg_list_sim [OF assms(1,2)] pg_update_sim [OF assms]
    pg_audit_sim [OF assms(1,2)] pg_audits_sim [OF assms(1,2)]
  by (intro conjI allI impI) assumption+

lemma pg_refinement_witness:
  "pg_GetExecution demo_lib demo_call ''c'' demo_pg = (Inr (demo_execution ''c'' 5000), demo_pg) \<and>
   fst (pg_ClaimNextExecution demo_lib demo_call demo_pg) = Inr (claimed 9000 (demo_execution ''a'' 2000))"
proof -
  note r = pg_store_refines_the_specification [OF demo_pg_represents demo_fault_free(1)]
  have "spec_get ''c'' demo_spec = Some (demo_execution ''c'' 5000)"
    by (simp add: spec_get_def demo_store_simps)
  with r have "pg_GetExecution demo_lib demo_call ''c'' demo_pg = (Inr (demo_execution ''c'' 5000), demo_pg)"
    by simp
  moreover have "pg_norm demo_lib 9000 = 9000"
    by (simp add: pg_norm_def pg_time_def pg_scan_time_def demo_lib_def)
  with r have "fst (pg_ClaimNextExecution demo_lib demo_call demo_pg) =
      Inr (claimed 9000 (demo_execution ''a'' 2000))"
    by (auto simp: spec_claim_def demo_oldest demo_fault_free)
  ultimately show ?thesis by blast
qed

section \<open>First come, first served\<close>

lemma sorted_hd_least:
  "sort_by le xs = y # ys \<Longrightarrow> total_preorder le \<Longrightarrow> x \<in> set xs \<Longrightarrow> y \<in> set xs \<and> le y x"
proof -
  assume a: "sort_by le xs = y # ys" "total_preorder le" "x \<in> set xs"
  have "set (y # ys) = set xs" using a(1) by (metis set_sort_by)
  moreover have "sorted_wrt le (y # ys)" using sorted_sort_by [OF a(2), of xs] a(1) by simp
  moreover have "le y y" using a(2) by (auto simp: total_preorder_def)
  ultimately show ?thesis using a(3) by auto
qed

lemma spec_oldest_least:
  assumes "spec_oldest free sp = Some e" "f \<in> set (sp_executions sp)" "ex_Status f = ''pending''" "free f"
  shows "asc_by ex_CreatedAt ex_ID e f"
proof -
  let ?p = "filter (\<lambda>e. ex_Status e = ''pending'' \<and> free e) (sp_executions sp)"
  from assms(1) obtain es where "sort_by (asc_by ex_CreatedAt ex_ID) ?p = e # es"
    by (auto simp: spec_oldest_def split: list.splits)
  from sorted_hd_least [OF this asc_by_preorder, of f] assms(2-4) show ?thesis by simp
qed

lemma spec_oldest_None:
  "spec_oldest free sp = None \<longleftrightarrow> (\<forall>e \<in> set (sp_executions sp). ex_Status e = ''pending'' \<longrightarrow> \<not> free e)"
proof -
  have "spec_oldest free sp = None \<longleftrightarrow>
      filter (\<lambda>e. ex_Status e = ''pending'' \<and> free e) (sp_executions sp) = []"
    unfolding spec_oldest_def by (cases "filter (\<lambda>e. ex_Status e = ''pending'' \<and> free e) (sp_executions sp) = []")
      (auto split: list.splits dest: sort_by_eq_Nil [THEN iffD1])
  then show ?thesis by (simp add: filter_empty_conv)
qed

lemma spec_oldest_in:
  "spec_oldest free sp = Some e \<Longrightarrow> e \<in> set (sp_executions sp) \<and> ex_Status e = ''pending'' \<and> free e"
proof -
  assume "spec_oldest free sp = Some e"
  then obtain es where "sort_by (asc_by ex_CreatedAt ex_ID)
      (filter (\<lambda>e. ex_Status e = ''pending'' \<and> free e) (sp_executions sp)) = e # es"
    by (auto simp: spec_oldest_def split: list.splits)
  from arg_cong [OF this, of set] show ?thesis by auto
qed

definition first_come ::
  "(execution \<Rightarrow> bool) \<Rightarrow> gotime \<Rightarrow> spec \<Rightarrow> execution result \<Rightarrow> bool"
where
  "first_come free now sp r =
    (case r of
       Inr e \<Rightarrow> \<exists>e0 \<in> set (sp_executions sp). ex_Status e0 = ''pending'' \<and> free e0 \<and> e = claimed now e0 \<and>
         list_all (\<lambda>f. ex_Status f = ''pending'' \<and> free f \<longrightarrow>
           ex_CreatedAt e0 < ex_CreatedAt f \<or> (ex_CreatedAt e0 = ex_CreatedAt f \<and> ex_ID e0 \<le> ex_ID f))
           (sp_executions sp)
     | Inl err \<Rightarrow> err = ErrNotFound \<and>
         list_all (\<lambda>f. \<not> (ex_Status f = ''pending'' \<and> free f)) (sp_executions sp))"

lemma first_come_claim:
  "first_come free now sp (case spec_claim free now sp of None \<Rightarrow> Inl ErrNotFound | Some (e, sp') \<Rightarrow> Inr e)"
proof (cases "spec_oldest free sp")
  case None
  then show ?thesis
    using spec_oldest_None [of free sp] by (auto simp: first_come_def spec_claim_def list_all_iff)
next
  case (Some e)
  then show ?thesis
    using spec_oldest_in [OF Some] spec_oldest_least [OF Some]
    by (force simp: first_come_def spec_claim_def list_all_iff asc_by_def)
qed

text \<open>
  C18. Executions are claimed first come first served: when no statement fails, a claim returns the
  pending execution with the least creation time (the least id among equals), now running, and on
  Postgres the least of those no other transaction holds; it returns \<open>ErrNotFound\<close> exactly when
  there is none.
\<close>
theorem claims_are_first_come_first_served:
  assumes "sqlite.represents l d sp" "pg.represents l d' sp'" "fault_free c" "printable (c_now c)"
  shows "first_come (\<lambda>_. True) (c_now c) sp (fst (sqlite_ClaimNextExecution l c d)) \<and>
    first_come (unlocked c) (pg_norm l (c_now c)) sp' (fst (pg_ClaimNextExecution l c d'))"
  using sqlite_claim_sim [OF assms(1,3,4)] pg_claim_sim [OF assms(2,3)]
    first_come_claim [of "\<lambda>_. True" "c_now c" sp] first_come_claim [of "unlocked c" "pg_norm l (c_now c)" sp']
  by (auto split: option.splits prod.splits)

lemma first_come_witness:
  "first_come (\<lambda>_. True) 9000 demo_spec (fst (sqlite_ClaimNextExecution demo_lib demo_call demo_sqlite))"
  using claims_are_first_come_first_served [OF demo_sqlite_represents demo_pg_represents demo_fault_free(1)]
  by (simp add: demo_fault_free(2) demo_printable)

section \<open>All or nothing\<close>

text \<open>
  C12. The final update of an execution is all or nothing, whichever of its statements fails: when
  it reports success, the row has its new status and times, the old output is gone and the new one
  is stored; when it reports an error nothing at all has changed, unless it is the commit that was
  reported as failed although the database applied it, and then everything has.
\<close>
theorem updates_are_all_or_nothing:
  "(case sqlite_UpdateExecutionWithResult l c i status u out d of (r, d') \<Rightarrow>
     (d' = d \<and> r \<noteq> Inr ()) \<or>
     ((r = Inr () \<or> c_applied c \<and> c_fault c S_Commit \<noteq> None) \<and>
      db_executions d' = map (\<lambda>r. if xr_ID r = i then r\<lparr>xr_Status := status,
        xr_UpdatedAt := FormatTime (c_now c), xr_CompletedAt := formatTimePtr u\<rparr> else r) (db_executions d) \<and>
      map or_Message (filter (\<lambda>r. or_ExecId r = i) (db_outputs d')) =
        (case out of None \<Rightarrow> [] | Some x \<Rightarrow> [eo_Message x]))) \<and>
   (case pg_UpdateExecutionWithResult l c i status u out p of (r, p') \<Rightarrow>
     (p' = p \<and> r \<noteq> Inr ()) \<or>
     ((r = Inr () \<or> c_applied c \<and> c_fault c S_Commit \<noteq> None) \<and>
      db_executions p' = map (\<lambda>r. if xr_ID r = i then r\<lparr>xr_Status := status,
        xr_UpdatedAt := pg_time l (c_now c), xr_CompletedAt := map_option (pg_time l) u\<rparr> else r) (db_executions p) \<and>
      map or_Message (filter (\<lambda>r. or_ExecId r = i) (db_outputs p')) =
        (case out of None \<Rightarrow> [] | Some x \<Rightarrow> [eo_Message x])))"
proof -
  have tx: "(d' = d \<and> r \<noteq> Inr ()) \<or> ((r = Inr () \<or> c_applied c \<and> c_fault c S_Commit \<noteq> None) \<and> Q d')"
    if t: "transaction c b m body d = (r, d')" and q: "\<And>d'. body d = (Inr (), d') \<Longrightarrow> Q d'"
    for b m body and d d' :: "'a db" and r :: "unit result" and Q
    using t q by (auto simp: transaction_def split: option.splits prod.splits sum.splits if_splits)
  show ?thesis
  proof
    obtain r d' where s: "sqlite_UpdateExecutionWithResult l c i status u out d = (r, d')" by fastforce
    show "case sqlite_UpdateExecutionWithResult l c i status u out d of (r, d') \<Rightarrow>
     (d' = d \<and> r \<noteq> Inr ()) \<or>
     ((r = Inr () \<or> c_applied c \<and> c_fault c S_Commit \<noteq> None) \<and>
      db_executions d' = map (\<lambda>r. if xr_ID r = i then r\<lparr>xr_Status := status,
        xr_UpdatedAt := FormatTime (c_now c), xr_CompletedAt := formatTimePtr u\<rparr> else r) (db_executions d) \<and>
      map or_Message (filter (\<lambda>r. or_ExecId r = i) (db_outputs d')) =
        (case out of None \<Rightarrow> [] | Some x \<Rightarrow> [eo_Message x]))"
      unfolding s prod.case
      by (rule tx [OF s [unfolded sqlite_UpdateExecutionWithResult_def]])
        (intro conjI; (rule sqlite_update_rows(2) | rule sqlite_update_outputs); assumption)
  next
    obtain r p' where s: "pg_UpdateExecutionWithResult l c i status u out p = (r, p')" by fastforce
    show "case pg_UpdateExecutionWithResult l c i status u out p of (r, p') \<Rightarrow>
     (p' = p \<and> r \<noteq> Inr ()) \<or>
     ((r = Inr () \<or> c_applied c \<and> c_fault c S_Commit \<noteq> None) \<and>
      db_executions p' = map (\<lambda>r. if xr_ID r = i then r\<lparr>xr_Status := status,
        xr_UpdatedAt := pg_time l (c_now c), xr_CompletedAt := map_option (pg_time l) u\<rparr> else r) (db_executions p) \<and>
      map or_Message (filter (\<lambda>r. or_ExecId r = i) (db_outputs p')) =
        (case out of None \<Rightarrow> [] | Some x \<Rightarrow> [eo_Message x]))"
      unfolding s prod.case
      by (rule tx [OF s [unfolded pg_UpdateExecutionWithResult_def]])
        (intro conjI; (rule pg_update_rows(2) | rule pg_update_outputs); assumption)
  qed
qed

section \<open>Timestamps as text\<close>

text \<open>
  C40. SQLite compares and sorts the timestamp columns as text, and that is right: for instants of
  the years 0 to 9999 the text read back is the instant written, to the nanosecond, and two texts
  compare like the two instants, so that the claim order, the listing order and the since filters
  follow time.
\<close>
theorem sqlite_timestamps_round_trip_and_sort:
  assumes "printable t" "printable u"
  shows "map_option parse_timeLayout (formatTimePtr (Some t)) = Some (Inr t) \<and>
    (xr_CreatedAt (sqlite_execution_row (e\<lparr>ex_CreatedAt := t\<rparr>)) <
       xr_CreatedAt (sqlite_execution_row (e'\<lparr>ex_CreatedAt := u\<rparr>)) \<longleftrightarrow> t < u) \<and>
    (sql_ge (SText (xr_CreatedAt (sqlite_execution_row (e\<lparr>ex_CreatedAt := t\<rparr>)))) (SText (FormatTime u)) \<longleftrightarrow>
       u \<le> t)"
  using assms FormatTime_le [of u t]
  by (simp add: formatTimePtr_def sqlite_execution_row_def FormatTime_less)

lemma timestamps_witness:
  "map_option parse_timeLayout (formatTimePtr (Some 2000)) = Some (Inr 2000) \<and> FormatTime 2000 < FormatTime 5000"
  using sqlite_timestamps_round_trip_and_sort [OF demo_printable(1,2), of "demo_execution ''a'' 0" "demo_execution ''b'' 0"]
  by (simp add: sqlite_execution_row_def)

end
