(* ===== verification/Pg_Concurrency.thy ===== *)
theory Pg_Concurrency
  imports Store_Laws
begin

text \<open>
  Concurrent claims on Postgres.  \<open>pg_ClaimNextExecution\<close> is split where other transactions can
  run: the locking select, then the update with the read back and the commit.  The select sees the
  committed rows and passes over the rows that other open claims have locked (\<open>FOR UPDATE SKIP
  LOCKED\<close>); the update of an open claim is seen by others only when it commits; another writer of
  a locked row waits until the claim is over.
\<close>

record claims_state =
  k_db :: pg_db
  k_open :: "(nat \<times> string) list"
  k_taken :: "uuid list"

definition k_locked :: "claims_state \<Rightarrow> string list" where
  "k_locked k = map snd (k_open k)"

definition release :: "nat \<Rightarrow> (nat \<times> string) list \<Rightarrow> (nat \<times> string) list" where
  "release n xs = filter (\<lambda>(m, i). m \<noteq> n) xs"

lemma k_locked_db [simp]: "k_locked (k\<lparr>k_db := d\<rparr>) = k_locked k"
  by (simp add: k_locked_def)

inductive claims_step :: "lib \<Rightarrow> claims_state \<Rightarrow> claims_state \<Rightarrow> bool" for l where
  select: "n \<notin> fst ` set (k_open k) \<Longrightarrow>
    query_row c S_SelectId ''selecting next pending execution: %w''
      (oldest_unlocked_pending (k_locked k)) (k_db k) = (Inr i, d) \<Longrightarrow>
    claims_step l k (k\<lparr>k_open := (n, i) # k_open k\<rparr>)"
| commit: "(n, i) \<in> set (k_open k) \<Longrightarrow> pg_claim_row l c i (k_db k) = (Inr raw, d) \<Longrightarrow>
    claims_step l k (k\<lparr>k_db := d, k_open := release n (k_open k), k_taken := k_taken k @ [xr_ID raw]\<rparr>)"
| rollback: "claims_step l k (k\<lparr>k_open := release n (k_open k)\<rparr>)"
| create: "canonical l (ex_ID e) \<Longrightarrow> ex_Status e = ''pending'' \<Longrightarrow>
    pg_CreateExecution l c e (k_db k) = (r, d) \<Longrightarrow> claims_step l k (k\<lparr>k_db := d\<rparr>)"
| finish: "i \<notin> set (k_locked k) \<Longrightarrow> status \<in> {''succeeded'', ''failed''} \<Longrightarrow>
    pg_UpdateExecutionWithResult l c i status u out (k_db k) = (r, d) \<Longrightarrow>
    claims_step l k (k\<lparr>k_db := d\<rparr>)"

inductive claims_reach :: "lib \<Rightarrow> claims_state \<Rightarrow> claims_state \<Rightarrow> bool" for l k0 where
  start: "claims_reach l k0 k0"
| step: "claims_reach l k0 k \<Longrightarrow> claims_step l k k' \<Longrightarrow> claims_reach l k0 k'"

definition claims_inv :: "lib \<Rightarrow> claims_state \<Rightarrow> bool" where
  "claims_inv l k \<longleftrightarrow>
    good_db l (k_db k) \<and> distinct (map fst (k_open k)) \<and> distinct (k_locked k) \<and>
    (\<forall>i \<in> set (k_locked k). statuses (k_db k) i = Some ''pending'') \<and>
    distinct (k_taken k) \<and> (\<forall>i \<in> set (k_taken k). statuses (k_db k) i \<notin> {None, Some ''pending''})"

lemma release_simps [simp]:
  "release n [] = []"
  "release n (x # xs) = (if fst x = n then release n xs else x # release n xs)"
  by (simp_all add: release_def split: prod.splits)

lemma release_snd: "i \<in> set (map snd (release n xs)) \<Longrightarrow> i \<in> set (map snd xs)"
  by (induction xs) (auto split: if_splits)

lemma release_fst: "i \<in> set (map fst (release n xs)) \<Longrightarrow> i \<in> set (map fst xs)"
  by (induction xs) (auto split: if_splits)

lemma distinct_release:
  "distinct (map fst xs) \<Longrightarrow> distinct (map fst (release n xs))"
  "distinct (map snd xs) \<Longrightarrow> distinct (map snd (release n xs))"
proof (induction xs)
  case (Cons x xs)
  {
    case 1
    with Cons.IH(1) release_fst [of "fst x" n xs] show ?case by auto
  next
    case 2
    with Cons.IH(2) release_snd [of "snd x" n xs] show ?case by auto
  }
qed simp_all

lemma release_gone:
  assumes "distinct (map fst xs)" "distinct (map snd xs)" "(n, i) \<in> set xs"
  shows "i \<notin> set (map snd (release n xs))"
  using assms
proof (induction xs)
  case (Cons x xs)
  show ?case
  proof (cases "x = (n, i)")
    case True
    with Cons.prems release_snd [of i n xs] show ?thesis by auto
  next
    case False
    with Cons.prems have "(n, i) \<in> set xs" by auto
    moreover from this have "i \<in> snd ` set xs" by force
    then have "snd x \<noteq> i" using Cons.prems(2) by auto
    ultimately show ?thesis using Cons by auto
  qed
qed simp

lemma pg_claim_row_effect:
  assumes "good_db l d" "statuses d i = Some ''pending''" "pg_claim_row l c i d = (Inr raw, d')"
  shows "good_db l d' \<and> xr_ID raw = i \<and> statuses d' = set_status i ''running'' (statuses d)"
proof -
  let ?f = "\<lambda>r. r\<lparr>xr_Status := ''running'', xr_UpdatedAt := pg_time l (c_now c)\<rparr>"
  from assms(3) have d': "d' = d\<lparr>db_executions := map (\<lambda>r. if xr_ID r = i then ?f r else r) (db_executions d)\<rparr>"
    and s: "select_execution i d' = Some raw"
    by (auto simp: pg_claim_row_def run_simps stmt_def update_execution_def
        split: option.splits prod.splits sum.splits)
  note u = claim_update [OF assms(1,2) _ _ d', simplified]
  show ?thesis using u(1,2) u(3) [OF s] by simp
qed

lemma claims_inv_step:
  assumes "claims_step l k k'" "claims_inv l k"
  shows "claims_inv l k'"
  using assms(1)
proof cases
  case (select n c i d)
  note o = query_row_Inr [OF select(3)]
  have "statuses (k_db k) i = Some ''pending'' \<and> i \<notin> set (k_locked k)"
    using oldest_status(2) [of l "k_db k" "k_locked k" i] o assms(2) by (simp add: claims_inv_def)
  with select assms(2) show ?thesis by (auto simp: claims_inv_def k_locked_def)
next
  case (commit n i c raw d)
  then have p: "statuses (k_db k) i = Some ''pending''"
    using assms(2) by (force simp: claims_inv_def k_locked_def)
  have g: "good_db l (k_db k)" using assms(2) by (simp add: claims_inv_def)
  note e = pg_claim_row_effect [OF g p commit(3)]
  have "i \<notin> set (map snd (release n (k_open k)))"
    using release_gone [of "k_open k" n i] commit(2) assms(2) by (simp add: claims_inv_def k_locked_def)
  moreover have "j \<in> set (map snd (release n (k_open k))) \<Longrightarrow> statuses (k_db k) j = Some ''pending''" for j
    using release_snd [of j n "k_open k"] assms(2) by (auto simp: claims_inv_def k_locked_def)
  moreover have "xr_ID raw \<notin> set (k_taken k)" using e p assms(2) by (auto simp: claims_inv_def)
  ultimately show ?thesis
    using e commit(1) assms(2) distinct_release [of "k_open k" n]
    unfolding claims_inv_def k_locked_def by (auto simp: set_status_def simp del: set_map)
next
  case (rollback n)
  have "j \<in> set (map snd (release n (k_open k))) \<Longrightarrow> statuses (k_db k) j = Some ''pending''" for j
    using release_snd [of j n "k_open k"] assms(2) by (auto simp: claims_inv_def k_locked_def)
  with rollback assms(2) distinct_release [of "k_open k" n] show ?thesis
    unfolding claims_inv_def k_locked_def by (auto simp del: set_map)
next
  case (create e c r d)
  have g: "good_db l (k_db k)" using assms(2) by (simp add: claims_inv_def)
  have "good_db l d \<and> (statuses d = statuses (k_db k) \<or> (statuses (k_db k) (ex_ID e) = None \<and>
      statuses d = set_status (ex_ID e) ''pending'' (statuses (k_db k))))"
    using create_effect [OF g _ create(4) [unfolded pg_CreateExecution_def]] create(2,3)
    by (auto simp: pg.row_ID pg.row_Status split: sum.splits)
  with create(1) assms(2) show ?thesis
    by (auto simp: claims_inv_def k_locked_def set_status_def split: if_splits)
next
  case (finish i status c u out r d)
  have g: "good_db l (k_db k)" using assms(2) by (simp add: claims_inv_def)
  have "good_db l d \<and> (statuses d = statuses (k_db k) \<or>
      (statuses (k_db k) i \<noteq> None \<and> statuses d = set_status i status (statuses (k_db k))))"
    using update_effect [OF g finish(4) [unfolded pg_UpdateExecutionWithResult_def]
        pg_update_body [OF g, of c i status u out]] by (simp split: sum.splits)
  with finish(1-3) assms(2) show ?thesis
    by (auto simp: claims_inv_def set_status_def split: if_splits)
qed

lemma claims_inv_reach: "claims_reach l k0 k \<Longrightarrow> claims_inv l k0 \<Longrightarrow> claims_inv l k"
  by (induction rule: claims_reach.induct) (auto intro: claims_inv_step)

text \<open>
  C8. On Postgres, concurrent claims never take the same execution: however the selects, updates,
  commits and rollbacks of any number of claims, new executions and final updates interleave, the
  executions held by the open claims are distinct and still pending, and every execution a claim
  has committed was committed by one claim only and is no longer pending, so no later select can
  return it.
\<close>
theorem concurrent_claims_are_disjoint:
  assumes "claims_reach l \<lparr>k_db = d, k_open = [], k_taken = []\<rparr> k" "good_db l d"
  shows "distinct (k_taken k @ k_locked k) \<and>
    (\<forall>i \<in> set (k_locked k). statuses (k_db k) i = Some ''pending'') \<and>
    (\<forall>i \<in> set (k_taken k). statuses (k_db k) i \<notin> {None, Some ''pending''})"
proof -
  have "claims_inv l \<lparr>k_db = d, k_open = [], k_taken = []\<rparr>"
    using assms(2) by (simp add: claims_inv_def k_locked_def)
  from claims_inv_reach [OF assms(1) this] show ?thesis by (auto simp: claims_inv_def)
qed

end
