(* ===== verification/Worker_Claims.thy ===== *)
theory Worker_Claims
  imports Worker_Live Store_Claims Pg_Concurrency
begin

text \<open>
  The properties of the worker pool over the two stores, from the invariants proved once over the
  contract of a store, and the report of one run.
\<close>

section \<open>At most once\<close>

definition exclusive :: "('t db, 'p) pool \<Rightarrow> bool" where
  "exclusive p \<longleftrightarrow>
    distinct (p_claimed p) \<and>
    (\<forall>k k' i. works_on p k i \<and> works_on p k' i \<longrightarrow> k = k') \<and>
    (\<forall>k i. works_on p k i \<longrightarrow> statuses (p_db p) i = Some ''running'' \<and> i \<in> set (p_claimed p))"

text \<open>
  C4. An execution is run at most once. Whatever the interleaving of API inserts, claims, runs,
  final updates, faults of the store, notifications and cancellation, and for any number of workers
  started on a store with unique canonical ids, SQLite or Postgres: no id is claimed twice, no two
  workers process the same execution, and an execution being processed is stored as running.
\<close>
theorem executions_run_at_most_once:
  assumes "pool_reach (sqlite_stores l) (canonical l) scopes pc (Start cfg d w) p" "good_db l d"
    and "pool_reach (pg_stores l) (canonical l) scopes pc (Start cfg d' w) q" "good_db l d'"
  shows "exclusive p \<and> exclusive q"
  using sqlite_store.pool_inv_reach [OF assms(1) sqlite_store.pool_inv_Start [OF assms(2)]]
    pg_store.pool_inv_reach [OF assms(3) pg_store.pool_inv_Start [OF assms(4)]]
  unfolding exclusive_def sqlite_store.pool_inv_def pg_store.pool_inv_def by blast

definition demo_cfg :: pool_config where
  "demo_cfg = New_pool 2 0"

definition demo_codec :: params_codec where
  "demo_codec = \<lparr>pc_marshal = (\<lambda>_. Inr []), pc_unmarshal = (\<lambda>_. Inr [])\<rparr>"

lemma demo_good: "good_db demo_lib demo_sqlite" "good_db demo_lib demo_pg"
  by (simp_all add: good_db_def demo_sqlite_def demo_pg_def demo_store_simps canonical_def
      sqlite_execution_row_def pg_execution_row_def)

lemma demo_claim: "\<exists>s'. pg_ClaimNextExecution demo_lib demo_call demo_pg =
    (Inr (claimed 9000 (demo_execution ''a'' 2000)), s')"
proof -
  have "pg_norm demo_lib 9000 = 9000"
    by (simp add: pg_norm_def pg_time_def pg_scan_time_def demo_lib_def)
  with pg_claim_sim [OF demo_pg_represents demo_fault_free(1)] show ?thesis
    by (auto simp: spec_claim_def demo_oldest demo_fault_free)
qed

lemma at_most_once_witness:
  "\<exists>q :: (pg_db, unit) pool. p_claimed q = [''a''] \<and> works_on q 1 ''a'' \<and> exclusive q"
proof -
  obtain s' where c: "st_ClaimNextExecution (PostgresStore demo_lib demo_call) demo_pg =
      (Inr (claimed 9000 (demo_execution ''a'' 2000)), s')"
    using demo_claim by (auto simp: PostgresStore_def)
  let ?p = "Start demo_cfg demo_pg demo_world"
  let ?q = "at_worker 1 (Processing (claimed 9000 (demo_execution ''a'' 2000)))
    (?p\<lparr>p_db := s', p_claimed := [''a'']\<rparr>)"
  have "pool_step (pg_stores demo_lib) (canonical demo_lib) [] demo_codec ?p
      (at_worker 1 (after_claim (p_cancelled ?p) (Inr (claimed 9000 (demo_execution ''a'' 2000))))
        (?p\<lparr>p_db := s', p_claimed := p_claimed ?p @ [ex_ID (claimed 9000 (demo_execution ''a'' 2000))]\<rparr>))"
    using pool_step.claim [of 1 ?p "PostgresStore demo_lib demo_call" "pg_stores demo_lib" _ s'] c
    by (force simp: Start_def demo_cfg_def New_pool_def pg_stores_def)
  then have "pool_step (pg_stores demo_lib) (canonical demo_lib) [] demo_codec ?p ?q"
    by (simp add: after_claim_def Start_def claimed_def demo_execution_def ExecutionFromRequest_def)
  then have r: "pool_reach (pg_stores demo_lib) (canonical demo_lib) [] demo_codec ?p ?q"
    by (rule pool_reach.step [OF pool_reach.start])
  have "exclusive ?q"
    using executions_run_at_most_once [OF pool_reach.start demo_good(1) r demo_good(2)] by blast
  moreover have "works_on ?q 1 ''a''"
    by (simp add: works_on_at_worker Start_def demo_cfg_def New_pool_def claimed_def demo_execution_def
        ExecutionFromRequest_def)
  ultimately show ?thesis by (intro exI [of _ ?q]) simp
qed

section \<open>The life of an execution\<close>

text \<open>
  Every step of the pool, from any reachable state: a status changes only from absent to pending,
  from pending to running, or from running to succeeded or failed, and the last only while a worker
  processes that execution.
\<close>

definition follows_lifecycle :: "(uuid \<Rightarrow> string option) \<Rightarrow> (uuid \<Rightarrow> string option) \<Rightarrow> (uuid \<Rightarrow> bool) \<Rightarrow> bool" where
  "follows_lifecycle v v' busy \<longleftrightarrow>
    (\<forall>i. v' i = v i \<or> status_move (v i) (v' i) \<and> (v i = Some ''running'' \<longrightarrow> busy i))"



text \<open>The runner does not look at the flags \<open>dry_run\<close> and \<open>force\<close>: a dry run makes the changes.\<close>

lemma dry_runs_are_run: "Run scopes pc (e\<lparr>ex_DryRun := dry, ex_Force := force\<rparr>) w = Run scopes pc e w"
proof -
  have same: "runner_request (e\<lparr>ex_DryRun := dry, ex_Force := force\<rparr>) = runner_request e"
    "ex_Params (e\<lparr>ex_DryRun := dry, ex_Force := force\<rparr>) = ex_Params e"
    by (simp_all add: fun_eq_iff runner_request_def)
  show ?thesis unfolding Run_def same by simp
qed

text \<open>
  The other side of it: an execution left running by a process that ended (a panic, a kill, an
  update that failed) stays running, for the claim only looks at pending executions and nothing
  else puts it back.
\<close>

lemma abandoned_executions_stay_running:
  assumes "pool_reach (sqlite_stores l) (canonical l) scopes pc (Start cfg d w) p" "good_db l d"
    and "statuses d i = Some ''running''"
  shows "statuses (p_db p) i = Some ''running'' \<and> i \<notin> set (p_claimed p)"
proof -
  have v: "statuses (p_db (Start cfg d w)) i = Some ''running''" using assms(3) by (simp add: Start_def)
  have "\<forall>k. \<not> works_on (Start cfg d w) k i" by simp
  note o = sqlite_store.orphan_stays [OF _ sqlite_store.pool_inv_Start [OF assms(2)] v this]
  have "i \<notin> set (p_claimed p)"
    using assms(1)
  proof (induction rule: pool_reach.induct)
    case (step p p')
    have inv: "sqlite_store.pool_inv l p"
      by (rule sqlite_store.pool_inv_reach [OF step(1) sqlite_store.pool_inv_Start [OF assms(2)]])
    from step(2) show ?case
    proof cases
      case (claim j st r s')
      with sqlite_store.claim_move [OF claim(4) _ claim(5)] inv o [OF step(1)] step(3) show ?thesis
        by (auto simp: sqlite_store.pool_inv_def split: sum.splits)
    qed (use step(3) in \<open>auto simp: Notify_def\<close>)
  qed (simp add: Start_def)
  with o [OF assms(1)] show ?thesis by simp
qed

section \<open>The queue is drained\<close>

text \<open>
  C11. The worker loop makes progress: on a store that works (no statement fails, rows decode) and
  with actions that do not panic, the loop comes to wait after at most as many runs as there are
  pending executions, none of them is left pending, and it has run each of them exactly once.
\<close>
theorem worker_drains_the_queue:
  assumes "never_panics scopes pc"
    and "\<And>k. st k \<in> sqlite_healthy l" "\<And>k. printable (t k)" "sqlite_sound l d"
    and "\<And>k. st' k \<in> pg_healthy l" "pg_sound l d'"
  shows "(\<exists>is s' w'. work st t scopes pc False (Suc (card (pending statuses d))) d w =
      Some (Waiting, is, s', w') \<and>
      pending statuses s' = {} \<and> set is = pending statuses d \<and> distinct is) \<and>
    (\<exists>is s' w'. work st' t scopes pc False (Suc (card (pending statuses d'))) d' w =
      Some (Waiting, is, s', w') \<and>
      pending statuses s' = {} \<and> set is = pending statuses d' \<and> distinct is)"
proof
  show "\<exists>is s' w'. work st t scopes pc False (Suc (card (pending statuses d))) d w =
      Some (Waiting, is, s', w') \<and>
      pending statuses s' = {} \<and> set is = pending statuses d \<and> distinct is"
    by (rule sqlite_live.work_drains) (use assms in auto)
  show "\<exists>is s' w'. work st' t scopes pc False (Suc (card (pending statuses d'))) d' w =
      Some (Waiting, is, s', w') \<and>
      pending statuses s' = {} \<and> set is = pending statuses d' \<and> distinct is"
    by (rule pg_live.work_drains) (use assms in auto)
qed

lemma no_scope_never_panics: "never_panics [] pc"
  unfolding never_panics_def
  by (auto simp: Run_def Execute_def Let_def scopeFor_def resolveAction_def decodeParams_def
      split: option.splits sum.splits)

lemma drains_witness:
  "\<exists>is s' w'. work (\<lambda>_. PostgresStore demo_lib demo_call) (\<lambda>_. 9000) [] demo_codec False
      (Suc (card (pending statuses demo_pg))) demo_pg demo_world = Some (Waiting, is, s', w') \<and>
    pending statuses s' = {} \<and> set is = pending statuses demo_pg \<and> distinct is"
proof -
  have h: "SQLiteStore demo_lib demo_call \<in> sqlite_healthy demo_lib"
    "PostgresStore demo_lib demo_call \<in> pg_healthy demo_lib"
    using demo_fault_free demo_printable by (auto simp: sqlite_healthy_def pg_healthy_def demo_call_def)
  have "decodable (sqlite_execution_toModel demo_lib) demo_sqlite"
    using demo_sqlite_represents sqlite_roundtrip
    by (auto simp: decodable_def sqlite.represents_def)
  then have s: "sqlite_sound demo_lib demo_sqlite" "pg_sound demo_lib demo_pg"
    using demo_good by (simp_all add: sqlite_sound_def pg_sound_def)
  show ?thesis
    using worker_drains_the_queue [where t = "\<lambda>_. 9000" and st = "\<lambda>_. SQLiteStore demo_lib demo_call"
      and st' = "\<lambda>_. PostgresStore demo_lib demo_call" and scopes = "[]" and pc = demo_codec
      and w = demo_world, OF no_scope_never_panics h(1) demo_printable(3) s(1) h(2) s(2)]
    by blast
qed

section \<open>One run\<close>


text \<open>The witness of the concurrent claims: two claims open at once hold different executions.\<close>

lemma concurrent_claims_witness:
  "\<exists>k. distinct (k_locked k) \<and> k_locked k = [''b'', ''a'']"
proof -
  let ?k0 = "\<lparr>k_db = demo_pg, k_open = [], k_taken = []\<rparr>"
  let ?k1 = "\<lparr>k_db = demo_pg, k_open = [(1, ''a'')], k_taken = []\<rparr>"
  let ?k2 = "\<lparr>k_db = demo_pg, k_open = [(2, ''b''), (1, ''a'')], k_taken = []\<rparr>"
  have o: "oldest_unlocked_pending [] demo_pg = Some ''a''"
    "oldest_unlocked_pending [''a''] demo_pg = Some ''b''"
    by (simp_all add: oldest_unlocked_pending_def demo_pg_def demo_store_simps pg_execution_row_def
        pg_time_def asc_by_def page_def)
  have q: "query_row demo_call S_SelectId m f d = (Inr i, d)" if "f d = Some i" for m f i and d :: pg_db
    using that by (simp add: query_row_def run_simps demo_fault_free)
  have "claims_step demo_lib ?k0 (?k0\<lparr>k_open := (1, ''a'') # k_open ?k0\<rparr>)"
    by (rule claims_step.select [OF _ q]) (simp_all add: k_locked_def o)
  moreover have "claims_step demo_lib ?k1 (?k1\<lparr>k_open := (2, ''b'') # k_open ?k1\<rparr>)"
    by (rule claims_step.select [OF _ q]) (simp_all add: k_locked_def o)
  ultimately have s: "claims_step demo_lib ?k0 ?k1" "claims_step demo_lib ?k1 ?k2"
    by simp_all
  have "claims_reach demo_lib ?k0 ?k2"
    by (rule claims_reach.step [OF claims_reach.step [OF claims_reach.start s(1)] s(2)])
  from concurrent_claims_are_disjoint [OF this demo_good(2)]
  show ?thesis by (intro exI [of _ ?k2]) (simp add: k_locked_def)
qed

end
