(* ===== verification/Http.thy ===== *)
theory Http
  imports Store Catalog
begin

text \<open>
  What the server's packages share about a request: the paths of \<open>path.Clean\<close>, \<open>Dir\<close> and \<open>Join\<close>, the
  request with the values its context carries, the responses, and the state a handler acts on.  A
  handler answers or panics; a middleware maps handlers to handlers.
\<close>

section \<open>Slash separated paths\<close>

text \<open>\<open>path.Clean\<close> keeps the elements of the result so far on a stack.\<close>

fun clean_elements :: "bool \<Rightarrow> string list \<Rightarrow> string list \<Rightarrow> string list" where
  "clean_elements rooted st [] = rev st"
| "clean_elements rooted st (e # es) =
    (if e = [] \<or> e = ''.'' then clean_elements rooted st es
     else if e = ''..''
     then (case st of
             [] \<Rightarrow> clean_elements rooted (if rooted then [] else [e]) es
           | x # xs \<Rightarrow> clean_elements rooted (if x = ''..'' then e # st else xs) es)
     else clean_elements rooted (e # st) es)"

definition path_Clean :: "string \<Rightarrow> string" where
  "path_Clean p =
    (let rooted = HasPrefix p ''/''; es = clean_elements rooted [] (Split (CHR ''/'') p)
     in if rooted then ''/'' @ Join es ''/'' else if es = [] then ''.'' else Join es ''/'')"

definition path_Dir :: "string \<Rightarrow> string" where
  "path_Dir p = path_Clean (rev (dropWhile (\<lambda>c. c \<noteq> CHR ''/'') (rev p)))"

definition path_Join :: "string list \<Rightarrow> string" where
  "path_Join es =
    (case dropWhile (\<lambda>e. e = []) es of [] \<Rightarrow> [] | ds \<Rightarrow> path_Clean (Join ds ''/''))"

section \<open>Requests\<close>

record caller_identity =
  ci_Username :: string
  ci_Email :: string
  ci_ClientID :: string

text \<open>The claims of a verified token: a map, or another claims type.\<close>

datatype token_claims = MapClaims object | OtherClaims

text \<open>
  \<open>hq_Token\<close> is what the OCM SDK's handler left in the context; \<open>hq_Body\<close> what decoding the body
  gives.  The \<open>cx_\<close> fields are the values the middlewares put into the context; \<open>cx_Audit\<close> says
  that the context has an audit context, whose fields are in the state.
\<close>

record request =
  hq_Method :: string
  hq_Path :: string
  hq_RequestID :: string
  hq_Token :: "token_claims option result"
  hq_Body :: "execution_request result"
  cx_RequestID :: "string option"
  cx_Identity :: "caller_identity option"
  cx_Role :: "string option"
  cx_Audit :: bool

record audit_context =
  ac_ExecutionID :: string
  ac_Jira :: string
  ac_ApprovalState :: string
  ac_TargetCluster :: string

section \<open>Responses\<close>

record api_execution_list =
  xs_Items :: "api_execution list"
  xs_Total :: int
  xs_Page :: int
  xs_Limit :: int
  xs_HasMore :: bool

record api_audit_list =
  us_Items :: "api_audit_entry list"
  us_Total :: int
  us_Page :: int
  us_Limit :: int
  us_HasMore :: bool

datatype body =
    TextBody string
  | ErrorBody string string
  | CatalogBody int "action_summary list"
  | DetailBody action_detail
  | ExecutionBody api_execution
  | ExecutionsBody api_execution_list
  | OutputBody api_output
  | AuditsBody api_audit_list

record response =
  rs_Status :: int
  rs_RequestID :: "string option"
  rs_Body :: body

definition respond :: "int \<Rightarrow> body \<Rightarrow> response" where
  "respond status b = \<lparr>rs_Status = status, rs_RequestID = None, rs_Body = b\<rparr>"

definition api_error :: "int \<Rightarrow> string \<Rightarrow> response" where
  "api_error status msg = respond status (ErrorBody (sprintf ''HTTP_%d'' [show_int status]) msg)"

lemma respond_simps [simp]:
  "rs_Status (respond n b) = n" "rs_Body (respond n b) = b" "rs_Status (api_error n m) = n"
  "rs_Body (api_error n m) = ErrorBody (''HTTP_'' @ show_int n) m"
  by (simp_all add: respond_def api_error_def)

section \<open>Handlers\<close>

text \<open>
  The state: the store, the service that answers access reviews, whether the worker pool was
  notified, and what belongs to the request being served, which middlewares and handlers share by
  pointer: chi's route context (its \<open>action\<close> parameter, empty until the route is found) and the
  audit context.
\<close>

record ('s, 'w) serving =
  sv_db :: 's
  sv_reviews :: 'w
  sv_notified :: bool
  sv_action :: string
  sv_audit :: audit_context

datatype served = Responds response | Crashes string

type_synonym ('s, 'w) handler = "request \<Rightarrow> ('s, 'w) serving \<Rightarrow> served \<times> ('s, 'w) serving"

definition answer :: "response \<Rightarrow> ('s, 'w) serving \<Rightarrow> served \<times> ('s, 'w) serving" where
  "answer rs s = (Responds rs, s)"

lemma answer_simp [simp]: "answer rs s = (Responds rs, s)"
  by (simp add: answer_def)

definition on_db :: "('s, 'a) act \<Rightarrow> ('s, 'w) serving \<Rightarrow> 'a result \<times> ('s, 'w) serving" where
  "on_db m s = (case m (sv_db s) of (r, d) \<Rightarrow> (r, s\<lparr>sv_db := d\<rparr>))"

end
