(* ===== verification/Auth.thy ===== *)
theory Auth
  imports Http Ocm
begin

text \<open>
  \<open>internal/auth\<close>: the caller's identity from the verified token (\<open>context.go\<close>, \<open>authn.go\<close>), the role
  from the access reviews (\<open>authz.go\<close>), the check of an action's allowed roles, and the two mocks used
  when authentication is disabled.  \<open>ocm.Authorization\<close> is the argument \<open>review\<close>.
\<close>

section \<open>Identity\<close>

definition GetCallerIdentityFromJWT :: "request \<Rightarrow> caller_identity result" where
  "GetCallerIdentityFromJWT r =
    (case hq_Token r of
       Inl e \<Rightarrow> Inl (Errf ''unable to retrieve JWT token from request context: %v'' [err_text e])
     | Inr None \<Rightarrow> Inl (Errf ''JWT token in context is nil, unauthorized'' [])
     | Inr (Some OtherClaims) \<Rightarrow> Inl (Errf ''unable to parse JWT token claims'' [])
     | Inr (Some (MapClaims claims)) \<Rightarrow>
       (let username = str_or_empty (jget claims ''username'');
            email = str_or_empty (jget claims ''email'');
            clientID = str_or_empty (jget claims ''clientId'');
            username = (if username = [] then str_or_empty (jget claims ''preferred_username'') else username)
        in Inr \<lparr>ci_Username = username, ci_Email = email, ci_ClientID = clientID\<rparr>))"

definition SetCallerIdentityContext :: "caller_identity \<Rightarrow> request \<Rightarrow> request" where
  "SetCallerIdentityContext i r = r\<lparr>cx_Identity := Some i\<rparr>"

definition SetRoleInContext :: "string \<Rightarrow> request \<Rightarrow> request" where
  "SetRoleInContext role r = r\<lparr>cx_Role := Some role\<rparr>"

definition GetRoleFromContext :: "request \<Rightarrow> string" where
  "GetRoleFromContext r = (case cx_Role r of None \<Rightarrow> [] | Some role \<Rightarrow> role)"

definition AuthenticateAccountJWT :: "('s, 'w) handler \<Rightarrow> ('s, 'w) handler" where
  "AuthenticateAccountJWT next r =
    (case GetCallerIdentityFromJWT r of
       Inl e \<Rightarrow> answer (api_error 401 ''Authentication required.'')
     | Inr i \<Rightarrow>
       if ci_Username i = [] then answer (api_error 401 ''Authentication required.'')
       else next (SetCallerIdentityContext i r))"

definition mock_AuthenticateAccountJWT :: "('s, 'w) handler \<Rightarrow> ('s, 'w) handler" where
  "mock_AuthenticateAccountJWT next r =
    next (SetCallerIdentityContext
      \<lparr>ci_Username = ''dev-user'', ci_Email = ''dev-user@redhat.com'', ci_ClientID = []\<rparr> r)"

section \<open>Role\<close>

record role_mapping =
  rm_ID :: string
  rm_AMSResource :: string

type_synonym 'w access_review = "string \<Rightarrow> string \<Rightarrow> string \<Rightarrow> ('w, bool) act"

text \<open>The loop over the roles: the first allowed one, and whether a review failed before it.\<close>

fun resolve_role :: "'w access_review \<Rightarrow> string \<Rightarrow> role_mapping list \<Rightarrow> bool \<Rightarrow> 'w \<Rightarrow> (string option \<times> bool) \<times> 'w"
where
  "resolve_role review username [] hadErr w = ((None, hadErr), w)"
| "resolve_role review username (role # roles) hadErr w =
    (case review username ''get'' (rm_AMSResource role) w of
       (Inl e, w') \<Rightarrow> resolve_role review username roles True w'
     | (Inr allowed, w') \<Rightarrow>
       if allowed then ((Some (rm_ID role), hadErr), w')
       else resolve_role review username roles hadErr w')"

definition AuthorizeAPI ::
  "role_mapping list \<Rightarrow> 'w access_review \<Rightarrow> ('s, 'w) handler \<Rightarrow> ('s, 'w) handler"
where
  "AuthorizeAPI roles review next r s =
    (case cx_Identity r of
       None \<Rightarrow> answer (api_error 401 ''Authentication required.'') s
     | Some i \<Rightarrow>
       if ci_Username i = [] then answer (api_error 401 ''Authentication required.'') s
       else (case resolve_role review (ci_Username i) roles False (sv_reviews s) of
               ((Some role, _), w) \<Rightarrow> next (SetRoleInContext role r) (s\<lparr>sv_reviews := w\<rparr>)
             | ((None, hadErr), w) \<Rightarrow>
               if hadErr then answer (api_error 500 ''Authorization check failed'') (s\<lparr>sv_reviews := w\<rparr>)
               else answer (api_error 403 ''Access denied.'') (s\<lparr>sv_reviews := w\<rparr>)))"

definition mock_AuthorizeAPI :: "('s, 'w) handler \<Rightarrow> ('s, 'w) handler" where
  "mock_AuthorizeAPI next r = next (SetRoleInContext ''SREP'' r)"

section \<open>Action\<close>

definition CheckActionAccess ::
  "(string \<Rightarrow> auth_action option) \<Rightarrow> ('s, 'w) handler \<Rightarrow> ('s, 'w) handler"
where
  "CheckActionAccess get_action next r s =
    (if sv_action s = [] then next r s
     else (case get_action (sv_action s) of
             None \<Rightarrow> answer (api_error 404 ''Unknown action'') s
           | Some a \<Rightarrow>
             let role = GetRoleFromContext r
             in if role = [] then answer (api_error 403 ''Access denied'') s
                else if role \<notin> set (aact_AllowedRoles a) then answer (api_error 403 ''Access denied'') s
                else next r s))"

section \<open>What passes\<close>

text \<open>A role is resolved only by a review that allowed it, in the order of the configuration.\<close>

definition granted_by ::
  "'w access_review \<Rightarrow> string \<Rightarrow> role_mapping list \<Rightarrow> string \<Rightarrow> bool"
where
  "granted_by review username roles role \<longleftrightarrow>
    (\<exists>m \<in> set roles. rm_ID m = role \<and> (\<exists>w0. fst (review username ''get'' (rm_AMSResource m) w0) = Inr True))"

lemma resolve_role_granted:
  "resolve_role review u roles h w = ((Some role, h'), w') \<Longrightarrow> granted_by review u roles role"
proof (induction roles arbitrary: h w)
  case (Cons m ms)
  obtain x w1 where rv: "review u ''get'' (rm_AMSResource m) w = (x, w1)" by fastforce
  show ?case
  proof (cases "x = Inr True")
    case True
    with rv Cons.prems show ?thesis
      by (auto simp: granted_by_def intro!: exI [of _ w])
  next
    case False
    with rv Cons.prems obtain h1 where "resolve_role review u ms h1 w1 = ((Some role, h'), w')"
      by (auto split: sum.splits if_splits)
    from Cons.IH [OF this] show ?thesis by (auto simp: granted_by_def)
  qed
qed simp

text \<open>A handler behind \<open>AuthorizeAPI\<close> runs only for a caller with a granted role.\<close>

lemma AuthorizeAPI_cases:
  obtains
    (refused) w code msg where "AuthorizeAPI roles review next r s = (Responds (api_error code msg), s\<lparr>sv_reviews := w\<rparr>)"
      "code \<in> {401, 403, 500}"
  | (granted) i role w where "cx_Identity r = Some i" "ci_Username i \<noteq> []"
      "granted_by review (ci_Username i) roles role"
      "AuthorizeAPI roles review next r s = next (SetRoleInContext role r) (s\<lparr>sv_reviews := w\<rparr>)"
proof (cases "cx_Identity r")
  case None
  then show ?thesis using refused [of 401 _ "sv_reviews s"] by (simp add: AuthorizeAPI_def)
next
  case (Some i)
  show ?thesis
  proof (cases "ci_Username i = []")
    case True
    with Some show ?thesis using refused [of 401 _ "sv_reviews s"] by (simp add: AuthorizeAPI_def)
  next
    case False
    obtain res h w where rr: "resolve_role review (ci_Username i) roles False (sv_reviews s) = ((res, h), w)"
      by (metis prod.exhaust)
    show ?thesis
    proof (cases res)
      case None
      with Some False rr show ?thesis
        using refused [of 500 _ w] refused [of 403 _ w] by (cases h) (simp_all add: AuthorizeAPI_def)
    next
      case (Some role)
      have "granted_by review (ci_Username i) roles role"
        using resolve_role_granted [OF rr [unfolded Some]] .
      moreover have "AuthorizeAPI roles review next r s = next (SetRoleInContext role r) (s\<lparr>sv_reviews := w\<rparr>)"
        using \<open>cx_Identity r = Some i\<close> False rr Some by (simp add: AuthorizeAPI_def)
      ultimately show ?thesis using granted \<open>cx_Identity r = Some i\<close> False by blast
    qed
  qed
qed

text \<open>
  The interface \<open>ActionCatalog\<close>: a lookup answers with the action of that name.
\<close>

locale action_catalog =
  fixes get_action :: "string \<Rightarrow> auth_action option"
  assumes named: "get_action n = Some a \<Longrightarrow> aact_Name a = n"
begin

lemma access_cases:
  "CheckActionAccess get_action next r s = next r s \<or>
   (\<exists>code msg. CheckActionAccess get_action next r s = answer (api_error code msg) s \<and> code \<in> {403, 404})"
  by (auto simp: CheckActionAccess_def Let_def split: option.splits)

lemma access_allowed:
  assumes "CheckActionAccess get_action next r s \<noteq> (Responds (api_error 403 ''Access denied''), s)"
    and "CheckActionAccess get_action next r s \<noteq> (Responds (api_error 404 ''Unknown action''), s)"
    and "sv_action s \<noteq> []"
  obtains a where "get_action (sv_action s) = Some a" "aact_Name a = sv_action s"
    "cx_Role r \<noteq> None" "the (cx_Role r) \<in> set (aact_AllowedRoles a)"
    "CheckActionAccess get_action next r s = next r s"
  using assms named
  by (auto simp: CheckActionAccess_def Let_def GetRoleFromContext_def split: option.splits if_splits)

end

interpretation catalog_roles: action_catalog "GetAction New_catalog"
  by unfold_locales (auto simp: GetAction_def Get_catalog [unfolded Get_def] split: option.splits)

end
