(* ===== verification/Middleware.thy ===== *)
theory Middleware
  imports Http
begin

text \<open>
  \<open>internal/middleware\<close>: the request id, the recovery of panics and the audit log of requests.  The
  request log is in \<open>Frontend\<close>.
\<close>

definition RequestID :: "string \<Rightarrow> ('s, 'w) handler \<Rightarrow> ('s, 'w) handler" where
  "RequestID generated next r s =
    (let reqID = (if hq_RequestID r = [] then generated else hq_RequestID r)
     in case next (r\<lparr>cx_RequestID := Some reqID\<rparr>) s of
          (Responds rs, s') \<Rightarrow> (Responds (rs\<lparr>rs_RequestID := Some reqID\<rparr>), s')
        | (Crashes m, s') \<Rightarrow> (Crashes m, s'))"

definition Recoverer :: "('s, 'w) handler \<Rightarrow> ('s, 'w) handler" where
  "Recoverer next r s =
    (case next r s of
       (Responds rs, s') \<Rightarrow> (Responds rs, s')
     | (Crashes m, s') \<Rightarrow> (Responds (respond 500 (TextBody (''Internal Server Error'' @ [newline]))), s'))"

section \<open>The audit log\<close>

definition no_audit :: audit_context where
  "no_audit = \<lparr>ac_ExecutionID = [], ac_Jira = [], ac_ApprovalState = [], ac_TargetCluster = []\<rparr>"

definition SetAuditContext :: "audit_context \<Rightarrow> request \<Rightarrow> ('s, 'w) serving \<Rightarrow> request \<times> ('s, 'w) serving" where
  "SetAuditContext ac r s = (r\<lparr>cx_Audit := True\<rparr>, s\<lparr>sv_audit := ac\<rparr>)"

definition GetAuditContext :: "request \<Rightarrow> ('s, 'w) serving \<Rightarrow> audit_context option" where
  "GetAuditContext r s = (if cx_Audit r then Some (sv_audit s) else None)"

definition unless_empty :: "string \<Rightarrow> string option" where
  "unless_empty v = (if v = [] then None else Some v)"

definition audit_entry_of ::
  "uuid \<Rightarrow> gotime \<Rightarrow> request \<Rightarrow> int \<Rightarrow> string \<Rightarrow> audit_context \<Rightarrow> audit_entry"
where
  "audit_entry_of new_id now r status action ac =
    \<lparr>ae_ID = new_id, ae_Timestamp = now, ae_Method = hq_Method r, ae_Path = hq_Path r,
     ae_Username = (case cx_Identity r of None \<Rightarrow> [] | Some i \<Rightarrow> ci_Username i),
     ae_StatusCode = status, ae_Action = unless_empty action,
     ae_ExecutionID = unless_empty (ac_ExecutionID ac), ae_Jira = unless_empty (ac_Jira ac),
     ae_ApprovalState = unless_empty (ac_ApprovalState ac),
     ae_TargetCluster = unless_empty (ac_TargetCluster ac)\<rparr>"

text \<open>
  The entry is written after the handler has answered, with what the handler left in the audit
  context; a panic passes it by, and an error of the store is only logged.
\<close>

definition NewAuditLogger ::
  "'s Store \<Rightarrow> uuid \<Rightarrow> gotime \<Rightarrow> ('s, 'w) handler \<Rightarrow> ('s, 'w) handler"
where
  "NewAuditLogger st new_id now next r s =
    (case SetAuditContext no_audit r s of
       (r, s) \<Rightarrow>
       (case next r s of
          (Crashes m, s') \<Rightarrow> (Crashes m, s')
        | (Responds rs, s') \<Rightarrow>
          (case on_db (st_CreateAuditEntry st
                  (audit_entry_of new_id now r (rs_Status rs) (sv_action s') (sv_audit s'))) s' of
             (_, s'') \<Rightarrow> (Responds rs, s''))))"

end
