(* ===== verification/Handlers.thy ===== *)
theory Handlers
  imports Auth Middleware Duration "HOL-Library.Signed_Division"
begin

text \<open>
  \<open>internal/handlers/api.go\<close>: the operations of the API over any store.  Decoding and encoding JSON,
  the new id and the clock are arguments; Go's integers are 64 bits wide and its division
  truncates (\<open>sdiv\<close>).
\<close>

section \<open>The since parameter\<close>

definition Atoi :: "string \<Rightarrow> int result" where
  "Atoi s =
    (let (neg, ds) = (case s of [] \<Rightarrow> (False, [])
                      | c # r \<Rightarrow> if c = CHR ''-'' \<or> c = CHR ''+'' then (c = CHR ''-'', r) else (False, s));
         n = int (digits_val ds 0); v = (if neg then - n else n)
     in if ds = [] \<or> \<not> list_all is_digit ds then Inl (Errf ''strconv.Atoi: parsing %q: invalid syntax'' [s])
        else if v < - (2 ^ 63) \<or> 2 ^ 63 \<le> v then Inl (Errf ''strconv.Atoi: parsing %q: value out of range'' [s])
        else Inr v)"

definition since_multiplier :: "char \<Rightarrow> int option" where
  "since_multiplier u =
    (if u = CHR ''s'' then Some second
     else if u = CHR ''m'' then Some minute
     else if u = CHR ''h'' then Some hour
     else if u = CHR ''d'' then Some (24 * hour)
     else None)"

definition parseSince :: "gotime \<Rightarrow> string \<Rightarrow> gotime result" where
  "parseSince now since =
    (case ParseTime False since of
       Some t \<Rightarrow> Inr t
     | None \<Rightarrow>
       (let since = TrimSpace since
        in if length since < 2 then Inl (Errf ''invalid duration: %s'' [since])
           else (case Atoi (butlast since) of
                   Inl e \<Rightarrow> Inl (Errf ''invalid duration: %s'' [since])
                 | Inr num \<Rightarrow>
                   if num \<le> 0 then Inl (Errf ''duration must be positive: %s'' [since])
                   else (case since_multiplier (last since) of
                           None \<Rightarrow> Inl (Errf ''unknown duration unit: %c'' [[last since]])
                         | Some multiplier \<Rightarrow>
                           if num > (2 ^ 63 - 1) sdiv multiplier
                           then Inl (Errf ''duration too large: %s'' [since])
                           else Inr (now - num * multiplier)))))"

definition optional_since :: "gotime \<Rightarrow> string option \<Rightarrow> gotime option result" where
  "optional_since now p =
    (case p of
       None \<Rightarrow> Inr None
     | Some v \<Rightarrow> (case parseSince now v of Inl e \<Rightarrow> Inl e | Inr t \<Rightarrow> Inr (Some t)))"

section \<open>The page parameter\<close>

text \<open>
  The offset of a page, refused when it is below 1 or when the product could leave 31 bits; the
  division of that check panics for a limit of 0.
\<close>

datatype paging = PageAt int | PageRefused | PagePanics

definition page_offset :: "int \<Rightarrow> int option \<Rightarrow> paging" where
  "page_offset effectiveLimit p =
    (case p of
       None \<Rightarrow> PageAt 0
     | Some page \<Rightarrow>
       if page < 1 then PageRefused
       else if page > 1
       then (if effectiveLimit = 0 then PagePanics
             else if page - 1 > (2 ^ 31 - 1) sdiv effectiveLimit then PageRefused
             else PageAt ((page - 1) * effectiveLimit))
       else PageAt 0)"

section \<open>Operations\<close>

record 's api_handler =
  ah_catalog :: catalog
  ah_store :: "'s Store"
  ah_codec :: params_codec
  ah_new_id :: uuid
  ah_now :: gotime

definition NewAPIHandler :: "catalog \<Rightarrow> 's Store \<Rightarrow> params_codec \<Rightarrow> uuid \<Rightarrow> gotime \<Rightarrow> 's api_handler" where
  "NewAPIHandler c st pc new_id now =
    \<lparr>ah_catalog = c, ah_store = st, ah_codec = pc, ah_new_id = new_id, ah_now = now\<rparr>"

definition api_Catalog :: "'s api_handler \<Rightarrow> ('s, 'w) handler" where
  "api_Catalog h r =
    (let all = All (ah_catalog h)
     in answer (respond 200 (CatalogBody (int (length all)) (map ToOpenAPISummary all))))"

definition api_Describe :: "'s api_handler \<Rightarrow> string \<Rightarrow> ('s, 'w) handler" where
  "api_Describe h action r =
    (case Get (ah_catalog h) action of
       None \<Rightarrow> answer (api_error 404 ''Unknown action'')
     | Some d \<Rightarrow> answer (respond 200 (DetailBody (ToOpenAPIDetail d))))"

definition run_link :: "request \<Rightarrow> uuid \<Rightarrow> hal_link" where
  "run_link r i =
    \<lparr>hl_Href = path_Join [path_Dir (path_Dir (hq_Path r)), ''runs'', i], hl_Method = ''GET''\<rparr>"

definition fill_audit :: "execution \<Rightarrow> audit_context \<Rightarrow> audit_context" where
  "fill_audit e ac =
    ac\<lparr>ac_ExecutionID := ex_ID e, ac_TargetCluster := ex_TargetCluster e,
       ac_Jira := (case ex_Jira e of None \<Rightarrow> ac_Jira ac | Some j \<Rightarrow> j),
       ac_ApprovalState := (case ex_ApprovalState e of None \<Rightarrow> ac_ApprovalState ac | Some a \<Rightarrow> a)\<rparr>"

definition api_CreateExecution :: "'s api_handler \<Rightarrow> string \<Rightarrow> ('s, 'w) handler" where
  "api_CreateExecution h action r s =
    (case Get (ah_catalog h) action of
       None \<Rightarrow> answer (api_error 404 ''Unknown action'') s
     | Some _ \<Rightarrow>
       (case hq_Body r of
          Inl e \<Rightarrow> answer (api_error 400 ''Invalid request body'') s
        | Inr req \<Rightarrow>
          (let username = (case cx_Identity r of None \<Rightarrow> [] | Some i \<Rightarrow> ci_Username i);
               exec = ExecutionFromRequest (ah_codec h) (ah_new_id h) (ah_now h) action req username
           in case on_db (st_CreateExecution (ah_store h) exec) s of
                (Inl e, s') \<Rightarrow> answer (api_error 500 ''Failed to create execution'') s'
              | (Inr _, s') \<Rightarrow>
                (let s' = s'\<lparr>sv_notified := True\<rparr>;
                     s' = (case GetAuditContext r s' of
                             None \<Rightarrow> s'
                           | Some ac \<Rightarrow> s'\<lparr>sv_audit := fill_audit exec ac\<rparr>)
                 in answer (respond 202 (ExecutionBody ((exec_ToOpenAPI (ah_codec h) exec)
                      \<lparr>ox_Links := Some \<lparr>xl_Self = run_link r (ex_ID exec), xl_Output = None\<rparr>\<rparr>))) s'))))"

record audit_list_params =
  lu_Page :: "int option"
  lu_Limit :: "int option"
  lu_Action :: "string option"
  lu_Target :: "string option"
  lu_Operator :: "string option"
  lu_Method :: "string option"
  lu_ApprovalState :: "string option"
  lu_Since :: "string option"

definition api_ListAuditEntries :: "'s api_handler \<Rightarrow> audit_list_params \<Rightarrow> ('s, 'w) handler" where
  "api_ListAuditEntries h p r s =
    (let effectiveLimit = (case lu_Limit p of None \<Rightarrow> 50 | Some l \<Rightarrow> l)
     in case page_offset effectiveLimit (lu_Page p) of
          PagePanics \<Rightarrow> (Crashes ''runtime error: integer divide by zero'', s)
        | PageRefused \<Rightarrow> answer (api_error 400 ''Invalid page parameter'') s
        | PageAt offset \<Rightarrow>
          (case optional_since (ah_now h) (lu_Since p) of
             Inl e \<Rightarrow> answer (api_error 400 ''Invalid since parameter'') s
           | Inr since \<Rightarrow>
             (case on_db (st_ListAuditEntries (ah_store h)
                      \<lparr>af_Action = lu_Action p, af_Target = lu_Target p, af_Operator = lu_Operator p,
                       af_Method = lu_Method p, af_ApprovalState = lu_ApprovalState p, af_Since = since,
                       af_Limit = effectiveLimit, af_Offset = offset\<rparr>) s of
                (Inl e, s') \<Rightarrow> answer (api_error 500 ''Failed to list audit entries'') s'
              | (Inr result, s') \<Rightarrow>
                if al_Limit result = 0 then (Crashes ''runtime error: integer divide by zero'', s')
                else answer (respond 200 (AuditsBody
                   \<lparr>us_Items = map audit_ToOpenAPI (al_Items result), us_Total = al_Total result,
                    us_Page = al_Offset result sdiv al_Limit result + 1, us_Limit = al_Limit result,
                    us_HasMore = al_Offset result + int (length (al_Items result)) < al_Total result\<rparr>)) s')))"

record execution_list_params =
  lp_Page :: "int option"
  lp_Limit :: "int option"
  lp_Status :: "string option"
  lp_Action :: "string option"
  lp_Target :: "string option"
  lp_Operator :: "string option"
  lp_Scope :: "string option"
  lp_Type :: "string option"
  lp_ApprovalState :: "string option"
  lp_DryRun :: "string option"
  lp_Force :: "string option"
  lp_Since :: "string option"

definition api_ListExecutions :: "'s api_handler \<Rightarrow> execution_list_params \<Rightarrow> ('s, 'w) handler" where
  "api_ListExecutions h p r s =
    (let effectiveLimit = (case lp_Limit p of None \<Rightarrow> 20 | Some l \<Rightarrow> l)
     in case page_offset effectiveLimit (lp_Page p) of
          PagePanics \<Rightarrow> (Crashes ''runtime error: integer divide by zero'', s)
        | PageRefused \<Rightarrow> answer (api_error 400 ''Invalid page parameter'') s
        | PageAt offset \<Rightarrow>
          (case optional_since (ah_now h) (lp_Since p) of
             Inl e \<Rightarrow> answer (api_error 400 ''Invalid since parameter'') s
           | Inr since \<Rightarrow>
             (case on_db (st_ListExecutions (ah_store h)
                      \<lparr>ef_Status = lp_Status p, ef_Action = lp_Action p, ef_Target = lp_Target p,
                       ef_Operator = lp_Operator p, ef_Scope = lp_Scope p, ef_Type = lp_Type p,
                       ef_ApprovalState = lp_ApprovalState p,
                       ef_DryRun = map_option (\<lambda>v. v = ''true'') (lp_DryRun p),
                       ef_Force = map_option (\<lambda>v. v = ''true'') (lp_Force p), ef_Since = since,
                       ef_Limit = effectiveLimit, ef_Offset = offset\<rparr>) s of
                (Inl e, s') \<Rightarrow> answer (api_error 500 ''Failed to list executions'') s'
              | (Inr result, s') \<Rightarrow>
                if el_Limit result = 0 then (Crashes ''runtime error: integer divide by zero'', s')
                else answer (respond 200 (ExecutionsBody
                   \<lparr>xs_Items = map (exec_ToOpenAPI (ah_codec h)) (el_Items result), xs_Total = el_Total result,
                    xs_Page = el_Offset result sdiv el_Limit result + 1, xs_Limit = el_Limit result,
                    xs_HasMore = el_Offset result + int (length (el_Items result)) < el_Total result\<rparr>)) s')))"

definition get_link :: "string \<Rightarrow> hal_link" where
  "get_link href = \<lparr>hl_Href = href, hl_Method = ''GET''\<rparr>"

definition api_GetExecution :: "'s api_handler \<Rightarrow> uuid \<Rightarrow> ('s, 'w) handler" where
  "api_GetExecution h i r s =
    (case on_db (st_GetExecution (ah_store h) i) s of
       (Inl e, s') \<Rightarrow>
         if is_not_found e then answer (api_error 404 ''Execution not found'') s'
         else answer (api_error 500 ''Failed to get execution'') s'
     | (Inr exec, s') \<Rightarrow>
       (case on_db (st_GetExecutionOutput (ah_store h) i) s' of
          (out, s'') \<Rightarrow>
            answer (respond 200 (ExecutionBody ((exec_ToOpenAPI (ah_codec h) exec)
              \<lparr>ox_Links := Some
                 \<lparr>xl_Self = get_link (hq_Path r),
                  xl_Output =
                    (case out of
                       Inr _ \<Rightarrow> Some (get_link (path_Join [hq_Path r, ''output'']))
                     | Inl e \<Rightarrow> None)\<rparr>\<rparr>))) s''))"

definition api_GetExecutionOutput :: "'s api_handler \<Rightarrow> uuid \<Rightarrow> ('s, 'w) handler" where
  "api_GetExecutionOutput h i r s =
    (case on_db (st_GetExecutionOutput (ah_store h) i) s of
       (Inl e, s') \<Rightarrow>
         if is_not_found e then answer (api_error 404 ''Output not found'') s'
         else answer (api_error 500 ''Failed to get output'') s'
     | (Inr out, s') \<Rightarrow>
       answer (respond 200 (OutputBody ((output_ToOpenAPI out)
         \<lparr>oo_Links := Some \<lparr>ol_Self = get_link (hq_Path r), ol_Execution = get_link (path_Dir (hq_Path r))\<rparr>\<rparr>))) s')"

end
