(* ===== verification/Config.thy ===== *)
theory Config
  imports Authorization Duration Auth Handlers
begin

text \<open>
  \<open>internal/config\<close>: the configuration from the config file and the environment.  The environment is
  a function (an unset variable reads as the empty string); reading the file and unmarshalling YAML
  into the prefilled struct are arguments.
\<close>

datatype auth_policy = EnabledAuthPolicy | DisabledAuthPolicy | OcmConfigAuthPolicy

record config_file =
  cf_Concurrency :: int
  cf_PollInterval :: int
  cf_ExecutionTimeout :: int
  cf_AllowedNamespaces :: "string list"
  cf_AllowedSecrets :: "string list"
  cf_AWSAllowedRegions :: "string list"
  cf_AWSAllowedOperations :: "string list"
  cf_AWSEndpointURL :: string
  cf_AWSProxyURL :: string
  cf_AssumeInitialARN :: string
  cf_BackplaneProxyURL :: string
  cf_Roles :: "role_mapping list"

record config =
  cfg_ListenAddr :: string
  cfg_LogLevel :: string
  cfg_LogJSON :: bool
  cfg_AWSRegion :: string
  cfg_AWSAccessKeyID :: string
  cfg_AWSSecretAccessKey :: string
  cfg_AWSSessionToken :: string
  cfg_AWSEndpointURL :: string
  cfg_AWSProxyURL :: string
  cfg_S3Bucket :: string
  cfg_S3KeyPrefix :: string
  cfg_AllowedAccounts :: "string list"
  cfg_Roles :: "role_mapping list"
  cfg_JWKCertFile :: string
  cfg_JWKCertURL :: string
  cfg_OCMBaseURL :: string
  cfg_OCMClientID :: string
  cfg_OCMClientSecret :: string
  cfg_OCMToken :: string
  cfg_DatabaseURL :: string
  cfg_DBMaxOpenConns :: int
  cfg_DBMaxIdleConns :: int
  cfg_DBConnMaxLifetime :: int
  cfg_WorkerConcurrency :: int
  cfg_WorkerPollInterval :: int
  cfg_WorkerExecutionTimeout :: int
  cfg_BackplaneURL :: string
  cfg_BackplaneClientID :: string
  cfg_BackplaneClientSecret :: string
  cfg_BackplaneAssumeInitialARN :: string
  cfg_BackplaneProxyURL :: string
  cfg_Kubeconfig :: string
  cfg_AllowedNamespaces :: "string list"
  cfg_AllowedSecrets :: "string list"
  cfg_AWSAllowedRegions :: "string list"
  cfg_AWSAllowedOperations :: "string list"
  cfg_AuthPolicy :: auth_policy

type_synonym environment = "string \<Rightarrow> string"

section \<open>Variables\<close>

definition getEnv :: "environment \<Rightarrow> string \<Rightarrow> string \<Rightarrow> string" where
  "getEnv env key defaultValue = (if env key \<noteq> [] then env key else defaultValue)"

definition ParseBool :: "string \<Rightarrow> bool option" where
  "ParseBool s =
    (if s \<in> {''1'', ''t'', ''T'', ''TRUE'', ''true'', ''True''} then Some True
     else if s \<in> {''0'', ''f'', ''F'', ''FALSE'', ''false'', ''False''} then Some False
     else None)"

definition getBoolEnv :: "environment \<Rightarrow> string \<Rightarrow> bool \<Rightarrow> bool" where
  "getBoolEnv env key defaultValue =
    (if env key \<noteq> []
     then (case ParseBool (env key) of Some b \<Rightarrow> b | None \<Rightarrow> defaultValue)
     else defaultValue)"

definition getIntEnv :: "environment \<Rightarrow> string \<Rightarrow> int \<Rightarrow> int" where
  "getIntEnv env key defaultValue =
    (if env key \<noteq> []
     then (case Atoi (env key) of Inr v \<Rightarrow> v | Inl e \<Rightarrow> defaultValue)
     else defaultValue)"

definition getDurationEnv :: "environment \<Rightarrow> string \<Rightarrow> int \<Rightarrow> int" where
  "getDurationEnv env key defaultValue =
    (if env key \<noteq> []
     then (case ParseDuration (env key) of Inr v \<Rightarrow> v | Inl e \<Rightarrow> defaultValue)
     else defaultValue)"

definition getPositiveIntEnv :: "environment \<Rightarrow> string \<Rightarrow> int \<Rightarrow> int" where
  "getPositiveIntEnv env key defaultValue =
    (let v = getIntEnv env key defaultValue in if v > 0 then v else defaultValue)"

definition getPositiveDurationEnv :: "environment \<Rightarrow> string \<Rightarrow> int \<Rightarrow> int" where
  "getPositiveDurationEnv env key defaultValue =
    (let v = getDurationEnv env key defaultValue in if v > 0 then v else defaultValue)"

definition getStringSliceEnv :: "environment \<Rightarrow> string \<Rightarrow> string list \<Rightarrow> string list" where
  "getStringSliceEnv env key defaultValue =
    (if env key = [] then defaultValue
     else filter (\<lambda>p. p \<noteq> []) (map TrimSpace (Split (CHR '','') (env key))))"

section \<open>Load\<close>

definition default_config_file :: config_file where
  "default_config_file =
    \<lparr>cf_Concurrency = 4, cf_PollInterval = 5 * second, cf_ExecutionTimeout = 2 * minute,
     cf_AllowedNamespaces = [], cf_AllowedSecrets = [], cf_AWSAllowedRegions = [],
     cf_AWSAllowedOperations = [], cf_AWSEndpointURL = [], cf_AWSProxyURL = [], cf_AssumeInitialARN = [],
     cf_BackplaneProxyURL = [], cf_Roles = []\<rparr>"

definition readConfigFile ::
  "(string \<Rightarrow> string result) \<Rightarrow> (string \<Rightarrow> config_file \<Rightarrow> config_file result) \<Rightarrow> string \<Rightarrow> config_file result"
where
  "readConfigFile read_file unmarshal path =
    (if path \<noteq> []
     then (case read_file path of
             Inl e \<Rightarrow> Inl (Errw ''failed to read '%s' config file: %w'' [path] e)
           | Inr data \<Rightarrow>
             (case unmarshal data default_config_file of
                Inl e \<Rightarrow> Inl (Errw ''failed to unmarshal '%s' config file: %w'' [path] e)
              | Inr cf \<Rightarrow> Inr cf))
     else Inr default_config_file)"

definition auth_policy_of :: "environment \<Rightarrow> auth_policy result" where
  "auth_policy_of env =
    (let envAuthPolicy = getEnv env ''ROSA_TA_AUTH'' []
     in if envAuthPolicy \<noteq> []
        then (if envAuthPolicy = ''enabled'' then Inr EnabledAuthPolicy
              else if envAuthPolicy = ''disabled'' then Inr DisabledAuthPolicy
              else if envAuthPolicy = ''ocmconfig'' then Inr OcmConfigAuthPolicy
              else Inl (Errf ''invalid ROSA_TA_AUTH value: %s'' [envAuthPolicy]))
        else if \<not> getBoolEnv env ''ROSA_TA_ENABLE_AUTH'' True then Inr DisabledAuthPolicy
        else Inr EnabledAuthPolicy)"

definition Load_config ::
  "(string \<Rightarrow> string result) \<Rightarrow> (string \<Rightarrow> config_file \<Rightarrow> config_file result) \<Rightarrow> environment \<Rightarrow> string \<Rightarrow>
    config result"
where
  "Load_config read_file unmarshal env path =
    (case readConfigFile read_file unmarshal path of
       Inl e \<Rightarrow> Inl e
     | Inr cf \<Rightarrow>
       (let awsAllowedRegions =
              (if cf_AWSAllowedRegions cf = [] then DefaultAllowedRegions else cf_AWSAllowedRegions cf)
        in case auth_policy_of env of
             Inl e \<Rightarrow> Inl e
           | Inr authPolicy \<Rightarrow>
             Inr \<lparr>cfg_ListenAddr = getEnv env ''ROSA_TA_LISTEN_ADDR'' '':8080'',
                  cfg_LogLevel = getEnv env ''ROSA_TA_LOG_LEVEL'' ''info'',
                  cfg_LogJSON = getBoolEnv env ''ROSA_TA_LOG_JSON'' False,
                  cfg_AWSRegion = getEnv env ''AWS_REGION'' [],
                  cfg_AWSAccessKeyID = getEnv env ''AWS_ACCESS_KEY_ID'' [],
                  cfg_AWSSecretAccessKey = getEnv env ''AWS_SECRET_ACCESS_KEY'' [],
                  cfg_AWSSessionToken = getEnv env ''AWS_SESSION_TOKEN'' [],
                  cfg_AWSEndpointURL = getEnv env ''ROSA_TA_AWS_ENDPOINT_URL'' (cf_AWSEndpointURL cf),
                  cfg_AWSProxyURL = getEnv env ''ROSA_TA_AWS_PROXY_URL'' (cf_AWSProxyURL cf),
                  cfg_S3Bucket = getEnv env ''ROSA_TA_S3_BUCKET'' [],
                  cfg_S3KeyPrefix = getEnv env ''ROSA_TA_S3_KEY_PREFIX'' ''trusted-actions'',
                  cfg_AllowedAccounts = getStringSliceEnv env ''ROSA_TA_ALLOWED_ACCOUNTS'' [],
                  cfg_Roles = cf_Roles cf,
                  cfg_JWKCertFile = getEnv env ''ROSA_TA_JWK_CERT_FILE'' [],
                  cfg_JWKCertURL = getEnv env ''ROSA_TA_JWK_CERT_URL''
                    ''https://sso.redhat.com/auth/realms/redhat-external/protocol/openid-connect/certs'',
                  cfg_OCMBaseURL = getEnv env ''ROSA_TA_OCM_BASE_URL'' ''https://api.openshift.com'',
                  cfg_OCMClientID = getEnv env ''ROSA_TA_OCM_CLIENT_ID'' [],
                  cfg_OCMClientSecret = getEnv env ''ROSA_TA_OCM_CLIENT_SECRET'' [],
                  cfg_OCMToken = getEnv env ''ROSA_TA_OCM_TOKEN'' [],
                  cfg_DatabaseURL = getEnv env ''DATABASE_URL'' [],
                  cfg_DBMaxOpenConns = getPositiveIntEnv env ''ROSA_TA_DB_MAX_OPEN_CONNS'' 10,
                  cfg_DBMaxIdleConns = getPositiveIntEnv env ''ROSA_TA_DB_MAX_IDLE_CONNS'' 5,
                  cfg_DBConnMaxLifetime = getPositiveDurationEnv env ''ROSA_TA_DB_CONN_MAX_LIFETIME'' (5 * minute),
                  cfg_WorkerConcurrency = getPositiveIntEnv env ''ROSA_TA_WORKER_CONCURRENCY'' (cf_Concurrency cf),
                  cfg_WorkerPollInterval =
                    getPositiveDurationEnv env ''ROSA_TA_WORKER_POLL_INTERVAL'' (cf_PollInterval cf),
                  cfg_WorkerExecutionTimeout =
                    getPositiveDurationEnv env ''ROSA_TA_WORKER_EXECUTION_TIMEOUT'' (cf_ExecutionTimeout cf),
                  cfg_BackplaneURL = getEnv env ''ROSA_TA_BACKPLANE_URL'' [],
                  cfg_BackplaneClientID = getEnv env ''ROSA_TA_BACKPLANE_CLIENT_ID'' [],
                  cfg_BackplaneClientSecret = getEnv env ''ROSA_TA_BACKPLANE_CLIENT_SECRET'' [],
                  cfg_BackplaneAssumeInitialARN =
                    getEnv env ''ROSA_TA_BACKPLANE_ASSUME_INITIAL_ARN'' (cf_AssumeInitialARN cf),
                  cfg_BackplaneProxyURL = getEnv env ''ROSA_TA_BACKPLANE_PROXY_URL'' (cf_BackplaneProxyURL cf),
                  cfg_Kubeconfig = getEnv env ''ROSA_TA_KUBECONFIG'' [],
                  cfg_AllowedNamespaces =
                    getStringSliceEnv env ''ROSA_TA_ALLOWED_NAMESPACES'' (cf_AllowedNamespaces cf),
                  cfg_AllowedSecrets = getStringSliceEnv env ''ROSA_TA_ALLOWED_SECRETS'' (cf_AllowedSecrets cf),
                  cfg_AWSAllowedRegions = getStringSliceEnv env ''ROSA_TA_AWS_ALLOWED_REGIONS'' awsAllowedRegions,
                  cfg_AWSAllowedOperations =
                    getStringSliceEnv env ''ROSA_TA_AWS_ALLOWED_OPERATIONS'' (cf_AWSAllowedOperations cf),
                  cfg_AuthPolicy = authPolicy\<rparr>))"

section \<open>Properties\<close>

lemma getStringSliceEnv_nonempty:
  "list_all (\<lambda>p. p \<noteq> []) d \<Longrightarrow> list_all (\<lambda>p. p \<noteq> []) (getStringSliceEnv env key d)"
  by (auto simp: getStringSliceEnv_def list_all_iff)

lemma getPositiveIntEnv_positive: "0 < d \<Longrightarrow> 0 < getPositiveIntEnv env key d"
  by (simp add: getPositiveIntEnv_def Let_def)

lemma getPositiveDurationEnv_positive: "0 < d \<Longrightarrow> 0 < getPositiveDurationEnv env key d"
  by (simp add: getPositiveDurationEnv_def Let_def)

text \<open>Authentication is off only when the environment says so in so many words.\<close>

lemma auth_disabled_is_explicit:
  "auth_policy_of env = Inr DisabledAuthPolicy \<longleftrightarrow>
    env ''ROSA_TA_AUTH'' = ''disabled'' \<or>
    (env ''ROSA_TA_AUTH'' = [] \<and> ParseBool (env ''ROSA_TA_ENABLE_AUTH'') = Some False)"
  by (auto simp: auth_policy_of_def getEnv_def getBoolEnv_def Let_def ParseBool_def split: option.splits)

end
