(* ===== verification/Server.thy ===== *)
theory Server
  imports Handlers Config Store_Laws
begin

text \<open>
  The API of \<open>cmd/server/main.go\<close>: the operations behind the action check, as the generated wrappers
  and \<open>HandlerWithOptions\<close> compose them, and the middlewares around them in their order.  Matching a
  route and binding its parameters (chi, oapi-codegen's runtime) is an argument: it answers by
  itself, or finds the raw \<open>action\<close> parameter and the operation with its bound parameters.
\<close>

section \<open>Operations\<close>

datatype operation =
    OpCatalog
  | OpListAuditEntries audit_list_params
  | OpListExecutions execution_list_params
  | OpGetExecutionOutput uuid
  | OpGetExecution uuid
  | OpDescribe string
  | OpCreateExecution string

datatype routed = NoRoute int string | Route string "operation result"

definition operate :: "'s api_handler \<Rightarrow> operation \<Rightarrow> ('s, 'w) handler" where
  "operate h op =
    (case op of
       OpCatalog \<Rightarrow> api_Catalog h
     | OpListAuditEntries p \<Rightarrow> api_ListAuditEntries h p
     | OpListExecutions p \<Rightarrow> api_ListExecutions h p
     | OpGetExecutionOutput i \<Rightarrow> api_GetExecutionOutput h i
     | OpGetExecution i \<Rightarrow> api_GetExecution h i
     | OpDescribe a \<Rightarrow> api_Describe h a
     | OpCreateExecution a \<Rightarrow> api_CreateExecution h a)"

definition HandlerWithOptions ::
  "'s api_handler \<Rightarrow> (string \<Rightarrow> auth_action option) \<Rightarrow> (request \<Rightarrow> routed) \<Rightarrow> ('s, 'w) handler"
where
  "HandlerWithOptions h get_action routes r s =
    (case routes r of
       NoRoute status text \<Rightarrow> answer (respond status (TextBody text)) s
     | Route action bound \<Rightarrow>
       (let s = s\<lparr>sv_action := action\<rparr>
        in case bound of
             Inl e \<Rightarrow> answer (respond 400 (TextBody (err_text e @ [newline]))) s
           | Inr op \<Rightarrow> CheckActionAccess get_action (operate h op) r s))"

section \<open>The middlewares\<close>

text \<open>The subrouter of the API, with its authentication and authorization middlewares as arguments.\<close>

definition api_router ::
  "(('s, 'w) handler \<Rightarrow> ('s, 'w) handler) \<Rightarrow> (('s, 'w) handler \<Rightarrow> ('s, 'w) handler) \<Rightarrow>
    's api_handler \<Rightarrow> uuid \<Rightarrow> (request \<Rightarrow> routed) \<Rightarrow> ('s, 'w) handler"
where
  "api_router authn authz h audit_id routes =
    authn (NewAuditLogger (ah_store h) audit_id (ah_now h)
      (authz (HandlerWithOptions h (GetAction (ah_catalog h)) routes)))"

definition serve ::
  "(('s, 'w) handler \<Rightarrow> ('s, 'w) handler) \<Rightarrow> (('s, 'w) handler \<Rightarrow> ('s, 'w) handler) \<Rightarrow>
    's api_handler \<Rightarrow> uuid \<Rightarrow> string \<Rightarrow> (request \<Rightarrow> routed) \<Rightarrow> ('s, 'w) handler"
where
  "serve authn authz h audit_id request_id routes =
    RequestID request_id (Recoverer (api_router authn authz h audit_id routes))"

text \<open>An accepted execution is noted in the audit context.\<close>

lemma handler_202:
  assumes "HandlerWithOptions h get_action routes r s = (Responds rs, s')" "cx_Audit r"
    and "rs_Status rs = 202" "rs_Body rs = ExecutionBody x"
  shows "ac_ExecutionID (sv_audit s') = ox_Id x \<and> ac_TargetCluster (sv_audit s') = ox_TargetCluster x"
proof -
  from assms obtain raw op where rt: "routes r = Route raw (Inr op)"
    by (auto simp: HandlerWithOptions_def Let_def split: routed.splits sum.splits)
  with assms have "operate h op r (s\<lparr>sv_action := raw\<rparr>) = (Responds rs, s')"
    by (auto simp: HandlerWithOptions_def CheckActionAccess_def Let_def split: if_splits option.splits)
  with assms(2-4) show ?thesis
    by (cases op) (auto simp: operate_def api_Catalog_def api_Describe_def api_ListAuditEntries_def
        api_ListExecutions_def api_GetExecution_def api_GetExecutionOutput_def api_CreateExecution_def Let_def
        GetAuditContext_def fill_audit_def exec_ToOpenAPI_def
        split: option.splits sum.splits paging.splits prod.splits if_splits)
qed

text \<open>The audit entry of a request that \<open>i\<close> made and that was answered by \<open>rs\<close>.\<close>

definition audit_of ::
  "request \<Rightarrow> caller_identity \<Rightarrow> uuid \<Rightarrow> gotime \<Rightarrow> response \<Rightarrow> audit_entry \<Rightarrow> bool"
where
  "audit_of r i aid now rs e \<longleftrightarrow>
    ae_ID e = aid \<and> ae_Timestamp e = now \<and> ae_Method e = hq_Method r \<and> ae_Path e = hq_Path r \<and>
    ae_Username e = ci_Username i \<and> ae_StatusCode e = rs_Status rs \<and>
    (\<forall>x. rs_Status rs = 202 \<longrightarrow> rs_Body rs = ExecutionBody x \<longrightarrow>
      ae_ExecutionID e = unless_empty (ox_Id x) \<and> ae_TargetCluster e = unless_empty (ox_TargetCluster x))"

text \<open>
  What the audit log owes a request that was served with \<open>out\<close>: nothing when it was not authenticated
  or crashed, and else its one entry, unless the insert failed.
\<close>

definition request_audited ::
  "'s Store \<Rightarrow> ('s \<Rightarrow> 'a list) \<Rightarrow> (audit_entry \<Rightarrow> 'a) \<Rightarrow> request \<Rightarrow> uuid \<Rightarrow> gotime \<Rightarrow> ('s, 'w) serving \<Rightarrow>
    served \<times> ('s, 'w) serving \<Rightarrow> bool"
where
  "request_audited st audit_rows mk r aid now s out \<longleftrightarrow>
    (case GetCallerIdentityFromJWT r of
       Inl e \<Rightarrow> out = (Responds (api_error 401 ''Authentication required.''), s)
     | Inr caller \<Rightarrow>
       if ci_Username caller = [] then out = (Responds (api_error 401 ''Authentication required.''), s)
       else (case out of
               (Crashes m, s') \<Rightarrow> audit_rows (sv_db s') = audit_rows (sv_db s)
             | (Responds rs, s') \<Rightarrow>
                 \<exists>e. audit_of r caller aid now rs e \<and>
                   (audit_rows (sv_db s') = audit_rows (sv_db s) @ [mk e] \<or>
                    audit_rows (sv_db s') = audit_rows (sv_db s) \<and>
                      (\<exists>d err d'. st_CreateAuditEntry st e d = (Inl err, d')))))"

section \<open>What a request can do to the store\<close>

text \<open>
  The contract of a store's rows, whatever statements fail: only a creation adds an execution, only
  an audit entry adds to the audit log, and the reads change nothing.
\<close>

locale request_store =
  fixes st :: "'s Store"
    and rows :: "'s \<Rightarrow> 'r list" and row :: "execution \<Rightarrow> 'r"
    and entries :: "'s \<Rightarrow> 'a list" and entry :: "audit_entry \<Rightarrow> 'a"
  assumes create: "st_CreateExecution st e s = (ru, s') \<Longrightarrow>
      entries s' = entries s \<and> (rows s' = rows s \<or> rows s' = rows s @ [row e])"
    and audit: "st_CreateAuditEntry st a s = (ru, s') \<Longrightarrow>
      rows s' = rows s \<and> (case ru of
         Inr _ \<Rightarrow> entries s' = entries s @ [entry a]
       | Inl _ \<Rightarrow> entries s' = entries s \<or> entries s' = entries s @ [entry a])"
    and get: "st_GetExecution st i s = (r, s') \<Longrightarrow> s' = s"
    and get_output: "st_GetExecutionOutput st i s = (ro, s') \<Longrightarrow> s' = s"
    and listed: "st_ListExecutions st f s = (rl, s') \<Longrightarrow> s' = s"
    and audits: "st_ListAuditEntries st g s = (ra, s') \<Longrightarrow> s' = s"
begin

lemma on_db_reads:
  "on_db (st_GetExecution st i) s = (fst (st_GetExecution st i (sv_db s)), s)"
  "on_db (st_GetExecutionOutput st i) s = (fst (st_GetExecutionOutput st i (sv_db s)), s)"
  "on_db (st_ListExecutions st f) s = (fst (st_ListExecutions st f (sv_db s)), s)"
  "on_db (st_ListAuditEntries st g) s = (fst (st_ListAuditEntries st g (sv_db s)), s)"
  using get get_output listed audits by (auto simp: on_db_def split: prod.splits)

text \<open>Every operation but a creation leaves everything alone.\<close>

lemma operate_reads:
  assumes "ah_store h = st" "\<And>a. op \<noteq> OpCreateExecution a"
  shows "snd (operate h op r s) = s"
  using assms
  by (cases op) (auto simp: operate_def api_Catalog_def api_Describe_def api_ListAuditEntries_def
      api_ListExecutions_def api_GetExecution_def api_GetExecutionOutput_def Let_def on_db_reads
      split: option.splits sum.splits paging.splits)

lemma create_rows:
  assumes "ah_store h = st" "api_CreateExecution h a r s = (x, s')"
  shows "entries (sv_db s') = entries (sv_db s) \<and>
    (rows (sv_db s') = rows (sv_db s) \<or>
     (\<exists>d req. Get (ah_catalog h) a = Some d \<and> hq_Body r = Inr req \<and>
       rows (sv_db s') = rows (sv_db s) @ [row (ExecutionFromRequest (ah_codec h) (ah_new_id h) (ah_now h) a req
         (case cx_Identity r of None \<Rightarrow> [] | Some i \<Rightarrow> ci_Username i))]))"
proof (cases "Get (ah_catalog h) a = None \<or> (\<exists>e. hq_Body r = Inl e)")
  case True
  then show ?thesis using assms(2)
    by (auto simp: api_CreateExecution_def split: option.splits sum.splits)
next
  case False
  then obtain d req where dr: "Get (ah_catalog h) a = Some d" "hq_Body r = Inr req"
    by (cases "hq_Body r") auto
  let ?e = "ExecutionFromRequest (ah_codec h) (ah_new_id h) (ah_now h) a req
    (case cx_Identity r of None \<Rightarrow> [] | Some i \<Rightarrow> ci_Username i)"
  obtain ru db where c: "st_CreateExecution st ?e (sv_db s) = (ru, db)" by fastforce
  have "sv_db s' = db"
    using assms dr c by (auto simp: api_CreateExecution_def on_db_def Let_def split: sum.splits option.splits)
  with create [OF c] dr show ?thesis by auto
qed

text \<open>
  Behind the action check a creation needs a role the action allows; without an \<open>action\<close> parameter
  the check lets everything pass.
\<close>

lemma handler_rows:
  assumes "ah_store h = st"
    and run: "HandlerWithOptions h (GetAction (ah_catalog h)) routes r s = (x, s')"
  shows "entries (sv_db s') = entries (sv_db s) \<and>
    (rows (sv_db s') = rows (sv_db s) \<or>
     (\<exists>raw a d req. routes r = Route raw (Inr (OpCreateExecution a)) \<and>
       (raw = [] \<or> (\<exists>act role. GetAction (ah_catalog h) raw = Some act \<and> cx_Role r = Some role \<and>
          role \<in> set (aact_AllowedRoles act))) \<and>
       Get (ah_catalog h) a = Some d \<and> hq_Body r = Inr req \<and>
       rows (sv_db s') = rows (sv_db s) @ [row (ExecutionFromRequest (ah_codec h) (ah_new_id h) (ah_now h) a req
         (case cx_Identity r of None \<Rightarrow> [] | Some i \<Rightarrow> ci_Username i))]))"
proof (cases "\<exists>raw a. routes r = Route raw (Inr (OpCreateExecution a))")
  case True
  then obtain raw a where rt: "routes r = Route raw (Inr (OpCreateExecution a))" by blast
  have db: "sv_db (s\<lparr>sv_action := raw\<rparr>) = sv_db s" by simp
  from run rt have "(x, s') = CheckActionAccess (GetAction (ah_catalog h)) (api_CreateExecution h a) r (s\<lparr>sv_action := raw\<rparr>)"
    by (simp add: HandlerWithOptions_def operate_def)
  then consider "sv_db s' = sv_db s"
    | "api_CreateExecution h a r (s\<lparr>sv_action := raw\<rparr>) = (x, s')"
      "raw = [] \<or> (\<exists>act role. GetAction (ah_catalog h) raw = Some act \<and> cx_Role r = Some role \<and>
          role \<in> set (aact_AllowedRoles act))"
    by (auto simp: CheckActionAccess_def Let_def GetRoleFromContext_def split: if_splits option.splits)
  then show ?thesis
  proof cases
    case 2
    from create_rows [OF assms(1) 2(1)] 2(2) rt show ?thesis by auto
  qed simp
next
  case False
  have "sv_db s' = sv_db s"
  proof (cases "routes r")
    case (Route raw bound)
    show ?thesis
    proof (cases bound)
      case (Inr op)
      from run Route Inr have "(x, s') = operate h op r (s\<lparr>sv_action := raw\<rparr>) \<or> s' = s\<lparr>sv_action := raw\<rparr>"
        by (auto simp: HandlerWithOptions_def CheckActionAccess_def Let_def split: if_splits option.splits)
      moreover have "snd (operate h op r (s\<lparr>sv_action := raw\<rparr>)) = s\<lparr>sv_action := raw\<rparr>"
        using False Route Inr by (intro operate_reads [OF assms(1)]) auto
      ultimately have "s' = s\<lparr>sv_action := raw\<rparr>" by (metis snd_conv)
      then show ?thesis by simp
    qed (use run Route in \<open>auto simp: HandlerWithOptions_def\<close>)
  qed (use run in \<open>simp add: HandlerWithOptions_def\<close>)
  then show ?thesis by simp
qed

text \<open>Through the authentication, the audit log and the roles.\<close>

lemma router_rows:
  assumes "ah_store h = st"
    and run: "api_router AuthenticateAccountJWT (AuthorizeAPI roles review) h aid routes r s = (x, s')"
  shows "rows (sv_db s') = rows (sv_db s) \<or>
     (\<exists>i role raw a d req r'. GetCallerIdentityFromJWT r = Inr i \<and> ci_Username i \<noteq> [] \<and>
       granted_by review (ci_Username i) roles role \<and> routes r' = Route raw (Inr (OpCreateExecution a)) \<and>
       (raw = [] \<or> (\<exists>act. GetAction (ah_catalog h) raw = Some act \<and> role \<in> set (aact_AllowedRoles act))) \<and>
       Get (ah_catalog h) a = Some d \<and> hq_Body r = Inr req \<and>
       rows (sv_db s') = rows (sv_db s) @ [row (ExecutionFromRequest (ah_codec h) (ah_new_id h) (ah_now h) a req
         (ci_Username i))])"
proof (cases "\<exists>i. GetCallerIdentityFromJWT r = Inr i \<and> ci_Username i \<noteq> []")
  case False
  with run have "sv_db s' = sv_db s"
    by (auto simp: api_router_def AuthenticateAccountJWT_def split: sum.splits if_splits)
  then show ?thesis by simp
next
  case True
  then obtain i where i: "GetCallerIdentityFromJWT r = Inr i" "ci_Username i \<noteq> []" by blast
  define r1 where "r1 = (SetCallerIdentityContext i r)\<lparr>cx_Audit := True\<rparr>"
  define s1 where "s1 = s\<lparr>sv_audit := no_audit\<rparr>"
  let ?next = "HandlerWithOptions h (GetAction (ah_catalog h)) routes"
  obtain y s2 where inner: "AuthorizeAPI roles review ?next r1 s1 = (y, s2)" by fastforce
  have outer: "rows (sv_db s') = rows (sv_db s2)"
    using run i inner audit
    by (auto simp: api_router_def AuthenticateAccountJWT_def NewAuditLogger_def SetAuditContext_def
        r1_def [symmetric] s1_def [symmetric] assms(1) on_db_def split: served.splits prod.splits)
  have r1: "cx_Identity r1 = Some i" "hq_Body r1 = hq_Body r" and s1: "sv_db s1 = sv_db s"
    by (simp_all add: r1_def SetCallerIdentityContext_def s1_def)
  show ?thesis
  proof (cases rule: AuthorizeAPI_cases [of roles review ?next r1 s1])
    case (refused w code msg)
    with inner have "s2 = s1\<lparr>sv_reviews := w\<rparr>" by simp
    with outer s1 show ?thesis by simp
  next
    case (granted j role w)
    with inner have "?next (SetRoleInContext role r1) (s1\<lparr>sv_reviews := w\<rparr>) = (y, s2)" by simp
    from handler_rows [OF assms(1) this] granted r1 s1 outer i show ?thesis
      by (fastforce simp: SetRoleInContext_def)
  qed
qed

text \<open>What the audit log keeps of a request that got past the authentication.\<close>

lemma router_audits:
  assumes "ah_store h = st" "GetCallerIdentityFromJWT r = Inr i" "ci_Username i \<noteq> []"
    and run: "api_router AuthenticateAccountJWT (AuthorizeAPI roles review) h aid routes r s = (Responds rs, s')"
  shows "\<exists>e. audit_of r i aid (ah_now h) rs e \<and>
    (entries (sv_db s') = entries (sv_db s) @ [entry e] \<or>
     entries (sv_db s') = entries (sv_db s) \<and> (\<exists>d err d'. st_CreateAuditEntry st e d = (Inl err, d')))"
proof -
  define r1 where "r1 = (SetCallerIdentityContext i r)\<lparr>cx_Audit := True\<rparr>"
  define s1 where "s1 = s\<lparr>sv_audit := no_audit\<rparr>"
  let ?next = "HandlerWithOptions h (GetAction (ah_catalog h)) routes"
  obtain y s2 where inner: "AuthorizeAPI roles review ?next r1 s1 = (y, s2)" by fastforce
  define e where "e = audit_entry_of aid (ah_now h) r1 (rs_Status rs) (sv_action s2) (sv_audit s2)"
  have y: "y = Responds rs" and db: "sv_db s' = snd (st_CreateAuditEntry st e (sv_db s2))"
    using run assms(1-3) inner
    by (auto simp: api_router_def AuthenticateAccountJWT_def NewAuditLogger_def SetAuditContext_def
        r1_def [symmetric] s1_def [symmetric] on_db_def e_def split: served.splits prod.splits)
  have r1: "cx_Audit r1" "hq_Method r1 = hq_Method r" "hq_Path r1 = hq_Path r" "cx_Identity r1 = Some i"
    by (simp_all add: r1_def SetCallerIdentityContext_def)
  have "entries (sv_db s2) = entries (sv_db s) \<and> (rs_Status rs = 202 \<longrightarrow> (\<forall>x. rs_Body rs = ExecutionBody x \<longrightarrow>
      ac_ExecutionID (sv_audit s2) = ox_Id x \<and> ac_TargetCluster (sv_audit s2) = ox_TargetCluster x))"
  proof (cases rule: AuthorizeAPI_cases [of roles review ?next r1 s1])
    case (refused w code msg)
    with inner y have "s2 = s1\<lparr>sv_reviews := w\<rparr>" "rs = api_error code msg" by simp_all
    then show ?thesis by (simp add: s1_def)
  next
    case (granted j role w)
    with inner y have n: "?next (SetRoleInContext role r1) (s1\<lparr>sv_reviews := w\<rparr>) = (Responds rs, s2)" by simp
    have "cx_Audit (SetRoleInContext role r1)" using r1 by (simp add: SetRoleInContext_def)
    with handler_202 [OF n] handler_rows [OF assms(1) n] show ?thesis by (auto simp: s1_def)
  qed
  then have es: "entries (sv_db s2) = entries (sv_db s)" and of: "audit_of r i aid (ah_now h) rs e"
    using r1 by (auto simp: audit_of_def e_def audit_entry_of_def)
  obtain ru d' where c: "st_CreateAuditEntry st e (sv_db s2) = (ru, d')" by fastforce
  show ?thesis
  proof (cases ru)
    case (Inl err)
    with audit [OF c] es db c of show ?thesis by auto
  next
    case (Inr u)
    with audit [OF c] es db c of show ?thesis by auto
  qed
qed

lemma router_request_audited:
  assumes "ah_store h = st"
  shows "request_audited st entries entry r aid (ah_now h) s
    (api_router AuthenticateAccountJWT (AuthorizeAPI roles review) h aid routes r s)"
proof (cases "\<exists>i. GetCallerIdentityFromJWT r = Inr i \<and> ci_Username i \<noteq> []")
  case True
  then obtain i where i: "GetCallerIdentityFromJWT r = Inr i" "ci_Username i \<noteq> []" by blast
  obtain x s' where run: "api_router AuthenticateAccountJWT (AuthorizeAPI roles review) h aid routes r s = (x, s')"
    by fastforce
  show ?thesis
  proof (cases x)
    case (Responds rs)
    with router_audits [OF assms i run [unfolded Responds]] i run show ?thesis by (simp add: request_audited_def)
  next
    case (Crashes m)
    define r1 where "r1 = (SetCallerIdentityContext i r)\<lparr>cx_Audit := True\<rparr>"
    define s1 where "s1 = s\<lparr>sv_audit := no_audit\<rparr>"
    let ?next = "HandlerWithOptions h (GetAction (ah_catalog h)) routes"
    from run Crashes i have inner: "AuthorizeAPI roles review ?next r1 s1 = (Crashes m, s')"
      by (auto simp: api_router_def AuthenticateAccountJWT_def NewAuditLogger_def SetAuditContext_def
          r1_def s1_def on_db_def split: served.splits prod.splits)
    have "entries (sv_db s') = entries (sv_db s)"
    proof (cases rule: AuthorizeAPI_cases [of roles review ?next r1 s1])
      case (granted j role w)
      with inner have "?next (SetRoleInContext role r1) (s1\<lparr>sv_reviews := w\<rparr>) = (Crashes m, s')" by simp
      from handler_rows [OF assms this] show ?thesis by (auto simp: s1_def)
    qed (use inner in simp)
    with i run Crashes show ?thesis by (simp add: request_audited_def)
  qed
qed (auto simp: request_audited_def api_router_def AuthenticateAccountJWT_def split: sum.splits)

end

section \<open>Both stores keep the contract\<close>

lemma insert_audit_rows:
  assumes "wrap_err m [] (autocommit c s (insert_audit l a)) d = (ru, d')"
  shows "db_executions d' = db_executions d \<and> (case ru of
      Inr _ \<Rightarrow> db_audit d' = db_audit d @ [a]
    | Inl _ \<Rightarrow> db_audit d' = db_audit d \<or> db_audit d' = db_audit d @ [a])"
  using assms by (auto simp: wrap_err_def autocommit_def insert_audit_def split: option.splits if_splits prod.splits sum.splits)

lemma insert_execution_rows:
  assumes "wrap_err m [] (autocommit c s (insert_execution r)) d = (ru, d')"
  shows "db_audit d' = db_audit d \<and> (db_executions d' = db_executions d \<or> db_executions d' = db_executions d @ [r])"
  using assms by (auto simp: wrap_err_def autocommit_def insert_execution_def split: option.splits if_splits prod.splits sum.splits)

interpretation sqlite_requests: request_store "SQLiteStore l c" db_executions sqlite_execution_row
  db_audit sqlite_audit_row for l c
proof unfold_locales
  fix e s ru s'
  assume "st_CreateExecution (SQLiteStore l c) e s = (ru, s')"
  then show "db_audit s' = db_audit s \<and>
      (db_executions s' = db_executions s \<or> db_executions s' = db_executions s @ [sqlite_execution_row e])"
    by (simp add: SQLiteStore_def sqlite_CreateExecution_def insert_execution_rows)
next
  fix a s ru s'
  assume "st_CreateAuditEntry (SQLiteStore l c) a s = (ru, s')"
  then show "db_executions s' = db_executions s \<and> (case ru of
      Inr _ \<Rightarrow> db_audit s' = db_audit s @ [sqlite_audit_row a]
    | Inl _ \<Rightarrow> db_audit s' = db_audit s \<or> db_audit s' = db_audit s @ [sqlite_audit_row a])"
    unfolding SQLiteStore_def sqlite_CreateAuditEntry_def Store.simps by (rule insert_audit_rows)
qed (auto simp: SQLiteStore_def sqlite_GetExecution_def sqlite_GetExecutionOutput_def
    sqlite_ListExecutions_def sqlite_ListAuditEntries_def run_simps stmt_def Let_def
    split: option.splits prod.splits sum.splits)

interpretation pg_requests: request_store "PostgresStore l c" db_executions "pg_execution_row l"
  db_audit "pg_audit_row l" for l c
proof unfold_locales
  fix e s ru s'
  assume "st_CreateExecution (PostgresStore l c) e s = (ru, s')"
  then show "db_audit s' = db_audit s \<and>
      (db_executions s' = db_executions s \<or> db_executions s' = db_executions s @ [pg_execution_row l e])"
    by (simp add: PostgresStore_def pg_CreateExecution_def insert_execution_rows)
next
  fix a s ru s'
  assume "st_CreateAuditEntry (PostgresStore l c) a s = (ru, s')"
  then show "db_executions s' = db_executions s \<and> (case ru of
      Inr _ \<Rightarrow> db_audit s' = db_audit s @ [pg_audit_row l a]
    | Inl _ \<Rightarrow> db_audit s' = db_audit s \<or> db_audit s' = db_audit s @ [pg_audit_row l a])"
    unfolding PostgresStore_def pg_CreateAuditEntry_def Store.simps by (rule insert_audit_rows)
qed (auto simp: PostgresStore_def pg_GetExecution_def pg_GetExecutionOutput_def
    pg_ListExecutions_def pg_ListAuditEntries_def run_simps stmt_def Let_def
    split: option.splits prod.splits sum.splits)

end
