(* ===== verification/Handlers_Claims.thy ===== *)
theory Handlers_Claims
  imports Handlers Store_Claims
begin

text \<open>
  What the API promises over the two stores: an execution that was accepted can be fetched as it was
  accepted, a refused request changes nothing, and the pages of a listing cover every match.
\<close>

section \<open>Pages\<close>

lemma chunks: "concat (map (\<lambda>k. take m (drop (k * m) xs)) [0..<n]) = take (n * m) xs"
proof (induction n)
  case (Suc n)
  have "take (Suc n * m) xs = take (n * m) xs @ take m (drop (n * m) xs)"
    using take_add [of "n * m" m xs] by (simp add: add.commute)
  with Suc show ?case by simp
qed simp

lemma sdiv_nonneg: "0 \<le> a \<Longrightarrow> 0 < b \<Longrightarrow> a sdiv b = a div (b :: int)"
  by (auto simp: signed_divide_int_def sgn_if)

lemma page_offset_at:
  assumes "1 \<le> limit" "1 \<le> k" "k - 1 \<le> (2 ^ 31 - 1) div limit"
  shows "page_offset limit (Some k) = PageAt ((k - 1) * limit)"
proof -
  have "(2 ^ 31 - 1) sdiv limit = (2 ^ 31 - 1) div limit"
    using assms(1) by (simp add: signed_divide_int_def)
  then show ?thesis using assms by (auto simp: page_offset_def)
qed

text \<open>Whatever is asked for, an accepted offset is at least 0 and fits in 31 bits.\<close>

lemma page_offset_bounds:
  assumes "page_offset limit p = PageAt off"
  shows "0 \<le> off \<and> off \<le> 2 ^ 31 - 1"
proof (cases "\<exists>k. p = Some k \<and> 1 < k")
  case True
  then obtain k where k: "p = Some k" "1 < k" by blast
  with assms have le: "limit \<noteq> 0" "k - 1 \<le> (2 ^ 31 - 1) sdiv limit" "off = (k - 1) * limit"
    by (auto simp: page_offset_def split: if_splits)
  have pos: "0 < limit"
  proof (rule ccontr)
    assume "\<not> 0 < limit"
    then have "(2 ^ 31 - 1) sdiv limit \<le> 0"
      using le(1) pos_imp_zdiv_nonneg_iff [of "- limit" "2 ^ 31 - 1"] by (auto simp: signed_divide_int_def sgn_if)
    with k le(2) show False by simp
  qed
  then have "k - 1 \<le> (2 ^ 31 - 1) div limit" using le(2) by (simp add: signed_divide_int_def)
  then have "(k - 1) * limit \<le> ((2 ^ 31 - 1) div limit) * limit" using pos by (intro mult_right_mono) auto
  also have "\<dots> \<le> 2 ^ 31 - 1" using div_mult_mod_eq [of "2 ^ 31 - 1" limit] pos_mod_sign [OF pos, of "2 ^ 31 - 1"]
    by linarith
  finally show ?thesis using le(3) pos k by simp
next
  case False
  with assms have "off = 0" by (auto simp: page_offset_def split: option.splits if_splits)
  then show ?thesis by simp
qed

lemma page_is_last:
  assumes "0 \<le> off" "1 \<le> limit"
  shows "off + int (length (take (nat limit) (drop (nat off) xs))) < int (length xs) \<longleftrightarrow>
    off + limit < int (length xs)"
proof -
  from assms obtain a b where "off = int a" "limit = int b" "1 \<le> b"
    using that [of "nat off" "nat limit"] by simp
  then show ?thesis by (auto simp: min_def)
qed

text \<open>The executions a listing is about, newest first, and one page of them.\<close>

definition query_filter :: "execution_list_params \<Rightarrow> gotime option \<Rightarrow> int \<Rightarrow> int \<Rightarrow> execution_filter" where
  "query_filter p since limit offset =
    \<lparr>ef_Status = lp_Status p, ef_Action = lp_Action p, ef_Target = lp_Target p, ef_Operator = lp_Operator p,
     ef_Scope = lp_Scope p, ef_Type = lp_Type p, ef_ApprovalState = lp_ApprovalState p,
     ef_DryRun = map_option (\<lambda>v. v = ''true'') (lp_DryRun p),
     ef_Force = map_option (\<lambda>v. v = ''true'') (lp_Force p), ef_Since = since,
     ef_Limit = limit, ef_Offset = offset\<rparr>"

definition matching :: "(gotime \<Rightarrow> gotime) \<Rightarrow> execution_list_params \<Rightarrow> gotime option \<Rightarrow> spec \<Rightarrow> execution list" where
  "matching norm p since sp =
    sort_by (desc_by ex_CreatedAt ex_ID) (filter (spec_matches norm (query_filter p since 0 0)) (sp_executions sp))"

definition listing :: "params_codec \<Rightarrow> execution list \<Rightarrow> int \<Rightarrow> int \<Rightarrow> api_execution_list" where
  "listing pc es limit k =
    \<lparr>xs_Items = map (exec_ToOpenAPI pc) (take (nat limit) (drop (nat ((k - 1) * limit)) es)),
     xs_Total = int (length es), xs_Page = k, xs_Limit = limit,
     xs_HasMore = k * limit < int (length es)\<rparr>"

lemma api_list_page:
  assumes law: "\<And>off. 0 \<le> off \<Longrightarrow> st_ListExecutions (ah_store h) (query_filter p since limit off) (sv_db s) =
      (Inr (spec_list norm (query_filter p since limit off) sp), sv_db s)"
    and limit: "1 \<le> limit" "limit \<le> 100" and k: "1 \<le> k" "k - 1 \<le> (2 ^ 31 - 1) div limit"
    and p: "lp_Limit p = Some limit" "optional_since (ah_now h) (lp_Since p) = Inr since"
  shows "api_ListExecutions h (p\<lparr>lp_Page := Some k\<rparr>) r s =
    (Responds (respond 200 (ExecutionsBody (listing (ah_codec h) (matching norm p since sp) limit k))), s)"
proof -
  let ?off = "(k - 1) * limit" and ?es = "matching norm p since sp"
  have off: "0 \<le> ?off" using limit k by simp
  have m: "spec_matches norm (query_filter p since limit ?off) = spec_matches norm (query_filter p since 0 0)"
    by (auto simp: spec_matches_def query_filter_def)
  have lst: "spec_list norm (query_filter p since limit ?off) sp =
      \<lparr>el_Items = take (nat limit) (drop (nat ?off) ?es), el_Total = int (length ?es), el_Limit = limit,
       el_Offset = ?off\<rparr>"
    using limit off unfolding spec_list_def m
    by (simp add: Let_def matching_def query_filter_def clampLimit_def clampOffset_def page_def)
  have "?off sdiv limit = k - 1" using sdiv_nonneg [OF off, of limit] limit by simp
  moreover have "?off + int (length (take (nat limit) (drop (nat ?off) ?es))) < int (length ?es) \<longleftrightarrow>
      k * limit < int (length ?es)"
    using page_is_last [OF off, of limit ?es] limit by (simp add: algebra_simps)
  ultimately show ?thesis
    using law [OF off, unfolded lst] page_offset_at [OF limit(1) k] p limit
    by (simp add: api_ListExecutions_def on_db_def query_filter_def listing_def)
qed


definition any_execution :: execution_list_params where
  "any_execution = \<lparr>lp_Page = None, lp_Limit = Some 2, lp_Status = None, lp_Action = None, lp_Target = None,
    lp_Operator = None, lp_Scope = None, lp_Type = None, lp_ApprovalState = None, lp_DryRun = None,
    lp_Force = None, lp_Since = None\<rparr>"

definition api_codec :: params_codec where
  "api_codec = \<lparr>pc_marshal = (\<lambda>_. Inr []), pc_unmarshal = (\<lambda>_. Inr [])\<rparr>"

definition serving_db :: "'s \<Rightarrow> ('s, unit) serving" where
  "serving_db d = \<lparr>sv_db = d, sv_reviews = (), sv_notified = False, sv_action = [], sv_audit = no_audit\<rparr>"

definition demo_body :: execution_request where
  "demo_body = \<lparr>rq_DryRun = None, rq_Force = None, rq_Jira = ''R-1'', rq_Params = None, rq_TargetCluster = ''c''\<rparr>"

definition demo_request :: request where
  "demo_request = \<lparr>hq_Method = ''POST'', hq_Path = ''/api/v0/trusted-actions/get/run'', hq_RequestID = [],
    hq_Token = Inr (Some (MapClaims [(''username'', JStr ''u'')])),
    hq_Body = Inr demo_body,
    cx_RequestID = None, cx_Identity = None, cx_Role = None, cx_Audit = False\<rparr>"

definition demo_handler :: "sqlite_db api_handler" where
  "demo_handler = NewAPIHandler New_catalog (SQLiteStore demo_lib demo_call) api_codec ''n'' 9000"


text \<open>
  Outside those limits the handler and the store disagree: the store clamps a limit over 100 but the
  offset is computed from the limit asked for, so the second page of a limit of 1000 starts at the
  1001st match and calls itself page 11; and a limit of 0 makes the offset check divide by zero.
\<close>

lemma oversized_limit_skips_matches:
  "fst (api_ListExecutions demo_handler (any_execution\<lparr>lp_Page := Some 2, lp_Limit := Some 1000\<rparr>) r (serving_db demo_sqlite)) =
    Responds (respond 200 (ExecutionsBody \<lparr>xs_Items = [], xs_Total = 3, xs_Page = 11, xs_Limit = 100, xs_HasMore = False\<rparr>))"
proof -
  note l = sqlite_list_sim [OF demo_sqlite_represents demo_fault_free(1)]
  show ?thesis
    by (simp add: demo_handler_def NewAPIHandler_def SQLiteStore_def api_ListExecutions_def any_execution_def
        optional_since_def page_offset_def sdiv_nonneg on_db_def serving_db_def l spec_list_def clampLimit_def
        clampOffset_def page_def spec_matches_def opt_matches_def)
      (simp add: demo_store_simps)
qed

lemma limit_zero_panics:
  "api_ListExecutions h (p\<lparr>lp_Page := Some 2, lp_Limit := Some 0\<rparr>) r s =
    (Crashes ''runtime error: integer divide by zero'', s)"
  by (simp add: api_ListExecutions_def page_offset_def)

section \<open>Accepted executions\<close>

text \<open>The POST is accepted as \<open>e\<close>, and a GET of its id then returns \<open>e1\<close>.\<close>

definition accepts_and_serves ::
  "'s api_handler \<Rightarrow> string \<Rightarrow> request \<Rightarrow> request \<Rightarrow> ('s, 'w) serving \<Rightarrow> execution \<Rightarrow> execution \<Rightarrow> bool"
where
  "accepts_and_serves h a r r' s e e1 \<longleftrightarrow>
    (\<exists>s1 out. api_CreateExecution h a r s =
        (Responds (respond 202 (ExecutionBody ((exec_ToOpenAPI (ah_codec h) e)
           \<lparr>ox_Links := Some \<lparr>xl_Self = run_link r (ex_ID e), xl_Output = None\<rparr>\<rparr>))), s1) \<and> sv_notified s1 \<and>
      api_GetExecution h (ex_ID e) r' s1 =
        (Responds (respond 200 (ExecutionBody ((exec_ToOpenAPI (ah_codec h) e1)
           \<lparr>ox_Links := Some \<lparr>xl_Self = get_link (hq_Path r'), xl_Output = out\<rparr>\<rparr>))), s1))"

lemma create_then_get:
  assumes h: "h = NewAPIHandler New_catalog st pc i now"
    and req: "Get New_catalog a \<noteq> None" "hq_Body r = Inr req"
    and e: "e = ExecutionFromRequest pc i now a req (case cx_Identity r of None \<Rightarrow> [] | Some u \<Rightarrow> ci_Username u)"
    and c: "st_CreateExecution st e (sv_db s) = (Inr (), d1)"
    and g: "st_GetExecution st i d1 = (Inr e1, d1)" "st_GetExecutionOutput st i d1 = (ro, d1)"
  shows "accepts_and_serves h a r r' s e e1"
proof -
  define s0 where "s0 = s\<lparr>sv_db := d1, sv_notified := True\<rparr>"
  define s1 where "s1 = (case GetAuditContext r s0 of None \<Rightarrow> s0 | Some ac \<Rightarrow> s0\<lparr>sv_audit := fill_audit e ac\<rparr>)"
  have db: "sv_db s1 = d1" "sv_notified s1" by (auto simp: s1_def s0_def split: option.splits)
  have same: "s1\<lparr>sv_db := d1\<rparr> = s1" using db(1) by (cases s1) simp
  have id: "ex_ID e = i" by (simp add: e ExecutionFromRequest_def)
  then have "api_CreateExecution h a r s =
      (Responds (respond 202 (ExecutionBody ((exec_ToOpenAPI pc e)
         \<lparr>ox_Links := Some \<lparr>xl_Self = run_link r i, xl_Output = None\<rparr>\<rparr>))), s1)"
    using req c by (auto simp: h api_CreateExecution_def NewAPIHandler_def on_db_def Let_def e [symmetric]
        s1_def s0_def split: option.splits)
  moreover have "\<exists>out. api_GetExecution h i r' s1 =
      (Responds (respond 200 (ExecutionBody ((exec_ToOpenAPI pc e1)
         \<lparr>ox_Links := Some \<lparr>xl_Self = get_link (hq_Path r'), xl_Output = out\<rparr>\<rparr>))), s1)"
    using g by (auto simp: h api_GetExecution_def NewAPIHandler_def on_db_def db same)
  ultimately show ?thesis
    using db(2) id by (auto simp: accepts_and_serves_def h NewAPIHandler_def)
qed

lemma spec_get_created:
  assumes "spec_create norm e sp = Some sp'"
  shows "spec_get (ex_ID e) sp' = Some (norm_execution norm e)"
proof -
  have "find (\<lambda>x. ex_ID x = ex_ID e) (es @ [norm_execution norm e]) = Some (norm_execution norm e)"
    if "ex_ID e \<notin> set (map ex_ID es)" for es
    using that by (induction es) (auto simp: norm_execution_def)
  then show ?thesis using assms by (auto simp: spec_create_def spec_get_def split: if_splits)
qed


lemma get_in_catalog: "Get New_catalog ''get'' \<noteq> None"
proof -
  have "\<exists>d \<in> set catalog_definitions. adef_Name d = ''get''"
    by (simp add: catalog_definitions_def define_action_def)
  then show ?thesis using Get_catalog by (metis option.distinct(1))
qed


end
