(* ===== verification/Server_Claims.thy ===== *)
theory Server_Claims
  imports Server Handlers_Claims
begin

text \<open>
  The promises of the API as a whole, middlewares included: who can create an execution, and what the
  audit log keeps of a request.
\<close>

section \<open>Who can create an execution\<close>

text \<open>
  What is assumed of the router: a bound \<open>action\<close> is the unescaped raw parameter, which is the same
  text when it has no percent sign.
\<close>

definition binds_actions :: "(request \<Rightarrow> routed) \<Rightarrow> bool" where
  "binds_actions routes \<longleftrightarrow>
    (\<forall>r raw a. routes r = Route raw (Inr (OpCreateExecution a)) \<longrightarrow> CHR ''%'' \<notin> set raw \<longrightarrow> a = raw)"

definition authorized_creation ::
  "role_mapping list \<Rightarrow> 'w access_review \<Rightarrow> request \<Rightarrow> params_codec \<Rightarrow> uuid \<Rightarrow> gotime \<Rightarrow> execution \<Rightarrow> bool"
where
  "authorized_creation roles review r pc i now e \<longleftrightarrow>
    (\<exists>caller role d req. GetCallerIdentityFromJWT r = Inr caller \<and> ci_Username caller \<noteq> [] \<and>
       granted_by review (ci_Username caller) roles role \<and>
       d \<in> set (All New_catalog) \<and> role \<in> set (adef_AllowedRoles d) \<and> hq_Body r = Inr req \<and>
       e = ExecutionFromRequest pc i now (adef_Name d) req (ci_Username caller))"

lemma catalog_names_plain: "d \<in> set catalog_definitions \<Longrightarrow> adef_Name d \<noteq> [] \<and> CHR ''%'' \<notin> set (adef_Name d)"
  by (auto simp: catalog_definitions_def define_action_def)

lemma GetAction_Get: "GetAction c n = Some act \<Longrightarrow> \<exists>d. Get c n = Some d \<and> aact_AllowedRoles act = adef_AllowedRoles d"
  by (auto simp: GetAction_def Get_def split: option.splits)

text \<open>The raw parameter the check judged and the action that is created are the same.\<close>

lemma checked_action_is_created:
  assumes "binds_actions routes" "routes r' = Route raw (Inr (OpCreateExecution a))"
    and "raw = [] \<or> (\<exists>act. GetAction New_catalog raw = Some act \<and> role \<in> set (aact_AllowedRoles act))"
    and "Get New_catalog a = Some d"
  shows "d \<in> set (All New_catalog) \<and> role \<in> set (adef_AllowedRoles d) \<and> a = adef_Name d"
proof -
  have d: "d \<in> set catalog_definitions" "adef_Name d = a" using assms(4) by (auto simp: Get_catalog)
  have "a = raw"
  proof (cases "raw = []")
    case True
    with assms(1,2) show ?thesis by (auto simp: binds_actions_def)
  next
    case False
    with assms(3) obtain act where "GetAction New_catalog raw = Some act" by blast
    from GetAction_Get [OF this] obtain d' where "Get New_catalog raw = Some d'" by blast
    then have "CHR ''%'' \<notin> set raw" using catalog_names_plain by (auto simp: Get_catalog)
    with assms(1,2) show ?thesis by (auto simp: binds_actions_def)
  qed
  with d catalog_names_plain [OF d(1)] have "raw \<noteq> []" by auto
  with assms(3) obtain act where act: "GetAction New_catalog raw = Some act" "role \<in> set (aact_AllowedRoles act)" by blast
  from GetAction_Get [OF act(1)] act(2) assms(4) \<open>a = raw\<close> have "role \<in> set (adef_AllowedRoles d)" by auto
  with d show ?thesis by (simp add: All_catalog)
qed

lemma serve_state:
  assumes "serve authn authz h aid rid routes r s = (x, s')"
  shows "\<exists>y id. api_router authn authz h aid routes (r\<lparr>cx_RequestID := Some id\<rparr>) s = (y, s')"
  using assms by (auto simp: serve_def RequestID_def Recoverer_def Let_def split: prod.splits served.splits)

lemma identity_of_request_id [simp]:
  "GetCallerIdentityFromJWT (r\<lparr>cx_RequestID := x\<rparr>) = GetCallerIdentityFromJWT r"
  by (simp add: GetCallerIdentityFromJWT_def)

text \<open>
  C19. No request creates an execution unless its caller is entitled to. With authentication on, over
  either store and whatever statements fail, serving a request leaves the executions as they were or
  adds one: the pending execution of a catalog action for the target of the request's body, in the
  name of the user of its verified token, who holds, by an access review that answered yes, a role
  the action allows. The action that is run is the one whose roles were checked.
\<close>
theorem executions_need_an_authorized_caller:
  assumes "binds_actions routes"
    and "serve AuthenticateAccountJWT (AuthorizeAPI roles review)
      (NewAPIHandler New_catalog (SQLiteStore l c) pc i now) aid rid routes r s = (x, s')"
    and "serve AuthenticateAccountJWT (AuthorizeAPI roles review)
      (NewAPIHandler New_catalog (PostgresStore l c) pc i now) aid rid routes r p = (y, p')"
  shows "(db_executions (sv_db s') = db_executions (sv_db s) \<or>
      (\<exists>e. authorized_creation roles review r pc i now e \<and>
        db_executions (sv_db s') = db_executions (sv_db s) @ [sqlite_execution_row e])) \<and>
    (db_executions (sv_db p') = db_executions (sv_db p) \<or>
      (\<exists>e. authorized_creation roles review r pc i now e \<and>
        db_executions (sv_db p') = db_executions (sv_db p) @ [pg_execution_row l e]))"
proof
  obtain z k where s: "api_router AuthenticateAccountJWT (AuthorizeAPI roles review)
      (NewAPIHandler New_catalog (SQLiteStore l c) pc i now) aid routes (r\<lparr>cx_RequestID := Some k\<rparr>) s = (z, s')"
    using serve_state [OF assms(2)] by blast
  show "db_executions (sv_db s') = db_executions (sv_db s) \<or>
      (\<exists>e. authorized_creation roles review r pc i now e \<and>
        db_executions (sv_db s') = db_executions (sv_db s) @ [sqlite_execution_row e])"
    using sqlite_requests.router_rows [OF _ s] checked_action_is_created [OF assms(1)]
    by (simp add: NewAPIHandler_def authorized_creation_def) metis
next
  obtain z k where p: "api_router AuthenticateAccountJWT (AuthorizeAPI roles review)
      (NewAPIHandler New_catalog (PostgresStore l c) pc i now) aid routes (r\<lparr>cx_RequestID := Some k\<rparr>) p = (z, p')"
    using serve_state [OF assms(3)] by blast
  show "db_executions (sv_db p') = db_executions (sv_db p) \<or>
      (\<exists>e. authorized_creation roles review r pc i now e \<and>
        db_executions (sv_db p') = db_executions (sv_db p) @ [pg_execution_row l e])"
    using pg_requests.router_rows [OF _ p] checked_action_is_created [OF assms(1)]
    by (simp add: NewAPIHandler_def authorized_creation_def) metis
qed

definition demo_role :: role_mapping where
  "demo_role = \<lparr>rm_ID = ''SREP'', rm_AMSResource = ''rosa''\<rparr>"

definition demo_review :: "unit access_review" where
  "demo_review username action resource w = (Inr (username = ''u'' \<and> resource = ''rosa''), w)"

definition demo_routes :: "request \<Rightarrow> routed" where
  "demo_routes r = Route ''get'' (Inr (OpCreateExecution ''get''))"

lemma demo_get:
  "\<exists>d. Get New_catalog ''get'' = Some d \<and> adef_AllowedRoles d = allRoles"
proof -
  have "Get New_catalog ''get'' = Some (hd catalog_definitions)" "adef_AllowedRoles (hd catalog_definitions) = allRoles"
    by (simp_all add: Get_catalog catalog_definitions_def define_action_def)
  then show ?thesis by blast
qed

lemma demo_served:
  "map xr_ID (db_executions (sv_db (snd (serve AuthenticateAccountJWT (AuthorizeAPI [demo_role] demo_review)
    demo_handler ''au'' ''rid'' demo_routes demo_request (serving_db demo_sqlite))))) = [''b'', ''a'', ''c'', ''n'']"
proof -
  obtain d where d: "Get New_catalog ''get'' = Some d" "adef_AllowedRoles d = allRoles"
    using demo_get by blast
  then have act: "\<exists>act. GetAction New_catalog ''get'' = Some act \<and> aact_AllowedRoles act = allRoles"
    by (auto simp: GetAction_def Get_def)
  have db: "map xr_ID (db_executions demo_sqlite) = [''b'', ''a'', ''c'']" "db_audit demo_sqlite = []"
    by (simp_all add: demo_sqlite_def demo_store_simps sqlite_execution_row_def)
  have j: "GetCallerIdentityFromJWT demo_request = Inr \<lparr>ci_Username = ''u'', ci_Email = [], ci_ClientID = []\<rparr>"
    "hq_RequestID demo_request = []" "hq_Body demo_request = Inr demo_body"
    by (simp_all add: GetCallerIdentityFromJWT_def demo_request_def jget_def str_or_empty_def)
  have role: "resolve_role demo_review ''u'' [demo_role] False w = ((Some ''SREP'', False), w)" for w
    by (simp add: demo_review_def demo_role_def)
  have ins: "st_CreateExecution (SQLiteStore demo_lib demo_call) e demo_sqlite =
      (Inr (), demo_sqlite\<lparr>db_executions := db_executions demo_sqlite @ [sqlite_execution_row e]\<rparr>)"
    if "ex_ID e = ''n''" for e
    using that db by (simp add: SQLiteStore_def sqlite_CreateExecution_def wrap_err_def autocommit_def demo_call_def
      insert_execution_def sqlite_execution_row_def del: set_map)
  from act obtain act where a: "GetAction New_catalog ''get'' = Some act" "aact_AllowedRoles act = allRoles" by blast
  have aud: "db_executions (snd (st_CreateAuditEntry (SQLiteStore l c) a s)) = db_executions s" for l c a s
    using sqlite_requests.audit [of l c a s] by (metis prod.collapse)
  show ?thesis
    by (simp add: serve_def RequestID_def Recoverer_def api_router_def AuthenticateAccountJWT_def j d
      NewAuditLogger_def SetAuditContext_def AuthorizeAPI_def SetCallerIdentityContext_def serving_db_def demo_review_def demo_role_def
      HandlerWithOptions_def demo_routes_def CheckActionAccess_def a Let_def GetRoleFromContext_def SetRoleInContext_def
      demo_handler_def NewAPIHandler_def allRoles_def operate_def api_CreateExecution_def on_db_def ins ExecutionFromRequest_def
      GetAuditContext_def fill_audit_def aud case_prod_unfold)
      (simp add: db sqlite_execution_row_def)
qed

lemma authorized_witness:
  "\<exists>e. authorized_creation [demo_role] demo_review demo_request api_codec ''n'' 9000 e \<and> ex_ID e = ''n''"
proof -
  have b: "binds_actions demo_routes" by (simp add: binds_actions_def demo_routes_def)
  obtain x s' where s: "serve AuthenticateAccountJWT (AuthorizeAPI [demo_role] demo_review)
      demo_handler ''au'' ''rid'' demo_routes demo_request (serving_db demo_sqlite) = (x, s')" by fastforce
  obtain y p' where p: "serve AuthenticateAccountJWT (AuthorizeAPI [demo_role] demo_review)
      (NewAPIHandler New_catalog (PostgresStore demo_lib demo_call) api_codec ''n'' 9000)
      ''au'' ''rid'' demo_routes demo_request (serving_db demo_pg) = (y, p')" by fastforce
  have "map xr_ID (db_executions (sv_db s')) = [''b'', ''a'', ''c'', ''n'']"
    using demo_served by (simp add: s)
  moreover have "map xr_ID (db_executions (sv_db (serving_db demo_sqlite))) = [''b'', ''a'', ''c'']"
    by (simp add: serving_db_def demo_sqlite_def demo_store_simps sqlite_execution_row_def)
  ultimately obtain e where e: "authorized_creation [demo_role] demo_review demo_request api_codec ''n'' 9000 e"
    using executions_need_an_authorized_caller [OF b s [unfolded demo_handler_def] p] by force
  then have "ex_ID e = ''n''" by (auto simp: authorized_creation_def ExecutionFromRequest_def)
  with e show ?thesis by blast
qed

section \<open>What the audit log keeps\<close>

lemma handler_store: "ah_store (NewAPIHandler cat st pc i now) = st"
  and handler_now: "ah_now (NewAPIHandler cat st pc i now) = now"
  by (simp_all add: NewAPIHandler_def)


text \<open>
  The other side of it: a request that makes a handler panic is answered 500 outside the audit log,
  so it leaves no entry although its caller was authenticated and authorized.
\<close>

lemma panics_are_not_audited:
  assumes "routes = (\<lambda>r. Route [] (Inr (OpListExecutions (p\<lparr>lp_Page := Some 2, lp_Limit := Some 0\<rparr>))))"
  shows "\<exists>rs s'. serve AuthenticateAccountJWT mock_AuthorizeAPI
      (NewAPIHandler New_catalog (SQLiteStore l c) pc i now) aid rid routes demo_request s = (Responds rs, s') \<and>
    rs_Status rs = 500 \<and> sv_db s' = sv_db s"
proof -
  have "GetCallerIdentityFromJWT demo_request = Inr \<lparr>ci_Username = ''u'', ci_Email = [], ci_ClientID = []\<rparr>"
    by (simp add: GetCallerIdentityFromJWT_def demo_request_def jget_def str_or_empty_def)
  then show ?thesis
    by (simp add: assms serve_def RequestID_def Recoverer_def api_router_def AuthenticateAccountJWT_def
        NewAuditLogger_def SetAuditContext_def mock_AuthorizeAPI_def HandlerWithOptions_def CheckActionAccess_def
        Let_def operate_def limit_zero_panics)
qed

end
