(* ===== verification/Backplane.thy ===== *)
theory Backplane
  imports Executor "HOL-Library.Multiset"
begin

text \<open>
  \<open>internal/backplane\<close>: access to a cluster through backplane (\<open>client.go\<close>) or through a kubeconfig
  (\<open>kubeconfig.go\<close>).  A session asks backplane for the RBAC rules its action declares, checks the proxy
  address backplane answers, and reaches the cluster through it with a bearer token.  The HTTP
  client, \<open>net/url\<close>, client-go and the token source are arguments.
\<close>

section \<open>The request for access\<close>

record policy_rule =
  pl_ApiGroups :: "string list"
  pl_Resources :: "string list"
  pl_Verbs :: "string list"
  pl_ResourceNames :: "string list option"

record role_rbac_decl =
  rd_Namespace :: string
  rd_Rules :: "policy_rule list"

record access_request =
  bq_Name :: string
  bq_CustomerDataAccess :: bool
  bq_ClusterRoleRules :: "policy_rule list"
  bq_Roles :: "role_rbac_decl list"

definition toBPPolicyRule :: "rbac_rule \<Rightarrow> policy_rule" where
  "toBPPolicyRule rule =
    \<lparr>pl_ApiGroups = rr_APIGroups rule, pl_Resources = rr_Resources rule, pl_Verbs = rr_Verbs rule,
     pl_ResourceNames = (if length (rr_ResourceNames rule) > 0 then Some (rr_ResourceNames rule) else None)\<rparr>"

text \<open>The loop over the rules: the cluster-wide ones, and the others by namespace.\<close>

fun split_rules ::
  "rbac_rule list \<Rightarrow> policy_rule list \<Rightarrow> (string \<times> policy_rule list) list \<Rightarrow>
    policy_rule list \<times> (string \<times> policy_rule list) list"
where
  "split_rules [] cluster byNS = (cluster, byNS)"
| "split_rules (rule # rules) cluster byNS =
    (if rr_Namespace rule = [] then split_rules rules (cluster @ [toBPPolicyRule rule]) byNS
     else split_rules rules cluster
       (alput (rr_Namespace rule)
         ((case map_of byNS (rr_Namespace rule) of None \<Rightarrow> [] | Some rs \<Rightarrow> rs) @ [toBPPolicyRule rule]) byNS))"

definition buildCreateRequest :: "string \<Rightarrow> rbac_rule list \<Rightarrow> access_request" where
  "buildCreateRequest actionName rbacRules =
    (case split_rules rbacRules [] [] of
       (clusterRoleRules, rolesByNS) \<Rightarrow>
         \<lparr>bq_Name = actionName, bq_CustomerDataAccess = False, bq_ClusterRoleRules = clusterRoleRules,
          bq_Roles = map (\<lambda>ns. \<lparr>rd_Namespace = ns, rd_Rules = the (map_of rolesByNS ns)\<rparr>)
            (sort (map fst rolesByNS))\<rparr>)"

section \<open>Reaching the cluster\<close>

record http_response =
  hp_StatusCode :: int
  hp_Body :: string

text \<open>A client configuration: the address and the host the bearer token may be sent to.\<close>

record rest_config =
  rc_Host :: string
  rc_trustedHost :: string

record 'u url_lib =
  ul_Parse :: "string \<Rightarrow> 'u result"
  ul_ResolveReference :: "'u \<Rightarrow> 'u \<Rightarrow> 'u"
  ul_Scheme :: "'u \<Rightarrow> string"
  ul_Host :: "'u \<Rightarrow> string"
  ul_String :: "'u \<Rightarrow> string"

text \<open>The exec of a command in a pod, over client-go's SPDY executor.\<close>

record exec_options =
  xo_Namespace :: string
  xo_Pod :: string
  xo_Container :: string
  xo_Command :: "string list"
  xo_Stdout :: bool
  xo_Stderr :: bool

text \<open>
  \<open>sp_Stream\<close> gives what was written to the two buffers, and the error if there was one, which stands
  before the text of standard error in the message.
\<close>

record spdy =
  sp_New :: "rest_config \<Rightarrow> exec_options \<Rightarrow> unit result"
  sp_Stream :: "kube_log \<Rightarrow> rest_config \<Rightarrow> exec_options \<Rightarrow> (string \<times> string) \<times> goerr option"

definition pod_Exec :: "spdy \<Rightarrow> rest_config \<Rightarrow> pod_exec" where
  "pod_Exec sp cfg log namespace pod container command =
    (let req = \<lparr>xo_Namespace = namespace, xo_Pod = pod, xo_Container = container, xo_Command = command,
           xo_Stdout = True, xo_Stderr = True\<rparr>
     in case sp_New sp cfg req of
          Inl e \<Rightarrow> Inl (Errw ''failed to create SPDY executor: %w'' [] e)
        | Inr _ \<Rightarrow>
          (case sp_Stream sp log cfg req of
             ((stdout, stderr), Some e) \<Rightarrow>
               Inl (Errw ''exec failed: %w'' [] (Errf ''%s (stderr: %s)'' [err_text e, stderr]))
           | ((stdout, stderr), None) \<Rightarrow> Inr stdout))"

record 'u backplane_env =
  be_url :: "'u url_lib"
  be_baseURL :: string
  be_token :: "session list \<Rightarrow> string result"
  be_CreateTrustedAction :: "session list \<Rightarrow> string \<Rightarrow> string \<Rightarrow> access_request \<Rightarrow> http_response result"
  be_Decode :: "string \<Rightarrow> string result"
  be_dynamic :: "rest_config \<Rightarrow> kube_clients result"
  be_clientset :: "rest_config \<Rightarrow> unit result"
  be_spdy :: spdy

text \<open>The client of the backplane API is made before anything is asked of it.\<close>

definition NewBackplaneProvider :: "(string \<Rightarrow> unit result) \<Rightarrow> 'u backplane_env \<Rightarrow> 'u backplane_env result" where
  "NewBackplaneProvider newClient b =
    (case newClient (be_baseURL b) of
       Inl e \<Rightarrow> Inl (Errw ''failed to create backplane client: %w'' [] e)
     | Inr _ \<Rightarrow> Inr b)"

text \<open>
  \<open>requestAccess\<close>: the editor of the backplane client adds the token; the answer is the proxy URI.
\<close>

definition requestAccess :: "'u backplane_env \<Rightarrow> session list \<Rightarrow> session \<Rightarrow> string result" where
  "requestAccess b log ses =
    (case ses of (clusterID, actionName, rbacRules) \<Rightarrow>
      (case (case be_token b log of
               Inl e \<Rightarrow> Inl (Errw ''failed to get auth token: %w'' [] e)
             | Inr token \<Rightarrow> be_CreateTrustedAction b log token clusterID (buildCreateRequest actionName rbacRules)) of
         Inl e \<Rightarrow> Inl (Errw ''backplane request failed: %w'' [] e)
       | Inr resp \<Rightarrow>
         if hp_StatusCode resp \<noteq> 200 \<and> hp_StatusCode resp \<noteq> 201
         then Inl (Errf ''backplane returned status %d: %s'' [show_int (hp_StatusCode resp), take 4096 (hp_Body resp)])
         else (case be_Decode b (hp_Body resp) of
                 Inl e \<Rightarrow> Inl (Errw ''failed to decode backplane response: %w'' [] e)
               | Inr proxyUri \<Rightarrow> Inr proxyUri)))"

definition requestAccessAndConfig :: "'u backplane_env \<Rightarrow> session list \<Rightarrow> session \<Rightarrow> rest_config result" where
  "requestAccessAndConfig b log ses =
    (let u = be_url b in
     case requestAccess b log ses of
       Inl e \<Rightarrow> Inl (Errw ''failed to request backplane access: %w'' [] e)
     | Inr proxyUri \<Rightarrow>
       (case ul_Parse u (be_baseURL b) of
          Inl e \<Rightarrow> Inl (Errw ''invalid base URL: %w'' [] e)
        | Inr base \<Rightarrow>
          (case ul_Parse u proxyUri of
             Inl e \<Rightarrow> Inl (Errw ''invalid proxy URI from backplane: %w'' [] e)
           | Inr ref \<Rightarrow>
             (let resolved = ul_ResolveReference u base ref
              in if ul_Scheme u resolved \<noteq> ul_Scheme u base \<or> ul_Host u resolved \<noteq> ul_Host u base
                 then Inl (Errf ''backplane returned proxy URI targeting a different origin: %s'' [ul_String u resolved])
                 else Inr \<lparr>rc_Host = ul_String u resolved, rc_trustedHost = ul_Host u resolved\<rparr>))))"

definition bp_client :: "'u backplane_env \<Rightarrow> session list \<Rightarrow> session \<Rightarrow> kube_clients result" where
  "bp_client b log ses =
    (case requestAccessAndConfig b log ses of
       Inl e \<Rightarrow> Inl e
     | Inr cfg \<Rightarrow>
       (case be_dynamic b cfg of
          Inl e \<Rightarrow> Inl (Errw ''failed to create dynamic client for proxy: %w'' [] e)
        | Inr client \<Rightarrow> Inr client))"

definition bp_pod_executor :: "'u backplane_env \<Rightarrow> session list \<Rightarrow> session \<Rightarrow> pod_exec result" where
  "bp_pod_executor b log ses =
    (case requestAccessAndConfig b log ses of
       Inl e \<Rightarrow> Inl e
     | Inr cfg \<Rightarrow>
       (case be_clientset b cfg of
          Inl e \<Rightarrow> Inl (Errw ''failed to create kubernetes clientset for proxy: %w'' [] e)
        | Inr _ \<Rightarrow> Inr (pod_Exec (be_spdy b) cfg)))"

definition BackplaneProvider :: "'u backplane_env \<Rightarrow> backplane_provider" where
  "BackplaneProvider b = \<lparr>bp_GetClient = bp_client b, bp_GetPodExecutor = bp_pod_executor b\<rparr>"

text \<open>\<open>bearerTransport\<close>: the request as it is passed on.\<close>

record http_request =
  hx_Host :: string
  hx_Authorization :: "string option"

definition bearer_RoundTrip :: "string \<Rightarrow> string result \<Rightarrow> http_request \<Rightarrow> http_request result" where
  "bearer_RoundTrip trustedHost token req =
    (if trustedHost = [] \<or> hx_Host req = [] \<or> hx_Host req = trustedHost
     then (case token of
             Inl e \<Rightarrow> Inl (Errw ''failed to get auth token: %w'' [] e)
           | Inr t \<Rightarrow> Inr (req\<lparr>hx_Authorization := Some (''Bearer '' @ t)\<rparr>))
     else Inr req)"

section \<open>Through a kubeconfig\<close>

record kubeconfig_env =
  ke_kubeconfig :: string
  ke_Build :: "string \<Rightarrow> rest_config result"
  ke_dynamic :: "rest_config \<Rightarrow> kube_clients result"
  ke_clientset :: "rest_config \<Rightarrow> unit result"
  ke_spdy :: spdy

text \<open>Its pod executor has the text of the other one.\<close>

definition kubeconfig_Exec :: "spdy \<Rightarrow> rest_config \<Rightarrow> pod_exec" where
  "kubeconfig_Exec = pod_Exec"

definition kubeconfig_client :: "kubeconfig_env \<Rightarrow> session list \<Rightarrow> session \<Rightarrow> kube_clients result" where
  "kubeconfig_client k log ses =
    (case ke_Build k (ke_kubeconfig k) of
       Inl e \<Rightarrow> Inl (Errw ''failed to build config from kubeconfig %s: %w'' [ke_kubeconfig k] e)
     | Inr cfg \<Rightarrow>
       (case ke_dynamic k cfg of
          Inl e \<Rightarrow> Inl (Errw ''failed to create dynamic client: %w'' [] e)
        | Inr client \<Rightarrow> Inr client))"

definition kubeconfig_pod_executor :: "kubeconfig_env \<Rightarrow> session list \<Rightarrow> session \<Rightarrow> pod_exec result" where
  "kubeconfig_pod_executor k log ses =
    (case ke_Build k (ke_kubeconfig k) of
       Inl e \<Rightarrow> Inl (Errw ''failed to build config from kubeconfig %s: %w'' [ke_kubeconfig k] e)
     | Inr cfg \<Rightarrow>
       (case ke_clientset k cfg of
          Inl e \<Rightarrow> Inl (Errw ''failed to create kubernetes clientset: %w'' [] e)
        | Inr _ \<Rightarrow> Inr (kubeconfig_Exec (ke_spdy k) cfg)))"

definition KubeconfigProvider :: "kubeconfig_env \<Rightarrow> backplane_provider" where
  "KubeconfigProvider k = \<lparr>bp_GetClient = kubeconfig_client k, bp_GetPodExecutor = kubeconfig_pod_executor k\<rparr>"

section \<open>What a session may do\<close>

definition rules_in :: "string \<Rightarrow> rbac_rule list \<Rightarrow> policy_rule list" where
  "rules_in ns rules = map toBPPolicyRule (filter (\<lambda>r. rr_Namespace r = ns) rules)"

lemma split_rules_spec:
  assumes "split_rules rules cluster byNS = (cluster', byNS')" "[] \<notin> fst ` set byNS" "distinct (map fst byNS)"
  shows "cluster' = cluster @ rules_in [] rules \<and> distinct (map fst byNS') \<and>
    fst ` set byNS' = fst ` set byNS \<union> (rr_Namespace ` set rules - {[]}) \<and>
    (\<forall>ns. ns \<noteq> [] \<longrightarrow> (case map_of byNS' ns of None \<Rightarrow> [] | Some rs \<Rightarrow> rs) =
       (case map_of byNS ns of None \<Rightarrow> [] | Some rs \<Rightarrow> rs) @ rules_in ns rules)"
  using assms
proof (induction rules arbitrary: cluster byNS)
  case (Cons r rs)
  show ?case
  proof (cases "rr_Namespace r = []")
    case True
    with Cons.prems have "split_rules rs (cluster @ [toBPPolicyRule r]) byNS = (cluster', byNS')" by simp
    from Cons.IH [OF this Cons.prems(2,3)] True show ?thesis by (auto simp: rules_in_def)
  next
    case False
    let ?old = "case map_of byNS (rr_Namespace r) of None \<Rightarrow> [] | Some rs \<Rightarrow> rs"
    let ?m = "alput (rr_Namespace r) (?old @ [toBPPolicyRule r]) byNS"
    have keys: "fst ` set ?m = insert (rr_Namespace r) (fst ` set byNS)"
      using keys_alput [of "rr_Namespace r" "?old @ [toBPPolicyRule r]" byNS] by simp
    have "split_rules rs cluster ?m = (cluster', byNS')" using Cons.prems(1) False by simp
    moreover have "[] \<notin> fst ` set ?m" using Cons.prems(2) False unfolding keys by simp
    moreover have "distinct (map fst ?m)" using Cons.prems(3) by (rule distinct_alput)
    ultimately have ih: "cluster' = cluster @ rules_in [] rs \<and> distinct (map fst byNS') \<and>
      fst ` set byNS' = fst ` set ?m \<union> (rr_Namespace ` set rs - {[]}) \<and>
      (\<forall>ns. ns \<noteq> [] \<longrightarrow> (case map_of byNS' ns of None \<Rightarrow> [] | Some rs \<Rightarrow> rs) =
         (case map_of ?m ns of None \<Rightarrow> [] | Some rs \<Rightarrow> rs) @ rules_in ns rs)"
      by (rule Cons.IH)
    then have "fst ` set byNS' = fst ` set byNS \<union> (rr_Namespace ` set (r # rs) - {[]})"
      using False unfolding keys by auto
    moreover have "(case map_of byNS' ns of None \<Rightarrow> [] | Some rs \<Rightarrow> rs) =
        (case map_of byNS ns of None \<Rightarrow> [] | Some rs \<Rightarrow> rs) @ rules_in ns (r # rs)" if "ns \<noteq> []" for ns
      using ih that by (auto simp: rules_in_def)
    moreover have "rules_in [] (r # rs) = rules_in [] rs" using False by (simp add: rules_in_def)
    ultimately show ?thesis using ih by simp
  qed
qed (simp add: rules_in_def)

text \<open>The request as a specification: no loop, one declaration per namespace that has rules.\<close>

definition declared_request :: "string \<Rightarrow> rbac_rule list \<Rightarrow> access_request" where
  "declared_request actionName rules =
    \<lparr>bq_Name = actionName, bq_CustomerDataAccess = False, bq_ClusterRoleRules = rules_in [] rules,
     bq_Roles = map (\<lambda>ns. \<lparr>rd_Namespace = ns, rd_Rules = rules_in ns rules\<rparr>)
       (sorted_list_of_set (rr_Namespace ` set rules - {[]}))\<rparr>"

text \<open>The hosts whose requests the transport does not pass on as they are.\<close>

lemma bearer_hosts:
  "{hx_Host req |req::http_request. \<exists>t. bearer_RoundTrip h t req \<noteq> Inr req} = (if h = [] then UNIV else {[], h})"
proof -
  have "(\<exists>t. bearer_RoundTrip h t req \<noteq> Inr req) \<longleftrightarrow> h = [] \<or> hx_Host req = [] \<or> hx_Host req = h" for req :: http_request
    by (auto simp: bearer_RoundTrip_def intro!: exI [of _ "Inl undefined"])
  moreover have "\<exists>req::http_request. hx_Host req = x" for x by (rule exI [of _ "\<lparr>hx_Host = x, hx_Authorization = None\<rparr>"]) simp
  ultimately show ?thesis by (auto; metis)
qed

lemma buildCreateRequest_declared: "buildCreateRequest actionName rules = declared_request actionName rules"
proof -
  obtain cluster byNS where sp: "split_rules rules [] [] = (cluster, byNS)" by fastforce
  note f = split_rules_spec [OF sp]
  have keys: "sort (map fst byNS) = sorted_list_of_set (rr_Namespace ` set rules - {[]})"
    using f sorted_list_of_set_sort_remdups [of "map fst byNS"] by (simp add: distinct_remdups_id)
  have "the (map_of byNS ns) = rules_in ns rules" if "ns \<in> set (sort (map fst byNS))" for ns
  proof -
    from that have m: "ns \<in> fst ` set byNS" by simp
    then obtain rs where "map_of byNS ns = Some rs" using map_of_eq_None_iff [of byNS ns] by auto
    moreover have "ns \<noteq> []" using m f by auto
    ultimately show ?thesis using f by auto
  qed
  then have "map (\<lambda>ns. \<lparr>rd_Namespace = ns, rd_Rules = the (map_of byNS ns)\<rparr>) (sort (map fst byNS)) =
      map (\<lambda>ns. \<lparr>rd_Namespace = ns, rd_Rules = rules_in ns rules\<rparr>) (sort (map fst byNS))"
    by (intro map_cong) simp_all
  then show ?thesis using f by (simp add: buildCreateRequest_def sp declared_request_def keys)
qed


end
