(* ===== verification/Startup.thy ===== *)
theory Startup
  imports Config Worker Backplane Server
begin

text \<open>
  \<open>runServer\<close> of \<open>cmd/server/main.go\<close> and \<open>store.New\<close>: from the flags, the environment and the config file to
  the server that is set up, or the failure that stops it.  What opening a database, connecting to
  OCM or backplane, parsing a URL and building the JWT handler answer are arguments.  \<open>Fatal\<close> ends the
  process.
\<close>

datatype startup_failure = Fatal string | Refuses goerr

type_synonym 'a boot = "startup_failure + 'a"

definition boot_seq :: "'a boot \<Rightarrow> ('a \<Rightarrow> 'b boot) \<Rightarrow> 'b boot" where
  "boot_seq m f = (case m of Inl x \<Rightarrow> Inl x | Inr a \<Rightarrow> f a)"

definition fatal_if :: "bool \<Rightarrow> string \<Rightarrow> unit boot" where
  "fatal_if b msg = (if b then Inl (Fatal msg) else Inr ())"

definition or_fatal :: "'a result \<Rightarrow> string \<Rightarrow> 'a boot" where
  "or_fatal r msg = (case r of Inl e \<Rightarrow> Inl (Fatal msg) | Inr a \<Rightarrow> Inr a)"

section \<open>What is set up\<close>

datatype store_choice = UsePostgres string int int int | UseSQLite string

datatype authn_choice = JwtAuthn | MockAuthn

datatype authz_choice = RoleAuthz "role_mapping list" ocm_client | MockAuthz

datatype kube_choice = UseKubeconfig string | UseBackplane string

record cloud_settings =
  cl_URL :: string
  cl_AssumeInitialARN :: string
  cl_ProxyURL :: string
  cl_AWSProxyURL :: string

datatype aws_choice = UseStaticAws static_config | UseCloudCredentials cloud_settings ocm_client

record server_setup =
  su_Config :: config
  su_Store :: store_choice
  su_Authn :: authn_choice
  su_Authz :: authz_choice
  su_Kube :: kube_choice
  su_KubeAuthorizer :: authorizer
  su_Aws :: aws_choice
  su_AwsAuthorizer :: aws_authorizer
  su_Pool :: pool_config
  su_ExecutionTimeout :: int
  su_VerifiesTokens :: bool

record ocm_cli_config =
  oy_URL :: string
  oy_ClientID :: string
  oy_ClientSecret :: string
  oy_AccessToken :: string
  oy_RefreshToken :: string

record surroundings =
  sr_read_file :: "string \<Rightarrow> string result"
  sr_unmarshal :: "string \<Rightarrow> config_file \<Rightarrow> config_file result"
  sr_env :: environment
  sr_open :: "store_choice \<Rightarrow> unit result"
  sr_ocm :: ocm_sdk
  sr_ocm_config :: "ocm_cli_config result"
  sr_url_scheme :: "string \<Rightarrow> string result"
  sr_bp_connection :: "string \<Rightarrow> string \<Rightarrow> string \<Rightarrow> unit result"
  sr_bp_client :: "string \<Rightarrow> unit result"
  sr_jwt_handler :: "string \<Rightarrow> string \<Rightarrow> unit result"

record flags =
  fl_ConfigFile :: string
  fl_ListenAddr :: "string option"
  fl_LogLevel :: "string option"
  fl_LogJSON :: "bool option"

section \<open>The steps\<close>

definition New_store :: "config \<Rightarrow> store_choice" where
  "New_store cfg =
    (let u = cfg_DatabaseURL cfg
     in if HasPrefix u ''postgres://'' \<or> HasPrefix u ''postgresql://''
        then UsePostgres u (cfg_DBMaxOpenConns cfg) (cfg_DBMaxIdleConns cfg) (cfg_DBConnMaxLifetime cfg)
        else UseSQLite (if u = [] then ''trusted_actions.db'' else u))"

definition override_flags :: "flags \<Rightarrow> config \<Rightarrow> config" where
  "override_flags fl cfg =
    (let cfg = (case fl_ListenAddr fl of None \<Rightarrow> cfg | Some a \<Rightarrow> cfg\<lparr>cfg_ListenAddr := a\<rparr>);
         cfg = (case fl_LogLevel fl of None \<Rightarrow> cfg | Some l \<Rightarrow> cfg\<lparr>cfg_LogLevel := l\<rparr>)
     in case fl_LogJSON fl of None \<Rightarrow> cfg | Some b \<Rightarrow> cfg\<lparr>cfg_LogJSON := b\<rparr>)"

definition appendIfNotEmpty :: "string list \<Rightarrow> string \<Rightarrow> string list" where
  "appendIfNotEmpty l s = (if s \<noteq> [] then l @ [s] else l)"

fun check_roles :: "nat \<Rightarrow> role_mapping list \<Rightarrow> unit boot" where
  "check_roles i [] = Inr ()"
| "check_roles i (r # rs) =
    (if rm_ID r = [] \<or> rm_AMSResource r = []
     then Inl (Fatal (sprintf ''Role entry %d has empty id or amsResource'' [show_nat i]))
     else check_roles (Suc i) rs)"

definition ocm_client_for :: "surroundings \<Rightarrow> config \<Rightarrow> ocm_client result" where
  "ocm_client_for sr cfg =
    (if cfg_AuthPolicy cfg = EnabledAuthPolicy
     then NewOcmClient (sr_ocm sr)
       \<lparr>oo_BaseURL = cfg_OCMBaseURL cfg, oo_ClientID = cfg_OCMClientID cfg, oo_ClientSecret = cfg_OCMClientSecret cfg,
        oo_Tokens = appendIfNotEmpty [] (cfg_OCMToken cfg), oo_Debug = False\<rparr>
     else (case sr_ocm_config sr of
             Inl e \<Rightarrow> Inl e
           | Inr oc \<Rightarrow>
             NewOcmClient (sr_ocm sr)
               \<lparr>oo_BaseURL = oy_URL oc, oo_ClientID = oy_ClientID oc, oo_ClientSecret = oy_ClientSecret oc,
                oo_Tokens = appendIfNotEmpty (appendIfNotEmpty [] (oy_AccessToken oc)) (oy_RefreshToken oc),
                oo_Debug = False\<rparr>))"

text \<open>The \<open>switch\<close> on the policy: the two middlewares and the OCM client, nil when auth is disabled.\<close>

definition choose_auth ::
  "surroundings \<Rightarrow> config \<Rightarrow> (authn_choice \<times> authz_choice \<times> ocm_client option) boot"
where
  "choose_auth sr cfg =
    (if cfg_AuthPolicy cfg = DisabledAuthPolicy
     then boot_seq (fatal_if (cfg_Kubeconfig cfg = [])
            ''ROSA_TA_AUTH=disabled requires ROSA_TA_KUBECONFIG to be set; running mock auth against the real backplane is not permitted'') (\<lambda>_.
          boot_seq (fatal_if (cfg_AWSEndpointURL cfg = [])
            ''ROSA_TA_AUTH=disabled requires ROSA_TA_AWS_ENDPOINT_URL to be set; running mock auth against real AWS is not permitted'') (\<lambda>_.
          Inr (MockAuthn, MockAuthz, None)))
     else boot_seq (fatal_if (length (cfg_Roles cfg) = 0) ''No roles configured: set the roles key in the config file when auth is enabled'') (\<lambda>_.
          boot_seq (check_roles 0 (cfg_Roles cfg)) (\<lambda>_.
          boot_seq (or_fatal (ocm_client_for sr cfg) ''Failed to create OCM client'') (\<lambda>client.
          Inr (JwtAuthn, RoleAuthz (cfg_Roles cfg) client, Some client)))))"

definition choose_kube :: "surroundings \<Rightarrow> config \<Rightarrow> kube_choice boot" where
  "choose_kube sr cfg =
    (if cfg_Kubeconfig cfg \<noteq> [] then Inr (UseKubeconfig (cfg_Kubeconfig cfg))
     else boot_seq (fatal_if (sr_url_scheme sr (cfg_BackplaneURL cfg) \<noteq> Inr ''https'')
            (sprintf ''ROSA_TA_BACKPLANE_URL must use HTTPS: %s'' [cfg_BackplaneURL cfg])) (\<lambda>_.
          boot_seq (or_fatal (sr_bp_connection sr (cfg_OCMBaseURL cfg) (cfg_BackplaneClientID cfg)
              (cfg_BackplaneClientSecret cfg)) ''Failed to create backplane OCM connection'') (\<lambda>_.
          boot_seq (or_fatal (sr_bp_client sr (cfg_BackplaneURL cfg)) ''Failed to create backplane provider'') (\<lambda>_.
          Inr (UseBackplane (cfg_BackplaneURL cfg))))))"

definition nil_client_message :: string where
  "nil_client_message = ''AWS access needs either ROSA_TA_AWS_ENDPOINT_URL (a local emulator) or an OCM client, which requires ROSA_TA_AUTH to be enabled''"

definition choose_aws :: "config \<Rightarrow> ocm_client option \<Rightarrow> aws_choice boot" where
  "choose_aws cfg client =
    (if cfg_AWSEndpointURL cfg \<noteq> []
     then Inr (UseStaticAws \<lparr>st_Region = cfg_AWSRegion cfg, st_AccessKeyID = cfg_AWSAccessKeyID cfg,
            st_SecretAccessKey = cfg_AWSSecretAccessKey cfg, st_SessionToken = cfg_AWSSessionToken cfg,
            st_EndpointURL = cfg_AWSEndpointURL cfg, st_InfraID = []\<rparr>)
     else (case client of
             None \<Rightarrow> Inl (Fatal nil_client_message)
           | Some c \<Rightarrow>
             boot_seq (or_fatal (sdkConn c) ''Failed to get the OCM connection required for AWS credentials'') (\<lambda>_.
             Inr (UseCloudCredentials
               \<lparr>cl_URL = cfg_BackplaneURL cfg, cl_AssumeInitialARN = cfg_BackplaneAssumeInitialARN cfg,
                cl_ProxyURL = cfg_BackplaneProxyURL cfg, cl_AWSProxyURL = cfg_AWSProxyURL cfg\<rparr> c))))"

definition no_region_message :: string where
  "no_region_message = ''No AWS region allowlist configured; set ROSA_TA_AWS_ALLOWED_REGIONS or actions.aws_allowed_regions in the config file. There is no default: which regions a deployment may reach has to be stated explicitly''"

definition runServer :: "surroundings \<Rightarrow> flags \<Rightarrow> server_setup boot" where
  "runServer sr fl =
    (case Load_config (sr_read_file sr) (sr_unmarshal sr) (sr_env sr) (fl_ConfigFile fl) of
       Inl e \<Rightarrow> Inl (Refuses (Errw ''load configuration: %w'' [] e))
     | Inr loaded \<Rightarrow>
       (let cfg = override_flags fl loaded in
        boot_seq (or_fatal (sr_open sr (New_store cfg)) ''Failed to initialize database'') (\<lambda>_.
        boot_seq (choose_auth sr cfg) (\<lambda>(authn, authz, client).
        boot_seq (choose_kube sr cfg) (\<lambda>kube.
        boot_seq (fatal_if (length (cfg_AWSAllowedRegions cfg) = 0) no_region_message) (\<lambda>_.
        boot_seq (choose_aws cfg client) (\<lambda>aws.
        boot_seq (if cfg_AuthPolicy cfg \<noteq> DisabledAuthPolicy
                  then or_fatal (sr_jwt_handler sr (cfg_JWKCertURL cfg) (cfg_JWKCertFile cfg))
                         ''Failed to build OCM authentication handler''
                  else Inr ()) (\<lambda>_.
        Inr \<lparr>su_Config = cfg, su_Store = New_store cfg, su_Authn = authn, su_Authz = authz, su_Kube = kube,
             su_KubeAuthorizer = New_authorizer (cfg_AllowedNamespaces cfg) (cfg_AllowedSecrets cfg),
             su_Aws = aws,
             su_AwsAuthorizer = NewAWS \<lparr>AllowedRegions = cfg_AWSAllowedRegions cfg,
               AllowedOperations = cfg_AWSAllowedOperations cfg\<rparr>,
             su_Pool = New_pool (cfg_WorkerConcurrency cfg) (cfg_WorkerPollInterval cfg),
             su_ExecutionTimeout = NewExecutorRunner_timeout (cfg_WorkerExecutionTimeout cfg),
             su_VerifiesTokens = (cfg_AuthPolicy cfg \<noteq> DisabledAuthPolicy)\<rparr>))))))))"

section \<open>What a running server is\<close>

lemma boot_seq_Inr: "boot_seq m f = Inr b \<longleftrightarrow> (\<exists>a. m = Inr a \<and> f a = Inr b)"
  by (auto simp: boot_seq_def split: sum.splits)

lemma boot_seq_Inl: "boot_seq m f = Inl x \<longleftrightarrow> m = Inl x \<or> (\<exists>a. m = Inr a \<and> f a = Inl x)"
  by (auto simp: boot_seq_def split: sum.splits)

lemma fatal_if_Inr: "fatal_if b msg = Inr u \<longleftrightarrow> \<not> b"
  by (simp add: fatal_if_def)

lemma fatal_if_Inl: "fatal_if b msg = Inl x \<longleftrightarrow> b \<and> x = Fatal msg"
  by (auto simp: fatal_if_def)

lemma or_fatal_Inr: "or_fatal r msg = Inr a \<longleftrightarrow> r = Inr a"
  by (simp add: or_fatal_def split: sum.splits)

lemma or_fatal_Inl: "or_fatal r msg = Inl x \<longleftrightarrow> (\<exists>e. r = Inl e) \<and> x = Fatal msg"
  by (auto simp: or_fatal_def split: sum.splits)

lemmas boot_simps = boot_seq_Inr boot_seq_Inl fatal_if_Inr fatal_if_Inl or_fatal_Inr or_fatal_Inl

lemma check_roles_Inr: "check_roles i rs = Inr u \<longleftrightarrow> list_all (\<lambda>r. rm_ID r \<noteq> [] \<and> rm_AMSResource r \<noteq> []) rs"
  by (induction rs arbitrary: i) auto

lemma check_roles_Inl: "check_roles i rs = Inl x \<Longrightarrow> x \<noteq> Fatal nil_client_message"
  by (induction rs arbitrary: i) (auto simp: nil_client_message_def split: if_splits)

text \<open>The choices, as their guards leave them.\<close>

lemma choose_auth_Inr:
  assumes "choose_auth sr cfg = Inr (authn, authz, client)"
  shows "if cfg_AuthPolicy cfg = DisabledAuthPolicy
    then authn = MockAuthn \<and> authz = MockAuthz \<and> client = None \<and> cfg_Kubeconfig cfg \<noteq> [] \<and> cfg_AWSEndpointURL cfg \<noteq> []
    else \<exists>c. authn = JwtAuthn \<and> authz = RoleAuthz (cfg_Roles cfg) c \<and> client = Some c \<and> cfg_Roles cfg \<noteq> [] \<and>
      list_all (\<lambda>r. rm_ID r \<noteq> [] \<and> rm_AMSResource r \<noteq> []) (cfg_Roles cfg)"
  using assms by (auto simp: choose_auth_def boot_simps check_roles_Inr split: if_splits)

lemma choose_auth_Inl: "choose_auth sr cfg = Inl x \<Longrightarrow> x \<noteq> Fatal nil_client_message"
  by (auto simp: choose_auth_def boot_simps dest: check_roles_Inl split: if_splits)
    (simp_all add: nil_client_message_def)

lemma choose_kube_Inr:
  "choose_kube sr cfg = Inr kube \<Longrightarrow>
   if cfg_Kubeconfig cfg \<noteq> [] then kube = UseKubeconfig (cfg_Kubeconfig cfg)
   else kube = UseBackplane (cfg_BackplaneURL cfg) \<and> sr_url_scheme sr (cfg_BackplaneURL cfg) = Inr ''https''"
  by (auto simp: choose_kube_def boot_simps split: if_splits)

lemma choose_kube_Inl: "choose_kube sr cfg = Inl x \<Longrightarrow> x \<noteq> Fatal nil_client_message"
  by (auto simp: choose_kube_def boot_simps nil_client_message_def split: if_splits)

lemma choose_aws_Inr:
  "choose_aws cfg client = Inr aws \<Longrightarrow>
   if cfg_AWSEndpointURL cfg \<noteq> [] then \<exists>a. aws = UseStaticAws a \<and> st_EndpointURL a = cfg_AWSEndpointURL cfg
   else \<exists>s c. client = Some c \<and> aws = UseCloudCredentials s c"
  by (auto simp: choose_aws_def boot_simps split: if_splits option.splits)

lemma choose_aws_Inl:
  "choose_aws cfg client = Inl (Fatal nil_client_message) \<Longrightarrow> client = None \<and> cfg_AWSEndpointURL cfg = []"
  by (auto simp: choose_aws_def boot_simps nil_client_message_def split: if_splits option.splits)

lemma runServer_Inl:
  assumes "runServer sr fl = Inl x"
    and "Load_config (sr_read_file sr) (sr_unmarshal sr) (sr_env sr) (fl_ConfigFile fl) = Inr loaded"
    and "cfg = override_flags fl loaded"
  shows "x = Fatal ''Failed to initialize database'' \<or> x = Fatal ''Failed to build OCM authentication handler'' \<or>
    x = Fatal no_region_message \<or> choose_auth sr cfg = Inl x \<or> choose_kube sr cfg = Inl x \<or>
    (\<exists>authn authz client. choose_auth sr cfg = Inr (authn, authz, client) \<and> choose_aws cfg client = Inl x)"
  using assms(1) unfolding runServer_def assms(2) sum.case Let_def assms(3) [symmetric]
  by (auto simp: boot_simps split: if_splits)

lemma override_flags_policy: "cfg_AuthPolicy (override_flags fl cfg) = cfg_AuthPolicy cfg"
  by (simp add: override_flags_def Let_def split: option.splits)

lemma Load_config_policy:
  "Load_config rf um env path = Inr cfg \<Longrightarrow> auth_policy_of env = Inr (cfg_AuthPolicy cfg)"
  by (auto simp: Load_config_def Let_def split: sum.splits)


end
