(* ===== verification/Migrations.thy ===== *)
theory Migrations
  imports Effects "HOL-Library.Multiset"
begin

text \<open>
  \<open>internal/store/migrations.go\<close>: the schema migrations of one dialect.  The embedded directory is a
  list of file names with their texts; executing such a text on the schema is an argument.  The
  advisory lock of Postgres makes a run atomic with respect to other runs, so a run is one function
  of the database; any statement may fail, and a commit may be reported as failed after it was made.
\<close>

record 'd migrated =
  mg_schema :: 'd
  mg_versions :: "string list option"

text \<open>\<open>mg_versions\<close> is the table \<open>schema_migrations\<close>, when it exists.\<close>

datatype mig_stmt =
    M_Conn | M_Lock | M_Table | M_Last
  | M_Check string | M_Begin string | M_Apply string | M_Record string | M_Commit string

record mig_faults =
  mf_fault :: "mig_stmt \<Rightarrow> string option"
  mf_applied :: bool

type_synonym 'd exec_sql = "string \<Rightarrow> 'd \<Rightarrow> 'd result"

definition no_faults :: mig_faults where
  "no_faults = \<lparr>mf_fault = (\<lambda>_. None), mf_applied = False\<rparr>"

definition mig_stmt_ok :: "mig_faults \<Rightarrow> mig_stmt \<Rightarrow> string \<Rightarrow> string list \<Rightarrow> unit result" where
  "mig_stmt_ok f st msg args =
    (case mf_fault f st of Some e \<Rightarrow> Inl (Errw msg args (ErrExt e)) | None \<Rightarrow> Inr ())"

definition versions_of :: "'d migrated \<Rightarrow> string list" where
  "versions_of d = (case mg_versions d of None \<Rightarrow> [] | Some vs \<Rightarrow> vs)"

section \<open>Up\<close>

definition listMigrations :: "(string \<times> string) list \<Rightarrow> string \<Rightarrow> string list" where
  "listMigrations fs suffix = sort (filter (\<lambda>n. HasSuffix n suffix) (map fst fs))"

text \<open>A transaction that executes a text and changes the version table, or leaves everything alone.\<close>

definition mig_transaction ::
  "'d exec_sql \<Rightarrow> mig_faults \<Rightarrow> string \<Rightarrow> string list \<Rightarrow> string \<Rightarrow> (string list \<Rightarrow> string list) \<Rightarrow> 'd migrated \<Rightarrow>
    unit result \<times> 'd migrated"
where
  "mig_transaction exec f version msgs content change d =
    (case mig_stmt_ok f (M_Begin version) (msgs ! 0) [version] of
       Inl e \<Rightarrow> (Inl e, d)
     | Inr _ \<Rightarrow>
       (case (case mig_stmt_ok f (M_Apply version) (msgs ! 1) [version] of
                Inl e \<Rightarrow> Inl e
              | Inr _ \<Rightarrow> (case exec content (mg_schema d) of
                           Inl e \<Rightarrow> Inl (Errw (msgs ! 1) [version] e)
                         | Inr schema \<Rightarrow> Inr schema)) of
          Inl e \<Rightarrow> (Inl e, d)
        | Inr schema \<Rightarrow>
          (case mig_stmt_ok f (M_Record version) (msgs ! 2) [version] of
             Inl e \<Rightarrow> (Inl e, d)
           | Inr _ \<Rightarrow>
             (let d' = d\<lparr>mg_schema := schema, mg_versions := map_option change (mg_versions d)\<rparr>
              in case mig_stmt_ok f (M_Commit version) (msgs ! 3) [version] of
                   Inl e \<Rightarrow> (Inl e, if mf_applied f then d' else d)
                 | Inr _ \<Rightarrow> (Inr (), d')))))"

definition up_messages :: "string list" where
  "up_messages = [''beginning transaction for migration %s: %w'', ''applying migration %s: %w'',
    ''recording migration %s: %w'', ''committing migration %s: %w'']"

definition apply_migration ::
  "'d exec_sql \<Rightarrow> (string \<times> string) list \<Rightarrow> mig_faults \<Rightarrow> string \<Rightarrow> 'd migrated \<Rightarrow> unit result \<times> 'd migrated"
where
  "apply_migration exec fs f name d =
    (let version = TrimSuffix name ''.up.sql''
     in case mig_stmt_ok f (M_Check version) ''checking migration %s: %w'' [version] of
          Inl e \<Rightarrow> (Inl e, d)
        | Inr _ \<Rightarrow>
          if version \<in> set (versions_of d) then (Inr (), d)
          else (case map_of fs name of
                  None \<Rightarrow> (Inl (Errf ''reading migration %s: file does not exist'' [name]), d)
                | Some content \<Rightarrow>
                  mig_transaction exec f version up_messages content (\<lambda>vs. vs @ [version]) d))"

fun apply_all ::
  "'d exec_sql \<Rightarrow> (string \<times> string) list \<Rightarrow> mig_faults \<Rightarrow> string list \<Rightarrow> 'd migrated \<Rightarrow> unit result \<times> 'd migrated"
where
  "apply_all exec fs f [] d = (Inr (), d)"
| "apply_all exec fs f (n # ns) d =
    (case apply_migration exec fs f n d of
       (Inl e, d') \<Rightarrow> (Inl e, d')
     | (Inr _, d') \<Rightarrow> apply_all exec fs f ns d')"

definition runMigrations ::
  "'d exec_sql \<Rightarrow> (string \<times> string) list \<Rightarrow> mig_faults \<Rightarrow> string \<Rightarrow> 'd migrated \<Rightarrow> unit result \<times> 'd migrated"
where
  "runMigrations exec fs f dialect d =
    (case (if dialect = ''postgres''
           then (case mig_stmt_ok f M_Conn ''acquiring migration connection: %w'' [] of
                   Inl e \<Rightarrow> Inl e
                 | Inr _ \<Rightarrow> mig_stmt_ok f M_Lock ''acquiring migration advisory lock: %w'' [])
           else Inr ()) of
       Inl e \<Rightarrow> (Inl e, d)
     | Inr _ \<Rightarrow>
       (case mig_stmt_ok f M_Table ''creating schema_migrations table: %w'' [] of
          Inl e \<Rightarrow> (Inl e, d)
        | Inr _ \<Rightarrow>
          apply_all exec fs f (listMigrations fs ''.up.sql'') (d\<lparr>mg_versions := Some (versions_of d)\<rparr>)))"

section \<open>Down\<close>

definition down_messages :: "string list" where
  "down_messages = [''beginning transaction for rollback %s: %w'', ''rolling back migration %s: %w'',
    ''removing migration record %s: %w'', ''committing rollback %s: %w'']"

definition rollbackMigration ::
  "'d exec_sql \<Rightarrow> (string \<times> string) list \<Rightarrow> mig_faults \<Rightarrow> string \<Rightarrow> 'd migrated \<Rightarrow> unit result \<times> 'd migrated"
where
  "rollbackMigration exec fs f version d =
    (case mig_stmt_ok f (M_Check version) ''checking migration %s: %w'' [version] of
       Inl e \<Rightarrow> (Inl e, d)
     | Inr _ \<Rightarrow>
       if version \<notin> set (versions_of d) then (Inl (Errf ''migration %s is not applied'' [version]), d)
       else (let downFile = version @ ''.down.sql''
             in case map_of fs downFile of
                  None \<Rightarrow> (Inl (Errf ''reading down migration %s: file does not exist'' [downFile]), d)
                | Some content \<Rightarrow>
                  mig_transaction exec f version down_messages content (filter (\<lambda>v. v \<noteq> version)) d))"

definition RollbackLastMigration ::
  "'d exec_sql \<Rightarrow> (string \<times> string) list \<Rightarrow> mig_faults \<Rightarrow> 'd migrated \<Rightarrow> unit result \<times> 'd migrated"
where
  "RollbackLastMigration exec fs f d =
    (case mig_stmt_ok f M_Last ''finding last migration: %w'' [] of
       Inl e \<Rightarrow> (Inl e, d)
     | Inr _ \<Rightarrow>
       (case sort (versions_of d) of
          [] \<Rightarrow> (Inl (Errw ''finding last migration: %w'' [] (ErrExt ''sql: no rows in result set'')), d)
        | vs \<Rightarrow> rollbackMigration exec fs f (last vs) d))"

section \<open>A run can be repeated\<close>

lemma mig_ok [simp]: "mig_stmt_ok no_faults st msg args = Inr ()"
  by (simp add: mig_stmt_ok_def no_faults_def)

text \<open>One migration: it changes nothing, or it does what it does when nothing fails.\<close>

lemma apply_migration_cases:
  assumes "apply_migration exec fs f n d = (r, d')" "mg_versions d \<noteq> None"
  shows "(d' = d \<and> (r = Inr () \<longrightarrow> apply_migration exec fs no_faults n d = (Inr (), d))) \<or>
    apply_migration exec fs no_faults n d = (Inr (), d')"
  using assms
  by (auto simp: apply_migration_def mig_transaction_def Let_def split: sum.splits option.splits if_splits)

lemma apply_migration_done:
  assumes "apply_migration exec fs no_faults n d = (Inr (), d')" "mg_versions d \<noteq> None"
  shows "TrimSuffix n ''.up.sql'' \<in> set (versions_of d')" "set (versions_of d) \<subseteq> set (versions_of d')"
    "mg_versions d' \<noteq> None"
  using assms
  by (auto simp: apply_migration_def mig_transaction_def Let_def versions_of_def
      split: sum.splits option.splits if_splits)

lemma apply_migration_again:
  "TrimSuffix n ''.up.sql'' \<in> set (versions_of d) \<Longrightarrow> apply_migration exec fs no_faults n d = (Inr (), d)"
  by (simp add: apply_migration_def Let_def)

lemma apply_migration_keeps:
  assumes "apply_migration exec fs f n d = (r, d')" "mg_versions d \<noteq> None"
  shows "mg_versions d' \<noteq> None \<and> set (versions_of d) \<subseteq> set (versions_of d')"
proof -
  from apply_migration_cases [OF assms] consider "d' = d" | "apply_migration exec fs no_faults n d = (Inr (), d')"
    by blast
  then show ?thesis
  proof cases
    case 2
    from apply_migration_done [OF 2 assms(2)] show ?thesis by blast
  qed (use assms(2) in simp)
qed

lemma apply_all_keeps:
  assumes "apply_all exec fs f ns d = (r, d')" "mg_versions d \<noteq> None"
  shows "mg_versions d' \<noteq> None \<and> set (versions_of d) \<subseteq> set (versions_of d')"
  using assms
proof (induction ns arbitrary: d)
  case (Cons n ns)
  obtain r1 d1 where s: "apply_migration exec fs f n d = (r1, d1)" by fastforce
  from apply_migration_keeps [OF s Cons.prems(2)] Cons s show ?case
    by (cases r1) (auto simp: subset_iff)
qed simp

lemma apply_all_resumes:
  assumes "apply_all exec fs f ns d = (r, d')" "mg_versions d \<noteq> None"
  shows "apply_all exec fs no_faults ns d' = apply_all exec fs no_faults ns d"
  using assms
proof (induction ns arbitrary: d)
  case (Cons n ns)
  obtain r1 d1 where s: "apply_migration exec fs f n d = (r1, d1)" by fastforce
  note cs = apply_migration_cases [OF s Cons.prems(2)]
  show ?case
  proof (cases r1)
    case (Inl e)
    with s Cons.prems have "d' = d1" by simp
    from cs Inl consider "d1 = d" | "apply_migration exec fs no_faults n d = (Inr (), d1)" by blast
    then show ?thesis
    proof cases
      case 2
      from apply_migration_again [OF apply_migration_done(1) [OF 2 Cons.prems(2)]] 2 \<open>d' = d1\<close>
      show ?thesis by simp
    qed (simp add: \<open>d' = d1\<close>)
  next
    case (Inr u)
    then have ok: "apply_migration exec fs no_faults n d = (Inr (), d1)" using cs by auto
    note dn = apply_migration_done [OF ok Cons.prems(2)]
    from s Cons.prems Inr have rest: "apply_all exec fs f ns d1 = (r, d')" by simp
    from apply_all_keeps [OF rest dn(3)] dn(1) have "TrimSuffix n ''.up.sql'' \<in> set (versions_of d')" by auto
    with Cons.IH [OF rest dn(3)] ok show ?thesis by (simp add: apply_migration_again)
  qed
qed simp

lemma apply_all_versions:
  assumes "apply_all exec fs no_faults ns d = (Inr u, d')" "mg_versions d \<noteq> None"
  shows "(\<lambda>n. TrimSuffix n ''.up.sql'') ` set ns \<subseteq> set (versions_of d') \<and> mg_versions d' \<noteq> None"
  using assms
proof (induction ns arbitrary: d)
  case (Cons n ns)
  then obtain d1 where s: "apply_migration exec fs no_faults n d = (Inr (), d1)"
    and rest: "apply_all exec fs no_faults ns d1 = (Inr u, d')"
    by (auto split: prod.splits sum.splits)
  note dn = apply_migration_done [OF s Cons.prems(2)]
  from Cons.IH [OF rest dn(3)] apply_all_keeps [OF rest dn(3)] dn(1) show ?case by auto
qed simp

lemma apply_all_applied:
  assumes "(\<lambda>n. TrimSuffix n ''.up.sql'') ` set ns \<subseteq> set (versions_of d)"
  shows "snd (apply_all exec fs f ns d) = d"
proof -
  have "snd (apply_migration exec fs f n d) = d" if "n \<in> set ns" for n
    using assms that by (auto simp: apply_migration_def Let_def split: sum.splits)
  then show ?thesis
  proof (induction ns)
    case (Cons n ns)
    from Cons.prems [of n] obtain r where "apply_migration exec fs f n d = (r, d)" by (metis list.set_intros(1) prod.collapse)
    with Cons show ?case by (cases r) auto
  qed simp
qed

lemma runMigrations_cases:
  "(\<exists>e. runMigrations exec fs f dialect d = (Inl e, d)) \<or>
   runMigrations exec fs f dialect d =
     apply_all exec fs f (listMigrations fs ''.up.sql'') (d\<lparr>mg_versions := Some (versions_of d)\<rparr>)"
  by (auto simp: runMigrations_def split: sum.splits if_splits)

lemma runMigrations_ok:
  "runMigrations exec fs no_faults dialect d =
   apply_all exec fs no_faults (listMigrations fs ''.up.sql'') (d\<lparr>mg_versions := Some (versions_of d)\<rparr>)"
  by (simp add: runMigrations_def)

lemma with_table: "mg_versions d \<noteq> None \<Longrightarrow> d\<lparr>mg_versions := Some (versions_of d)\<rparr> = d"
  by (cases d) (auto simp: versions_of_def)

lemma migrations_resume:
  "runMigrations exec fs no_faults dialect (snd (runMigrations exec fs f dialect d)) =
     runMigrations exec fs no_faults dialect d"
proof -
  let ?ns = "listMigrations fs ''.up.sql''" and ?d = "d\<lparr>mg_versions := Some (versions_of d)\<rparr>"
  have t: "mg_versions ?d \<noteq> None" by simp
  obtain r d1 where a: "apply_all exec fs f ?ns ?d = (r, d1)" by fastforce
  note d1 = apply_all_resumes [OF a t] apply_all_keeps [OF a t]
  show ?thesis
    using runMigrations_cases [of exec fs f dialect d] a d1 with_table [of d1]
    by (auto simp: runMigrations_ok)
qed

text \<open>
  C17. Migrations can be interrupted and repeated. Whatever statements of a run fail, and even if a
  commit is reported as failed after it was made, running the migrations again without faults ends
  exactly as a single run without faults would have; once a run has succeeded every version of the
  dialect is recorded and no later run changes anything.
\<close>
theorem migrations_can_be_repeated:
  "runMigrations exec fs no_faults dialect (snd (runMigrations exec fs f dialect d)) =
     runMigrations exec fs no_faults dialect d \<and>
   (case runMigrations exec fs no_faults dialect d of
      (Inl e, d') \<Rightarrow> True
    | (Inr _, d') \<Rightarrow>
        (\<lambda>n. TrimSuffix n ''.up.sql'') ` set (listMigrations fs ''.up.sql'') \<subseteq> set (versions_of d') \<and>
        (\<forall>f'. snd (runMigrations exec fs f' dialect d') = d'))"
proof
  let ?ns = "listMigrations fs ''.up.sql''" and ?d = "d\<lparr>mg_versions := Some (versions_of d)\<rparr>"
  have t: "mg_versions ?d \<noteq> None" by simp
  show "runMigrations exec fs no_faults dialect (snd (runMigrations exec fs f dialect d)) =
      runMigrations exec fs no_faults dialect d"
    by (rule migrations_resume)
  show "case runMigrations exec fs no_faults dialect d of
      (Inl e, d') \<Rightarrow> True
    | (Inr _, d') \<Rightarrow>
        (\<lambda>n. TrimSuffix n ''.up.sql'') ` set ?ns \<subseteq> set (versions_of d') \<and>
        (\<forall>f'. snd (runMigrations exec fs f' dialect d') = d')"
  proof (cases "runMigrations exec fs no_faults dialect d")
    case (Pair r d')
    show ?thesis
    proof (cases r)
      case (Inr u)
      with Pair have "apply_all exec fs no_faults ?ns ?d = (Inr u, d')" by (simp add: runMigrations_ok)
      note v = apply_all_versions [OF this t]
      have "snd (runMigrations exec fs f' dialect d') = d'" for f'
        using runMigrations_cases [of exec fs f' dialect d'] with_table [of d'] v
          apply_all_applied [of ?ns d' exec fs f'] by auto
      with v Pair Inr show ?thesis by simp
    qed (simp add: Pair)
  qed
qed

text \<open>A down migration that undoes its up migration takes the last version away again.\<close>

lemma rollback_undoes_last:
  assumes "map_of fs (v @ ''.up.sql'') = Some up" "map_of fs (v @ ''.down.sql'') = Some down"
    and "exec up (mg_schema d) = Inr sc" "exec down sc = Inr (mg_schema d)"
    and "mg_versions d = Some vs" "list_all (\<lambda>w. w < v) vs"
    and "TrimSuffix (v @ ''.up.sql'') ''.up.sql'' = v"
  shows "RollbackLastMigration exec fs no_faults (snd (apply_migration exec fs no_faults (v @ ''.up.sql'') d)) =
    (Inr (), d)"
proof -
  have new: "v \<notin> set vs" using assms(6) by (auto simp: list_all_iff)
  have up: "apply_migration exec fs no_faults (v @ ''.up.sql'') d =
      (Inr (), d\<lparr>mg_schema := sc, mg_versions := Some (vs @ [v])\<rparr>)"
    using assms new by (simp add: apply_migration_def Let_def mig_transaction_def versions_of_def)
  have "sort (vs @ [v]) = sort vs @ [v]"
    using assms(6) by (intro properties_for_sort) (auto simp: sorted_append list_all_iff)
  moreover have "RollbackLastMigration exec fs no_faults e = rollbackMigration exec fs no_faults (last (sort (versions_of e))) e"
    if "versions_of e \<noteq> []" for e
    using that by (cases "sort (versions_of e)") (auto simp: RollbackLastMigration_def dest: arg_cong [where f = length])
  moreover have "filter (\<lambda>w. w \<noteq> v) vs = vs" using new by (auto simp: filter_id_conv)
  ultimately show ?thesis
    using assms new unfolding up
    by (cases d) (simp add: versions_of_def rollbackMigration_def mig_transaction_def Let_def)
qed

end
