(* ===== verification/Rta_Client.thy ===== *)
theory Rta_Client
  imports Url_Escape Http
begin

text \<open>
  The HTTP client of the command line, \<open>internal/rta/client.go\<close>.  Arguments: the HTTP transport
  (answers depend on the requests sent so far), the parts of \<open>net/url\<close> that read a URL, the JSON
  codec, and the version string.
\<close>

definition basePath :: string where
  "basePath = ''/api/v0/trusted-actions''"

record wire_request =
  wr_Method :: string
  wr_URL :: string
  wr_UserAgent :: string
  wr_Accept :: string
  wr_Authorization :: "string option"
  wr_ContentType :: "string option"
  wr_Body :: "string option"

text \<open>
  \<open>nt_Do\<close> gives the status and the body as read, or the transport's error; \<open>nt_URLPath\<close> is the path of
  a URL that \<open>http.NewRequest\<close> accepts, \<open>nt_Scheme\<close> and \<open>nt_Hostname\<close> read a URL that parses.
\<close>

record net =
  nt_Do :: "wire_request list \<Rightarrow> wire_request \<Rightarrow> (int \<times> string result) result"
  nt_URLPath :: "string \<Rightarrow> string result"
  nt_Scheme :: "string \<Rightarrow> string result"
  nt_Hostname :: "string \<Rightarrow> string"
  nt_StatusText :: "int \<Rightarrow> string"
  nt_Marshal :: "execution_request \<Rightarrow> string result"
  nt_Error :: "string \<Rightarrow> (string \<times> string) result"
  nt_Catalog :: "string \<Rightarrow> (int \<times> action_summary list) result"
  nt_Detail :: "string \<Rightarrow> action_detail result"
  nt_Execution :: "string \<Rightarrow> api_execution result"
  nt_Executions :: "string \<Rightarrow> api_execution_list result"
  nt_Output :: "string \<Rightarrow> api_output result"
  nt_Audits :: "string \<Rightarrow> api_audit_list result"

record client =
  tc_base :: string
  tc_token :: string
  tc_userAgent :: string

section \<open>Making a client\<close>

definition TrimRight :: "string \<Rightarrow> char \<Rightarrow> string" where
  "TrimRight s c = rev (dropWhile (\<lambda>d. d = c) (rev s))"

definition isSecureOrLoopback :: "net \<Rightarrow> string \<Rightarrow> bool" where
  "isSecureOrLoopback nt rawURL =
    (case nt_Scheme nt rawURL of
       Inl e \<Rightarrow> False
     | Inr scheme \<Rightarrow>
       if scheme = ''https'' then True
       else nt_Hostname nt rawURL \<in> {''localhost'', ''127.0.0.1'', ''::1''})"

text \<open>The only option the commands pass is the token; none is the empty token.\<close>

definition NewClient :: "net \<Rightarrow> string \<Rightarrow> string \<Rightarrow> string \<Rightarrow> client result" where
  "NewClient nt userAgent serverURL0 token =
    (if serverURL0 = [] then Inl (Errf ''server URL is required; set --server or RTA_SERVER'' [])
     else
       (let serverURL = TrimRight serverURL0 (CHR ''/'');
            c = \<lparr>tc_base = serverURL @ basePath, tc_token = token, tc_userAgent = userAgent\<rparr>
        in if tc_token c \<noteq> [] \<and> \<not> isSecureOrLoopback nt serverURL
           then Inl (Errf ''refusing to send credentials over plain HTTP to %s; use HTTPS or a loopback address''
                  [serverURL])
           else Inr c))"

text \<open>\<open>CheckRedirect\<close>: the schemes of the requests made so far, oldest first, and the next URL.\<close>

definition rejectHTTPSDowngrade :: "string list \<Rightarrow> string \<Rightarrow> string \<Rightarrow> goerr option" where
  "rejectHTTPSDowngrade via scheme url =
    (if length via \<ge> 10 then Some (Errf ''stopped after 10 redirects'' [])
     else if length via > 0 \<and> last via = ''https'' \<and> scheme \<noteq> ''https''
     then Some (Errf ''refusing redirect from HTTPS to %s: would expose credentials'' [url])
     else None)"

section \<open>One exchange\<close>

text \<open>\<open>APIError\<close> and its text.\<close>

record api_failure =
  af_Method :: string
  af_Path :: string
  af_StatusCode :: int
  af_Code :: string
  af_Reason :: string

definition APIError_Error :: "net \<Rightarrow> api_failure \<Rightarrow> string" where
  "APIError_Error nt e =
    (let status = (if af_Code e \<noteq> [] then af_Code e else nt_StatusText nt (af_StatusCode e))
     in if af_Reason e \<noteq> []
        then sprintf ''%s %s: %d %s: %s''
          [af_Method e, af_Path e, show_int (af_StatusCode e), status, af_Reason e]
        else sprintf ''%s %s: %d %s'' [af_Method e, af_Path e, show_int (af_StatusCode e), status])"

definition parseAPIError :: "net \<Rightarrow> string \<Rightarrow> string \<Rightarrow> int \<Rightarrow> string \<Rightarrow> api_failure" where
  "parseAPIError nt method path statusCode body =
    (let apiErr = \<lparr>af_Method = method, af_Path = path, af_StatusCode = statusCode, af_Code = [], af_Reason = []\<rparr>;
         trimmed = TrimSpace body;
         fallback = (if length trimmed > 0
           then apiErr\<lparr>af_Reason := (if length trimmed > 256 then take 256 trimmed @ ''...'' else trimmed)\<rparr>
           else apiErr)
     in case nt_Error nt body of
          Inr (code, reason) \<Rightarrow>
            if code \<noteq> [] then apiErr\<lparr>af_Code := code, af_Reason := reason\<rparr> else fallback
        | Inl e \<Rightarrow> fallback)"

text \<open>
  \<open>do\<close>: an answer of 2xx is decoded, and an empty one leaves the zero value.  \<open>path\<close> is the path
  of the request's URL.
\<close>

definition client_do ::
  "net \<Rightarrow> client \<Rightarrow> wire_request \<Rightarrow> string \<Rightarrow> (string \<Rightarrow> 'a result) \<Rightarrow> 'a \<Rightarrow> (wire_request list, 'a) act"
where
  "client_do nt c req0 path decode zero log =
    (let req = req0\<lparr>wr_UserAgent := tc_userAgent c, wr_Accept := ''application/json'',
           wr_Authorization := (if tc_token c \<noteq> [] then Some (''Bearer '' @ tc_token c) else wr_Authorization req0)\<rparr>;
         log' = log @ [req]
     in case nt_Do nt log req of
          Inl e \<Rightarrow> (Inl (Errw ''%s %s: %w'' [wr_Method req, path] e), log')
        | Inr (status, body) \<Rightarrow>
          (case body of
             Inl e \<Rightarrow> (Inl (Errw ''%s %s: read response: %w'' [wr_Method req, path] e), log')
           | Inr data \<Rightarrow>
             if status < 200 \<or> status \<ge> 300
             then (Inl (ErrExt (APIError_Error nt (parseAPIError nt (wr_Method req) path status data))), log')
             else if length data > 0
             then (case decode data of
                     Inl e \<Rightarrow> (Inl (Errw ''%s %s: decode response: %w'' [wr_Method req, path] e), log')
                   | Inr a \<Rightarrow> (Inr a, log'))
             else (Inr zero, log')))"

definition blank_request :: "string \<Rightarrow> string \<Rightarrow> wire_request" where
  "blank_request method url =
    \<lparr>wr_Method = method, wr_URL = url, wr_UserAgent = [], wr_Accept = [], wr_Authorization = None,
     wr_ContentType = None, wr_Body = None\<rparr>"

definition client_get ::
  "net \<Rightarrow> client \<Rightarrow> string \<Rightarrow> (string \<times> string) list \<Rightarrow> (string \<Rightarrow> 'a result) \<Rightarrow> 'a \<Rightarrow> (wire_request list, 'a) act"
where
  "client_get nt c path query decode zero =
    (let u = tc_base c @ path; u = (if length query > 0 then u @ ''?'' @ query_Encode query else u)
     in case nt_URLPath nt u of
          Inl e \<Rightarrow> fail e
        | Inr p \<Rightarrow> client_do nt c (blank_request ''GET'' u) p decode zero)"

definition client_post ::
  "net \<Rightarrow> client \<Rightarrow> string \<Rightarrow> execution_request \<Rightarrow> (string \<Rightarrow> 'a result) \<Rightarrow> 'a \<Rightarrow> (wire_request list, 'a) act"
where
  "client_post nt c path body decode zero =
    (case nt_Marshal nt body of
       Inl e \<Rightarrow> fail (Errw ''marshal request body: %w'' [] e)
     | Inr payload \<Rightarrow>
       (case nt_URLPath nt (tc_base c @ path) of
          Inl e \<Rightarrow> fail e
        | Inr p \<Rightarrow>
          client_do nt c ((blank_request ''POST'' (tc_base c @ path))
            \<lparr>wr_ContentType := Some ''application/json'', wr_Body := Some payload\<rparr>) p decode zero))"

section \<open>The operations\<close>

text \<open>
  The zero values of the generated types; that of an action's description has an empty type, which is
  none of the model's constructors, so it is an argument.
\<close>

definition zero_uuid :: uuid where
  "zero_uuid = ''00000000-0000-0000-0000-000000000000''"

definition zero_time :: gotime where
  "zero_time = day_of_date 1 1 1 * ns_per_day"

definition zero_execution :: api_execution where
  "zero_execution =
    \<lparr>ox_Links = None, ox_Id = zero_uuid, ox_Action = [], ox_Status = [], ox_ApprovalState = None,
     ox_Username = None, ox_TargetCluster = [], ox_Jira = None, ox_DryRun = None, ox_Force = None,
     ox_Params = None, ox_Scope = None, ox_Type = None, ox_Revision = None, ox_ManifestWorkName = None,
     ox_RunnerSeconds = None, ox_UploadSeconds = None, ox_DurationSeconds = None,
     ox_CreatedAt = zero_time, ox_UpdatedAt = zero_time, ox_CompletedAt = None\<rparr>"

definition zero_output :: api_output where
  "zero_output = \<lparr>oo_Links = None, oo_Message = [], oo_Resources = []\<rparr>"

definition zero_executions :: api_execution_list where
  "zero_executions = \<lparr>xs_Items = [], xs_Total = 0, xs_Page = 0, xs_Limit = 0, xs_HasMore = False\<rparr>"

definition zero_audits :: api_audit_list where
  "zero_audits = \<lparr>us_Items = [], us_Total = 0, us_Page = 0, us_Limit = 0, us_HasMore = False\<rparr>"

definition client_Catalog :: "net \<Rightarrow> client \<Rightarrow> (wire_request list, int \<times> action_summary list) act" where
  "client_Catalog nt c = client_get nt c ''/'' [] (nt_Catalog nt) (0, [])"

definition client_Describe ::
  "net \<Rightarrow> client \<Rightarrow> action_detail \<Rightarrow> string \<Rightarrow> (wire_request list, action_detail) act" where
  "client_Describe nt c zero action = client_get nt c (''/'' @ PathEscape action) [] (nt_Detail nt) zero"

definition client_CreateExecution ::
  "net \<Rightarrow> client \<Rightarrow> string \<Rightarrow> execution_request \<Rightarrow> (wire_request list, api_execution) act" where
  "client_CreateExecution nt c action req =
    client_post nt c (''/'' @ PathEscape action @ ''/run'') req (nt_Execution nt) zero_execution"

definition client_ListExecutions ::
  "net \<Rightarrow> client \<Rightarrow> (string \<times> string) list \<Rightarrow> (wire_request list, api_execution_list) act" where
  "client_ListExecutions nt c params = client_get nt c ''/runs'' params (nt_Executions nt) zero_executions"

definition client_GetExecution :: "net \<Rightarrow> client \<Rightarrow> string \<Rightarrow> (wire_request list, api_execution) act" where
  "client_GetExecution nt c i =
    client_get nt c (''/runs/'' @ PathEscape i) [] (nt_Execution nt) zero_execution"

definition client_GetExecutionOutput :: "net \<Rightarrow> client \<Rightarrow> string \<Rightarrow> (wire_request list, api_output) act" where
  "client_GetExecutionOutput nt c i =
    client_get nt c (''/runs/'' @ PathEscape i @ ''/output'') [] (nt_Output nt) zero_output"

definition client_ListAuditEntries ::
  "net \<Rightarrow> client \<Rightarrow> (string \<times> string) list \<Rightarrow> (wire_request list, api_audit_list) act" where
  "client_ListAuditEntries nt c params = client_get nt c ''/audit'' params (nt_Audits nt) zero_audits"

lemmas client_ops =
  client_Catalog_def client_Describe_def client_CreateExecution_def client_ListExecutions_def
  client_GetExecution_def client_GetExecutionOutput_def client_ListAuditEntries_def

end
