(* ===== verification/Rta_Commands.thy ===== *)
theory Rta_Commands
  imports Rta_Client
begin

text \<open>
  The commands of \<open>internal/rta\<close> (\<open>action.go\<close>, \<open>execution.go\<close>, \<open>audit.go\<close>, \<open>auth.go\<close>,
  \<open>output.go\<close>, \<open>version.go\<close>, \<open>command.go\<close>) as \<open>RunE\<close> functions over the parsed flags.
  Cobra and viper, the OCM configuration, the JSON encoder, the table writer and the version of the build
  are arguments or values; standard output never fails.
\<close>

section \<open>Flags, output and state\<close>

record rta_flags =
  rf_output :: string
  rf_token :: string
  rf_server :: string
  rf_cluster :: string
  rf_jira :: string
  rf_param :: "string list"
  rf_force :: bool
  rf_dry_run :: bool
  rf_no_wait :: bool
  rf_status :: string
  rf_action :: string

record version_info =
  vi_Version :: string
  vi_Commit :: string
  vi_BuildDate :: string
  vi_GoVersion :: string
  vi_Platform :: string

datatype rta_json =
    JSummaries "action_summary list"
  | JDetail action_detail
  | JExecution api_execution
  | JRun api_execution "api_output option" string
  | JResources "object list"
  | JExecutions "api_execution list"
  | JOutput api_output
  | JAudits "api_audit_entry list"
  | JVersion version_info

datatype printed = PLine string | PTable "string list" "string list list" | PJson rta_json

record rta_io =
  ri_sent :: "wire_request list"
  ri_out :: "printed list"
  ri_err :: "string list"

text \<open>The OCM command line's configuration: its access token and what \<open>Armed\<close> says of it.\<close>

record ocm_login =
  ol_AccessToken :: string
  ol_Armed :: "(bool \<times> string) result"

record build_info =
  bi_Version :: string
  bi_Commit :: string
  bi_BuildDate :: string
  bi_ModuleVersion :: "string option"
  bi_GoVersion :: string
  bi_OS :: string
  bi_Arch :: string

text \<open>
  \<open>re_order\<close> is the order in which a map is ranged over; \<open>re_ticks\<close> how many ticks a wait receives before
  its deadline is seen, which is finite since the ticker and the deadline run on the same clock.
\<close>

record rta_env =
  re_net :: net
  re_ocm :: "ocm_login option result"
  re_build :: build_info
  re_order :: "(string \<times> string) list \<Rightarrow> (string \<times> string) list"
  re_zero_detail :: action_detail
  re_type_text :: "action_type \<Rightarrow> string"
  re_scope_text :: "action_scope \<Rightarrow> string"
  re_ticks :: nat

definition sends :: "(wire_request list, 'a) act \<Rightarrow> (rta_io, 'a) act" where
  "sends m io = (case m (ri_sent io) of (r, l) \<Rightarrow> (r, io\<lparr>ri_sent := l\<rparr>))"

definition prints :: "printed list \<Rightarrow> (rta_io, unit) act" where
  "prints ps io = (Inr (), io\<lparr>ri_out := ri_out io @ ps\<rparr>)"

definition prints_err :: "string list \<Rightarrow> (rta_io, unit) act" where
  "prints_err ls io = (Inr (), io\<lparr>ri_err := ri_err io @ ls\<rparr>)"

definition attempt :: "('s, 'a) act \<Rightarrow> ('s, 'a result) act" where
  "attempt m s = (case m s of (r, s') \<Rightarrow> (Inr r, s'))"

section \<open>Shared parts of the commands\<close>

definition invalidUsage :: "string \<Rightarrow> string list \<Rightarrow> goerr" where
  "invalidUsage = Errf"

definition requiredArgs :: "string list \<Rightarrow> string list \<Rightarrow> goerr option" where
  "requiredArgs names args =
    (if length args < length names
     then Some (invalidUsage ''missing required argument: %s'' [names ! length args])
     else if length args > length names
     then Some (invalidUsage ''unexpected argument: %s'' [args ! length names])
     else None)"

text \<open>For a parent command, cobra's suggestions are an argument.\<close>

definition rejectUnknownArgsAndSuggestSimilar ::
  "bool \<Rightarrow> string \<Rightarrow> (string \<Rightarrow> string list) \<Rightarrow> string list \<Rightarrow> goerr option"
where
  "rejectUnknownArgsAndSuggestSimilar has_subcommands command_path suggestions_for args =
    (case args of
       [] \<Rightarrow> None
     | a # rest \<Rightarrow>
       if has_subcommands then
         (let msg = sprintf ''%q is not a valid subcommand of %s'' [a, command_path];
              msg = (case suggestions_for a of [s] \<Rightarrow> msg @ sprintf ''; did you mean %q?'' [s] | _ \<Rightarrow> msg)
          in Some (invalidUsage ''%s'' [msg]))
       else Some (invalidUsage ''unexpected positional arguments: this command takes none'' []))"

definition validateFormat :: "rta_flags \<Rightarrow> unit result" where
  "validateFormat fl =
    (if rf_output fl \<noteq> ''text'' \<and> rf_output fl \<noteq> ''json''
     then Inl (invalidUsage ''invalid --output %q: expected text or json'' [rf_output fl])
     else Inr ())"

definition isJSON :: "rta_flags \<Rightarrow> bool" where
  "isJSON fl = (rf_output fl = ''json'')"

definition resolveToken :: "rta_env \<Rightarrow> rta_flags \<Rightarrow> string result" where
  "resolveToken env fl =
    (if rf_token fl \<noteq> [] then Inr (rf_token fl)
     else (case re_ocm env of
             Inl e \<Rightarrow> Inl (Errw ''load OCM configuration: %w'' [] e)
           | Inr None \<Rightarrow> Inl (Errf ''not authenticated: use --token or log in with ocm'' [])
           | Inr (Some cfg) \<Rightarrow>
             if ol_AccessToken cfg = []
             then Inl (Errf ''not authenticated: OCM config has no access token; log in with ocm'' [])
             else (case ol_Armed cfg of
                     Inl e \<Rightarrow> Inl (Errw ''check OCM token: %w'' [] e)
                   | Inr (armed, reason) \<Rightarrow>
                     if \<not> armed then Inl (Errf ''OCM token expired: %s; log in again with ocm'' [reason])
                     else Inr (ol_AccessToken cfg))))"

definition getVersionInfo :: "build_info \<Rightarrow> version_info" where
  "getVersionInfo b =
    \<lparr>vi_Version =
       (if bi_Version b = ''dev''
        then (case bi_ModuleVersion b of
                Some v \<Rightarrow> if HasPrefix v ''v'' then v else bi_Version b
              | None \<Rightarrow> bi_Version b)
        else bi_Version b),
     vi_Commit = (if bi_Commit b = [] then ''unknown'' else bi_Commit b),
     vi_BuildDate = (if bi_BuildDate b = [] then ''unknown'' else bi_BuildDate b),
     vi_GoVersion = bi_GoVersion b,
     vi_Platform = bi_OS b @ ''/'' @ bi_Arch b\<rparr>"

definition version_String :: "version_info \<Rightarrow> string" where
  "version_String i =
    ''rta version: '' @ vi_Version i @ [newline] @ ''commit: '' @ vi_Commit i @ [newline] @
    ''build date: '' @ vi_BuildDate i @ [newline] @ ''go: '' @ vi_GoVersion i @ [newline] @
    ''platform: '' @ vi_Platform i"

definition userAgent :: "build_info \<Rightarrow> string" where
  "userAgent b = (let info = getVersionInfo b in ''rta/'' @ vi_Version info @ '' ('' @ vi_Platform info @ '')'')"

definition newClient :: "rta_env \<Rightarrow> rta_flags \<Rightarrow> bool \<Rightarrow> client result" where
  "newClient env fl requireAuth =
    (case (if requireAuth then resolveToken env fl else Inr (rf_token fl)) of
       Inl e \<Rightarrow> Inl e
     | Inr token \<Rightarrow> NewClient (re_net env) (userAgent (re_build env)) (rf_server fl) token)"

section \<open>Output\<close>

text \<open>\<open>t.Format("2006-01-02 15:04:05")\<close>, of a time in UTC.\<close>

definition FormatSeconds :: "gotime \<Rightarrow> string" where
  "FormatSeconds t =
    (let ns = nat (t mod ns_per_day)
     in date_text (date_of_day (t div ns_per_day)) @ '' '' @ zpad 2 (ns div 3600000000000) @ '':'' @
        zpad 2 (ns div 60000000000 mod 60) @ '':'' @ zpad 2 (ns div 1000000000 mod 60))"

definition writeEmptyList :: "rta_env \<Rightarrow> string \<Rightarrow> (string \<times> string) list \<Rightarrow> printed" where
  "writeEmptyList env resource filters =
    (let parts = map (\<lambda>(k, v). k @ '' '' @ v) (filter (\<lambda>(k, v). v \<noteq> []) (re_order env filters))
     in PLine (''No '' @ resource @ '' found'' @
          (if length parts > 0 then '' matching '' @ Join parts '', '' else []) @ ''.''))"

definition handleJSONOutputAndEmptyLists ::
  "rta_env \<Rightarrow> rta_flags \<Rightarrow> rta_json \<Rightarrow> nat \<Rightarrow> string \<Rightarrow> (string \<times> string) list \<Rightarrow> printed option"
where
  "handleJSONOutputAndEmptyLists env fl items count resource filters =
    (if isJSON fl then Some (if count = 0 then PLine ''[]'' else PJson items)
     else if count = 0 then Some (writeEmptyList env resource filters)
     else None)"

text \<open>A list command prints what the handler gives, or else its table.\<close>

definition list_output ::
  "rta_env \<Rightarrow> rta_flags \<Rightarrow> rta_json \<Rightarrow> nat \<Rightarrow> string \<Rightarrow> (string \<times> string) list \<Rightarrow> string list \<Rightarrow>
    string list list \<Rightarrow> (rta_io, unit) act"
where
  "list_output env fl items count resource filters headers rows =
    prints [case handleJSONOutputAndEmptyLists env fl items count resource filters of
              Some p \<Rightarrow> p
            | None \<Rightarrow> PTable headers rows]"

section \<open>The commands\<close>

text \<open>The query parameters and the filters shown to the user, from the flags named.\<close>

definition flag_value :: "rta_flags \<Rightarrow> string \<Rightarrow> string" where
  "flag_value fl f =
    (if f = ''status'' then rf_status fl else if f = ''action'' then rf_action fl
     else if f = ''cluster'' then rf_cluster fl else [])"

definition list_filters :: "rta_flags \<Rightarrow> string list \<Rightarrow> (string \<times> string) list \<times> (string \<times> string) list" where
  "list_filters fl names =
    fold (\<lambda>f (query, filters).
        if flag_value fl f \<noteq> []
        then (alput (if f = ''cluster'' then ''target'' else f) (flag_value fl f) query,
              alput f (flag_value fl f) filters)
        else (query, filters)) names ([], [])"

definition with_client ::
  "rta_env \<Rightarrow> rta_flags \<Rightarrow> bool \<Rightarrow> (client \<Rightarrow> (rta_io, unit) act) \<Rightarrow> (rta_io, unit) act"
where
  "with_client env fl requireAuth body =
    seq (lift (validateFormat fl)) (\<lambda>_. seq (lift (newClient env fl requireAuth)) body)"

definition rta_action_list :: "rta_env \<Rightarrow> rta_flags \<Rightarrow> (rta_io, unit) act" where
  "rta_action_list env fl =
    with_client env fl False (\<lambda>client.
      seq (sends (client_Catalog (re_net env) client)) (\<lambda>(total, items).
        list_output env fl (JSummaries items) (length items) ''actions'' []
          [''NAME'', ''SCOPE'', ''TYPE'', ''DESCRIPTION'']
          (map (\<lambda>a. [as_Name a, re_scope_text env (as_Scope a), re_type_text env (as_Type a), as_Description a])
            items)))"

definition param_row :: "action_param \<Rightarrow> string list" where
  "param_row p =
    [''  '' @ ap_Name p, if ap_Required p = Some True then ''yes'' else ''no'',
     case ap_Default p of None \<Rightarrow> [] | Some d \<Rightarrow> d, case ap_Description p of None \<Rightarrow> [] | Some d \<Rightarrow> d]"

definition rta_action_describe :: "rta_env \<Rightarrow> rta_flags \<Rightarrow> string \<Rightarrow> (rta_io, unit) act" where
  "rta_action_describe env fl name =
    with_client env fl False (\<lambda>client.
      seq (sends (client_Describe (re_net env) client (re_zero_detail env) name)) (\<lambda>a.
        prints (if isJSON fl then [PJson (JDetail a)]
          else [PLine (''Name:        '' @ as_Name a), PLine (''Scope:       '' @ re_scope_text env (as_Scope a)),
                PLine (''Type:        '' @ re_type_text env (as_Type a)),
                PLine (''Description: '' @ as_Description a)] @
               (case ad_Params a of
                  None \<Rightarrow> []
                | Some ps \<Rightarrow>
                  if length ps > 0
                  then [PLine [], PLine ''Parameters:'',
                        PTable [''  NAME'', ''REQUIRED'', ''DEFAULT'', ''DESCRIPTION''] (map param_row ps)]
                  else []))))"

text \<open>\<open>parseParams\<close>: the pairs are cut at the first equals sign, and a later value wins.\<close>

fun collect_params :: "string list \<Rightarrow> (string \<times> string) list \<Rightarrow> (string \<times> string) list result" where
  "collect_params [] params = Inr params"
| "collect_params (kv # raw) params =
    (case Cut (CHR ''='') kv of
       (k, v, found) \<Rightarrow>
         if \<not> found then Inl (invalidUsage ''invalid --param %q: expected key=value'' [kv])
         else collect_params raw (alput k v params))"

definition parseParams :: "rta_flags \<Rightarrow> (string \<times> string) list option result" where
  "parseParams fl =
    (if length (rf_param fl) = 0 then Inr None
     else (case collect_params (rf_param fl) [] of Inl e \<Rightarrow> Inl e | Inr ps \<Rightarrow> Inr (Some ps)))"

definition terminal :: "string \<Rightarrow> bool" where
  "terminal status \<longleftrightarrow> status \<in> {''succeeded'', ''failed'', ''timed_out''}"

text \<open>The loop of \<open>waitForCompletion\<close>, by the ticks received before the deadline is seen.\<close>

primrec poll_execution :: "net \<Rightarrow> client \<Rightarrow> nat \<Rightarrow> api_execution \<Rightarrow> (rta_io, api_execution) act" where
  "poll_execution nt c 0 exec =
    fail (Errf ''timed out waiting for execution %s (last status: %s)'' [ox_Id exec, ox_Status exec])"
| "poll_execution nt c (Suc ticks) exec =
    seq (wrap_err ''poll execution: %w'' [] (sends (client_GetExecution nt c (ox_Id exec)))) (\<lambda>updated.
      if terminal (ox_Status updated) then ret updated else poll_execution nt c ticks updated)"

definition waitForCompletion :: "rta_env \<Rightarrow> client \<Rightarrow> api_execution \<Rightarrow> (rta_io, api_execution) act" where
  "waitForCompletion env c exec =
    (if terminal (ox_Status exec) then ret exec
     else seq (prints_err [sprintf ''Waiting for execution %s...'' [ox_Id exec]])
            (\<lambda>_. poll_execution (re_net env) c (re_ticks env) exec))"

definition run_request :: "rta_flags \<Rightarrow> (string \<times> string) list option \<Rightarrow> execution_request" where
  "run_request fl params =
    \<lparr>rq_DryRun = Some (rf_dry_run fl), rq_Force = Some (rf_force fl), rq_Jira = rf_jira fl,
     rq_Params = params, rq_TargetCluster = rf_cluster fl\<rparr>"

definition not_succeeded :: "api_execution \<Rightarrow> bool" where
  "not_succeeded exec \<longleftrightarrow> ox_Status exec = ''failed'' \<or> ox_Status exec = ''timed_out''"

definition status_error :: "api_execution \<Rightarrow> goerr" where
  "status_error exec = Errf ''execution %s: %s'' [ox_Id exec, ox_Status exec]"

text \<open>What \<open>run\<close> prints of a completed execution, and its error.\<close>

definition report_json :: "net \<Rightarrow> client \<Rightarrow> api_execution \<Rightarrow> (rta_io, unit) act" where
  "report_json nt c exec =
    seq (attempt (sends (client_GetExecutionOutput nt c (ox_Id exec)))) (\<lambda>output.
    seq (prints [PJson (case output of
                          Inl e \<Rightarrow> JRun exec None (sprintf ''fetch output: %s'' [err_text e])
                        | Inr out \<Rightarrow> JRun exec (Some out) [])]) (\<lambda>_.
    if not_succeeded exec then fail (status_error exec) else ret ()))"

definition resource_lines :: "api_output \<Rightarrow> printed list" where
  "resource_lines out =
    (if length (oo_Resources out) > 0
     then [PLine [], PLine (sprintf ''Resources (%d):'' [show_nat (length (oo_Resources out))]),
           PJson (JResources (oo_Resources out))]
     else [])"

definition report_text :: "net \<Rightarrow> client \<Rightarrow> bool \<Rightarrow> api_execution \<Rightarrow> (rta_io, unit) act" where
  "report_text nt c dryRun exec =
    seq (prints ([PLine (''Execution:  '' @ ox_Id exec), PLine (''Action:     '' @ ox_Action exec),
             PLine (''Cluster:    '' @ ox_TargetCluster exec), PLine (''Status:     '' @ ox_Status exec)] @
            (case ox_DurationSeconds exec of None \<Rightarrow> [] | Some d \<Rightarrow> [PLine (''Duration:   '' @ show_int d @ ''s'')]) @
            (if dryRun then [PLine [], PLine ''Dry run: no changes were made.''] else []))) (\<lambda>_.
    seq (if ox_Status exec = ''succeeded''
         then seq (wrap_err ''fetch output: %w'' [] (sends (client_GetExecutionOutput nt c (ox_Id exec)))) (\<lambda>output.
           prints ((if oo_Message output \<noteq> [] then [PLine [], PLine (oo_Message output)] else []) @ resource_lines output))
         else ret ()) (\<lambda>_.
    if not_succeeded exec
    then seq (attempt (sends (client_GetExecutionOutput nt c (ox_Id exec)))) (\<lambda>output.
      case output of
        Inl e \<Rightarrow> fail (status_error exec)
      | Inr out \<Rightarrow>
        if oo_Message out \<noteq> []
        then fail (Errf ''execution %s: %s: %s'' [ox_Id exec, ox_Status exec, oo_Message out])
        else fail (status_error exec))
    else ret ()))"

definition rta_action_run :: "rta_env \<Rightarrow> rta_flags \<Rightarrow> string \<Rightarrow> (rta_io, unit) act" where
  "rta_action_run env fl name =
    seq (lift (validateFormat fl)) (\<lambda>_.
    seq (lift (parseParams fl)) (\<lambda>params.
    seq (lift (newClient env fl True)) (\<lambda>client.
    seq (sends (client_CreateExecution (re_net env) client name (run_request fl params))) (\<lambda>exec.
    if rf_no_wait fl
    then prints [if isJSON fl then PJson (JExecution exec)
                 else PLine (sprintf ''Execution %s submitted (status: %s)'' [ox_Id exec, ox_Status exec])]
    else seq (waitForCompletion env client exec) (\<lambda>exec.
      if isJSON fl then report_json (re_net env) client exec
      else report_text (re_net env) client (rf_dry_run fl) exec)))))"

definition rta_execution_list :: "rta_env \<Rightarrow> rta_flags \<Rightarrow> (rta_io, unit) act" where
  "rta_execution_list env fl =
    with_client env fl True (\<lambda>client.
      case list_filters fl [''status'', ''action'', ''cluster''] of (query, filters) \<Rightarrow>
        seq (sends (client_ListExecutions (re_net env) client query)) (\<lambda>list.
          list_output env fl (JExecutions (xs_Items list)) (length (xs_Items list)) ''executions'' filters
            [''ID'', ''ACTION'', ''CLUSTER'', ''STATUS'', ''CREATED'']
            (map (\<lambda>e. [ox_Id e, ox_Action e, ox_TargetCluster e, ox_Status e, FormatSeconds (ox_CreatedAt e)])
              (xs_Items list))))"

definition labelled :: "string \<Rightarrow> ('a \<Rightarrow> string) \<Rightarrow> 'a option \<Rightarrow> printed list" where
  "labelled label shown v = (case v of None \<Rightarrow> [] | Some x \<Rightarrow> [PLine (label @ shown x)])"

definition rta_execution_get :: "rta_env \<Rightarrow> rta_flags \<Rightarrow> string \<Rightarrow> (rta_io, unit) act" where
  "rta_execution_get env fl i =
    with_client env fl True (\<lambda>client.
      seq (sends (client_GetExecution (re_net env) client i)) (\<lambda>e.
        prints (if isJSON fl then [PJson (JExecution e)]
          else [PLine (''ID:        '' @ ox_Id e), PLine (''Action:    '' @ ox_Action e),
                PLine (''Cluster:   '' @ ox_TargetCluster e), PLine (''Status:    '' @ ox_Status e),
                PLine (''Created:   '' @ FormatSeconds (ox_CreatedAt e))] @
               labelled ''Completed: '' FormatSeconds (ox_CompletedAt e) @
               labelled ''Duration:  '' (\<lambda>d. show_int d @ ''s'') (ox_DurationSeconds e) @
               labelled ''User:      '' (\<lambda>u. u) (ox_Username e) @
               labelled ''Jira:      '' (\<lambda>j. j) (ox_Jira e) @
               (if ox_DryRun e = Some True then [PLine ''Dry run:   yes''] else []))))"

definition rta_execution_output :: "rta_env \<Rightarrow> rta_flags \<Rightarrow> string \<Rightarrow> (rta_io, unit) act" where
  "rta_execution_output env fl i =
    with_client env fl True (\<lambda>client.
      seq (sends (client_GetExecutionOutput (re_net env) client i)) (\<lambda>output.
        prints (if isJSON fl then [PJson (JOutput output)]
          else (if oo_Message output \<noteq> [] then [PLine (oo_Message output)] else []) @ resource_lines output)))"

definition rta_audit_list :: "rta_env \<Rightarrow> rta_flags \<Rightarrow> (rta_io, unit) act" where
  "rta_audit_list env fl =
    with_client env fl True (\<lambda>client.
      case list_filters fl [''action'', ''cluster''] of (query, filters) \<Rightarrow>
        seq (sends (client_ListAuditEntries (re_net env) client query)) (\<lambda>list.
          list_output env fl (JAudits (us_Items list)) (length (us_Items list)) ''audit entries'' filters
            [''TIMESTAMP'', ''USER'', ''METHOD'', ''PATH'', ''STATUS'', ''ACTION'']
            (map (\<lambda>e. [FormatSeconds (oa_Timestamp e), oa_Username e, oa_Method e, oa_Path e,
                show_int (oa_StatusCode e), case oa_Action e of None \<Rightarrow> [] | Some a \<Rightarrow> a]) (us_Items list))))"

definition rta_version :: "rta_env \<Rightarrow> rta_flags \<Rightarrow> (rta_io, unit) act" where
  "rta_version env fl =
    seq (lift (validateFormat fl)) (\<lambda>_.
      let info = getVersionInfo (re_build env)
      in prints [if rf_output fl = ''json'' then PJson (JVersion info) else PLine (version_String info)])"

text \<open>The command tree, below the flags and arguments cobra has checked.\<close>

datatype rta_command =
    ActionList | ActionDescribe string | ActionRun string
  | ExecutionList | ExecutionGet string | ExecutionOutput string
  | AuditList | VersionCommand

definition rta_main :: "rta_env \<Rightarrow> rta_flags \<Rightarrow> rta_command \<Rightarrow> (rta_io, unit) act" where
  "rta_main env fl cmd =
    (case cmd of
       ActionList \<Rightarrow> rta_action_list env fl
     | ActionDescribe a \<Rightarrow> rta_action_describe env fl a
     | ActionRun a \<Rightarrow> rta_action_run env fl a
     | ExecutionList \<Rightarrow> rta_execution_list env fl
     | ExecutionGet i \<Rightarrow> rta_execution_get env fl i
     | ExecutionOutput i \<Rightarrow> rta_execution_output env fl i
     | AuditList \<Rightarrow> rta_audit_list env fl
     | VersionCommand \<Rightarrow> rta_version env fl)"

end
