(* ===== verification/Rta_Claims.thy ===== *)
theory Rta_Claims
  imports Rta_Commands
begin

text \<open>
  What the command line promises: where credentials go, that names reach the server as they were
  given, and what the exit of \<open>rta action run\<close> says of the execution.
\<close>

section \<open>Requests\<close>

text \<open>The requests an operation may send, as a predicate on each.\<close>

definition client_request :: "client \<Rightarrow> wire_request \<Rightarrow> bool" where
  "client_request c r \<longleftrightarrow>
    (\<exists>path. wr_URL r = tc_base c @ path) \<and> wr_UserAgent r = tc_userAgent c \<and>
    wr_Authorization r = (if tc_token c \<noteq> [] then Some (''Bearer '' @ tc_token c) else None)"

lemma client_do_log [log_rules]:
  assumes "\<exists>path. wr_URL req = tc_base c @ path" "wr_Authorization req = None"
  shows "logs_only (client_request c) (client_do nt c req p decode zero)"
  using assms
  by (auto simp: logs_only_def client_do_def Let_def client_request_def split: sum.splits prod.splits)

lemma client_get_log [log_rules]: "logs_only (client_request c) (client_get nt c path query decode zero)"
  by (auto simp: client_get_def Let_def blank_request_def intro!: log_rules split: sum.splits)

lemma client_post_log [log_rules]: "logs_only (client_request c) (client_post nt c path body decode zero)"
  by (auto simp: client_post_def blank_request_def intro!: log_rules split: sum.splits)

text \<open>A command's requests: a property of each request its client may send.\<close>

definition sends_only :: "(wire_request \<Rightarrow> bool) \<Rightarrow> (rta_io, 'a) act \<Rightarrow> bool" where
  "sends_only P m \<longleftrightarrow> (\<forall>io. \<exists>rs. ri_sent (snd (m io)) = ri_sent io @ rs \<and> list_all P rs)"

lemma sends_only_sends [log_rules]: "logs_only P m \<Longrightarrow> sends_only P (sends m)"
  by (auto simp: sends_only_def logs_only_def sends_def split: prod.splits)
     (metis snd_conv)

lemma sends_only_quiet [log_rules]:
  "sends_only P (prints ps)" "sends_only P (prints_err ls)" "sends_only P (ret a)" "sends_only P (fail e)"
  "sends_only P (lift r)"
  by (simp_all add: sends_only_def prints_def prints_err_def act_defs)

lemma sends_only_seq [log_rules]:
  assumes "sends_only P m" "\<And>a. sends_only P (f a)"
  shows "sends_only P (seq m f)"
  unfolding sends_only_def
proof
  fix io
  obtain r io1 where m: "m io = (r, io1)" by fastforce
  from assms(1) [unfolded sends_only_def, rule_format, of io] m
  obtain rs where rs: "ri_sent io1 = ri_sent io @ rs" "list_all P rs" by auto
  show "\<exists>rs. ri_sent (snd (seq m f io)) = ri_sent io @ rs \<and> list_all P rs"
  proof (cases r)
    case (Inl e)
    with m rs show ?thesis by (simp add: seq_def)
  next
    case (Inr a)
    from assms(2) [of a, unfolded sends_only_def, rule_format, of io1] m rs Inr show ?thesis
      by (auto simp: seq_def)
  qed
qed

lemma sends_only_wrap [log_rules]: "sends_only P m \<Longrightarrow> sends_only P (wrap_err f as m)"
  by (simp add: sends_only_def)

lemma sends_only_attempt [log_rules]: "sends_only P m \<Longrightarrow> sends_only P (attempt m)"
  by (simp add: sends_only_def attempt_def split: prod.splits) (metis snd_conv)

lemma poll_sends [log_rules]: "sends_only (client_request c) (poll_execution nt c n exec)"
  by (induction n arbitrary: exec) (auto simp: client_ops intro!: log_rules)

section \<open>Credentials\<close>

text \<open>What holds of every request a command sends, of its server and its credentials.\<close>

definition credentials_safe :: "rta_env \<Rightarrow> rta_flags \<Rightarrow> bool \<Rightarrow> wire_request \<Rightarrow> bool" where
  "credentials_safe env fl auth r \<longleftrightarrow>
    (\<exists>path. wr_URL r = TrimRight (rf_server fl) (CHR ''/'') @ basePath @ path) \<and>
    (case wr_Authorization r of
       None \<Rightarrow> \<not> auth
     | Some _ \<Rightarrow> isSecureOrLoopback (re_net env) (TrimRight (rf_server fl) (CHR ''/'')))"

lemma newClient_safe:
  assumes "newClient env fl auth = Inr c" "client_request c r"
  shows "credentials_safe env fl auth r"
proof -
  have token: "t \<noteq> []" if "resolveToken env fl = Inr t" for t
    using that by (auto simp: resolveToken_def split: if_splits sum.splits option.splits prod.splits)
  from assms(1) obtain t where t: "(if auth then resolveToken env fl else Inr (rf_token fl)) = Inr t"
    "NewClient (re_net env) (userAgent (re_build env)) (rf_server fl) t = Inr c"
    by (auto simp: newClient_def split: sum.splits)
  from t(1) token have "auth \<Longrightarrow> t \<noteq> []" by auto
  with t(2) assms(2) show ?thesis
    by (auto simp: NewClient_def client_request_def credentials_safe_def Let_def split: if_splits)
qed

lemma sends_only_mono: "sends_only P m \<Longrightarrow> (\<And>r. P r \<Longrightarrow> Q r) \<Longrightarrow> sends_only Q m"
  by (auto simp: sends_only_def list_all_iff) blast

lemma sends_only_lift_seq:
  assumes "\<And>a. r = Inr a \<Longrightarrow> sends_only P (f a)"
  shows "sends_only P (seq (lift r) f)"
  using assms by (cases r) (auto simp: sends_only_def seq_def lift_def)

lemma with_new_client:
  assumes "\<And>c. sends_only (client_request c) (f c)"
  shows "sends_only (credentials_safe env fl auth) (seq (lift (newClient env fl auth)) f)"
  using assms newClient_safe by (intro sends_only_lift_seq) (metis sends_only_mono)

lemma with_client_safe:
  assumes "\<And>c. sends_only (client_request c) (body c)"
  shows "sends_only (credentials_safe env fl auth) (with_client env fl auth body)"
  unfolding with_client_def by (rule sends_only_lift_seq, rule with_new_client, rule assms)

lemma if_sends [log_rules]:
  "(b \<Longrightarrow> sends_only P m) \<Longrightarrow> (\<not> b \<Longrightarrow> sends_only P m') \<Longrightarrow> sends_only P (if b then m else m')"
  by simp

lemmas command_defs =
  rta_action_list_def rta_action_describe_def rta_execution_list_def rta_execution_get_def
  rta_execution_output_def rta_audit_list_def list_output_def

definition needs_auth :: "rta_command \<Rightarrow> bool" where
  "needs_auth cmd = (case cmd of ActionList \<Rightarrow> False | ActionDescribe a \<Rightarrow> False | _ \<Rightarrow> True)"

lemma report_sends [log_rules]:
  "sends_only (client_request c) (report_json nt c exec)"
  "sends_only (client_request c) (report_text nt c dry exec)"
  unfolding report_json_def report_text_def client_ops
  by (intro log_rules | simp add: log_rules split: sum.split)+

lemma wait_sends [log_rules]: "sends_only (client_request c) (waitForCompletion env c exec)"
  unfolding waitForCompletion_def by (intro log_rules)

lemma command_safe: "sends_only (credentials_safe env fl (needs_auth cmd)) (rta_main env fl cmd)"
proof (cases cmd)
  case (ActionRun a)
  have "sends_only (client_request c)
      (seq (sends (client_CreateExecution (re_net env) c a req)) (\<lambda>exec.
        if rf_no_wait fl then prints (ps exec)
        else seq (waitForCompletion env c exec) (\<lambda>exec. if isJSON fl then report_json (re_net env) c exec
          else report_text (re_net env) c (rf_dry_run fl) exec)))" for c req ps
    unfolding client_ops by (intro log_rules)
  then show ?thesis
    unfolding ActionRun rta_main_def rta_command.case rta_action_run_def needs_auth_def
    by (intro sends_only_lift_seq with_new_client)
next
  case VersionCommand
  then show ?thesis unfolding rta_main_def rta_version_def Let_def by (auto intro!: log_rules)
qed (auto simp: rta_main_def needs_auth_def command_defs client_ops
      intro!: with_client_safe log_rules split: prod.splits)

text \<open>The redirects that \<open>CheckRedirect\<close> lets through, as the schemes of the requests in order.\<close>

definition redirects_followed :: "string list \<Rightarrow> bool" where
  "redirects_followed schemes \<longleftrightarrow>
    list_all (\<lambda>i. rejectHTTPSDowngrade (take i schemes) (schemes ! i) [] = None) [1..<length schemes]"

lemma redirects_https:
  assumes "redirects_followed schemes" "i < length schemes" "schemes ! 0 = ''https''"
  shows "schemes ! i = ''https''"
  using assms(2)
proof (induction i)
  case (Suc i)
  have "rejectHTTPSDowngrade (take (Suc i) schemes) (schemes ! Suc i) [] = None"
    using assms(1) Suc.prems by (simp add: redirects_followed_def list_all_iff)
  moreover have "last (take (Suc i) schemes) = schemes ! i"
    using Suc.prems by (simp add: take_Suc_conv_app_nth)
  ultimately show ?case using Suc by (auto simp: rejectHTTPSDowngrade_def split: if_splits)
qed (use assms in simp)

lemma redirects_set:
  assumes "redirects_followed schemes" "schemes \<noteq> []" "hd schemes = ''https''"
  shows "set schemes = {''https''}"
proof -
  have "x = ''https''" if "x \<in> set schemes" for x
  proof -
    from that obtain i where i: "i < length schemes" "x = schemes ! i" unfolding in_set_conv_nth by blast
    show ?thesis unfolding i(2) using assms(1) i(1) assms(3) [unfolded hd_conv_nth [OF assms(2)]]
      by (rule redirects_https)
  qed
  moreover have "''https'' \<in> set schemes" using assms(2,3) hd_in_set by metis
  ultimately show ?thesis by blast
qed

lemma redirects_bounded:
  assumes "redirects_followed schemes" shows "length schemes \<le> 10"
proof (rule ccontr)
  assume long: "\<not> length schemes \<le> 10"
  then have "10 \<in> set [1..<length schemes]" by simp
  with assms have "rejectHTTPSDowngrade (take 10 schemes) (schemes ! 10) [] = None"
    unfolding redirects_followed_def list_all_iff by blast
  moreover have "length (take 10 schemes) \<ge> 10" using long by simp
  ultimately show False unfolding rejectHTTPSDowngrade_def by (simp del: length_take)
qed

text \<open>
  C26. Tokens only travel over https or to the local machine. Whatever the command, every request it
  sends is to the API below the configured server; one that carries a token is to a server whose URL has
  the scheme https or a loopback host, and the commands that need authentication send no request without
  one. A chain of redirects that the client follows from an https request stays on https, and has at
  most ten requests.
\<close>
theorem tokens_stay_on_secure_servers:
  "(\<exists>rs. ri_sent (snd (rta_main env fl cmd io)) = ri_sent io @ rs \<and>
      list_all (credentials_safe env fl (needs_auth cmd)) rs) \<and>
   {schemes. redirects_followed schemes \<and> schemes \<noteq> [] \<and> hd schemes = ''https''} \<subseteq>
     {schemes. length schemes \<le> 10 \<and> set schemes = {''https''}}"
proof
  show "\<exists>rs. ri_sent (snd (rta_main env fl cmd io)) = ri_sent io @ rs \<and>
      list_all (credentials_safe env fl (needs_auth cmd)) rs"
    using command_safe by (auto simp: sends_only_def)
  show "{schemes. redirects_followed schemes \<and> schemes \<noteq> [] \<and> hd schemes = ''https''} \<subseteq>
     {schemes. length schemes \<le> 10 \<and> set schemes = {''https''}}"
    using redirects_set redirects_bounded by blast
qed

section \<open>Names and filters\<close>

text \<open>The operation sends nothing or one request, which is as described.\<close>

definition requests_one :: "(wire_request \<Rightarrow> bool) \<Rightarrow> (wire_request list, 'a) act \<Rightarrow> bool" where
  "requests_one P m \<longleftrightarrow> (\<forall>log. snd (m log) = log \<or> (\<exists>r. snd (m log) = log @ [r] \<and> P r))"

lemma client_do_one:
  "snd (client_do nt c req p decode zero log) =
    log @ [req\<lparr>wr_UserAgent := tc_userAgent c, wr_Accept := ''application/json'',
      wr_Authorization := (if tc_token c \<noteq> [] then Some (''Bearer '' @ tc_token c) else wr_Authorization req)\<rparr>]"
  by (auto simp: client_do_def Let_def split: sum.splits prod.splits)

lemma client_get_one:
  "(\<And>r. wr_Method r = ''GET'' \<Longrightarrow> wr_Body r = None \<Longrightarrow>
      wr_URL r = tc_base c @ path @ (if query = [] then [] else CHR ''?'' # query_Encode query) \<Longrightarrow> P r) \<Longrightarrow>
    requests_one P (client_get nt c path query decode zero)"
  by (auto simp: requests_one_def client_get_def client_do_one blank_request_def fail_def Let_def split: sum.splits)

lemma client_post_one:
  "(\<And>r payload. wr_Method r = ''POST'' \<Longrightarrow> nt_Marshal nt body = Inr payload \<Longrightarrow> wr_Body r = Some payload \<Longrightarrow>
      wr_URL r = tc_base c @ path \<Longrightarrow> P r) \<Longrightarrow>
    requests_one P (client_post nt c path body decode zero)"
  by (auto simp: requests_one_def client_post_def client_do_one blank_request_def fail_def split: sum.splits)

text \<open>The path below the base, with each segment unescaped as the server does it.\<close>

definition names_path :: "client \<Rightarrow> string \<Rightarrow> string list \<Rightarrow> wire_request \<Rightarrow> bool" where
  "names_path c method segments r \<longleftrightarrow>
    wr_Method r = method \<and>
    (\<exists>path. wr_URL r = tc_base c @ path \<and> set path \<inter> {CHR ''?'', CHR ''#''} = {} \<and>
      map (url_unescape PathSegment) (Split (CHR ''/'') path) = map Some ([] # segments))"

definition asks_query :: "client \<Rightarrow> string \<Rightarrow> (string \<times> string) list \<Rightarrow> wire_request \<Rightarrow> bool" where
  "asks_query c path pairs r \<longleftrightarrow>
    wr_Method r = ''GET'' \<and>
    (if pairs = [] then wr_URL r = tc_base c @ path
     else \<exists>q. wr_URL r = tc_base c @ path @ CHR ''?'' # q \<and> ParseQuery q = Some pairs)"

lemma Split_escaped [simp]:
  "Split (CHR ''/'') (PathEscape s) = [PathEscape s]"
  "Split (CHR ''/'') (PathEscape s @ CHR ''/'' # t) = PathEscape s # Split (CHR ''/'') t"
  using path_escape_plain [of s] by (auto intro!: Split_no_sep_self Split_no_sep_append)

lemma escaped_no_query [simp]: "CHR ''?'' \<notin> set (PathEscape s)" "CHR ''#'' \<notin> set (PathEscape s)"
  using path_escape_plain [of s] by auto

definition shown_filters :: "rta_flags \<Rightarrow> bool \<Rightarrow> (string \<times> string) list" where
  "shown_filters fl with_status =
    filter (\<lambda>(k, v). v \<noteq> [])
      ([(''action'', rf_action fl)] @ (if with_status then [(''status'', rf_status fl)] else []) @
       [(''target'', rf_cluster fl)])"

lemma executions_query:
  "map (\<lambda>k. (k, the (map_of (fst (list_filters fl [''status'', ''action'', ''cluster''])) k)))
     (sort (map fst (fst (list_filters fl [''status'', ''action'', ''cluster''])))) = shown_filters fl True"
  by (simp add: list_filters_def flag_value_def shown_filters_def)

lemma audits_query:
  "map (\<lambda>k. (k, the (map_of (fst (list_filters fl [''action'', ''cluster''])) k)))
     (sort (map fst (fst (list_filters fl [''action'', ''cluster''])))) = shown_filters fl False"
  by (simp add: list_filters_def flag_value_def shown_filters_def)

lemma asks_query_encoded:
  assumes "map (\<lambda>k. (k, the (map_of query k))) (sort (map fst query)) = pairs"
    and "wr_Method r = ''GET''"
    and "wr_URL r = tc_base c @ path @ (if query = [] then [] else CHR ''?'' # query_Encode query)"
  shows "asks_query c path pairs r"
proof -
  have "pairs = [] \<longleftrightarrow> query = []" using assms(1) by (metis list.map_disc_iff sort_key_simps(1) length_0_conv length_map length_sort)
  then show ?thesis using assms(2,3) ParseQuery_Encode [of query] unfolding assms(1) by (auto simp: asks_query_def)
qed

text \<open>
  What the user names reaches the server unchanged, whatever characters it has. The path of a
  request splits at the slashes into exactly the segments of the operation, among which the action or
  execution ID given unescapes to itself, and it has no query or fragment; the body of a creation is the
  encoded request; and the query of a list parses to the filters the user set, the cluster as
  \<open>target\<close>, and no others.
\<close>
lemma requests_name_what_was_asked:
  "requests_one (names_path c ''GET'' [a]) (client_Describe nt c zero a) \<and>
   requests_one (\<lambda>r. names_path c ''POST'' [a, ''run''] r \<and> nt_Marshal nt req = Inr (the (wr_Body r)))
     (client_CreateExecution nt c a req) \<and>
   requests_one (names_path c ''GET'' [''runs'', i]) (client_GetExecution nt c i) \<and>
   requests_one (names_path c ''GET'' [''runs'', i, ''output'']) (client_GetExecutionOutput nt c i) \<and>
   requests_one (asks_query c ''/runs'' (shown_filters fl True))
     (client_ListExecutions nt c (fst (list_filters fl [''status'', ''action'', ''cluster'']))) \<and>
   requests_one (asks_query c ''/audit'' (shown_filters fl False))
     (client_ListAuditEntries nt c (fst (list_filters fl [''action'', ''cluster''])))"
proof (intro conjI)
  show "requests_one (asks_query c ''/runs'' (shown_filters fl True))
     (client_ListExecutions nt c (fst (list_filters fl [''status'', ''action'', ''cluster''])))"
    unfolding client_ops by (rule client_get_one, rule asks_query_encoded [OF executions_query])
  show "requests_one (asks_query c ''/audit'' (shown_filters fl False))
     (client_ListAuditEntries nt c (fst (list_filters fl [''action'', ''cluster''])))"
    unfolding client_ops by (rule client_get_one, rule asks_query_encoded [OF audits_query])
qed (unfold client_ops, (rule client_get_one client_post_one, force simp: names_path_def)+)

section \<open>Waiting\<close>

lemma seq_Inr: "seq m f s = (Inr b, s'') \<longleftrightarrow> (\<exists>a s'. m s = (Inr a, s') \<and> f a s' = (Inr b, s''))"
  by (auto simp: seq_def split: prod.splits sum.splits)

lemma sends_Inr: "sends m io = (Inr a, io') \<longleftrightarrow> (\<exists>l. m (ri_sent io) = (Inr a, l) \<and> io' = io\<lparr>ri_sent := l\<rparr>)"
  by (auto simp: sends_def split: prod.splits)

lemma wrap_Inr: "wrap_err f as m s = (Inr a, s') \<longleftrightarrow> m s = (Inr a, s')"
  by (auto simp: wrap_err_def split: prod.splits sum.splits)

lemma lift_Inr: "lift r s = (Inr a, s') \<longleftrightarrow> r = Inr a \<and> s' = s"
  by (auto simp: lift_def)

lemma ret_fail_Inr: "ret a s = (Inr b, s') \<longleftrightarrow> b = a \<and> s' = s" "fail e s \<noteq> (Inr b, s')"
  by (auto simp: act_defs)

lemma prints_Inr: "prints ps io = (Inr u, io') \<longleftrightarrow> io' = io\<lparr>ri_out := ri_out io @ ps\<rparr>"
  "prints_err ls io = (Inr u, io') \<longleftrightarrow> io' = io\<lparr>ri_err := ri_err io @ ls\<rparr>"
  by (auto simp: prints_def prints_err_def)

lemma attempt_Inr: "attempt m s = (Inr r, s') \<longleftrightarrow> m s = (r, s')"
  by (auto simp: attempt_def split: prod.splits)

lemmas Inr_simps = seq_Inr sends_Inr wrap_Inr lift_Inr ret_fail_Inr prints_Inr attempt_Inr

text \<open>The server reported the execution, when it was created or in a poll.\<close>

definition reported :: "net \<Rightarrow> client \<Rightarrow> string \<Rightarrow> api_execution \<Rightarrow> bool" where
  "reported nt c action e \<longleftrightarrow>
    (\<exists>req log. fst (client_CreateExecution nt c action req log) = Inr e) \<or>
    (\<exists>i log. fst (client_GetExecution nt c i log) = Inr e)"

lemma poll_reported:
  "poll_execution nt c n exec io = (Inr e, io') \<Longrightarrow> terminal (ox_Status e) \<and> reported nt c a e"
proof (induction n arbitrary: exec io)
  case (Suc n)
  from Suc.prems obtain updated log where poll: "client_GetExecution nt c (ox_Id exec) (ri_sent io) = (Inr updated, log)"
    and rest: "(if terminal (ox_Status updated) then ret updated else poll_execution nt c n updated)
      (io\<lparr>ri_sent := log\<rparr>) = (Inr e, io')"
    by (auto simp: Inr_simps)
  show ?case
  proof (cases "terminal (ox_Status updated)")
    case True
    with rest have "e = updated" by (simp add: Inr_simps)
    moreover have "reported nt c a updated" using poll unfolding reported_def by (metis fst_conv)
    ultimately show ?thesis using True by simp
  qed (use rest Suc.IH in simp)
qed (simp add: Inr_simps)

text \<open>The output of an execution was the last thing asked for, and what was answered is shown.\<close>

definition output_shown :: "bool \<Rightarrow> net \<Rightarrow> client \<Rightarrow> api_execution \<Rightarrow> rta_io \<Rightarrow> bool" where
  "output_shown as_json nt c e io \<longleftrightarrow>
    (\<exists>log. case client_GetExecutionOutput nt c (ox_Id e) log of
       (Inl err, log') \<Rightarrow> as_json \<and> ri_sent io = log' \<and>
         last (ri_out io) = PJson (JRun e None (''fetch output: '' @ err_text err))
     | (Inr out, log') \<Rightarrow> ri_sent io = log' \<and>
         (if as_json then last (ri_out io) = PJson (JRun e (Some out) [])
          else (oo_Message out = [] \<or> PLine (oo_Message out) \<in> set (ri_out io)) \<and>
               (oo_Resources out = [] \<or> PJson (JResources (oo_Resources out)) \<in> set (ri_out io))))"

lemma report_json_Inr:
  assumes "report_json nt c e io = (Inr u, io')"
  shows "\<not> not_succeeded e \<and> output_shown True nt c e io'"
proof -
  obtain r log where answer: "client_GetExecutionOutput nt c (ox_Id e) (ri_sent io) = (r, log)" by fastforce
  with assms show ?thesis
    unfolding output_shown_def
    by (intro conjI exI [of _ "ri_sent io"]; cases r)
      (auto simp: report_json_def seq_def attempt_def sends_def prints_def act_defs split: if_splits)
qed

lemma report_text_Inr:
  assumes "report_text nt c dry e io = (Inr u, io')"
  shows "\<not> not_succeeded e \<and> (ox_Status e = ''succeeded'' \<longrightarrow> output_shown False nt c e io')"
proof -
  obtain r log where answer: "client_GetExecutionOutput nt c (ox_Id e) (ri_sent io) = (r, log)" by fastforce
  with assms have ok: "\<not> not_succeeded e"
    by (auto simp: report_text_def seq_def attempt_def wrap_err_def sends_def prints_def ret_def fail_def
        split: if_splits sum.splits prod.splits)
  with assms answer have "output_shown False nt c e io'" if "ox_Status e = ''succeeded''"
    unfolding output_shown_def using that
    by (intro exI [of _ "ri_sent io"]; cases r)
      (auto simp: report_text_def resource_lines_def seq_def wrap_err_def sends_def prints_def ret_def split: if_splits)
  with ok show ?thesis by simp
qed


text \<open>A server on which the execution is pending at first, and has succeeded at the second poll.\<close>

definition demo_shown :: "string \<Rightarrow> api_execution" where
  "demo_shown status = zero_execution\<lparr>ox_Id := ''e1'', ox_Status := status\<rparr>"

definition demo_net :: net where
  "demo_net =
    \<lparr>nt_Do = (\<lambda>log r. Inr (if wr_Method r = ''POST'' then 202 else 200,
        Inr (if HasSuffix (wr_URL r) ''/output'' then ''done'' else if length log < 2 then ''pending'' else ''succeeded''))),
     nt_URLPath = Inr, nt_Scheme = (\<lambda>u. Inr ''https''), nt_Hostname = (\<lambda>u. ''api''), nt_StatusText = (\<lambda>n. []),
     nt_Marshal = (\<lambda>req. Inr ''{}''), nt_Error = (\<lambda>s. Inl (ErrExt ''no error body'')),
     nt_Catalog = (\<lambda>s. Inl (ErrExt s)), nt_Detail = (\<lambda>s. Inl (ErrExt s)),
     nt_Execution = (\<lambda>s. Inr (demo_shown s)), nt_Executions = (\<lambda>s. Inl (ErrExt s)),
     nt_Output = (\<lambda>s. Inr (zero_output\<lparr>oo_Message := s\<rparr>)), nt_Audits = (\<lambda>s. Inl (ErrExt s))\<rparr>"

definition demo_rta :: rta_env where
  "demo_rta =
    \<lparr>re_net = demo_net, re_ocm = Inr None,
     re_build = \<lparr>bi_Version = ''dev'', bi_Commit = [], bi_BuildDate = [], bi_ModuleVersion = None,
       bi_GoVersion = ''go1.25'', bi_OS = ''linux'', bi_Arch = ''amd64''\<rparr>,
     re_order = (\<lambda>m. m), re_zero_detail = undefined, re_type_text = (\<lambda>t. []), re_scope_text = (\<lambda>s. []),
     re_ticks = 150\<rparr>"

definition demo_flags :: rta_flags where
  "demo_flags =
    \<lparr>rf_output = ''text'', rf_token = ''t'', rf_server = ''https://api/'', rf_cluster = ''abc'', rf_jira = ''OHSS-1'',
     rf_param = [''namespace=default''], rf_force = False, rf_dry_run = False, rf_no_wait = False, rf_status = [],
     rf_action = []\<rparr>"

definition demo_io :: rta_io where
  "demo_io = \<lparr>ri_sent = [], ri_out = [], ri_err = []\<rparr>"

definition demo_client :: client where
  "demo_client = \<lparr>tc_base = ''https://api/api/v0/trusted-actions'', tc_token = ''t'', tc_userAgent = ''rta/dev (linux/amd64)''\<rparr>"

lemma demo_newClient: "newClient demo_rta demo_flags True = Inr demo_client"
  by (simp add: newClient_def resolveToken_def NewClient_def TrimRight_def isSecureOrLoopback_def demo_rta_def
      demo_flags_def demo_net_def demo_client_def userAgent_def getVersionInfo_def basePath_def Let_def)


lemma demo_do:
  "client_do demo_net c r p decode z log =
    ((case decode (if HasSuffix (wr_URL r) ''/output'' then ''done'' else if length log < 2 then ''pending'' else ''succeeded'') of
        Inl e \<Rightarrow> Inl (Errw ''%s %s: decode response: %w'' [wr_Method r, p] e) | Inr a \<Rightarrow> Inr a),
     snd (client_do demo_net c r p decode z log))"
  by (auto simp: client_do_def demo_net_def Let_def split: sum.split)

lemma demo_length: "length (snd (client_do nt c r p decode z log)) = Suc (length log)"
  by (simp add: client_do_one)

lemma demo_url: "nt_URLPath demo_net u = Inr u" "nt_Marshal demo_net r = Inr ''{}''"
  by (simp_all add: demo_net_def)

lemma demo_client_get:
  "client_get demo_net demo_client path [] decode z =
    client_do demo_net demo_client (blank_request ''GET'' (tc_base demo_client @ path)) (tc_base demo_client @ path) decode z"
  by (simp add: client_get_def demo_url Let_def)

lemma demo_path: "PathEscape ''e1'' = ''e1''" "PathEscape ''get'' = ''get''"
  by (simp_all add: url_escape_def url_escape_char_def shouldEscape_def is_alnum_def)

lemma demo_codec: "nt_Execution demo_net s = Inr (demo_shown s)" "nt_Output demo_net s = Inr (zero_output\<lparr>oo_Message := s\<rparr>)"
  by (simp_all add: demo_net_def)

lemma demo_polled:
  "client_GetExecution demo_net demo_client ''e1'' log =
    (Inr (demo_shown (if length log < 2 then ''pending'' else ''succeeded'')),
     snd (client_GetExecution demo_net demo_client ''e1'' log))"
  unfolding client_GetExecution_def demo_client_get demo_path
  by (subst demo_do) (simp add: HasSuffix_def demo_client_def blank_request_def demo_codec)

lemma demo_polled_length: "length (snd (client_GetExecution demo_net demo_client ''e1'' log)) = Suc (length log)"
  unfolding client_GetExecution_def demo_client_get by (rule demo_length)

lemma demo_output:
  "client_GetExecutionOutput demo_net demo_client ''e1'' log =
    (Inr (zero_output\<lparr>oo_Message := ''done''\<rparr>), snd (client_GetExecutionOutput demo_net demo_client ''e1'' log))"
  unfolding client_GetExecutionOutput_def demo_client_get demo_path
  by (subst demo_do) (simp add: HasSuffix_def demo_client_def blank_request_def demo_codec)

lemma demo_create:
  "client_CreateExecution demo_net demo_client ''get'' req [] =
    (Inr (demo_shown ''pending''), snd (client_CreateExecution demo_net demo_client ''get'' req [])) \<and>
   length (snd (client_CreateExecution demo_net demo_client ''get'' req [])) = 1"
proof -
  have "client_CreateExecution demo_net demo_client ''get'' req [] =
      client_do demo_net demo_client ((blank_request ''POST'' (tc_base demo_client @ ''/get/run''))
        \<lparr>wr_ContentType := Some ''application/json'', wr_Body := Some ''{}''\<rparr>) (tc_base demo_client @ ''/get/run'')
        (\<lambda>s. Inr (demo_shown s)) zero_execution []"
    by (simp add: client_CreateExecution_def client_post_def demo_path demo_url demo_codec [abs_def])
  then show ?thesis
    by (simp only: demo_length list.size) (subst demo_do, simp add: HasSuffix_def demo_client_def blank_request_def)
qed

text \<open>Each tick is one request, and the wait ends at the first outcome or at the last tick.\<close>

lemma GetExecution_Inr:
  "client_GetExecution nt c i log = (Inr e, log') \<Longrightarrow> length log' = Suc (length log)"
  by (auto simp: client_GetExecution_def client_get_def client_do_def fail_def Let_def
      split: sum.splits prod.splits if_splits)

lemma GetExecution_length: "length (snd (client_GetExecution nt c i log)) \<le> Suc (length log)"
  by (auto simp: client_GetExecution_def client_get_def client_do_one fail_def Let_def split: sum.splits)

lemma poll_bounded: "length (ri_sent (snd (poll_execution nt c n exec io))) \<le> length (ri_sent io) + n"
proof (induction n arbitrary: exec io)
  case (Suc n)
  obtain r log where get: "client_GetExecution nt c (ox_Id exec) (ri_sent io) = (r, log)" by fastforce
  then have log: "length log \<le> Suc (length (ri_sent io))" using GetExecution_length by (metis snd_conv)
  show ?case
  proof (cases r)
    case (Inr updated)
    have "length (ri_sent (snd (poll_execution nt c n updated (io\<lparr>ri_sent := log\<rparr>)))) \<le> length log + n"
      using Suc.IH [of updated "io\<lparr>ri_sent := log\<rparr>"] by simp
    with log get Inr show ?thesis by (simp add: seq_def wrap_err_def sends_def ret_def)
  qed (use get log in \<open>simp add: seq_def wrap_err_def sends_def\<close>)
qed (simp add: fail_def)

lemma poll_first_outcome:
  assumes "\<And>k log. k \<le> n \<Longrightarrow> length log = length (ri_sent io) + k \<Longrightarrow> fst (client_GetExecution nt c i log) = Inr (e k)"
    and "\<And>k. k < n \<Longrightarrow> ox_Id (e k) = i \<and> \<not> terminal (ox_Status (e k))"
    and "terminal (ox_Status (e n))" "ox_Id exec = i" "n < ticks"
  shows "\<exists>io'. poll_execution nt c ticks exec io = (Inr (e n), io') \<and>
    length (ri_sent io') = length (ri_sent io) + n + 1"
  using assms
proof (induction n arbitrary: ticks exec io e)
  case 0
  then obtain t where "ticks = Suc t" by (cases ticks) auto
  moreover obtain log where "client_GetExecution nt c i (ri_sent io) = (Inr (e 0), log)"
    using "0.prems"(1) [of 0 "ri_sent io"] by (metis add_0_right le_refl prod.collapse)
  ultimately show ?case
    using "0.prems" GetExecution_Inr [of nt c i "ri_sent io" "e 0" log]
    by (simp add: seq_def wrap_err_def sends_def ret_def)
next
  case (Suc n)
  then obtain t where t: "ticks = Suc t" "n < t" by (cases ticks) auto
  obtain log where get: "client_GetExecution nt c i (ri_sent io) = (Inr (e 0), log)"
    using Suc.prems(1) [of 0 "ri_sent io"] by (metis add_0_right le0 prod.collapse)
  note log = GetExecution_Inr [OF get]
  have first: "ox_Id (e 0) = i" "\<not> terminal (ox_Status (e 0))" using Suc.prems(2) [of 0] by simp_all
  have "\<exists>io'. poll_execution nt c t (e 0) (io\<lparr>ri_sent := log\<rparr>) = (Inr (e (Suc n)), io') \<and>
      length (ri_sent io') = length (ri_sent (io\<lparr>ri_sent := log\<rparr>)) + n + 1"
    using Suc.prems(1) [of "Suc _"] Suc.prems(2) [of "Suc _"] Suc.prems(3) first(1) t(2) log
    by (intro Suc.IH [of _ "\<lambda>k. e (Suc k)"]) simp_all
  with get first log t(1) Suc.prems(4) show ?case by (simp add: seq_def wrap_err_def sends_def)
qed


lemma demo_parts: "re_net demo_rta = demo_net" "re_ticks demo_rta = 150"
    "ox_Id (demo_shown st) = ''e1''" "ox_Status (demo_shown st) = st"
  by (simp_all add: demo_rta_def demo_shown_def)


text \<open>The whole command on that server.\<close>

lemma demo_run:
  obtains io' where "rta_action_run demo_rta demo_flags ''get'' demo_io = (Inr (), io')"
    "PLine ''done'' \<in> set (ri_out io')"
proof -
  let ?req = "run_request demo_flags (Some [(''namespace'', ''default'')])"
  obtain log1 where create: "client_CreateExecution demo_net demo_client ''get'' ?req [] = (Inr (demo_shown ''pending''), log1)"
    and l1: "length log1 = 1" using demo_create [of ?req] by (metis snd_conv)
  have "\<exists>log2. client_GetExecution demo_net demo_client ''e1'' log1 = (Inr (demo_shown ''pending''), log2) \<and> length log2 = 2"
    using demo_polled_length [of log1] l1 by (subst demo_polled) simp
  then obtain log2 where poll1: "client_GetExecution demo_net demo_client ''e1'' log1 = (Inr (demo_shown ''pending''), log2)"
    and l2: "length log2 = 2" by blast
  have "\<exists>log3. client_GetExecution demo_net demo_client ''e1'' log2 = (Inr (demo_shown ''succeeded''), log3)"
    using l2 by (subst demo_polled) simp
  then obtain log3 where poll2: "client_GetExecution demo_net demo_client ''e1'' log2 = (Inr (demo_shown ''succeeded''), log3)"
    by blast
  have "\<exists>log4. client_GetExecutionOutput demo_net demo_client ''e1'' log3 = (Inr (zero_output\<lparr>oo_Message := ''done''\<rparr>), log4)"
    by (subst demo_output) simp
  then obtain log4 where out:
    "client_GetExecutionOutput demo_net demo_client ''e1'' log3 = (Inr (zero_output\<lparr>oo_Message := ''done''\<rparr>), log4)"
    by blast
  have p: "parseParams demo_flags = Inr (Some [(''namespace'', ''default'')])"
    by (simp add: parseParams_def demo_flags_def)
  have polls: "poll_execution demo_net demo_client (Suc (Suc t)) (demo_shown ''pending'') (io\<lparr>ri_sent := log1\<rparr>) =
      (Inr (demo_shown ''succeeded''), io\<lparr>ri_sent := log3\<rparr>)" for t io
    using poll1 poll2 by (simp add: demo_parts terminal_def seq_def wrap_err_def sends_def ret_def)
  have "poll_execution demo_net demo_client 150 (demo_shown ''pending'') (io\<lparr>ri_sent := log1\<rparr>) =
      (Inr (demo_shown ''succeeded''), io\<lparr>ri_sent := log3\<rparr>)" for io
    using polls [of 148 io] by simp
  from this [of "demo_io\<lparr>ri_err := [sprintf ''Waiting for execution %s...'' [''e1'']]\<rparr>"]
  have wait: "waitForCompletion demo_rta demo_client (demo_shown ''pending'') (demo_io\<lparr>ri_sent := log1\<rparr>) =
      (Inr (demo_shown ''succeeded''),
       demo_io\<lparr>ri_sent := log3, ri_err := [sprintf ''Waiting for execution %s...'' [''e1'']]\<rparr>)"
    by (simp add: waitForCompletion_def demo_parts terminal_def seq_def prints_err_def demo_io_def del: sprintf.simps)
  have fl: "\<not> rf_no_wait demo_flags" "\<not> isJSON demo_flags" "validateFormat demo_flags = Inr ()"
    by (simp_all add: demo_flags_def isJSON_def validateFormat_def)
  let ?io = "demo_io\<lparr>ri_sent := log3, ri_err := [sprintf ''Waiting for execution %s...'' [''e1'']]\<rparr>"
  have "\<exists>io'. report_text demo_net demo_client dry (demo_shown ''succeeded'') ?io = (Inr (), io') \<and>
      PLine ''done'' \<in> set (ri_out io')" for dry
    using out by (simp add: report_text_def not_succeeded_def demo_parts seq_def wrap_err_def sends_def prints_def ret_def
        del: sprintf.simps)
  then obtain io' where "report_text demo_net demo_client (rf_dry_run demo_flags) (demo_shown ''succeeded'') ?io = (Inr (), io')"
    "PLine ''done'' \<in> set (ri_out io')" by blast
  moreover have "sends (client_CreateExecution demo_net demo_client ''get'' ?req) demo_io =
      (Inr (demo_shown ''pending''), demo_io\<lparr>ri_sent := log1\<rparr>)"
    using create by (simp add: sends_def demo_io_def)
  ultimately show ?thesis
    using wait by (intro that [of io']) (simp_all add: rta_action_run_def seq_def lift_def p demo_newClient fl demo_parts)
qed

lemma demo_waits: "\<not> rf_no_wait demo_flags"
  by (simp add: demo_flags_def)


end
