(* ===== verification/Action_Cli.thy ===== *)
theory Action_Cli
  imports Backplane
begin

text \<open>
  The test command line of \<open>cmd/action-cli/main.go\<close>: one action, run by an executor with the one
  scope that supports it, on a kubeconfig or on fixed AWS credentials, under the policy of the
  environment variables the server reads.  Parameters: the environment, the kubeconfig and AWS
  libraries, and the rendering of a JSON value.  A map built by assignments is an association list.
\<close>

record cli_flags =
  xf_kubeconfig :: string
  xf_namespace :: string
  xf_group :: string
  xf_version :: string
  xf_resource :: string
  xf_name :: string
  xf_action :: string
  xf_patch :: string
  xf_clusterID :: string
  xf_callerID :: string
  xf_clusterVersion :: string
  xf_allowedNS :: string
  xf_allowedSecrets :: string
  xf_clusterScoped :: bool
  xf_severity :: string
  xf_alertState :: string
  xf_silences :: bool
  xf_awsRegion :: string
  xf_awsEndpointURL :: string
  xf_awsInfraID :: string
  xf_awsID :: string
  xf_awsFilters :: string
  xf_awsSince :: string

record 'cfg cli_env =
  ce_Getenv :: "string \<Rightarrow> string"
  ce_Kube :: "string \<Rightarrow> kubeconfig_env"
  ce_Sdk :: "'cfg sdk"
  ce_Aws :: aws_env
  ce_MarshalIndent :: "object \<Rightarrow> string result"

datatype cli_exit = Exits "goerr option" | CliPanics string

section \<open>Building the request\<close>

definition splitCSV :: "string \<Rightarrow> string list" where
  "splitCSV s =
    (if s = [] then [] else filter (\<lambda>t. t \<noteq> []) (map TrimSpace (Split (CHR '','') s)))"

definition setIfNotEmpty :: "string \<Rightarrow> string \<Rightarrow> (string \<times> string) list \<Rightarrow> (string \<times> string) list" where
  "setIfNotEmpty name v ps = (if v \<noteq> [] then alput name v ps else ps)"

definition action_flag_params :: "cli_flags \<Rightarrow> (string \<times> string) list" where
  "action_flag_params fl =
    (let ps1 = (if xf_patch fl \<noteq> [] then alput ''patch'' (xf_patch fl) [] else []);
         ps2 = (if xf_severity fl \<noteq> [] then alput ''severity'' (xf_severity fl) ps1 else ps1);
         ps3 = (if xf_alertState fl \<noteq> [] then alput ''state'' (xf_alertState fl) ps2 else ps2)
     in if xf_silences fl then alput ''silences'' ''true'' ps3 else ps3)"

definition aws_flag_params :: "cli_flags \<Rightarrow> (string \<times> string) list \<Rightarrow> (string \<times> string) list" where
  "aws_flag_params fl ps =
    setIfNotEmpty ''since'' (xf_awsSince fl)
      (setIfNotEmpty ''filters'' (xf_awsFilters fl)
        (setIfNotEmpty ''id'' (xf_awsID fl)
          (setIfNotEmpty ''resource'' (xf_resource fl) ps)))"

definition NewStaticProvider :: "'cfg sdk \<Rightarrow> static_config \<Rightarrow> unit aws_provider" where
  "NewStaticProvider sdk cfg =
    \<lparr>awp_DefaultRegion = static_DefaultRegion cfg, awp_ClusterInfraID = static_ClusterInfraID cfg,
     awp_GetClients = static_GetClients sdk cfg\<rparr>"

definition cli_static_config :: "cli_flags \<Rightarrow> static_config" where
  "cli_static_config fl =
    \<lparr>st_Region = xf_awsRegion fl, st_AccessKeyID = [], st_SecretAccessKey = [], st_SessionToken = [],
     st_EndpointURL = xf_awsEndpointURL fl, st_InfraID = xf_awsInfraID fl\<rparr>"

definition cli_aws_policy :: "'cfg cli_env \<Rightarrow> aws_policy" where
  "cli_aws_policy ce =
    \<lparr>AllowedRegions = splitCSV (ce_Getenv ce ''ROSA_TA_AWS_ALLOWED_REGIONS''),
     AllowedOperations = splitCSV (ce_Getenv ce ''ROSA_TA_AWS_ALLOWED_OPERATIONS'')\<rparr>"

definition cli_namespaces :: "cli_flags \<Rightarrow> string list" where
  "cli_namespaces fl =
    (let nsList = splitCSV (xf_allowedNS fl)
     in if nsList = [] \<and> xf_namespace fl \<noteq> [] then [xf_namespace fl] else nsList)"

definition cli_target :: "cli_flags \<Rightarrow> resource_target" where
  "cli_target fl =
    \<lparr>rt_Group = xf_group fl, rt_Version = xf_version fl, rt_Resource = xf_resource fl,
     rt_Namespace = xf_namespace fl, rt_Name = xf_name fl, rt_ClusterScoped = xf_clusterScoped fl\<rparr>"

text \<open>The executor's only scope, the target (none for AWS: the scope derives it) and the parameters.\<close>

definition cli_scope ::
  "'cfg cli_env \<Rightarrow> cli_flags \<Rightarrow> action \<Rightarrow> (unit scope \<times> target option \<times> (string \<times> string) list) result"
where
  "cli_scope ce fl act =
    (case act of
       AwsAct a \<Rightarrow>
         if AllowedRegions (cli_aws_policy ce) = []
         then Inl (Errf (''no AWS region allowlist configured: set ROSA_TA_AWS_ALLOWED_REGIONS, '' @
           ''the same variable the server reads (e.g. ROSA_TA_AWS_ALLOWED_REGIONS=us-east-1)'') [])
         else Inr (NewAWSScope (ce_Aws ce) (NewAWS (cli_aws_policy ce))
                    (NewStaticProvider (ce_Sdk ce) (cli_static_config fl)),
                   None, aws_flag_params fl (action_flag_params fl))
     | KubeAct a \<Rightarrow>
         Inr (NewKubeScope (New_authorizer (cli_namespaces fl) (splitCSV (xf_allowedSecrets fl)))
                (KubeconfigProvider (ce_Kube ce (xf_kubeconfig fl))),
              Some (KubeTarget (cli_target fl)), action_flag_params fl))"

section \<open>The run command\<close>

definition cli_resource_line :: "'cfg cli_env \<Rightarrow> object \<Rightarrow> string" where
  "cli_resource_line ce r =
    (case ce_MarshalIndent ce r of
       Inl e \<Rightarrow> ''  (failed to marshal: '' @ err_text e @ '')''
     | Inr data \<Rightarrow> ''  '' @ data)"

definition cli_output_lines :: "'cfg cli_env \<Rightarrow> action_result \<Rightarrow> string list" where
  "cli_output_lines ce out =
    (let rs = (case ares_Resources out of None \<Rightarrow> [] | Some rs \<Rightarrow> rs)
     in (''Message:  '' @ ares_Message out) #
        (if rs \<noteq> [] then sprintf ''Resources (%d):'' [show_nat (length rs)] # map (cli_resource_line ce) rs else []))"

definition cli_report :: "'cfg cli_env \<Rightarrow> exec_result \<Rightarrow> goerr option \<times> string list" where
  "cli_report ce res =
    (let header = [[], ''Allowed:  '' @ (if res_Allowed res then ''true'' else ''false''), ''Reason:   '' @ res_Reason res]
     in case res_Error res of
          Some e \<Rightarrow> (Some (Errw ''action failed: %w'' [] e), header)
        | None \<Rightarrow>
          if \<not> res_Allowed res then (Some (Errf ''denied: %s'' [res_Reason res]), header)
          else (None, header @ (case res_Output res of None \<Rightarrow> [] | Some out \<Rightarrow> cli_output_lines ce out)))"

definition cli_request ::
  "cli_flags \<Rightarrow> action \<Rightarrow> target option \<Rightarrow> (string \<times> string) list \<Rightarrow> exec_request" where
  "cli_request fl act target ps =
    \<lparr>er_CallerID = xf_callerID fl, er_ClusterID = xf_clusterID fl, er_ClusterVersion = xf_clusterVersion fl,
     er_Action = act, er_Target = target, er_Params = ps\<rparr>"

definition isAWSWrite :: "action \<Rightarrow> bool" where
  "isAWSWrite act = (case act of KubeAct a \<Rightarrow> False | AwsAct a \<Rightarrow> aa_Write a \<noteq> None)"

definition cli_run :: "'cfg cli_env \<Rightarrow> cli_flags \<Rightarrow> unit world \<Rightarrow> (cli_exit \<times> string list) \<times> unit world" where
  "cli_run ce fl w =
    (case CreateAction (xf_action fl) of
       None \<Rightarrow> ((Exits (Some (Errf ''unknown action %q, must be one of: %s''
                  [xf_action fl, Join GetActionsNames '', ''])), []), w)
     | Some act \<Rightarrow>
       if xf_resource fl = [] \<and> \<not> isAWSWrite act
       then ((Exits (Some (Errf ''--resource is required for action %q'' [xf_action fl])), []), w)
       else (case cli_scope ce fl act of
               Inl e \<Rightarrow> ((Exits (Some e), []), w)
             | Inr (scope, target, ps) \<Rightarrow>
               (case Execute [scope] (cli_request fl act target ps) w of
                  (Panicked m, w') \<Rightarrow> ((CliPanics m, []), w')
                | (Returned res, w') \<Rightarrow>
                  (case cli_report ce res of (err, ls) \<Rightarrow> ((Exits err, ls), w')))))"

section \<open>What a run may do\<close>

lemma Execute_one_scope:
  "scopeFor ss (er_Action req) = scopeFor ss' (er_Action req) \<Longrightarrow> Execute ss req w = Execute ss' req w"
  by (simp add: Execute_def)

lemma cli_runE:
  assumes "cli_run ce fl w = ((out, ls), w')"
  obtains (refused) e where "out = Exits (Some e)" "w' = w"
  | (ran) act scope target ps rv where "CreateAction (xf_action fl) = Some act"
      "cli_scope ce fl act = Inr (scope, target, ps)"
      "Execute [scope] (cli_request fl act target ps) w = (rv, w')"
      "out = (case rv of Panicked m \<Rightarrow> CliPanics m | Returned res \<Rightarrow> Exits (fst (cli_report ce res)))"
  using assms
  by (auto simp: cli_run_def split: option.splits if_splits sum.splits prod.splits exec_return.splits)

text \<open>The executor of a run is the server's, with the other scope missing.\<close>

lemma cli_scope_server:
  assumes "cli_scope ce fl act = Inr (scope, target, ps)"
  obtains (kube) k where "act = KubeAct k" "target = Some (KubeTarget (cli_target fl))"
      "\<And>env aw p. Execute [scope] (cli_request fl act target ps) =
        Execute (server_scopes (New_authorizer (cli_namespaces fl) (splitCSV (xf_allowedSecrets fl)))
          (KubeconfigProvider (ce_Kube ce (xf_kubeconfig fl))) env aw p) (cli_request fl act target ps)"
  | (aws) k where "act = AwsAct k" "target = None" "ps = aws_flag_params fl (action_flag_params fl)"
      "\<And>a bp. Execute [scope] (cli_request fl act target ps) =
        Execute (server_scopes a bp (ce_Aws ce) (NewAWS (cli_aws_policy ce))
          (NewStaticProvider (ce_Sdk ce) (cli_static_config fl))) (cli_request fl act target ps)"
proof (cases act)
  case (KubeAct k)
  have t: "target = Some (KubeTarget (cli_target fl))" using assms KubeAct by (simp add: cli_scope_def)
  have "Execute [scope] (cli_request fl act target ps) =
      Execute (server_scopes (New_authorizer (cli_namespaces fl) (splitCSV (xf_allowedSecrets fl)))
        (KubeconfigProvider (ce_Kube ce (xf_kubeconfig fl))) env aw p) (cli_request fl act target ps)" for env aw p
    using assms KubeAct
    by (intro ext Execute_one_scope) (auto simp: cli_scope_def cli_request_def server_scopes_def scopeFor_def NewKubeScope_def)
  with KubeAct t show ?thesis by (rule kube)
next
  case (AwsAct k)
  have t: "target = None" "ps = aws_flag_params fl (action_flag_params fl)"
    using assms AwsAct by (auto simp: cli_scope_def split: if_splits)
  have "Execute [scope] (cli_request fl act target ps) =
      Execute (server_scopes a bp (ce_Aws ce) (NewAWS (cli_aws_policy ce))
        (NewStaticProvider (ce_Sdk ce) (cli_static_config fl))) (cli_request fl act target ps)" for a bp
    using assms AwsAct
    by (intro ext Execute_one_scope)
      (auto simp: cli_scope_def cli_request_def server_scopes_def scopeFor_def NewKubeScope_def NewAWSScope_def
        split: if_splits)
  with AwsAct t show ?thesis by (rule aws)
qed

lemma param_alput: "param (alput k v ps) n = (if n = k then v else param ps n)"
  by (simp add: param_def map_of_alput)

lemma param_setIfNotEmpty: "param (setIfNotEmpty k v ps) n = (if n = k \<and> v \<noteq> [] then v else param ps n)"
  by (simp add: setIfNotEmpty_def param_alput)

lemma action_flags_id: "param (action_flag_params fl) ''id'' = []"
  by (simp add: action_flag_params_def Let_def param_def map_of_alput)

lemma cli_id_param: "param (aws_flag_params fl (action_flag_params fl)) ''id'' = xf_awsID fl"
  by (simp add: aws_flag_params_def param_setIfNotEmpty action_flags_id)

lemma static_target:
  assumes "aws_DeriveTarget (NewStaticProvider sdk cfg) req w = (Inr (AwsTarget t), w')"
  shows "at_Region t = st_Region cfg \<and> at_ID t = param (er_Params req) ''id''"
  using assms
  by (auto simp: aws_DeriveTarget_def NewStaticProvider_def static_DefaultRegion_def static_ClusterInfraID_def
      framed_def on_provider_def act_defs Let_def split: action.splits option.splits if_splits)

lemma kube_run_calls:
  assumes run: "Execute (server_scopes a bp env aw p) req w = (rv, w')"
    and req: "er_Action req = KubeAct k" "er_Target req = Some (KubeTarget t)"
  shows "w_aws_calls w' = w_aws_calls w \<and> (w_kube_calls w' = w_kube_calls w \<or> ar_Allowed (kube_Authorize a req))"
proof -
  obtain out w1 where run1: "kube_Run bp req w = (out, w1)" by (cases "kube_Run bp req w")
  from run req kube_Run_audit [OF run1] run1 show ?thesis
    by (auto simp: Execute_def scopeFor_server execute_target_def Let_def NewKubeScope_def audit_log_def
        split: if_splits sum.splits goerr.splits)
qed

lemma aws_run_kube_calls:
  assumes run: "Execute (server_scopes a bp env aw p) req w = (rv, w')"
    and req: "er_Action req = AwsAct k" "er_Target req = None"
  shows "w_kube_calls w' = w_kube_calls w"
proof -
  have quiet: "aws_Run env p req' w1 = (out, w2) \<Longrightarrow> w_kube_calls w2 = w_kube_calls w1" for req' w1 out w2
    by (auto simp: aws_Run_def fail_def on_aws_def quiet_def dest!: framed_state on_provider_quiet elim!: seq_state
        split: action.splits option.splits target.splits prod.splits)
  from run req show ?thesis
    by (auto simp: Execute_def scopeFor_server execute_target_def Let_def NewAWSScope_def audit_log_def quiet_def
        split: if_splits sum.splits goerr.splits prod.splits dest!: quiet aws_DeriveTarget_quiet)
qed

lemma cli_report_exit: "fst (cli_report ce res) = None \<longleftrightarrow> res_Error res = None \<and> res_Allowed res"
  by (auto simp: cli_report_def Let_def split: option.splits)

lemma cli_audit:
  assumes "Execute (server_scopes a bp env aw p) req w = (rv, w')"
    and "out = (case rv of Panicked m \<Rightarrow> CliPanics m | Returned res \<Rightarrow> Exits (fst (cli_report ce res)))"
  shows "\<exists>rec. w_audit w' = w_audit w @ [rec] \<and>
    (out = Exits None) = (au_Decision rec = DecisionAllowed \<and> au_Outcome rec = OutcomeSuccess)"
  using execution_record [OF assms(1)] assms(2)
  by (auto simp: cli_report_exit split: exec_return.splits if_splits)

definition cli_aws_allowed :: "'cfg cli_env \<Rightarrow> cli_flags \<Rightarrow> unit world \<Rightarrow> unit world \<Rightarrow> bool" where
  "cli_aws_allowed ce fl w w' \<longleftrightarrow>
    xf_awsRegion fl \<in> set (AllowedRegions (cli_aws_policy ce)) \<and>
    {c \<in> set (drop (length (w_aws_calls w)) (w_aws_calls w')). aws_mutates c} \<subseteq>
      {c. \<exists>operation \<in> set (AllowedOperations (cli_aws_policy ce)).
         (operation, c) \<in> {(''reboot'', AwsRebootInstances [xf_awsID fl]),
                             (''terminate'', AwsTerminateInstances [xf_awsID fl])}}"


end
