(* ===== verification/Routing.thy ===== *)
theory Routing
  imports Server_Claims Rta_Claims
begin

text \<open>
  The generated wrappers of \<open>internal/openapi/api.go\<close>: the routes they register, the binding of path
  and query parameters, and their errors.  Chi's matching and the runtime's binding of one parameter
  are arguments, with what their documentation says of them as predicates; \<open>net/url\<close>'s reading of a
  request's target, a path and a query without control bytes, is written out.
\<close>

section \<open>The URL of a request\<close>

text \<open>\<open>ru_Query\<close> has a pair for each value, in order, so a key can have several values.\<close>

record request_url =
  ru_Path :: string
  ru_RawPath :: string
  ru_Query :: "(string \<times> string) list"

text \<open>\<open>URL.Query\<close> keeps the parts that parse.\<close>

definition url_Query :: "string \<Rightarrow> (string \<times> string) list" where
  "url_Query q =
    List.map_filter (\<lambda>p. if CHR '';'' \<in> set p then None else parse_pair p)
      (filter (\<lambda>p. p \<noteq> []) (Split (CHR ''&'') q))"

definition parse_target :: "string \<Rightarrow> request_url option" where
  "parse_target target =
    (case Cut (CHR ''?'') target of
       (p, q, _) \<Rightarrow>
         map_option (\<lambda>(path, raw). \<lparr>ru_Path = path, ru_RawPath = raw, ru_Query = url_Query q\<rparr>) (parse_path p))"

lemma map_filter_those: "those (map f xs) = Some ys \<Longrightarrow> List.map_filter f xs = ys"
  by (induction xs arbitrary: ys) (auto split: option.splits)

lemma ParseQuery_Query: "ParseQuery q = Some kvs \<Longrightarrow> url_Query q = kvs"
  by (simp add: ParseQuery_def url_Query_def map_filter_those)

section \<open>Binding parameters\<close>

datatype bind_failure = RequiredParameter | OtherFailure goerr

type_synonym 'a bound = "bind_failure + 'a"

text \<open>The path parameters come with the flag \<open>ValueIsUnescaped\<close>.\<close>

record param_runtime =
  bn_query_int :: "string \<Rightarrow> (string \<times> string) list \<Rightarrow> int option bound"
  bn_query_string :: "string \<Rightarrow> (string \<times> string) list \<Rightarrow> string option bound"
  bn_path_uuid :: "string \<Rightarrow> string \<Rightarrow> bool \<Rightarrow> uuid result"
  bn_path_string :: "string \<Rightarrow> string \<Rightarrow> bool \<Rightarrow> string result"

definition query_param :: "(string \<Rightarrow> (string \<times> string) list \<Rightarrow> 'a bound) \<Rightarrow> string \<Rightarrow> (string \<times> string) list \<Rightarrow> 'a result" where
  "query_param reads name q =
    (case reads name q of
       Inr v \<Rightarrow> Inr v
     | Inl RequiredParameter \<Rightarrow> Inl (Errf ''Query argument %s is required, but not found'' [name])
     | Inl (OtherFailure e) \<Rightarrow> Inl (Errf ''Invalid format for parameter %s: %s'' [name, err_text e]))"

definition path_param :: "(string \<Rightarrow> string \<Rightarrow> bool \<Rightarrow> 'a result) \<Rightarrow> string \<Rightarrow> string \<Rightarrow> bool \<Rightarrow> 'a result" where
  "path_param reads name value unescaped =
    (case reads name value unescaped of
       Inr v \<Rightarrow> Inr v
     | Inl e \<Rightarrow> Inl (Errf ''Invalid format for parameter %s: %s'' [name, err_text e]))"

definition and_then :: "'a result \<Rightarrow> ('a \<Rightarrow> 'b result) \<Rightarrow> 'b result" where
  "and_then r f = (case r of Inl e \<Rightarrow> Inl e | Inr a \<Rightarrow> f a)"

lemma and_then_simps [simp]: "and_then (Inr a) f = f a" "and_then (Inl e) f = Inl e"
  by (simp_all add: and_then_def)

definition bind_ListAuditEntries :: "param_runtime \<Rightarrow> (string \<times> string) list \<Rightarrow> audit_list_params result" where
  "bind_ListAuditEntries b q =
    and_then (query_param (bn_query_int b) ''page'' q) (\<lambda>page.
    and_then (query_param (bn_query_int b) ''limit'' q) (\<lambda>limit.
    and_then (query_param (bn_query_string b) ''action'' q) (\<lambda>action.
    and_then (query_param (bn_query_string b) ''target'' q) (\<lambda>target.
    and_then (query_param (bn_query_string b) ''operator'' q) (\<lambda>operator.
    and_then (query_param (bn_query_string b) ''method'' q) (\<lambda>method.
    and_then (query_param (bn_query_string b) ''approval_state'' q) (\<lambda>approval.
    and_then (query_param (bn_query_string b) ''since'' q) (\<lambda>since.
    Inr \<lparr>lu_Page = page, lu_Limit = limit, lu_Action = action, lu_Target = target, lu_Operator = operator,
         lu_Method = method, lu_ApprovalState = approval, lu_Since = since\<rparr>))))))))"

definition bind_ListExecutions :: "param_runtime \<Rightarrow> (string \<times> string) list \<Rightarrow> execution_list_params result" where
  "bind_ListExecutions b q =
    and_then (query_param (bn_query_int b) ''page'' q) (\<lambda>page.
    and_then (query_param (bn_query_int b) ''limit'' q) (\<lambda>limit.
    and_then (query_param (bn_query_string b) ''status'' q) (\<lambda>status.
    and_then (query_param (bn_query_string b) ''action'' q) (\<lambda>action.
    and_then (query_param (bn_query_string b) ''target'' q) (\<lambda>target.
    and_then (query_param (bn_query_string b) ''operator'' q) (\<lambda>operator.
    and_then (query_param (bn_query_string b) ''scope'' q) (\<lambda>scope.
    and_then (query_param (bn_query_string b) ''type'' q) (\<lambda>type.
    and_then (query_param (bn_query_string b) ''approval_state'' q) (\<lambda>approval.
    and_then (query_param (bn_query_string b) ''dry_run'' q) (\<lambda>dry_run.
    and_then (query_param (bn_query_string b) ''force'' q) (\<lambda>force.
    and_then (query_param (bn_query_string b) ''since'' q) (\<lambda>since.
    Inr \<lparr>lp_Page = page, lp_Limit = limit, lp_Status = status, lp_Action = action, lp_Target = target,
         lp_Operator = operator, lp_Scope = scope, lp_Type = type, lp_ApprovalState = approval,
         lp_DryRun = dry_run, lp_Force = force, lp_Since = since\<rparr>))))))))))))"

section \<open>Routes\<close>

datatype api_operation =
    ApiCatalog | ApiDescribe | ApiCreateExecution | ApiGetExecution | ApiGetExecutionOutput
  | ApiListExecutions | ApiListAuditEntries

definition api_routes :: "(string \<times> string \<times> api_operation) list" where
  "api_routes =
    [(''GET'', ''/'', ApiCatalog),
     (''GET'', ''/{action}'', ApiDescribe),
     (''POST'', ''/{action}/run'', ApiCreateExecution),
     (''GET'', ''/runs/{id}'', ApiGetExecution),
     (''GET'', ''/runs/{exec_id}/output'', ApiGetExecutionOutput),
     (''GET'', ''/runs'', ApiListExecutions),
     (''GET'', ''/audit'', ApiListAuditEntries)]"

text \<open>The patterns as the router has them, below the base path of \<open>cmd/server/main.go\<close>.\<close>

definition router_patterns :: "(string \<times> string) list" where
  "router_patterns = map (\<lambda>(m, p, _). (m, basePath @ p)) api_routes"

definition bind_operation ::
  "param_runtime \<Rightarrow> api_operation \<Rightarrow> (string \<times> string) list \<Rightarrow> request_url \<Rightarrow> operation result"
where
  "bind_operation b w ps u =
    (let unescaped = (ru_RawPath u = [])
     in case w of
          ApiCatalog \<Rightarrow> Inr OpCatalog
        | ApiDescribe \<Rightarrow>
            and_then (path_param (bn_path_string b) ''action'' (param ps ''action'') unescaped) (\<lambda>a. Inr (OpDescribe a))
        | ApiCreateExecution \<Rightarrow>
            and_then (path_param (bn_path_string b) ''action'' (param ps ''action'') unescaped)
              (\<lambda>a. Inr (OpCreateExecution a))
        | ApiGetExecution \<Rightarrow>
            and_then (path_param (bn_path_uuid b) ''id'' (param ps ''id'') unescaped) (\<lambda>i. Inr (OpGetExecution i))
        | ApiGetExecutionOutput \<Rightarrow>
            and_then (path_param (bn_path_uuid b) ''exec_id'' (param ps ''exec_id'') unescaped)
              (\<lambda>i. Inr (OpGetExecutionOutput i))
        | ApiListExecutions \<Rightarrow> and_then (bind_ListExecutions b (ru_Query u)) (\<lambda>p. Inr (OpListExecutions p))
        | ApiListAuditEntries \<Rightarrow>
            and_then (bind_ListAuditEntries b (ru_Query u)) (\<lambda>p. Inr (OpListAuditEntries p)))"

text \<open>
  Chi routes by the raw path when there is one: a miss is answered by itself, a hit is the number of
  the pattern and the raw path parameters.
\<close>

type_synonym chi = "(string \<times> string) list \<Rightarrow> string \<Rightarrow> string \<Rightarrow> (int \<times> string) + (nat \<times> (string \<times> string) list)"

definition route_path :: "request_url \<Rightarrow> string" where
  "route_path u = (if ru_RawPath u \<noteq> [] then ru_RawPath u else ru_Path u)"

definition api_routed :: "chi \<Rightarrow> param_runtime \<Rightarrow> string \<Rightarrow> request_url \<Rightarrow> routed" where
  "api_routed chi b method u =
    (case chi router_patterns method (route_path u) of
       Inl (status, txt) \<Rightarrow> NoRoute status txt
     | Inr (i, ps) \<Rightarrow> Route (param ps ''action'') (bind_operation b (snd (snd (api_routes ! i))) ps u))"

section \<open>What is documented of chi and of the runtime\<close>

text \<open>A pattern matches segment by segment; a placeholder takes one segment that is not empty.\<close>

fun match_segments :: "string list \<Rightarrow> string list \<Rightarrow> (string \<times> string) list option" where
  "match_segments [] [] = Some []"
| "match_segments (p # ps) (s # ss) =
    (if HasPrefix p ''{''
     then (if s = [] then None else map_option ((#) (butlast (tl p), s)) (match_segments ps ss))
     else if p = s then match_segments ps ss else None)"
| "match_segments _ _ = None"

definition match_pattern :: "string \<Rightarrow> string \<Rightarrow> (string \<times> string) list option" where
  "match_pattern pattern path = match_segments (Split (CHR ''/'') pattern) (Split (CHR ''/'') path)"

text \<open>
  Below the mount, for a path without empty segments or one that is itself a pattern, chi finds a
  matching pattern of the method when there is one, and the pattern without placeholders when it is
  one of those.
\<close>

definition routes_as_documented :: "chi \<Rightarrow> (string \<times> string) list \<Rightarrow> bool" where
  "routes_as_documented chi routes \<longleftrightarrow>
    (\<forall>m path. HasPrefix path (basePath @ ''/'') \<longrightarrow>
      [] \<notin> set (tl (Split (CHR ''/'') path)) \<or> (m, path) \<in> set routes \<longrightarrow>
      (case chi routes m path of
         Inr (i, ps) \<Rightarrow> i < length routes \<and> fst (routes ! i) = m \<and> match_pattern (snd (routes ! i)) path = Some ps \<and>
           ((m, path) \<in> set routes \<longrightarrow> snd (routes ! i) = path)
       | Inl _ \<Rightarrow> \<forall>(m', p) \<in> set routes. m' = m \<longrightarrow> match_pattern p path = None))"

definition query_values :: "(string \<times> string) list \<Rightarrow> string \<Rightarrow> string list" where
  "query_values q name = map snd (filter (\<lambda>(k, v). k = name) q)"

text \<open>
  An absent optional parameter is nil and a string given once is its value; a path parameter is
  unescaped unless it already is, and a UUID then parsed.
\<close>

definition binds_as_documented :: "(string \<Rightarrow> uuid result) \<Rightarrow> param_runtime \<Rightarrow> bool" where
  "binds_as_documented parse_uuid b \<longleftrightarrow>
    (\<forall>name q. query_values q name = [] \<longrightarrow> bn_query_int b name q = Inr None \<and> bn_query_string b name q = Inr None) \<and>
    (\<forall>name q v. query_values q name = [v] \<longrightarrow> bn_query_string b name q = Inr (Some v)) \<and>
    (\<forall>name s. bn_path_string b name s True = Inr s \<and> bn_path_uuid b name s True = parse_uuid s) \<and>
    (\<forall>name s v. url_unescape PathSegment s = Some v \<longrightarrow>
       bn_path_string b name s False = Inr v \<and> bn_path_uuid b name s False = parse_uuid v)"

section \<open>Paths of escaped segments\<close>

lemma url_unescape_paths: "url_unescape WholePath s = url_unescape PathSegment s"
  by (induction PathSegment s rule: url_unescape.induct) (auto split: list.splits option.splits)

lemma Cut_none: "d \<notin> set p \<Longrightarrow> Cut d p = (p, [], False)"
  by (induction p) auto

lemma unescape_segment: "url_unescape PathSegment (PathEscape s @ t) = map_option ((@) s) (url_unescape PathSegment t)"
  by (induction s) (simp_all add: url_escape_def url_unescape_escape_char option.map_comp comp_def option.map_ident)

lemma escape_append: "url_escape m (s @ t) = url_escape m s @ url_escape m t"
  by (simp add: url_escape_def)

definition join_segments :: "string list \<Rightarrow> string" where
  "join_segments ss = concat (map (\<lambda>s. CHR ''/'' # s) ss)"

lemma join_segments_simps [simp]:
  "join_segments [] = []" "join_segments (s # ss) = CHR ''/'' # s @ join_segments ss"
  "join_segments (ss @ ts) = join_segments ss @ join_segments ts"
  by (simp_all add: join_segments_def)

definition base_segments :: "string list" where
  "base_segments = [''api'', ''v0'', ''trusted-actions'']"

lemma basePath_join: "basePath = join_segments base_segments"
  by (simp add: basePath_def base_segments_def)

lemma Split_join:
  "list_all (\<lambda>s. CHR ''/'' \<notin> set s) ss \<Longrightarrow> Split (CHR ''/'') (join_segments ss) = [] # ss"
proof (induction ss)
  case (Cons s ss)
  then have "Split (CHR ''/'') (s @ join_segments ss) = s # ss"
    by (cases ss) (simp_all add: Split_no_sep_self Split_no_sep_append)
  then show ?case by simp
qed simp

lemma unescape_join: "url_unescape PathSegment (join_segments (map PathEscape ss)) = Some (join_segments ss)"
  by (induction ss) (simp_all add: unescape_segment)

text \<open>Escaping a whole path keeps its slashes, so a raw path is left out only when no segment has one.\<close>

lemma slashes_whole: "filter ((=) (CHR ''/'')) (url_escape WholePath s) = filter ((=) (CHR ''/'')) s"
proof (induction s)
  case (Cons c s)
  have "filter ((=) (CHR ''/'')) (url_escape_char WholePath c) = filter ((=) (CHR ''/'')) [c]"
  proof (cases rule: url_escape_char_cases [of WholePath c])
    case hex
    have "c \<noteq> CHR ''/''" using hex by (auto simp: url_escape_char_def shouldEscape_def is_alnum_def)
    moreover have "upper_hex n \<noteq> CHR ''/''" if "n < 16" for n using upper_hex_alnum [OF that] by (auto simp: is_alnum_def)
    then have "upper_hex ((of_char c :: nat) div 16) \<noteq> CHR ''/''" "upper_hex ((of_char c :: nat) mod 16) \<noteq> CHR ''/''"
      using byte_div_mod(1,2) [of c] by blast+
    ultimately show ?thesis using hex by auto
  qed simp_all
  with Cons show ?case by (simp add: url_escape_def)
qed (simp add: url_escape_def)

lemma slashes_join: "filter ((=) (CHR ''/'')) (join_segments ss) = concat (map (\<lambda>s. CHR ''/'' # filter ((=) (CHR ''/'')) s) ss)"
  by (induction ss) simp_all

lemma length_slashes: "length ss \<le> length (concat (map (\<lambda>s. CHR ''/'' # filter ((=) (CHR ''/'')) s) ss))"
  by (induction ss) simp_all

lemma no_more_slashes:
  "length (concat (map (\<lambda>s. CHR ''/'' # filter ((=) (CHR ''/'')) s) ss)) = length ss \<Longrightarrow> list_all (\<lambda>s. CHR ''/'' \<notin> set s) ss"
proof (induction ss)
  case (Cons s ss)
  have "length (filter ((=) (CHR ''/'')) s) +
      length (concat (map (\<lambda>s. CHR ''/'' # filter ((=) (CHR ''/'')) s) ss)) = length ss"
    using Cons.prems by simp
  with length_slashes [of ss] have "length (filter ((=) (CHR ''/'')) s) = 0" by linarith
  then have "filter ((=) (CHR ''/'')) s = []" by (rule length_0_conv [THEN iffD1])
  with Cons show ?case by (auto simp: filter_empty_conv)
qed simp

lemma escaped_no_slash: "list_all (\<lambda>s. CHR ''/'' \<notin> set s) (map PathEscape ss)"
  using path_escape_plain by (auto simp: list_all_iff)

lemma default_encoding_segments:
  assumes "url_escape WholePath (join_segments ss) = join_segments (map PathEscape ss)"
  shows "list_all (\<lambda>s. CHR ''/'' \<notin> set s) ss"
proof (rule no_more_slashes)
  have "filter ((=) (CHR ''/'')) (PathEscape s) = []" for s
    using path_escape_plain [of s] by (auto simp: filter_empty_conv)
  then have "filter ((=) (CHR ''/'')) (join_segments (map PathEscape ss)) = concat (map (\<lambda>s. ''/'') ss)"
    by (simp add: slashes_join comp_def)
  then have "concat (map (\<lambda>s. CHR ''/'' # filter ((=) (CHR ''/'')) s) ss) = concat (map (\<lambda>s. ''/'') ss)"
    using assms slashes_whole [of "join_segments ss"] by (simp add: slashes_join)
  then show "length (concat (map (\<lambda>s. CHR ''/'' # filter ((=) (CHR ''/'')) s) ss)) = length ss"
    by (simp add: length_concat comp_def sum_list_triv)
qed

text \<open>
  The path a server routes by, of a URL made of escaped segments: the segments themselves or, with a
  raw path, as they were escaped.
\<close>

lemma parsed_target:
  assumes "ParseQuery q = Some kvs" "suffix = [] \<and> q = [] \<or> suffix = CHR ''?'' # q"
  obtains u f where "parse_target (join_segments (map PathEscape ss) @ suffix) = Some u" "ru_Query u = kvs"
    "route_path u = join_segments (map f ss)" "list_all (\<lambda>s. CHR ''/'' \<notin> set s) (map f ss)"
    "f = (if ru_RawPath u = [] then (\<lambda>s. s) else PathEscape)"
proof -
  let ?p = "join_segments (map PathEscape ss)"
  have plain: "CHR ''?'' \<notin> set ?p" by (induction ss) auto
  have cut: "\<exists>found. Cut (CHR ''?'') (?p @ suffix) = (?p, q, found)"
    using assms(2) Cut_append [OF plain, of q] Cut_none [OF plain] by auto
  define raw where "raw = (if url_escape WholePath (join_segments ss) = ?p then [] else ?p)"
  define u where "u = \<lparr>ru_Path = join_segments ss, ru_RawPath = raw, ru_Query = kvs\<rparr>"
  have parsed: "parse_target (?p @ suffix) = Some u"
    using cut ParseQuery_Query [OF assms(1)] by (auto simp: parse_target_def parse_path_def url_unescape_paths unescape_join u_def raw_def)
  show ?thesis
  proof (cases "raw = []")
    case True
    then have "list_all (\<lambda>s. CHR ''/'' \<notin> set s) ss"
      using default_encoding_segments [of ss] by (cases ss) (auto simp: raw_def split: if_splits)
    with True parsed show ?thesis by (intro that [of u "\<lambda>s. s"]) (simp_all add: u_def route_path_def)
  next
    case False
    then have "raw = ?p" by (simp add: raw_def split: if_splits)
    with False parsed escaped_no_slash [of ss] show ?thesis
      by (intro that [of u PathEscape]) (simp_all add: u_def route_path_def)
  qed
qed

section \<open>Which operation a path reaches\<close>

text \<open>A path below the base with the segments given, as chi sees it.\<close>

definition api_path :: "string list \<Rightarrow> string" where
  "api_path ss = join_segments (base_segments @ ss)"

lemma Split_pattern: "list_all (\<lambda>s. CHR ''/'' \<notin> set s) ss \<Longrightarrow>
    Split (CHR ''/'') (api_path ss) = [] # ''api'' # ''v0'' # ''trusted-actions'' # ss"
  unfolding api_path_def by (subst Split_join) (simp_all add: base_segments_def)

lemma api_path_base: "ss \<noteq> [] \<Longrightarrow> HasPrefix (api_path ss) (basePath @ ''/'')"
proof (cases ss)
  case (Cons s ss')
  then have "api_path ss = (basePath @ ''/'') @ s @ join_segments ss'"
    by (simp add: api_path_def basePath_join)
  then show ?thesis by (simp only: HasPrefix_append)
qed simp

lemma router_patterns_eq:
  "router_patterns =
    [(''GET'', api_path [[]]), (''GET'', api_path [''{action}'']), (''POST'', api_path [''{action}'', ''run'']),
     (''GET'', api_path [''runs'', ''{id}'']), (''GET'', api_path [''runs'', ''{exec_id}'', ''output'']),
     (''GET'', api_path [''runs'']), (''GET'', api_path [''audit''])]"
  by (simp add: router_patterns_def api_routes_def api_path_def basePath_join)

lemma match_api_path:
  "list_all (\<lambda>s. CHR ''/'' \<notin> set s) ps \<Longrightarrow> list_all (\<lambda>s. CHR ''/'' \<notin> set s) ss \<Longrightarrow>
    match_pattern (api_path ps) (api_path ss) = match_segments ps ss"
  by (simp add: match_pattern_def Split_pattern)

text \<open>What chi answers for a path whose segments are not empty, or that is itself a pattern.\<close>

lemma chi_answer:
  assumes chi: "routes_as_documented chi router_patterns"
    and ss: "list_all (\<lambda>s. CHR ''/'' \<notin> set s) ss" "ss \<noteq> []" "[] \<notin> set ss \<or> (m, api_path ss) \<in> set router_patterns"
  shows "case chi router_patterns m (api_path ss) of
      Inr (i, ps) \<Rightarrow> i < 7 \<and> fst (router_patterns ! i) = m \<and> match_pattern (snd (router_patterns ! i)) (api_path ss) = Some ps \<and>
        ((m, api_path ss) \<in> set router_patterns \<longrightarrow> snd (router_patterns ! i) = api_path ss)
    | Inl _ \<Rightarrow> \<forall>(m', p) \<in> set router_patterns. m' = m \<longrightarrow> match_pattern p (api_path ss) = None"
proof -
  have "[] \<notin> set (tl (Split (CHR ''/'') (api_path ss))) \<or> (m, api_path ss) \<in> set router_patterns"
    using ss by (auto simp: Split_pattern)
  moreover have "length router_patterns = 7" by (simp add: router_patterns_eq)
  ultimately show ?thesis
    using chi [unfolded routes_as_documented_def, rule_format, OF api_path_base [OF ss(2)], of m]
    by (auto split: sum.splits prod.splits)
qed

lemma seven: "(i::nat) < 7 \<longleftrightarrow> i \<in> {0, 1, 2, 3, 4, 5, 6}"
  by auto

lemma plain_patterns:
  "list_all (\<lambda>s. CHR ''/'' \<notin> set s) [[]]" "list_all (\<lambda>s. CHR ''/'' \<notin> set s) [''{action}'']"
  "list_all (\<lambda>s. CHR ''/'' \<notin> set s) [''{action}'', ''run'']"
  "list_all (\<lambda>s. CHR ''/'' \<notin> set s) [''runs'', ''{id}'']"
  "list_all (\<lambda>s. CHR ''/'' \<notin> set s) [''runs'', ''{exec_id}'', ''output'']"
  "list_all (\<lambda>s. CHR ''/'' \<notin> set s) [''runs'']" "list_all (\<lambda>s. CHR ''/'' \<notin> set s) [''audit'']"
  by simp_all

lemma chi_only:
  assumes chi: "routes_as_documented chi router_patterns"
    and ss: "list_all (\<lambda>s. CHR ''/'' \<notin> set s) ss" "ss \<noteq> []" "[] \<notin> set ss"
    and k: "k < 7" "fst (router_patterns ! k) = m" "match_pattern (snd (router_patterns ! k)) (api_path ss) = Some ps"
    and only: "\<And>i. i < 7 \<Longrightarrow> fst (router_patterns ! i) = m \<Longrightarrow> i \<noteq> k \<Longrightarrow>
      match_pattern (snd (router_patterns ! i)) (api_path ss) = None"
  shows "chi router_patterns m (api_path ss) = Inr (k, ps)"
proof -
  have len: "length router_patterns = 7" by (simp add: router_patterns_eq)
  have mem: "router_patterns ! k \<in> set router_patterns" using k(1) len by simp
  note answer = chi_answer [OF chi ss(1,2) disjI1 [OF ss(3)], of m]
  show ?thesis
  proof (cases "chi router_patterns m (api_path ss)")
    case (Inl miss)
    with answer mem k(2,3) show ?thesis by (auto simp: case_prod_beta)
  next
    case (Inr hit)
    obtain i qs where hit: "hit = (i, qs)" by fastforce
    with Inr answer have "i < 7" "fst (router_patterns ! i) = m"
      "match_pattern (snd (router_patterns ! i)) (api_path ss) = Some qs" by simp_all
    then have "i = k" using only [of i] by fastforce
    moreover from this have "qs = ps" using k(3) \<open>match_pattern (snd (router_patterns ! i)) (api_path ss) = Some qs\<close> by simp
    ultimately show ?thesis using Inr hit by simp
  qed
qed

lemmas pattern_simps = router_patterns_eq match_api_path plain_patterns seven

lemma chi_hits:
  assumes chi: "routes_as_documented chi router_patterns" and a: "CHR ''/'' \<notin> set a" "a \<noteq> []"
  shows "a \<notin> {''runs'', ''audit''} \<Longrightarrow> chi router_patterns ''GET'' (api_path [a]) = Inr (1, [(''action'', a)])"
    and "chi router_patterns ''POST'' (api_path [a, ''run'']) = Inr (2, [(''action'', a)])"
    and "chi router_patterns ''GET'' (api_path [''runs'', a]) = Inr (3, [(''id'', a)])"
    and "chi router_patterns ''GET'' (api_path [''runs'', a, ''output'']) = Inr (4, [(''exec_id'', a)])"
proof -
  show "a \<notin> {''runs'', ''audit''} \<Longrightarrow> chi router_patterns ''GET'' (api_path [a]) = Inr (1, [(''action'', a)])"
    using a by (intro chi_only [OF chi]) (auto simp: pattern_simps)
  show "chi router_patterns ''POST'' (api_path [a, ''run'']) = Inr (2, [(''action'', a)])"
    using a by (intro chi_only [OF chi]) (auto simp: pattern_simps)
  show "chi router_patterns ''GET'' (api_path [''runs'', a]) = Inr (3, [(''id'', a)])"
    using a by (intro chi_only [OF chi]) (auto simp: pattern_simps)
  show "chi router_patterns ''GET'' (api_path [''runs'', a, ''output'']) = Inr (4, [(''exec_id'', a)])"
    using a by (intro chi_only [OF chi]) (auto simp: pattern_simps)
qed

text \<open>Patterns without a placeholder.\<close>

lemma api_path_inj:
  assumes plain: "list_all (\<lambda>s. CHR ''/'' \<notin> set s) ss" "list_all (\<lambda>s. CHR ''/'' \<notin> set s) ts"
  shows "api_path ss = api_path ts \<longleftrightarrow> ss = ts"
proof
  assume "api_path ss = api_path ts"
  then have "Split (CHR ''/'') (api_path ss) = Split (CHR ''/'') (api_path ts)" by (rule arg_cong)
  then show "ss = ts" unfolding Split_pattern [OF plain(1)] Split_pattern [OF plain(2)] by (simp only: list.inject simp_thms)
qed simp

lemma chi_static:
  assumes chi: "routes_as_documented chi router_patterns"
  shows "chi router_patterns ''GET'' (api_path [[]]) = Inr (0, [])"
    "chi router_patterns ''GET'' (api_path [''runs'']) = Inr (5, [])"
    "chi router_patterns ''GET'' (api_path [''audit'']) = Inr (6, [])"
proof -
  have static: "chi router_patterns ''GET'' (api_path [s]) = Inr (k, [])"
    if "(k, s) \<in> {(0, []), (5, ''runs''), (6, ''audit'')}" for k s
  proof -
    have mem: "(''GET'', api_path [s]) \<in> set router_patterns" and plain: "list_all (\<lambda>s. CHR ''/'' \<notin> set s) [s]"
      using that by (auto simp: router_patterns_eq)
    have answer: "case chi router_patterns ''GET'' (api_path [s]) of
        Inr (i, ps) \<Rightarrow> i < 7 \<and> fst (router_patterns ! i) = ''GET'' \<and>
          match_pattern (snd (router_patterns ! i)) (api_path [s]) = Some ps \<and>
          ((''GET'', api_path [s]) \<in> set router_patterns \<longrightarrow> snd (router_patterns ! i) = api_path [s])
      | Inl _ \<Rightarrow> \<forall>(m', p) \<in> set router_patterns. m' = ''GET'' \<longrightarrow> match_pattern p (api_path [s]) = None"
      using chi_answer [OF chi plain _ disjI2 [OF mem]] by blast
    have some: "match_pattern (api_path [s]) (api_path [s]) = Some []"
      using that plain by (auto simp: match_api_path)
    show ?thesis
    proof (cases "chi router_patterns ''GET'' (api_path [s])")
      case (Inl miss)
      with answer mem some show ?thesis by auto
    next
      case (Inr hit)
      obtain i qs where hit: "hit = (i, qs)" by fastforce
      have i: "i < 7" "snd (router_patterns ! i) = api_path [s]"
        using answer mem unfolding Inr hit sum.case prod.case by blast+
      have "match_pattern (snd (router_patterns ! i)) (api_path [s]) = Some qs"
        using answer unfolding Inr hit sum.case prod.case by blast
      then have "qs = []" using some i(2) by simp
      moreover have "i = k"
        using i(1,2) that plain by (auto simp: seven router_patterns_eq api_path_inj plain_patterns)
      ultimately show ?thesis using Inr hit by simp
    qed
  qed
  show "chi router_patterns ''GET'' (api_path [[]]) = Inr (0, [])"
    "chi router_patterns ''GET'' (api_path [''runs'']) = Inr (5, [])"
    "chi router_patterns ''GET'' (api_path [''audit'']) = Inr (6, [])"
    by (rule static; simp)+
qed

section \<open>The access check and the handler see the same action\<close>

lemma unescape_plain: "CHR ''%'' \<notin> set s \<Longrightarrow> url_unescape PathSegment s = Some s"
proof (induction s)
  case (Cons c s)
  then show ?case by (cases "c = CHR ''+''") auto
qed simp

text \<open>The condition on the routes under which creations are authorized, of the generated wrappers.\<close>

lemma wrappers_bind_actions:
  assumes "binds_as_documented parse_uuid b"
  shows "binds_actions (\<lambda>r. api_routed chi b (method r) (url r))"
proof -
  have path: "bn_path_string b name s unescaped = Inr s" if "CHR ''%'' \<notin> set s" for name s unescaped
    using assms unescape_plain [OF that] by (cases unescaped) (auto simp: binds_as_documented_def)
  show ?thesis
    by (auto simp: binds_actions_def api_routed_def bind_operation_def and_then_def path_param_def path Let_def
      split: sum.splits prod.splits api_operation.splits if_splits)
qed

section \<open>A request of the command line at the server\<close>

text \<open>The request line has the part of the URL below the origin, as it was written.\<close>

definition arrives :: "chi \<Rightarrow> param_runtime \<Rightarrow> string \<Rightarrow> wire_request \<Rightarrow> routed option" where
  "arrives chi b origin r =
    map_option (api_routed chi b (wr_Method r)) (parse_target (drop (length origin) (wr_URL r)))"

definition reaches :: "chi \<Rightarrow> param_runtime \<Rightarrow> string \<Rightarrow> operation \<Rightarrow> wire_request \<Rightarrow> bool" where
  "reaches chi b origin op r \<longleftrightarrow> (\<exists>raw. arrives chi b origin r = Some (Route raw (Inr op)))"

text \<open>The filters a list operation gets.\<close>

definition executions_asked :: "rta_flags \<Rightarrow> execution_list_params" where
  "executions_asked fl =
    \<lparr>lp_Page = None, lp_Limit = None, lp_Status = unless_empty (rf_status fl), lp_Action = unless_empty (rf_action fl),
     lp_Target = unless_empty (rf_cluster fl), lp_Operator = None, lp_Scope = None, lp_Type = None,
     lp_ApprovalState = None, lp_DryRun = None, lp_Force = None, lp_Since = None\<rparr>"

definition audits_asked :: "rta_flags \<Rightarrow> audit_list_params" where
  "audits_asked fl =
    \<lparr>lu_Page = None, lu_Limit = None, lu_Action = unless_empty (rf_action fl), lu_Target = unless_empty (rf_cluster fl),
     lu_Operator = None, lu_Method = None, lu_ApprovalState = None, lu_Since = None\<rparr>"

lemma PathEscape_words [simp]:
  "PathEscape [] = []" "PathEscape ''run'' = ''run''" "PathEscape ''runs'' = ''runs''" "PathEscape ''output'' = ''output''"
  "PathEscape ''audit'' = ''audit''" "map PathEscape base_segments = base_segments"
  by (simp_all add: base_segments_def url_escape_def url_escape_char_def shouldEscape_def is_alnum_def of_char_def)

lemma PathEscape_id: "url_unescape PathSegment (PathEscape s) = Some s"
  using unescape_segment [of s "[]"] by simp

lemma PathEscape_eq: "PathEscape s = PathEscape t \<longleftrightarrow> s = t"
  by (metis PathEscape_id option.inject)

lemmas PathEscape_word_eq = PathEscape_eq [of _ "[]", simplified] PathEscape_eq [of _ "''runs''", simplified]
  PathEscape_eq [of _ "''audit''", simplified]

text \<open>A URL of escaped segments below the base reaches the route that chi gives for them, raw or not.\<close>

lemma reaches_segments:
  assumes url: "wr_URL r = origin @ api_path (map PathEscape ss) @ suffix"
    and query: "ParseQuery q = Some kvs" "suffix = [] \<and> q = [] \<or> suffix = CHR ''?'' # q"
    and routed: "\<And>f. f \<in> {(\<lambda>s. s), PathEscape} \<Longrightarrow> list_all (\<lambda>s. CHR ''/'' \<notin> set s) (map f ss) \<Longrightarrow>
      chi router_patterns (wr_Method r) (api_path (map f ss)) = Inr (i, ps f)"
    and bound: "\<And>u f. ru_Query u = kvs \<Longrightarrow> f = (if ru_RawPath u = [] then (\<lambda>s. s) else PathEscape) \<Longrightarrow>
      bind_operation b (snd (snd (api_routes ! i))) (ps f) u = Inr op"
  shows "reaches chi b origin op r"
proof -
  obtain u f where u: "parse_target (join_segments (map PathEscape (base_segments @ ss)) @ suffix) = Some u" "ru_Query u = kvs"
    and f: "route_path u = join_segments (map f (base_segments @ ss))"
      "list_all (\<lambda>s. CHR ''/'' \<notin> set s) (map f (base_segments @ ss))"
      "f = (if ru_RawPath u = [] then (\<lambda>s. s) else PathEscape)"
    using parsed_target [OF query, of "base_segments @ ss"] by metis
  have cases: "f \<in> {(\<lambda>s. s), PathEscape}" "map f base_segments = base_segments" using f(3) by auto
  then have "route_path u = api_path (map f ss)" "list_all (\<lambda>s. CHR ''/'' \<notin> set s) (map f ss)"
    using f(1,2) by (simp_all add: api_path_def)
  with routed [OF cases(1)] have "api_routed chi b (wr_Method r) u = Route (param (ps f) ''action'') (Inr op)"
    using bound [OF u(2) f(3)] by (simp add: api_routed_def)
  moreover have "parse_target (drop (length origin) (wr_URL r)) = Some u"
    using u(1) url by (simp add: api_path_def)
  ultimately show ?thesis by (auto simp: reaches_def arrives_def)
qed

lemma empty_query: "ParseQuery [] = Some []" "suffix = [] \<and> [] = [] \<or> suffix = CHR ''?'' # []" if "suffix = []"
  using that by (simp_all add: ParseQuery_def)

lemma path_values:
  assumes "binds_as_documented parse_uuid b"
  shows "bn_path_string b name s True = Inr s" "bn_path_uuid b name s True = parse_uuid s"
    "bn_path_string b name (PathEscape s) False = Inr s" "bn_path_uuid b name (PathEscape s) False = parse_uuid s"
  using assms PathEscape_id by (auto simp: binds_as_documented_def)

lemmas bind_simps = bind_operation_def api_routes_def path_param_def param_def Let_def

lemma named_reaches:
  assumes chi: "routes_as_documented chi router_patterns" and b: "binds_as_documented parse_uuid b"
    and base: "tc_base c = origin @ basePath"
  shows "wr_Method r = ''GET'' \<Longrightarrow> wr_URL r = tc_base c @ ''/'' \<Longrightarrow> reaches chi b origin OpCatalog r"
    and "a \<notin> {[], ''runs'', ''audit''} \<Longrightarrow> wr_Method r = ''GET'' \<Longrightarrow> wr_URL r = tc_base c @ ''/'' @ PathEscape a \<Longrightarrow>
      reaches chi b origin (OpDescribe a) r"
    and "a \<noteq> [] \<Longrightarrow> wr_Method r = ''POST'' \<Longrightarrow> wr_URL r = tc_base c @ ''/'' @ PathEscape a @ ''/run'' \<Longrightarrow>
      reaches chi b origin (OpCreateExecution a) r"
    and "i \<noteq> [] \<Longrightarrow> parse_uuid i = Inr k \<Longrightarrow> wr_Method r = ''GET'' \<Longrightarrow> wr_URL r = tc_base c @ ''/runs/'' @ PathEscape i \<Longrightarrow>
      reaches chi b origin (OpGetExecution k) r"
    and "i \<noteq> [] \<Longrightarrow> parse_uuid i = Inr k \<Longrightarrow> wr_Method r = ''GET'' \<Longrightarrow>
      wr_URL r = tc_base c @ ''/runs/'' @ PathEscape i @ ''/output'' \<Longrightarrow> reaches chi b origin (OpGetExecutionOutput k) r"
proof -
  have url: "tc_base c @ join_segments ss = origin @ api_path ss @ []" for ss
    using base by (simp add: api_path_def basePath_join)
  have noslash: "CHR ''/'' \<notin> set (f s)" if "list_all (\<lambda>s. CHR ''/'' \<notin> set s) (map f ss)" "s \<in> set ss" for f :: "string \<Rightarrow> string" and s ss
    using that by (auto simp: list_all_iff)
  show "reaches chi b origin OpCatalog r" if "wr_Method r = ''GET''" "wr_URL r = tc_base c @ ''/''"
    by (rule reaches_segments [where ss = "[[]]" and i = 0 and ps = "\<lambda>_. []", OF _ empty_query])
      (use that url [of "[[]]"] chi_static(1) [OF chi] in \<open>auto simp: bind_simps\<close>)
  show "reaches chi b origin (OpDescribe a) r"
    if "a \<notin> {[], ''runs'', ''audit''}" "wr_Method r = ''GET''" "wr_URL r = tc_base c @ ''/'' @ PathEscape a"
    by (rule reaches_segments [where ss = "[a]" and i = 1 and ps = "\<lambda>f. [(''action'', f a)]", OF _ empty_query])
      (use that url [of "[PathEscape a]"] chi_hits(1) [OF chi] in \<open>auto simp: bind_simps PathEscape_word_eq path_values [OF b]\<close>)
  show "reaches chi b origin (OpCreateExecution a) r"
    if "a \<noteq> []" "wr_Method r = ''POST''" "wr_URL r = tc_base c @ ''/'' @ PathEscape a @ ''/run''"
    by (rule reaches_segments [where ss = "[a, ''run'']" and i = 2 and ps = "\<lambda>f. [(''action'', f a)]", OF _ empty_query])
      (use that url [of "[PathEscape a, ''run'']"] chi_hits(2) [OF chi] in \<open>auto simp: bind_simps PathEscape_word_eq path_values [OF b]\<close>)
  show "reaches chi b origin (OpGetExecution k) r"
    if "i \<noteq> []" "parse_uuid i = Inr k" "wr_Method r = ''GET''" "wr_URL r = tc_base c @ ''/runs/'' @ PathEscape i"
    by (rule reaches_segments [where ss = "[''runs'', i]" and i = 3 and ps = "\<lambda>f. [(''id'', f i)]", OF _ empty_query])
      (use that url [of "[''runs'', PathEscape i]"] chi_hits(3) [OF chi] in \<open>auto simp: bind_simps PathEscape_word_eq path_values [OF b]\<close>)
  show "reaches chi b origin (OpGetExecutionOutput k) r"
    if "i \<noteq> []" "parse_uuid i = Inr k" "wr_Method r = ''GET''" "wr_URL r = tc_base c @ ''/runs/'' @ PathEscape i @ ''/output''"
    by (rule reaches_segments [where ss = "[''runs'', i, ''output'']" and i = 4 and ps = "\<lambda>f. [(''exec_id'', f i)]", OF _ empty_query])
      (use that url [of "[''runs'', PathEscape i, ''output'']"] chi_hits(4) [OF chi] in \<open>auto simp: bind_simps PathEscape_word_eq path_values [OF b]\<close>)
qed

lemma asked_params:
  assumes b: "binds_as_documented parse_uuid b"
  shows "bind_ListExecutions b (shown_filters fl True) = Inr (executions_asked fl)"
    and "bind_ListAuditEntries b (shown_filters fl False) = Inr (audits_asked fl)"
proof -
  have vals: "query_values (shown_filters fl st) name =
      (if name = ''action'' \<and> rf_action fl \<noteq> [] then [rf_action fl] else
       if name = ''status'' \<and> st \<and> rf_status fl \<noteq> [] then [rf_status fl] else
       if name = ''target'' \<and> rf_cluster fl \<noteq> [] then [rf_cluster fl] else [])" for st name
    by (simp add: query_values_def shown_filters_def)
  have absent: "query_param (bn_query_int b) name q = Inr None" "query_param (bn_query_string b) name q = Inr None"
    if "query_values q name = []" for name q
    using b that by (auto simp: binds_as_documented_def query_param_def)
  have once: "query_param (bn_query_string b) name q = Inr (case query_values q name of [] \<Rightarrow> None | v # _ \<Rightarrow> Some v)"
    if "length (query_values q name) \<le> 1" for name q
    using that absent(2) b by (cases "query_values q name") (auto simp: binds_as_documented_def query_param_def)
  have string: "query_param (bn_query_string b) name (shown_filters fl st) =
      Inr (if name = ''action'' then unless_empty (rf_action fl)
        else if name = ''status'' \<and> st then unless_empty (rf_status fl)
        else if name = ''target'' then unless_empty (rf_cluster fl) else None)" for st name
    by (subst once) (auto simp: vals unless_empty_def)
  have ints: "query_param (bn_query_int b) ''page'' (shown_filters fl st) = Inr None"
    "query_param (bn_query_int b) ''limit'' (shown_filters fl st) = Inr None" for st
    by (simp_all add: absent vals)
  show "bind_ListExecutions b (shown_filters fl True) = Inr (executions_asked fl)"
    by (simp add: bind_ListExecutions_def string ints executions_asked_def)
  show "bind_ListAuditEntries b (shown_filters fl False) = Inr (audits_asked fl)"
    by (simp add: bind_ListAuditEntries_def string ints audits_asked_def)
qed

lemma lists_reach:
  assumes chi: "routes_as_documented chi router_patterns" and b: "binds_as_documented parse_uuid b"
    and base: "tc_base c = origin @ basePath"
  shows "asks_query c ''/runs'' (shown_filters fl True) r \<Longrightarrow> reaches chi b origin (OpListExecutions (executions_asked fl)) r"
    and "asks_query c ''/audit'' (shown_filters fl False) r \<Longrightarrow> reaches chi b origin (OpListAuditEntries (audits_asked fl)) r"
proof -
  have query: "wr_Method r = ''GET'' \<and> (\<exists>q suffix. wr_URL r = origin @ api_path [s] @ suffix \<and> ParseQuery q = Some kvs \<and>
      (suffix = [] \<and> q = [] \<or> suffix = CHR ''?'' # q))" if "asks_query c (CHR ''/'' # s) kvs r" for s kvs
    using that base by (cases "kvs = []") (auto simp: asks_query_def api_path_def basePath_join ParseQuery_def)
  show "reaches chi b origin (OpListExecutions (executions_asked fl)) r" if asked: "asks_query c ''/runs'' (shown_filters fl True) r"
  proof -
    obtain q suffix where q: "wr_Method r = ''GET''" "wr_URL r = origin @ api_path [''runs''] @ suffix"
      "ParseQuery q = Some (shown_filters fl True)" "suffix = [] \<and> q = [] \<or> suffix = CHR ''?'' # q"
      using query [OF asked] by blast
    show ?thesis
      by (rule reaches_segments [where ss = "[''runs'']" and i = 5 and ps = "\<lambda>_. []", OF _ q(3,4)])
        (use q(1,2) chi_static(2) [OF chi] asked_params(1) [OF b] in \<open>auto simp: bind_simps\<close>)
  qed
  show "reaches chi b origin (OpListAuditEntries (audits_asked fl)) r" if asked: "asks_query c ''/audit'' (shown_filters fl False) r"
  proof -
    obtain q suffix where q: "wr_Method r = ''GET''" "wr_URL r = origin @ api_path [''audit''] @ suffix"
      "ParseQuery q = Some (shown_filters fl False)" "suffix = [] \<and> q = [] \<or> suffix = CHR ''?'' # q"
      using query [OF asked] by blast
    show ?thesis
      by (rule reaches_segments [where ss = "[''audit'']" and i = 6 and ps = "\<lambda>_. []", OF _ q(3,4)])
        (use q(1,2) chi_static(3) [OF chi] asked_params(2) [OF b] in \<open>auto simp: bind_simps\<close>)
  qed
qed


text \<open>A router and a runtime that are as documented.\<close>

definition plain_chi :: chi where
  "plain_chi routes m path =
    (case List.find (\<lambda>i. routes ! i = (m, path)) [0..<length routes] of
       Some i \<Rightarrow> Inr (i, the (match_pattern (snd (routes ! i)) path))
     | None \<Rightarrow>
       (case List.find (\<lambda>i. fst (routes ! i) = m \<and> match_pattern (snd (routes ! i)) path \<noteq> None) [0..<length routes] of
          Some i \<Rightarrow> Inr (i, the (match_pattern (snd (routes ! i)) path))
        | None \<Rightarrow> Inl (404, ''404 page not found'')))"

definition many_values :: "string \<Rightarrow> 'a bound" where
  "many_values name = Inl (OtherFailure (Errf ''multiple values for single value parameter %s'' [name]))"

definition unescape_once :: "string \<Rightarrow> string \<Rightarrow> bool \<Rightarrow> string result" where
  "unescape_once name s unescaped =
    (if unescaped then Inr s
     else case url_unescape PathSegment s of
         Some v \<Rightarrow> Inr v
       | None \<Rightarrow> Inl (Errf ''error unescaping path parameter %s'' [name]))"

definition plain_runtime :: "(string \<Rightarrow> uuid result) \<Rightarrow> param_runtime" where
  "plain_runtime parse_uuid =
    \<lparr>bn_query_int = (\<lambda>name q. if query_values q name = [] then Inr None else many_values name),
     bn_query_string = (\<lambda>name q.
       case query_values q name of [] \<Rightarrow> Inr None | [v] \<Rightarrow> Inr (Some v) | _ \<Rightarrow> many_values name),
     bn_path_uuid = (\<lambda>name s unescaped. and_then (unescape_once name s unescaped) parse_uuid),
     bn_path_string = unescape_once\<rparr>"

lemma plain_runtime_documented: "binds_as_documented p (plain_runtime p)"
  by (simp add: binds_as_documented_def plain_runtime_def unescape_once_def)

lemma match_self: "match_segments ss ss \<noteq> None"
  by (induction ss) auto

lemma plain_chi_documented: "routes_as_documented plain_chi routes"
proof -
  have "case plain_chi routes m path of
      Inr (i, ps) \<Rightarrow> i < length routes \<and> fst (routes ! i) = m \<and> match_pattern (snd (routes ! i)) path = Some ps \<and>
        ((m, path) \<in> set routes \<longrightarrow> snd (routes ! i) = path)
    | Inl _ \<Rightarrow> \<forall>(m', p) \<in> set routes. m' = m \<longrightarrow> match_pattern p path = None" for m path
  proof (cases "List.find (\<lambda>i. routes ! i = (m, path)) [0..<length routes]")
    case (Some i)
    then have "i < length routes" "routes ! i = (m, path)" by (auto simp: find_Some_iff)
    moreover have "match_pattern path path \<noteq> None" unfolding match_pattern_def by (rule match_self)
    ultimately show ?thesis using Some by (auto simp: plain_chi_def)
  next
    case None
    then have other: "(m, path) \<notin> set routes" by (auto simp: find_None_iff in_set_conv_nth)
    show ?thesis
    proof (cases "List.find (\<lambda>i. fst (routes ! i) = m \<and> match_pattern (snd (routes ! i)) path \<noteq> None) [0..<length routes]")
      case (Some i)
      then have "i < length routes" "fst (routes ! i) = m" "match_pattern (snd (routes ! i)) path \<noteq> None"
        by (auto simp: find_Some_iff)
      with None Some other show ?thesis by (auto simp: plain_chi_def)
    next
      case None': None
      then have "\<forall>i < length routes. fst (routes ! i) = m \<longrightarrow> match_pattern (snd (routes ! i)) path = None"
        by (auto simp: find_None_iff)
      then have "\<forall>(m', p) \<in> set routes. m' = m \<longrightarrow> match_pattern p path = None"
        by (auto simp: in_set_conv_nth) (metis fst_conv snd_conv)
      with None None' show ?thesis by (simp add: plain_chi_def)
    qed
  qed
  then show ?thesis by (simp add: routes_as_documented_def)
qed


end
