(* ===== verification/Test_Client.thy ===== *)
theory Test_Client
  imports Rta_Commands
begin

text \<open>
  The test client \<open>cmd/test-client/main.go\<close>, which creates one execution and polls it until it is final,
  without a bound.  Arguments: the HTTP transport and the JSON codec, as for the command line, and the
  output of \<open>ocm token\<close>.  Its flags and its process are in \<open>Entry_Points\<close>.
\<close>

section \<open>Flags and exchanges\<close>

record tclient_flags =
  tf_server :: string
  tf_action :: string
  tf_clusterID :: string
  tf_jira :: string
  tf_params :: "string list"
  tf_dryRun :: bool
  tf_force :: bool
  tf_token :: string
  tf_pollInterval :: int

definition isTerminal :: "string \<Rightarrow> bool" where
  "isTerminal status \<longleftrightarrow> status = ''succeeded'' \<or> status = ''failed'' \<or> status = ''timed_out''"

text \<open>The common end of \<open>doPost\<close> and \<open>doGet\<close>: the exchange and the decoding of its answer.\<close>

definition tc_exchange :: "net \<Rightarrow> wire_request \<Rightarrow> (wire_request list, api_execution) act" where
  "tc_exchange nt req log =
    (let method = wr_Method req; url = wr_URL req
     in (case nt_Do nt log req of
           Inl e \<Rightarrow> Inl (Errw ''%s %s: %w'' [method, url] e)
         | Inr (status, body) \<Rightarrow>
           (case body of
              Inl e \<Rightarrow> Inl (Errw ''%s %s: read body: %w'' [method, url] e)
            | Inr data \<Rightarrow>
              if status < 200 \<or> status \<ge> 300
              then Inl (Errf ''%s %s returned %d: %s'' [method, url, show_int status, data])
              else (case nt_Execution nt data of
                      Inl e \<Rightarrow> Inl (Errw ''decode response: %w'' [] e)
                    | Inr execution \<Rightarrow> Inr execution)),
         log @ [req]))"

definition doPost :: "net \<Rightarrow> string \<Rightarrow> string \<Rightarrow> execution_request \<Rightarrow> (wire_request list, api_execution) act" where
  "doPost nt url token body =
    (case nt_Marshal nt body of
       Inl e \<Rightarrow> fail (Errw ''marshal request: %w'' [] e)
     | Inr data \<Rightarrow>
       (case nt_URLPath nt url of
          Inl e \<Rightarrow> fail e
        | Inr _ \<Rightarrow>
          tc_exchange nt ((blank_request ''POST'' url)
            \<lparr>wr_ContentType := Some ''application/json'', wr_Authorization := Some (''Bearer '' @ token),
             wr_Body := Some data\<rparr>)))"

definition doGet :: "net \<Rightarrow> string \<Rightarrow> string \<Rightarrow> (wire_request list, api_execution) act" where
  "doGet nt url token =
    (case nt_URLPath nt url of
       Inl e \<Rightarrow> fail e
     | Inr _ \<Rightarrow> tc_exchange nt ((blank_request ''GET'' url)\<lparr>wr_Authorization := Some (''Bearer '' @ token)\<rparr>))"

section \<open>The command\<close>

text \<open>\<open>parseParams\<close> cuts as the command line does, whose invalid usage is an error of the same text.\<close>

definition tc_parseParams :: "string list \<Rightarrow> (string \<times> string) list result" where
  "tc_parseParams raw = collect_params raw []"

definition tc_token_of :: "string result \<Rightarrow> tclient_flags \<Rightarrow> string result" where
  "tc_token_of ocm_token fl =
    (if tf_token fl = []
     then (case ocm_token of
             Inl e \<Rightarrow> Inl (Errw ''--token not set and 'ocm token' failed: %w'' [] e)
           | Inr out \<Rightarrow> Inr (TrimSpace out))
     else Inr (tf_token fl))"

definition tc_request :: "tclient_flags \<Rightarrow> (string \<times> string) list \<Rightarrow> execution_request" where
  "tc_request fl paramMap =
    \<lparr>rq_DryRun = (if tf_dryRun fl then Some True else None), rq_Force = (if tf_force fl then Some True else None),
     rq_Jira = tf_jira fl, rq_Params = (if length paramMap > 0 then Some paramMap else None),
     rq_TargetCluster = tf_clusterID fl\<rparr>"

text \<open>Up to the creation, with the token for the polls.\<close>

definition tc_create :: "string result \<Rightarrow> net \<Rightarrow> tclient_flags \<Rightarrow> (rta_io, string \<times> api_execution) act" where
  "tc_create ocm_token nt fl =
    (if tf_pollInterval fl \<le> 0
     then fail (Errf ''--poll-interval must be positive, got %s'' [show_int (tf_pollInterval fl)])
     else seq (lift (tc_token_of ocm_token fl)) (\<lambda>token.
       seq (lift (tc_parseParams (tf_params fl))) (\<lambda>paramMap.
       seq (sends (doPost nt (tf_server fl @ ''/api/v0/trusted-actions/'' @ tf_action fl @ ''/run'') token
            (tc_request fl paramMap))) (\<lambda>execution.
       seq (prints [PLine (''Execution '' @ ox_Id execution @ '' created (status: '' @ ox_Status execution @ '')'')])
         (\<lambda>_. ret (token, execution))))))"

definition tc_poll :: "net \<Rightarrow> tclient_flags \<Rightarrow> string \<Rightarrow> api_execution \<Rightarrow> (rta_io, api_execution) act" where
  "tc_poll nt fl token execution =
    seq (prints [PLine (''  polling... (status: '' @ ox_Status execution @ '')'')]) (\<lambda>_.
      wrap_err ''poll failed: %w'' []
        (sends (doGet nt (tf_server fl @ ''/api/v0/trusted-actions/runs/'' @ ox_Id execution @ ''?include=output'') token)))"

partial_function (option) tc_wait ::
  "net \<Rightarrow> tclient_flags \<Rightarrow> string \<Rightarrow> api_execution \<Rightarrow> rta_io \<Rightarrow> (api_execution result \<times> rta_io) option"
where
  "tc_wait nt fl token execution io =
    (if isTerminal (ox_Status execution) then Some (Inr execution, io)
     else case tc_poll nt fl token execution io of
         (Inl e, io') \<Rightarrow> Some (Inl e, io')
       | (Inr execution', io') \<Rightarrow> tc_wait nt fl token execution' io')"

text \<open>The exit code; None is a run that never ends.  A failure to encode the result is not looked at.\<close>

definition tc_main :: "string result \<Rightarrow> net \<Rightarrow> tclient_flags \<Rightarrow> rta_io \<Rightarrow> (int \<times> rta_io) option" where
  "tc_main ocm_token nt fl io =
    (case tc_create ocm_token nt fl io of
       (Inl e, io') \<Rightarrow> Some (1, io')
     | (Inr (token, execution), io') \<Rightarrow>
       map_option (\<lambda>(r, io'').
         case r of
           Inl e \<Rightarrow> (1, io'')
         | Inr final \<Rightarrow>
           (if ox_Status final \<noteq> ''succeeded'' then 1 else 0,
            io''\<lparr>ri_out := ri_out io'' @ [PLine [], PJson (JExecution final)]\<rparr>))
         (tc_wait nt fl token execution io'))"

section \<open>How long it waits\<close>

text \<open>The state after \<open>n\<close> polls, whatever they reported, or the failure of one of them.\<close>

primrec after_polls ::
  "net \<Rightarrow> tclient_flags \<Rightarrow> string \<Rightarrow> nat \<Rightarrow> api_execution \<Rightarrow> (rta_io, api_execution) act"
where
  "after_polls nt fl token 0 execution = ret execution"
| "after_polls nt fl token (Suc n) execution = seq (tc_poll nt fl token execution) (after_polls nt fl token n)"

definition settled :: "api_execution result \<times> rta_io \<Rightarrow> bool" where
  "settled r \<longleftrightarrow> (case fst r of Inl e \<Rightarrow> True | Inr execution \<Rightarrow> isTerminal (ox_Status execution))"

lemma wait_of_polls:
  assumes "settled (after_polls nt fl token n execution io)"
    and "\<And>m. m < n \<Longrightarrow> \<not> settled (after_polls nt fl token m execution io)"
  shows "tc_wait nt fl token execution io = Some (after_polls nt fl token n execution io)"
  using assms
proof (induction n arbitrary: execution io)
  case 0
  then show ?case by (subst tc_wait.simps) (simp add: settled_def ret_def)
next
  case (Suc n)
  have going: "\<not> isTerminal (ox_Status execution)" using Suc.prems(2) [of 0] by (simp add: settled_def ret_def)
  show ?case
  proof (cases "tc_poll nt fl token execution io")
    case (Pair r io')
    show ?thesis
    proof (cases r)
      case (Inl e)
      with Pair going show ?thesis by (subst tc_wait.simps) (simp add: seq_def)
    next
      case (Inr execution')
      have "tc_wait nt fl token execution' io' = Some (after_polls nt fl token n execution' io')"
      proof (rule Suc.IH)
        show "settled (after_polls nt fl token n execution' io')" using Suc.prems(1) Pair Inr by (simp add: seq_def)
        show "\<not> settled (after_polls nt fl token m execution' io')" if "m < n" for m
          using Suc.prems(2) [of "Suc m"] that Pair Inr by (simp add: seq_def)
      qed
      with Pair Inr going show ?thesis by (subst tc_wait.simps) (simp add: seq_def)
    qed
  qed
qed

lemma wait_ends: "tc_wait nt fl token execution io = Some r \<Longrightarrow> \<exists>n. settled (after_polls nt fl token n execution io)"
proof (erule tc_wait.raw_induct [rotated, where P = "\<lambda>nt fl token execution io r. \<exists>n. settled (after_polls nt fl token n execution io)"])
  fix wait nt fl token execution io r
  assume IH: "\<And>nt fl token execution io r. wait nt fl token execution io = Some r \<Longrightarrow>
      \<exists>n. settled (after_polls nt fl token n execution io)"
    and step: "(if isTerminal (ox_Status execution) then Some (Inr execution, io)
      else case tc_poll nt fl token execution io of (Inl e, io') \<Rightarrow> Some (Inl e, io')
        | (Inr execution', io') \<Rightarrow> wait nt fl token execution' io') = Some r"
  show "\<exists>n. settled (after_polls nt fl token n execution io)"
  proof (cases "isTerminal (ox_Status execution)")
    case True
    then have "settled (after_polls nt fl token 0 execution io)" by (simp add: settled_def ret_def)
    then show ?thesis ..
  next
    case False
    obtain p io' where poll: "tc_poll nt fl token execution io = (p, io')" by fastforce
    show ?thesis
    proof (cases p)
      case (Inl e)
      then have "settled (after_polls nt fl token 1 execution io)" using poll by (simp add: settled_def seq_def)
      then show ?thesis ..
    next
      case (Inr execution')
      with step False poll have "wait nt fl token execution' io' = Some r" by simp
      from IH [OF this] obtain n where "settled (after_polls nt fl token n execution' io')" ..
      then have "settled (after_polls nt fl token (Suc n) execution io)" using poll Inr by (simp add: seq_def)
      then show ?thesis ..
    qed
  qed
qed

text \<open>It waits for the first failed or final answer, and for ever when there is none.\<close>

lemma waits_for_the_first_settled_poll:
  "tc_wait nt fl token execution io =
    (if \<exists>n. settled (after_polls nt fl token n execution io)
     then Some (after_polls nt fl token (LEAST n. settled (after_polls nt fl token n execution io)) execution io)
     else None)"
proof (cases "\<exists>n. settled (after_polls nt fl token n execution io)")
  case True
  then have "settled (after_polls nt fl token (LEAST n. settled (after_polls nt fl token n execution io)) execution io)"
    by (rule LeastI_ex)
  then show ?thesis using True wait_of_polls [of nt fl token "LEAST n. settled (after_polls nt fl token n execution io)"]
    not_less_Least by auto
next
  case False
  then show ?thesis using wait_ends by (cases "tc_wait nt fl token execution io") auto
qed

text \<open>Its exit code is 0 exactly when the first final answer, after no failed one, reports success.\<close>

lemma test_client_exit:
  "case tc_main ocm_token nt fl io of
      None \<Rightarrow> \<exists>token execution io'. tc_create ocm_token nt fl io = (Inr (token, execution), io') \<and>
        (\<forall>n. \<not> settled (after_polls nt fl token n execution io'))
    | Some (code, io'') \<Rightarrow> code \<in> {0, 1} \<and>
        (code = 0 \<longleftrightarrow>
          (\<exists>token execution io' n final. tc_create ocm_token nt fl io = (Inr (token, execution), io') \<and>
             settled (after_polls nt fl token n execution io') \<and>
             n = (LEAST n. settled (after_polls nt fl token n execution io')) \<and>
             fst (after_polls nt fl token n execution io') = Inr final \<and> ox_Status final = ''succeeded''))"
proof (cases "tc_create ocm_token nt fl io")
  case (Pair created io')
  show ?thesis
  proof (cases created)
    case (Inl e)
    with Pair show ?thesis by (simp add: tc_main_def)
  next
    case (Inr te)
    obtain token execution where te: "te = (token, execution)" by fastforce
    let ?settled = "\<lambda>n. settled (after_polls nt fl token n execution io')"
    have waits: "tc_wait nt fl token execution io' =
        (if \<exists>n. ?settled n then Some (after_polls nt fl token (LEAST n. ?settled n) execution io') else None)"
      by (rule waits_for_the_first_settled_poll)
    show ?thesis
    proof (cases "\<exists>n. ?settled n")
      case True
      then have "?settled (LEAST n. ?settled n)" by (rule LeastI_ex)
      with True waits Pair Inr te show ?thesis
        by (cases "after_polls nt fl token (LEAST n. ?settled n) execution io'") (auto simp: tc_main_def split: sum.splits)
    next
      case False
      with waits Pair Inr te show ?thesis by (auto simp: tc_main_def)
    qed
  qed
qed

end
