(* ===== verification/Store_Open.thy ===== *)
theory Store_Open
  imports Migrations Sqlite
begin

text \<open>
  Opening a store: \<open>NewSQLiteStore\<close> and \<open>NewPostgresStore\<close> of \<open>internal/store\<close>.  What
  \<open>database/sql\<close> does to the pool of connections is a list of events; whether opening, the ping and
  closing succeed are arguments, and so are the migrations with the faults of their statements.  A
  failure to close is only logged.
\<close>

datatype db_event =
    Opened string string | SetMaxOpenConns int | SetMaxIdleConns int | SetConnMaxLifetime int
  | Pinged | Closed

record 'd store_opening =
  op_events :: "db_event list"
  op_db :: "'d migrated"

record 'd db_driver =
  dd_open :: "string \<Rightarrow> string \<Rightarrow> unit result"
  dd_ping :: "unit result"
  dd_exec :: "'d exec_sql"
  dd_files :: "(string \<times> string) list"
  dd_faults :: mig_faults

record postgres_config =
  pgc_MaxOpenConns :: int
  pgc_MaxIdleConns :: int
  pgc_ConnMaxLifetime :: int

definition event :: "db_event \<Rightarrow> ('d store_opening, unit) act" where
  "event v pool = (Inr (), pool\<lparr>op_events := op_events pool @ [v]\<rparr>)"

text \<open>The rest of both: ping and migrations, each failure of which closes the pool.\<close>

definition or_close :: "string \<Rightarrow> ('d store_opening, unit) act \<Rightarrow> ('d store_opening, unit) act" where
  "or_close msg m pool =
    (case m pool of
       (Inl e, pool') \<Rightarrow> (Inl (Errw msg [] e), pool'\<lparr>op_events := op_events pool' @ [Closed]\<rparr>)
     | (Inr u, pool') \<Rightarrow> (Inr u, pool'))"

definition ping :: "'d db_driver \<Rightarrow> ('d store_opening, unit) act" where
  "ping dd pool = (dd_ping dd, pool\<lparr>op_events := op_events pool @ [Pinged]\<rparr>)"

definition migrate :: "'d db_driver \<Rightarrow> string \<Rightarrow> ('d store_opening, unit) act" where
  "migrate dd dialect pool =
    (case runMigrations (dd_exec dd) (dd_files dd) (dd_faults dd) dialect (op_db pool) of
       (r, d) \<Rightarrow> (r, pool\<lparr>op_db := d\<rparr>))"

definition open_pool :: "'d db_driver \<Rightarrow> string \<Rightarrow> string \<Rightarrow> string \<Rightarrow> ('d store_opening, unit) act" where
  "open_pool dd msg driver dsn =
    seq (wrap_err msg [] (lift (dd_open dd driver dsn))) (\<lambda>_. event (Opened driver dsn))"

text \<open>\<open>order\<close> is the order in which the map of pragmas is ranged over.\<close>

definition sqlite_pragmas :: "(string \<times> string) list" where
  "sqlite_pragmas = [(''_journal_mode'', ''WAL''), (''_foreign_keys'', ''on''), (''_busy_timeout'', ''5000'')]"

definition NewSQLiteStore ::
  "((string \<times> string) list \<Rightarrow> (string \<times> string) list) \<Rightarrow> 'd db_driver \<Rightarrow> string \<Rightarrow> ('d store_opening, unit) act"
where
  "NewSQLiteStore order dd dsn0 =
    (let dsn = (if dsn0 = [] then ''trusted_actions.db'' else dsn0)
     in seq (open_pool dd ''opening database: %w'' ''sqlite'' (withSQLitePragmas dsn (order sqlite_pragmas))) (\<lambda>_.
        seq (event (SetMaxOpenConns 1)) (\<lambda>_.
        seq (or_close ''pinging database: %w'' (ping dd)) (\<lambda>_.
        or_close ''running migrations: %w'' (migrate dd ''sqlite'')))))"

definition positive :: "(int \<Rightarrow> db_event) \<Rightarrow> int \<Rightarrow> ('d store_opening, unit) act" where
  "positive setting n = (if n > 0 then event (setting n) else ret ())"

definition NewPostgresStore :: "'d db_driver \<Rightarrow> string \<Rightarrow> postgres_config \<Rightarrow> ('d store_opening, unit) act" where
  "NewPostgresStore dd dsn cfg =
    seq (open_pool dd ''opening postgres database: %w'' ''pgx'' dsn) (\<lambda>_.
    seq (positive SetMaxOpenConns (pgc_MaxOpenConns cfg)) (\<lambda>_.
    seq (positive SetMaxIdleConns (pgc_MaxIdleConns cfg)) (\<lambda>_.
    seq (positive SetConnMaxLifetime (pgc_ConnMaxLifetime cfg)) (\<lambda>_.
    seq (or_close ''pinging postgres database: %w'' (ping dd)) (\<lambda>_.
    or_close ''running postgres migrations: %w'' (migrate dd ''postgres''))))))"

section \<open>Migrated or closed\<close>

lemma runs_record_all:
  assumes "runMigrations exec fs f dialect d = (Inr u, d')"
  shows "(\<lambda>n. TrimSuffix n ''.up.sql'') ` set (listMigrations fs ''.up.sql'') \<subseteq> set (versions_of d')"
proof -
  let ?d = "d\<lparr>mg_versions := Some (versions_of d)\<rparr>"
  have "apply_all exec fs f (listMigrations fs ''.up.sql'') ?d = (Inr u, d')"
    using assms runMigrations_cases [of exec fs f dialect d] by auto
  moreover have "(\<lambda>n. TrimSuffix n ''.up.sql'') ` set ns \<subseteq> set (versions_of d')"
    if "apply_all exec fs f ns e = (Inr u, d')" "mg_versions e \<noteq> None" for ns e
    using that
  proof (induction ns arbitrary: e)
    case (Cons n ns)
    then obtain e1 where s: "apply_migration exec fs f n e = (Inr (), e1)" and rest: "apply_all exec fs f ns e1 = (Inr u, d')"
      by (auto split: prod.splits sum.splits)
    then have "apply_migration exec fs no_faults n e = (Inr (), e1)"
      using apply_migration_cases [OF s Cons.prems(2)] by auto
    note dn = apply_migration_done [OF this Cons.prems(2)]
    from Cons.IH [OF rest dn(3)] apply_all_keeps [OF rest dn(3)] dn(1) show ?case by auto
  qed simp
  ultimately show ?thesis by simp
qed

text \<open>
  A store that opens has run every migration and its pool is open; one that does not has left no pool
  open, and its migrations can be run again as if it had not been tried.
\<close>

definition open_pools :: "db_event list \<Rightarrow> int" where
  "open_pools es = int (length (filter (\<lambda>e. case e of Opened _ _ \<Rightarrow> True | _ \<Rightarrow> False) es)) -
     int (length (filter (\<lambda>e. e = Closed) es))"

definition opened_well :: "'d db_driver \<Rightarrow> string \<Rightarrow> 'd store_opening \<Rightarrow> unit result \<times> 'd store_opening \<Rightarrow> bool" where
  "opened_well dd dialect pool r \<longleftrightarrow>
    open_pools (op_events (snd r)) = open_pools (op_events pool) + (case fst r of Inl e \<Rightarrow> 0 | Inr _ \<Rightarrow> 1) \<and>
    runMigrations (dd_exec dd) (dd_files dd) no_faults dialect (op_db (snd r)) =
      runMigrations (dd_exec dd) (dd_files dd) no_faults dialect (op_db pool) \<and>
    (case fst r of
       Inl e \<Rightarrow> True
     | Inr _ \<Rightarrow> (\<lambda>n. TrimSuffix n ''.up.sql'') ` set (listMigrations (dd_files dd) ''.up.sql'') \<subseteq> set (versions_of (op_db (snd r))))"

lemma open_pools_simps [simp]:
  "open_pools [] = 0" "open_pools (es @ fs) = open_pools es + open_pools fs"
  by (simp_all add: open_pools_def)

lemma open_pools_Cons [simp]: "es \<noteq> [] \<Longrightarrow> open_pools (e # es) = open_pools [e] + open_pools es"
  using open_pools_simps(2) [of "[e]" es] by simp

lemma open_pools_one [simp]:
  "open_pools [Opened a b] = 1" "open_pools [Closed] = -1" "open_pools [Pinged] = 0"
  "open_pools [SetMaxOpenConns n] = 0" "open_pools [SetMaxIdleConns n] = 0" "open_pools [SetConnMaxLifetime n] = 0"
  by (simp_all add: open_pools_def)

text \<open>Settings between the opening and the ping.\<close>

definition only_settings :: "('d store_opening, unit) act \<Rightarrow> bool" where
  "only_settings m \<longleftrightarrow>
    (\<forall>pool. \<exists>es. m pool = (Inr (), pool\<lparr>op_events := op_events pool @ es\<rparr>) \<and> open_pools es = 0)"

lemma only_settings_event: "open_pools [v] = 0 \<Longrightarrow> only_settings (event v)"
  by (auto simp: only_settings_def event_def)

lemma only_settings_positive: "(\<And>n. open_pools [setting n] = 0) \<Longrightarrow> only_settings (positive setting n)"
proof (cases "n > 0")
  case True
  with only_settings_event [of "setting n"] show "only_settings (positive setting n)" if "\<And>n. open_pools [setting n] = 0"
    using that by (simp add: positive_def)
next
  case False
  then show ?thesis by (auto simp: positive_def only_settings_def ret_def intro!: exI [of _ "[]"])
qed

lemma only_settings_seq:
  assumes "only_settings m" "only_settings n"
  shows "only_settings (seq m (\<lambda>_. n))"
  unfolding only_settings_def
proof
  fix pool
  obtain es where es: "m pool = (Inr (), pool\<lparr>op_events := op_events pool @ es\<rparr>)" "open_pools es = 0"
    using assms(1) unfolding only_settings_def by blast
  obtain fs where fs: "n (pool\<lparr>op_events := op_events pool @ es\<rparr>) =
      (Inr (), pool\<lparr>op_events := op_events pool @ es @ fs\<rparr>)" "open_pools fs = 0"
    using assms(2) [unfolded only_settings_def, rule_format, of "pool\<lparr>op_events := op_events pool @ es\<rparr>"] by auto
  from es fs have "seq m (\<lambda>_. n) pool = (Inr (), pool\<lparr>op_events := op_events pool @ (es @ fs)\<rparr>) \<and> open_pools (es @ fs) = 0"
    by (simp add: seq_def)
  then show "\<exists>es. seq m (\<lambda>_. n) pool = (Inr (), pool\<lparr>op_events := op_events pool @ es\<rparr>) \<and> open_pools es = 0" ..
qed

lemma migrated_or_closed:
  assumes "only_settings settings"
  shows "opened_well dd dialect pool
    (seq (open_pool dd m0 driver dsn) (\<lambda>_. seq settings (\<lambda>_. seq (or_close m1 (ping dd)) (\<lambda>_. or_close m2 (migrate dd dialect)))) pool)"
proof (cases "dd_open dd driver dsn")
  case (Inl e)
  then show ?thesis by (simp add: opened_well_def seq_def open_pool_def wrap_err_def lift_def)
next
  case (Inr u)
  define o1 where "o1 = pool\<lparr>op_events := op_events pool @ [Opened driver dsn]\<rparr>"
  obtain es where es: "settings o1 = (Inr (), o1\<lparr>op_events := op_events o1 @ es\<rparr>)"
    "open_pools es = 0"
    using assms unfolding only_settings_def by blast
  have opened: "open_pool dd m0 driver dsn pool = (Inr (), o1)"
    using Inr by (simp add: open_pool_def seq_def wrap_err_def lift_def event_def o1_def)
  show ?thesis
  proof (cases "dd_ping dd")
    case (Inl e)
    with es opened show ?thesis by (simp add: opened_well_def seq_def or_close_def ping_def o1_def)
  next
    case ok: (Inr u')
    obtain r d where run: "runMigrations (dd_exec dd) (dd_files dd) (dd_faults dd) dialect (op_db pool) = (r, d)" by fastforce
    have again: "runMigrations (dd_exec dd) (dd_files dd) no_faults dialect d =
        runMigrations (dd_exec dd) (dd_files dd) no_faults dialect (op_db pool)"
      using migrations_resume [of "dd_exec dd" "dd_files dd" dialect "dd_faults dd" "op_db pool"] run by simp
    have db: "op_db o1 = op_db pool" by (simp add: o1_def)
    from es opened ok run again show ?thesis
      by (cases r) (auto simp: opened_well_def seq_def or_close_def ping_def migrate_def db o1_def
        dest: runs_record_all)
  qed
qed

lemma opened_stores_are_migrated:
  "opened_well dd ''sqlite'' pool (NewSQLiteStore order dd dsn pool)"
  "opened_well dd ''postgres'' pool (NewPostgresStore dd dsn cfg pool)"
proof -
  show "opened_well dd ''sqlite'' pool (NewSQLiteStore order dd dsn pool)"
    unfolding NewSQLiteStore_def Let_def
    by (intro migrated_or_closed only_settings_event) simp
  have seqs: "seq m (\<lambda>_. seq n f) = seq (seq m (\<lambda>_. n)) f" for m :: "('d store_opening, unit) act" and n f
    by (auto simp: seq_def fun_eq_iff split: prod.splits sum.splits)
  show "opened_well dd ''postgres'' pool (NewPostgresStore dd dsn cfg pool)"
    unfolding NewPostgresStore_def
    by (subst (2) seqs, subst (2) seqs) (intro migrated_or_closed only_settings_seq only_settings_positive; simp)
qed

end
