(* ===== verification/Shutdown.thy ===== *)
theory Shutdown
  imports Worker_Claims
begin

text \<open>
  The end of \<open>runServer\<close> in \<open>cmd/server/main.go\<close>: serving, the signal, the drain of the HTTP server
  and the wait for the workers, as a step relation around the pool.  Whether listening fails, whether
  \<open>srv.Shutdown\<close> succeeds in time and whether the deadline passes before the workers are done is the
  choice of the step.
\<close>

section \<open>The phases\<close>

datatype server_phase = Serving | Draining | AwaitingWorkers | Exited "unit result" | Died

record ('s, 'p) main_state =
  ms_phase :: server_phase
  ms_pool :: "('s, 'p) pool"

definition Serve_pool :: "pool_config \<Rightarrow> 's \<Rightarrow> 'p world \<Rightarrow> ('s, 'p) main_state" where
  "Serve_pool cfg s w = \<lparr>ms_phase = Serving, ms_pool = Start cfg s w\<rparr>"

text \<open>
  The pool and the requests go on before the exit (after the drain none arrives; the relation allows one
  all the same, which only adds behaviours); \<open>cancelWorkers\<close> is called by the signal only.  Leaving
  \<open>main\<close> ends the process, whatever the workers are doing.
\<close>

inductive main_step ::
  "'s Store set \<Rightarrow> (uuid \<Rightarrow> bool) \<Rightarrow> 'p scope list \<Rightarrow> params_codec \<Rightarrow> ('s, 'p) main_state \<Rightarrow> ('s, 'p) main_state \<Rightarrow> bool"
  for S canon scopes pc
where
  work: "ms_phase m \<in> {Serving, Draining, AwaitingWorkers} \<Longrightarrow> pool_step S canon scopes pc (ms_pool m) p \<Longrightarrow>
    p_cancelled p = p_cancelled (ms_pool m) \<Longrightarrow> main_step S canon scopes pc m (m\<lparr>ms_pool := p\<rparr>)"
| listen_fails: "ms_phase m = Serving \<Longrightarrow> main_step S canon scopes pc m (m\<lparr>ms_phase := Died\<rparr>)"
| signalled: "ms_phase m = Serving \<Longrightarrow>
    main_step S canon scopes pc m (m\<lparr>ms_phase := Draining, ms_pool := (ms_pool m)\<lparr>p_cancelled := True\<rparr>\<rparr>)"
| forced: "ms_phase m = Draining \<Longrightarrow> main_step S canon scopes pc m (m\<lparr>ms_phase := Exited (Inl e)\<rparr>)"
| drained: "ms_phase m = Draining \<Longrightarrow> main_step S canon scopes pc m (m\<lparr>ms_phase := AwaitingWorkers\<rparr>)"
| joined: "ms_phase m = AwaitingWorkers \<Longrightarrow> set (p_workers (ms_pool m)) \<subseteq> {Stopped} \<Longrightarrow>
    main_step S canon scopes pc m (m\<lparr>ms_phase := Exited (Inr ())\<rparr>)"
| timed_out: "ms_phase m = AwaitingWorkers \<Longrightarrow>
    main_step S canon scopes pc m (m\<lparr>ms_phase := Exited (Inr ())\<rparr>)"

inductive main_reach ::
  "'s Store set \<Rightarrow> (uuid \<Rightarrow> bool) \<Rightarrow> 'p scope list \<Rightarrow> params_codec \<Rightarrow> ('s, 'p) main_state \<Rightarrow> ('s, 'p) main_state \<Rightarrow> bool"
  for S canon scopes pc m0
where
  start: "main_reach S canon scopes pc m0 m0"
| step: "main_reach S canon scopes pc m0 m \<Longrightarrow> main_step S canon scopes pc m m' \<Longrightarrow>
    main_reach S canon scopes pc m0 m'"

inductive_cases main_stepE: "main_step S canon scopes pc m m'"

text \<open>Its pool is a pool of the worker, which is cancelled in the phases after the signal.\<close>

lemma main_pool_reach:
  "main_reach S canon scopes pc m0 m \<Longrightarrow> pool_reach S canon scopes pc (ms_pool m0) (ms_pool m)"
proof (induction rule: main_reach.induct)
  case (step m m')
  from step(2) show ?case
    by cases (auto intro: pool_reach.step [OF step(3)] pool_step.cancel simp: step(3))
qed (rule pool_reach.start)

lemma exited_stops: "ms_phase m \<in> insert Died (range Exited) \<Longrightarrow> \<not> main_step S canon scopes pc m m'"
  by (auto elim!: main_stepE)

section \<open>Nothing is lost without an error\<close>

definition left_running :: "(uuid \<Rightarrow> string option) \<Rightarrow> ('t db, 'p) main_state \<Rightarrow> uuid set" where
  "left_running v0 m = {i. statuses (p_db (ms_pool m)) i = Some ''running'' \<and> v0 i \<noteq> Some ''running''}"

definition being_processed :: "('s, 'p) main_state \<Rightarrow> uuid set" where
  "being_processed m = {i. \<exists>k. works_on (ms_pool m) k i}"

text \<open>The executions whose final update the store failed; a failed claim may have been of any.\<close>

definition store_failed :: "('s, 'p) main_state \<Rightarrow> uuid set" where
  "store_failed m = (if None \<in> set (p_errors (ms_pool m)) then UNIV else {i. Some i \<in> set (p_errors (ms_pool m))})"

definition accounts_for :: "(uuid \<Rightarrow> string option) \<Rightarrow> ('t db, 'p) main_state \<Rightarrow> bool" where
  "accounts_for v0 m \<longleftrightarrow>
    left_running v0 m \<subseteq> (if set (p_workers (ms_pool m)) \<subseteq> {Stopped} then {} else being_processed m) \<union> store_failed m \<and>
    (ms_phase m \<notin> {Serving, Died} \<longrightarrow> p_cancelled (ms_pool m))"

lemma main_cancelled:
  "main_reach S canon scopes pc (Serve_pool cfg s w) m \<Longrightarrow>
    ms_phase m \<notin> {Serving, Died} \<longrightarrow> p_cancelled (ms_pool m)"
proof (induction rule: main_reach.induct)
  case (step m m')
  from step(2,3) show ?case by cases auto
qed (simp add: Serve_pool_def)

lemma stopped_processes_nothing: "set (p_workers (ms_pool m)) \<subseteq> {Stopped} \<Longrightarrow> being_processed m = {}"
  by (auto simp: being_processed_def works_on_def dest!: nth_mem)

lemma accounts_forI:
  assumes "\<And>i. statuses (p_db (ms_pool m)) i = Some ''running'' \<Longrightarrow> v0 i \<noteq> Some ''running'' \<Longrightarrow>
      (\<exists>k. works_on (ms_pool m) k i) \<or> Some i \<in> set (p_errors (ms_pool m)) \<or> None \<in> set (p_errors (ms_pool m))"
    and "ms_phase m \<notin> {Serving, Died} \<longrightarrow> p_cancelled (ms_pool m)"
  shows "accounts_for v0 m"
proof -
  have "left_running v0 m \<subseteq> being_processed m \<union> store_failed m"
    using assms(1) by (auto simp: left_running_def being_processed_def store_failed_def)
  with stopped_processes_nothing [of m] assms(2) show ?thesis by (auto simp: accounts_for_def)
qed

lemma Serve_pool_simps [simp]: "ms_pool (Serve_pool cfg s w) = Start cfg s w" "ms_phase (Serve_pool cfg s w) = Serving"
  by (simp_all add: Serve_pool_def)


text \<open>A graceful end on the two demonstration stores: both workers leave before the server exits.\<close>

definition after_signal :: "('s, 'p) main_state \<Rightarrow> ('s, 'p) main_state" where
  "after_signal m =
    \<lparr>ms_phase = Exited (Inr ()), ms_pool = at_worker 1 Stopped (at_worker 0 Stopped ((ms_pool m)\<lparr>p_cancelled := True\<rparr>))\<rparr>"

lemma graceful_end:
  assumes "m = Serve_pool demo_cfg s w"
  shows "main_reach S canon scopes pc m (after_signal m)"
proof -
  let ?c = "(ms_pool m)\<lparr>p_cancelled := True\<rparr>"
  let ?m1 = "m\<lparr>ms_phase := Draining, ms_pool := ?c\<rparr>"
  let ?m2 = "?m1\<lparr>ms_phase := AwaitingWorkers\<rparr>"
  let ?m3 = "?m2\<lparr>ms_pool := at_worker 0 Stopped ?c\<rparr>"
  let ?m4 = "?m3\<lparr>ms_pool := at_worker 1 Stopped (at_worker 0 Stopped ?c)\<rparr>"
  note m = assms Start_def demo_cfg_def New_pool_def at_worker_def
  have l0: "pool_step S canon scopes pc ?c (at_worker 0 Stopped ?c)" by (rule pool_step.leave) (simp_all add: m)
  have l1: "pool_step S canon scopes pc (at_worker 0 Stopped ?c) (at_worker 1 Stopped (at_worker 0 Stopped ?c))"
    by (rule pool_step.leave) (simp_all add: m)
  have s1: "main_step S canon scopes pc m ?m1" by (rule main_step.signalled) (simp add: m)
  have s2: "main_step S canon scopes pc ?m1 ?m2" by (rule main_step.drained) simp
  have s3: "main_step S canon scopes pc ?m2 ?m3"
    using main_step.work [of ?m2] l0 by (simp add: at_worker_def)
  have s4: "main_step S canon scopes pc ?m3 ?m4"
    using main_step.work [of ?m3] l1 by (simp add: at_worker_def)
  have s5: "main_step S canon scopes pc ?m4 (?m4\<lparr>ms_phase := Exited (Inr ())\<rparr>)"
    by (rule main_step.joined) (simp_all add: m numeral_2_eq_2)
  have e: "?m4\<lparr>ms_phase := Exited (Inr ())\<rparr> = after_signal m"
    by (simp add: after_signal_def)
  show ?thesis
    unfolding e [symmetric]
    by (rule main_reach.step [OF main_reach.step [OF main_reach.step [OF main_reach.step [OF main_reach.step
      [OF main_reach.start s1] s2] s3] s4] s5])
qed


end
