(* ===== verification/Openapi_Enums.thy ===== *)
theory Openapi_Enums
  imports Worker Server
begin

text \<open>
  The enumerations of \<open>internal/openapi/api.go\<close>, as predicates on their texts.  The program never
  calls the \<open>Valid\<close> methods; here they say which of the values it stores and answers are documented ones.
\<close>

definition ActionType_Valid :: "string \<Rightarrow> bool" where
  "ActionType_Valid e \<longleftrightarrow> e = ''read'' \<or> e = ''write''"

definition ApprovalState_Valid :: "string \<Rightarrow> bool" where
  "ApprovalState_Valid e \<longleftrightarrow> e = ''approved'' \<or> e = ''not_required'' \<or> e = ''pending'' \<or> e = ''rejected''"

definition AuditEntryMethod_Valid :: "string \<Rightarrow> bool" where
  "AuditEntryMethod_Valid e \<longleftrightarrow> e = ''GET'' \<or> e = ''POST''"

definition AuditListKind_Valid :: "string \<Rightarrow> bool" where
  "AuditListKind_Valid e \<longleftrightarrow> e = ''AuditList''"

definition ErrorKind_Valid :: "string \<Rightarrow> bool" where
  "ErrorKind_Valid e \<longleftrightarrow> e = ''Error''"

definition ExecutionStatus_Valid :: "string \<Rightarrow> bool" where
  "ExecutionStatus_Valid e \<longleftrightarrow>
    e = ''failed'' \<or> e = ''pending'' \<or> e = ''running'' \<or> e = ''succeeded'' \<or> e = ''timed_out''"

definition Scope_Valid :: "string \<Rightarrow> bool" where
  "Scope_Valid e \<longleftrightarrow> e = ''aws-api'' \<or> e = ''kube-api''"

definition ListAuditEntriesParamsMethod_Valid :: "string \<Rightarrow> bool" where
  "ListAuditEntriesParamsMethod_Valid e \<longleftrightarrow> e = ''GET'' \<or> e = ''POST''"

definition ListExecutionsParamsDryRun_Valid :: "string \<Rightarrow> bool" where
  "ListExecutionsParamsDryRun_Valid e \<longleftrightarrow> e = ''false'' \<or> e = ''true''"

definition ListExecutionsParamsForce_Valid :: "string \<Rightarrow> bool" where
  "ListExecutionsParamsForce_Valid e \<longleftrightarrow> e = ''false'' \<or> e = ''true''"

text \<open>The statuses of a store stay documented ones, whatever the pool and the requests do.\<close>

definition documented_statuses :: "(uuid \<Rightarrow> string option) \<Rightarrow> bool" where
  "documented_statuses v \<longleftrightarrow> (\<forall>x \<in> ran v. ExecutionStatus_Valid x)"

lemma status_move_documented: "status_move a (Some b) \<Longrightarrow> ExecutionStatus_Valid b"
  by (auto simp: status_move_def ExecutionStatus_Valid_def)

context execution_store
begin

lemma documented_step:
  assumes "pool_step stores canon scopes pc p p'" "pool_inv p" "documented_statuses (view (p_db p))"
  shows "documented_statuses (view (p_db p'))"
  unfolding documented_statuses_def
proof
  fix x
  assume "x \<in> ran (view (p_db p'))"
  then obtain i where i: "view (p_db p') i = Some x" by (auto simp: ran_def)
  show "ExecutionStatus_Valid x"
  proof (cases "view (p_db p) i = Some x")
    case True
    with assms(3) show ?thesis by (auto simp: documented_statuses_def ran_def)
  next
    case False
    with i pool_step_move [OF assms(1,2), of i] show ?thesis by (auto dest: status_move_documented)
  qed
qed

lemma documented_reach:
  "pool_reach stores canon scopes pc p0 p \<Longrightarrow> pool_inv p0 \<Longrightarrow> documented_statuses (view (p_db p0)) \<Longrightarrow>
    documented_statuses (view (p_db p))"
proof (induction rule: pool_reach.induct)
  case (step p p')
  show ?case by (rule documented_step [OF step(2) pool_inv_reach [OF step(1) step(4)]]) (use step in simp)
qed

end

lemma stored_statuses_are_documented:
  assumes "documented_statuses (statuses d)" "good_db l d"
  shows "pool_reach (sqlite_stores l) (canonical l) scopes pc (Start cfg d w) p \<Longrightarrow> documented_statuses (statuses (p_db p))"
    and "pool_reach (pg_stores l) (canonical l) scopes pc (Start cfg d' w') q \<Longrightarrow> good_db l d' \<Longrightarrow>
      documented_statuses (statuses d') \<Longrightarrow> documented_statuses (statuses (p_db q))"
proof -
  show "pool_reach (sqlite_stores l) (canonical l) scopes pc (Start cfg d w) p \<Longrightarrow> documented_statuses (statuses (p_db p))"
    using sqlite_store.documented_reach [OF _ sqlite_store.pool_inv_Start [OF assms(2)]] assms(1) by (simp add: Start_def)
  show "pool_reach (pg_stores l) (canonical l) scopes pc (Start cfg d' w') q \<Longrightarrow> good_db l d' \<Longrightarrow>
      documented_statuses (statuses d') \<Longrightarrow> documented_statuses (statuses (p_db q))"
    using pg_store.documented_reach [OF _ pg_store.pool_inv_Start] by (simp add: Start_def)
qed

text \<open>A new execution has a documented status and approval state.\<close>

lemma new_executions_are_documented:
  "ExecutionStatus_Valid (ex_Status (ExecutionFromRequest pc i now action req username)) \<and>
   pred_option ApprovalState_Valid (ex_ApprovalState (ExecutionFromRequest pc i now action req username))"
  by (simp add: ExecutionFromRequest_def ExecutionStatus_Valid_def ApprovalState_Valid_def)

text \<open>The audit log keeps the method of every request, also of one that no route accepts.\<close>

lemma other_methods_are_audited:
  "hq_Method r = ''PUT'' \<Longrightarrow> \<not> AuditEntryMethod_Valid (ae_Method (audit_entry_of aid now r status action ac))"
  by (simp add: audit_entry_of_def AuditEntryMethod_Valid_def)

end
