(* ===== verification/End_To_End.thy ===== *)
theory End_To_End
  imports Routing "HOL-Library.Countable"
begin

text \<open>
  The command line against the server: the transport of \<open>internal/rta\<close>'s client is the server of
  \<open>cmd/server/main.go\<close>, so a request of the client is routed, authenticated, authorized, audited and
  handled on a store, and its answer is decoded by the client.  The JSON texts and the verification of the
  token are arguments.
\<close>

section \<open>The server as a transport\<close>

record deployment =
  dy_chi :: chi
  dy_runtime :: param_runtime
  dy_origin :: string
  dy_verify :: "string option \<Rightarrow> token_claims option result"
  dy_decode :: "string option \<Rightarrow> execution_request result"
  dy_encode :: "body \<Rightarrow> string"

type_synonym ('s, 'w) server = "(request \<Rightarrow> routed) \<Rightarrow> ('s, 'w) handler"

definition request_of :: "deployment \<Rightarrow> wire_request \<Rightarrow> request_url \<Rightarrow> request" where
  "request_of dy wr u =
    \<lparr>hq_Method = wr_Method wr, hq_Path = ru_Path u, hq_RequestID = [],
     hq_Token = dy_verify dy (wr_Authorization wr), hq_Body = dy_decode dy (wr_Body wr),
     cx_RequestID = None, cx_Identity = None, cx_Role = None, cx_Audit = False\<rparr>"

text \<open>A target that does not parse is answered before the handler; a crash closes the connection.\<close>

definition handle_wire ::
  "deployment \<Rightarrow> ('s, 'w) server \<Rightarrow> wire_request \<Rightarrow> ('s, 'w) serving \<Rightarrow>
    (int \<times> string result) result \<times> ('s, 'w) serving"
where
  "handle_wire dy srv wr s =
    (case parse_target (drop (length (dy_origin dy)) (wr_URL wr)) of
       None \<Rightarrow> (Inr (400, Inr ''400 Bad Request''), s)
     | Some u \<Rightarrow>
       (case srv (\<lambda>r. api_routed (dy_chi dy) (dy_runtime dy) (hq_Method r) u) (request_of dy wr u) s of
          (Responds rs, s') \<Rightarrow> (Inr (rs_Status rs, Inr (dy_encode dy (rs_Body rs))), s')
        | (Crashes m, s') \<Rightarrow> (Inl (ErrExt ''EOF''), s')))"

text \<open>The state after some requests; the server of each has its own new ids, times and faults.\<close>

fun serve_all ::
  "deployment \<Rightarrow> (nat \<Rightarrow> ('s, 'w) server) \<Rightarrow> nat \<Rightarrow> wire_request list \<Rightarrow> ('s, 'w) serving \<Rightarrow> ('s, 'w) serving"
where
  "serve_all dy srv k [] s = s"
| "serve_all dy srv k (wr # wrs) s = serve_all dy srv (Suc k) wrs (snd (handle_wire dy (srv k) wr s))"

definition online :: "deployment \<Rightarrow> (nat \<Rightarrow> ('s, 'w) server) \<Rightarrow> ('s, 'w) serving \<Rightarrow> net \<Rightarrow> net" where
  "online dy srv s0 nt =
    nt\<lparr>nt_Do := (\<lambda>log wr. fst (handle_wire dy (srv (length log)) wr (serve_all dy srv 0 log s0)))\<rparr>"

lemma serve_all_snoc:
  "serve_all dy srv k (log @ [wr]) s = snd (handle_wire dy (srv (k + length log)) wr (serve_all dy srv k log s))"
  by (induction log arbitrary: k s) simp_all

section \<open>A creation through the server\<close>

text \<open>An answer that reports success, as the server makes it and as the client receives it.\<close>

definition success :: "served \<Rightarrow> bool" where
  "success x \<longleftrightarrow> (case x of Responds rs \<Rightarrow> 200 \<le> rs_Status rs \<and> rs_Status rs < 300 | Crashes m \<Rightarrow> False)"

definition answered_2xx :: "(int \<times> string result) result \<Rightarrow> bool" where
  "answered_2xx out \<longleftrightarrow> (\<exists>status data. out = Inr (status, Inr data) \<and> 200 \<le> status \<and> status < 300)"

locale creating_store = request_store st rows row "entries" "entry"
  for st :: "'s Store" and rows :: "'s \<Rightarrow> 'r list" and row :: "execution \<Rightarrow> 'r"
    and "entries" :: "'s \<Rightarrow> 'a list" and "entry" :: "audit_entry \<Rightarrow> 'a" +
  assumes created: "st_CreateExecution st e s = (Inr u, s') \<Longrightarrow> rows s' = rows s @ [row e]"
begin

text \<open>An answer that succeeds shows the execution that was added.\<close>

definition shows_created :: "params_codec \<Rightarrow> 's \<Rightarrow> execution \<Rightarrow> served \<times> 's \<Rightarrow> bool" where
  "shows_created pc s e out \<longleftrightarrow>
    rows (snd out) = rows s @ [row e] \<and>
    (\<forall>rs. fst out = Responds rs \<longrightarrow> success (fst out) \<longrightarrow>
      (\<exists>links. rs_Body rs = ExecutionBody ((exec_ToOpenAPI pc e)\<lparr>ox_Links := links\<rparr>)))"

lemma create_shows:
  assumes "ah_store h = st" "api_CreateExecution h a r s = (x, s')"
  shows "rows (sv_db s') = rows (sv_db s) \<and> \<not> success x \<or>
    (\<exists>d req. Get (ah_catalog h) a = Some d \<and> hq_Body r = Inr req \<and>
      shows_created (ah_codec h) (sv_db s) (ExecutionFromRequest (ah_codec h) (ah_new_id h) (ah_now h) a req
        (case cx_Identity r of None \<Rightarrow> [] | Some i \<Rightarrow> ci_Username i)) (x, sv_db s'))"
proof (cases "Get (ah_catalog h) a = None \<or> (\<exists>e. hq_Body r = Inl e)")
  case True
  then show ?thesis using assms(2)
    by (auto simp: api_CreateExecution_def answer_def success_def split: option.splits sum.splits)
next
  case False
  then obtain d req where dr: "Get (ah_catalog h) a = Some d" "hq_Body r = Inr req"
    by (cases "hq_Body r") auto
  let ?e = "ExecutionFromRequest (ah_codec h) (ah_new_id h) (ah_now h) a req
    (case cx_Identity r of None \<Rightarrow> [] | Some i \<Rightarrow> ci_Username i)"
  obtain ru db where c: "st_CreateExecution st ?e (sv_db s) = (ru, db)" by fastforce
  show ?thesis
  proof (cases ru)
    case (Inl err)
    then have "sv_db s' = db" "\<not> success x"
      using assms dr c by (auto simp: api_CreateExecution_def on_db_def Let_def answer_def success_def)
    with create [OF c] dr show ?thesis by (auto simp: shows_created_def)
  next
    case (Inr u)
    with created c have "rows db = rows (sv_db s) @ [row ?e]" by simp
    moreover have "sv_db s' = db" "x = Responds (respond 202 (ExecutionBody ((exec_ToOpenAPI (ah_codec h) ?e)
        \<lparr>ox_Links := Some \<lparr>xl_Self = run_link r (ex_ID ?e), xl_Output = None\<rparr>\<rparr>)))"
      using assms dr c Inr by (auto simp: api_CreateExecution_def on_db_def Let_def answer_def split: option.splits)
    ultimately show ?thesis using dr by (auto simp: shows_created_def)
  qed
qed

text \<open>Through the check of the action, for every request with the method routed to the creation.\<close>

lemma handler_shows:
  assumes h: "ah_store h = st" "ah_catalog h = New_catalog"
    and routes: "binds_actions routes" "routes r = Route raw (Inr (OpCreateExecution a))"
    and role: "cx_Role r = Some role" "cx_Identity r = Some i"
    and run: "HandlerWithOptions h (GetAction (ah_catalog h)) routes r s = (x, s')"
  shows "rows (sv_db s') = rows (sv_db s) \<and> \<not> success x \<or>
    (\<exists>d req. d \<in> set (All New_catalog) \<and> role \<in> set (adef_AllowedRoles d) \<and> a = adef_Name d \<and> hq_Body r = Inr req \<and>
      shows_created (ah_codec h) (sv_db s) (ExecutionFromRequest (ah_codec h) (ah_new_id h) (ah_now h) a req (ci_Username i))
        (x, sv_db s'))"
proof -
  from run routes(2) have check: "(x, s') = CheckActionAccess (GetAction (ah_catalog h)) (api_CreateExecution h a) r (s\<lparr>sv_action := raw\<rparr>)"
    by (simp add: HandlerWithOptions_def operate_def)
  then consider "rows (sv_db s') = rows (sv_db s)" "\<not> success x"
    | "api_CreateExecution h a r (s\<lparr>sv_action := raw\<rparr>) = (x, s')"
      "raw = [] \<or> (\<exists>act. GetAction New_catalog raw = Some act \<and> role \<in> set (aact_AllowedRoles act))"
    using role h(2)
    by (auto simp: CheckActionAccess_def Let_def GetRoleFromContext_def answer_def success_def split: if_splits option.splits)
  then show ?thesis
  proof cases
    case 2
    from create_shows [OF h(1) 2(1)] checked_action_is_created [OF routes 2(2)] h(2) role(2) show ?thesis
      by auto
  qed simp
qed

text \<open>Through the authentication, the audit log and the roles.\<close>

lemma router_shows:
  assumes h: "ah_store h = st" "ah_catalog h = New_catalog"
    and routes: "binds_actions routes" "\<And>r'. hq_Method r' = hq_Method r \<Longrightarrow> routes r' = Route raw (Inr (OpCreateExecution a))"
    and run: "api_router AuthenticateAccountJWT (AuthorizeAPI roles review) h aid routes r s = (x, s')"
  shows "rows (sv_db s') = rows (sv_db s) \<and> \<not> success x \<or>
    (\<exists>e. authorized_creation roles review r (ah_codec h) (ah_new_id h) (ah_now h) e \<and> ex_Action e = a \<and>
      shows_created (ah_codec h) (sv_db s) e (x, sv_db s'))"
proof (cases "\<exists>i. GetCallerIdentityFromJWT r = Inr i \<and> ci_Username i \<noteq> []")
  case False
  with run have "sv_db s' = sv_db s" "x = Responds (api_error 401 ''Authentication required.'')"
    by (auto simp: api_router_def AuthenticateAccountJWT_def answer_def split: sum.splits if_splits)
  then show ?thesis by (simp add: success_def)
next
  case True
  then obtain i where i: "GetCallerIdentityFromJWT r = Inr i" "ci_Username i \<noteq> []" by blast
  define r1 where "r1 = (SetCallerIdentityContext i r)\<lparr>cx_Audit := True\<rparr>"
  define s1 where "s1 = s\<lparr>sv_audit := no_audit\<rparr>"
  let ?next = "HandlerWithOptions h (GetAction (ah_catalog h)) routes"
  obtain y s2 where inner: "AuthorizeAPI roles review ?next r1 s1 = (y, s2)" by fastforce
  have outer: "rows (sv_db s') = rows (sv_db s2)" "x = y"
    using run i inner audit
    by (auto simp: api_router_def AuthenticateAccountJWT_def NewAuditLogger_def SetAuditContext_def
        r1_def [symmetric] s1_def [symmetric] h(1) on_db_def split: served.splits prod.splits)
  have r1: "cx_Identity r1 = Some i" "hq_Body r1 = hq_Body r" "hq_Method r1 = hq_Method r" and s1: "sv_db s1 = sv_db s"
    by (simp_all add: r1_def s1_def SetCallerIdentityContext_def)
  have "rows (sv_db s2) = rows (sv_db s) \<and> \<not> success y \<or>
    (\<exists>e. authorized_creation roles review r (ah_codec h) (ah_new_id h) (ah_now h) e \<and> ex_Action e = a \<and>
      shows_created (ah_codec h) (sv_db s) e (y, sv_db s2))"
  proof (cases rule: AuthorizeAPI_cases [of roles review ?next r1 s1])
    case (refused w code msg)
    with inner s1 show ?thesis by (auto simp: success_def)
  next
    case (granted j role w)
    let ?r = "SetRoleInContext role r1" and ?s = "s1\<lparr>sv_reviews := w\<rparr>"
    have c: "cx_Role ?r = Some role" "cx_Identity ?r = Some i" "hq_Body ?r = hq_Body r" "routes ?r = Route raw (Inr (OpCreateExecution a))"
      using r1 routes(2) by (simp_all add: SetRoleInContext_def)
    have grant: "granted_by review (ci_Username i) roles role" using granted(1,3) r1(1) by simp
    have "?next ?r ?s = (y, s2)" using inner granted(4) by simp
    from handler_shows [OF h routes(1) c(4,1,2) this] s1 show ?thesis
    proof (elim disjE exE conjE)
      fix d req
      assume d: "d \<in> set (All New_catalog)" "role \<in> set (adef_AllowedRoles d)" "a = adef_Name d" "hq_Body ?r = Inr req"
        and shown: "shows_created (ah_codec h) (sv_db ?s)
          (ExecutionFromRequest (ah_codec h) (ah_new_id h) (ah_now h) a req (ci_Username i)) (y, sv_db s2)"
      have "authorized_creation roles review r (ah_codec h) (ah_new_id h) (ah_now h)
          (ExecutionFromRequest (ah_codec h) (ah_new_id h) (ah_now h) a req (ci_Username i))"
        unfolding authorized_creation_def using i grant d c(3) by auto
      moreover have "ex_Action (ExecutionFromRequest (ah_codec h) (ah_new_id h) (ah_now h) a req (ci_Username i)) = a"
        by (simp add: ExecutionFromRequest_def)
      ultimately show ?thesis using shown s1 by auto
    qed simp
  qed
  with outer show ?thesis by (simp add: shows_created_def)
qed

text \<open>One request on the wire.\<close>

lemma wire_shows:
  assumes h: "ah_store h = st" "ah_catalog h = New_catalog"
    and b: "binds_as_documented parse_uuid (dy_runtime dy)"
    and route: "parse_target (drop (length (dy_origin dy)) (wr_URL wr)) = Some u"
      "api_routed (dy_chi dy) (dy_runtime dy) (wr_Method wr) u = Route raw (Inr (OpCreateExecution a))"
    and run: "handle_wire dy (serve AuthenticateAccountJWT (AuthorizeAPI roles review) h aid rid) wr s = (out, s')"
  shows "rows (sv_db s') = rows (sv_db s) \<and> \<not> answered_2xx out \<or>
    (\<exists>e. authorized_creation roles review (request_of dy wr u) (ah_codec h) (ah_new_id h) (ah_now h) e \<and>
      ex_Action e = a \<and> rows (sv_db s') = rows (sv_db s) @ [row e] \<and>
      (\<forall>status data. out = Inr (status, Inr data) \<longrightarrow> answered_2xx out \<longrightarrow>
        (\<exists>links. data = dy_encode dy (ExecutionBody ((exec_ToOpenAPI (ah_codec h) e)\<lparr>ox_Links := links\<rparr>)))))"
proof -
  let ?routes = "\<lambda>r. api_routed (dy_chi dy) (dy_runtime dy) (hq_Method r) u"
  define r where "r = (request_of dy wr u)\<lparr>cx_RequestID := Some rid\<rparr>"
  have same: "authorized_creation roles review r pc i now e \<longleftrightarrow> authorized_creation roles review (request_of dy wr u) pc i now e"
    for pc i now e by (simp add: authorized_creation_def r_def)
  have binds: "binds_actions ?routes" by (rule wrappers_bind_actions [OF b])
  have routed: "?routes r' = Route raw (Inr (OpCreateExecution a))" if "hq_Method r' = hq_Method r" for r'
    using that route(2) by (simp add: r_def request_of_def)
  obtain x s1 where x: "api_router AuthenticateAccountJWT (AuthorizeAPI roles review) h aid ?routes r s = (x, s1)" by fastforce
  have ends: "s' = s1" "case x of
      Responds rs \<Rightarrow> out = Inr (rs_Status rs, Inr (dy_encode dy (rs_Body rs)))
    | Crashes m \<Rightarrow> \<exists>data. out = Inr (500, Inr data)"
    using run route(1) x
    by (auto simp: handle_wire_def serve_def RequestID_def Recoverer_def Let_def r_def request_of_def respond_def
      split: served.splits)
  have succeeds: "answered_2xx out \<Longrightarrow> success x"
    using ends(2) by (auto simp: answered_2xx_def success_def split: served.splits)
  have "rows (sv_db s1) = rows (sv_db s) \<and> \<not> success x \<or>
    (\<exists>e. authorized_creation roles review r (ah_codec h) (ah_new_id h) (ah_now h) e \<and> ex_Action e = a \<and>
      shows_created (ah_codec h) (sv_db s) e (x, sv_db s1))"
    by (rule router_shows [OF h binds _ x]) (rule routed)
  then show ?thesis
  proof (elim disjE exE conjE)
    fix e
    assume e: "authorized_creation roles review r (ah_codec h) (ah_new_id h) (ah_now h) e" "ex_Action e = a"
      and shown: "shows_created (ah_codec h) (sv_db s) e (x, sv_db s1)"
    have "\<exists>links. data = dy_encode dy (ExecutionBody ((exec_ToOpenAPI (ah_codec h) e)\<lparr>ox_Links := links\<rparr>))"
      if data: "out = Inr (status, Inr data)" and ok: "answered_2xx out" for status data
    proof -
      obtain rs where rs: "x = Responds rs" using succeeds [OF ok] by (cases x) (auto simp: success_def)
      with shown succeeds [OF ok] obtain links
        where "rs_Body rs = ExecutionBody ((exec_ToOpenAPI (ah_codec h) e)\<lparr>ox_Links := links\<rparr>)"
        by (auto simp: shows_created_def)
      with ends(2) rs data show ?thesis by auto
    qed
    with e shown ends(1) same show ?thesis by (auto simp: shows_created_def)
  qed (use succeeds ends(1) in blast)
qed

end

interpretation sqlite_creating: creating_store "SQLiteStore l c" db_executions sqlite_execution_row
  db_audit sqlite_audit_row for l c
  by unfold_locales (auto simp: SQLiteStore_def sqlite_CreateExecution_def wrap_err_def autocommit_def insert_execution_def
    split: option.splits if_splits prod.splits sum.splits)

interpretation pg_creating: creating_store "PostgresStore l c" db_executions "pg_execution_row l"
  db_audit "pg_audit_row l" for l c
  by unfold_locales (auto simp: PostgresStore_def pg_CreateExecution_def wrap_err_def autocommit_def insert_execution_def
    split: option.splits if_splits prod.splits sum.splits)

section \<open>A creation by the client\<close>

lemma client_do_Inr:
  assumes "client_do nt c req0 p decode zero log = (Inr x, log')"
  obtains req status data where "log' = log @ [req]" "nt_Do nt log req = Inr (status, Inr data)"
    "200 \<le> status" "status < 300" "if data = [] then x = zero else decode data = Inr x"
    "wr_Method req = wr_Method req0" "wr_URL req = wr_URL req0" "wr_Body req = wr_Body req0"
  using assms by (auto simp: client_do_def Let_def split: sum.splits prod.splits if_splits)

text \<open>
  What the client asked for is what was created: the result is an execution that was added for the action
  and the request, by a caller entitled to it, or nothing was added and there is no result; a creation
  whose answer was lost or refused can only have added that execution.
\<close>

definition creates_as_asked ::
  "(request \<Rightarrow> execution \<Rightarrow> bool) \<Rightarrow> params_codec \<Rightarrow> ('s \<Rightarrow> 'r list) \<Rightarrow> (execution \<Rightarrow> 'r) \<Rightarrow> (wire_request list \<Rightarrow> 's) \<Rightarrow>
    string \<Rightarrow> execution_request \<Rightarrow> wire_request list \<Rightarrow> api_execution result \<times> wire_request list \<Rightarrow> bool"
where
  "creates_as_asked entitled pc rows row state a req log out \<longleftrightarrow>
    (case fst out of
       Inr x \<Rightarrow> False
     | Inl err \<Rightarrow> rows (state (snd out)) = rows (state log)) \<or>
    (\<exists>r e links. entitled r e \<and> hq_Body r = Inr req \<and> ex_Action e = a \<and>
       rows (state (snd out)) = rows (state log) @ [row e] \<and>
       (case fst out of Inr x \<Rightarrow> x = (exec_ToOpenAPI pc e)\<lparr>ox_Links := links\<rparr> | Inl err \<Rightarrow> True))"

text \<open>The request as it is sent.\<close>

definition sent_creation :: "client \<Rightarrow> string \<Rightarrow> string \<Rightarrow> wire_request" where
  "sent_creation c a payload =
    \<lparr>wr_Method = ''POST'', wr_URL = tc_base c @ ''/'' @ PathEscape a @ ''/run'', wr_UserAgent = tc_userAgent c,
     wr_Accept = ''application/json'', wr_Authorization = (if tc_token c \<noteq> [] then Some (''Bearer '' @ tc_token c) else None),
     wr_ContentType = Some ''application/json'', wr_Body = Some payload\<rparr>"

lemma client_creation_cases:
  obtains (unsent) err where "client_CreateExecution nt c a req log = (Inl err, log)"
  | (sent) payload res where "nt_Marshal nt req = Inr payload"
      "client_CreateExecution nt c a req log = (res, log @ [sent_creation c a payload])"
      "case res of Inl err \<Rightarrow> True | Inr x \<Rightarrow> \<exists>status data. nt_Do nt log (sent_creation c a payload) = Inr (status, Inr data) \<and>
         200 \<le> status \<and> status < 300 \<and> (if data = [] then x = zero_execution else nt_Execution nt data = Inr x)"
proof (cases "nt_Marshal nt req")
  case (Inl e)
  then show ?thesis by (intro unsent) (simp add: client_CreateExecution_def client_post_def fail_def)
next
  case marshalled: (Inr payload)
  show ?thesis
  proof (cases "nt_URLPath nt (tc_base c @ ''/'' @ PathEscape a @ ''/run'')")
    case (Inl e)
    with marshalled show ?thesis by (intro unsent) (simp add: client_CreateExecution_def client_post_def fail_def)
  next
    case (Inr p)
    let ?req0 = "(blank_request ''POST'' (tc_base c @ ''/'' @ PathEscape a @ ''/run''))
        \<lparr>wr_ContentType := Some ''application/json'', wr_Body := Some payload\<rparr>"
    have run: "client_CreateExecution nt c a req log = client_do nt c ?req0 p (nt_Execution nt) zero_execution log"
      using marshalled Inr by (simp add: client_CreateExecution_def client_post_def)
    obtain res :: "api_execution result" and log'
      where res: "client_do nt c ?req0 p (nt_Execution nt) zero_execution log = (res, log')" by fastforce
    have log': "log' = log @ [sent_creation c a payload]"
      using client_do_one [of nt c ?req0 p "nt_Execution nt" zero_execution log] res
      by (simp add: sent_creation_def blank_request_def)
    have answer: "\<exists>status data. nt_Do nt log (sent_creation c a payload) = Inr (status, Inr data) \<and>
         200 \<le> status \<and> status < 300 \<and> (if data = [] then x = zero_execution else nt_Execution nt data = Inr x)"
      if "res = Inr x" for x
      using client_do_Inr [OF res [unfolded that]] log' by (metis append1_eq_conv)
    have "client_CreateExecution nt c a req log = (res, log @ [sent_creation c a payload])" using run res log' by simp
    moreover have "case res of Inl err \<Rightarrow> True | Inr x \<Rightarrow> \<exists>status data. nt_Do nt log (sent_creation c a payload) = Inr (status, Inr data) \<and>
         200 \<le> status \<and> status < 300 \<and> (if data = [] then x = zero_execution else nt_Execution nt data = Inr x)"
      using answer by (cases res) simp_all
    ultimately show ?thesis by (rule sent [OF marshalled])
  qed
qed

text \<open>The server of \<open>cmd/server/main.go\<close> on a store, with what each request draws from outside.\<close>

definition rta_server ::
  "role_mapping list \<Rightarrow> 'w access_review \<Rightarrow> params_codec \<Rightarrow> (nat \<Rightarrow> 's Store) \<Rightarrow> (nat \<Rightarrow> uuid) \<Rightarrow> (nat \<Rightarrow> gotime) \<Rightarrow>
    (nat \<Rightarrow> uuid) \<Rightarrow> (nat \<Rightarrow> string) \<Rightarrow> nat \<Rightarrow> ('s, 'w) server"
where
  "rta_server roles review pc st ids nows aids rids k =
    serve AuthenticateAccountJWT (AuthorizeAPI roles review)
      (NewAPIHandler New_catalog (st k) pc (ids k) (nows k)) (aids k) (rids k)"

text \<open>A caller who may create the execution, with the token of the client.\<close>

definition entitled ::
  "role_mapping list \<Rightarrow> 'w access_review \<Rightarrow> params_codec \<Rightarrow> deployment \<Rightarrow> client \<Rightarrow> uuid \<Rightarrow> gotime \<Rightarrow> request \<Rightarrow> execution \<Rightarrow> bool"
where
  "entitled roles review pc dy c i now r e \<longleftrightarrow>
    authorized_creation roles review r pc i now e \<and>
    hq_Token r = dy_verify dy (if tc_token c \<noteq> [] then Some (''Bearer '' @ tc_token c) else None)"

context creating_store
begin

lemma client_creates:
  assumes docs: "routes_as_documented (dy_chi dy) router_patterns" "binds_as_documented parse_uuid (dy_runtime dy)"
    and base: "tc_base c = dy_origin dy @ basePath" and a: "a \<noteq> []"
    and codec: "\<And>x. nt_Execution nt (dy_encode dy (ExecutionBody x)) = Inr x" "\<And>x. dy_encode dy (ExecutionBody x) \<noteq> []"
      "\<And>p. nt_Marshal nt req = Inr p \<Longrightarrow> dy_decode dy (Some p) = Inr req"
    and srv: "srv (length log) = serve AuthenticateAccountJWT (AuthorizeAPI roles review) h aid rid"
      "ah_store h = st" "ah_catalog h = New_catalog"
  shows "creates_as_asked (entitled roles review (ah_codec h) dy c (ah_new_id h) (ah_now h)) (ah_codec h) rows row (\<lambda>log. sv_db (serve_all dy srv 0 log s0)) a req log
    (client_CreateExecution (online dy srv s0 nt) c a req log)"
proof (cases rule: client_creation_cases [of "online dy srv s0 nt" c a req log])
  case (unsent err)
  then show ?thesis by (simp add: creates_as_asked_def)
next
  case (sent payload res)
  let ?wr = "sent_creation c a payload" and ?s = "serve_all dy srv 0 log s0"
  have "reaches (dy_chi dy) (dy_runtime dy) (dy_origin dy) (OpCreateExecution a) ?wr"
    by (rule named_reaches(3) [OF docs base a]) (simp_all add: sent_creation_def)
  then obtain raw u where u: "parse_target (drop (length (dy_origin dy)) (wr_URL ?wr)) = Some u"
    "api_routed (dy_chi dy) (dy_runtime dy) (wr_Method ?wr) u = Route raw (Inr (OpCreateExecution a))"
    by (auto simp: reaches_def arrives_def)
  obtain out s' where out: "handle_wire dy (srv (length log)) ?wr ?s = (out, s')" by fastforce
  have state: "serve_all dy srv 0 (log @ [?wr]) s0 = s'" using out by (simp add: serve_all_snoc)
  have does: "nt_Do (online dy srv s0 nt) log ?wr = out" using out by (simp add: online_def)
  have body: "nt_Execution (online dy srv s0 nt) = nt_Execution nt" "nt_Marshal (online dy srv s0 nt) = nt_Marshal nt"
    by (simp_all add: online_def)
  have req: "hq_Body (request_of dy ?wr u) = Inr req"
    "hq_Token (request_of dy ?wr u) = dy_verify dy (if tc_token c \<noteq> [] then Some (''Bearer '' @ tc_token c) else None)"
    using codec(3) sent(1) body by (simp_all add: request_of_def sent_creation_def)
  from wire_shows [OF srv(2,3) docs(2) u out [unfolded srv(1)]] show ?thesis
  proof (elim disjE exE conjE)
    assume "rows (sv_db s') = rows (sv_db ?s)" "\<not> answered_2xx out"
    with sent does state show ?thesis by (auto simp: creates_as_asked_def answered_2xx_def split: sum.splits)
  next
    fix e
    assume e: "authorized_creation roles review (request_of dy ?wr u) (ah_codec h) (ah_new_id h) (ah_now h) e"
        "ex_Action e = a" "rows (sv_db s') = rows (sv_db ?s) @ [row e]"
      and shown: "\<forall>status data. out = Inr (status, Inr data) \<longrightarrow> answered_2xx out \<longrightarrow>
        (\<exists>links. data = dy_encode dy (ExecutionBody ((exec_ToOpenAPI (ah_codec h) e)\<lparr>ox_Links := links\<rparr>)))"
    have "\<exists>links. case res of Inr x \<Rightarrow> x = (exec_ToOpenAPI (ah_codec h) e)\<lparr>ox_Links := links\<rparr> | Inl err \<Rightarrow> True"
    proof (cases res)
      case (Inr x)
      with sent(3) obtain status data where d: "out = Inr (status, Inr data)" "200 \<le> status" "status < 300"
        "if data = [] then x = zero_execution else nt_Execution nt data = Inr x"
        unfolding does body by auto
      with shown obtain links where "data = dy_encode dy (ExecutionBody ((exec_ToOpenAPI (ah_codec h) e)\<lparr>ox_Links := links\<rparr>))"
        by (auto simp: answered_2xx_def)
      with d(4) codec(1,2) Inr show ?thesis by auto
    qed simp
    with e req sent(2) state show ?thesis by (auto simp: creates_as_asked_def entitled_def)
  qed
qed

lemma server_creates:
  assumes "routes_as_documented (dy_chi dy) router_patterns" "binds_as_documented parse_uuid (dy_runtime dy)"
    "tc_base c = dy_origin dy @ basePath" "a \<noteq> []"
    "\<And>x. nt_Execution nt (dy_encode dy (ExecutionBody x)) = Inr x" "\<And>x. dy_encode dy (ExecutionBody x) \<noteq> []"
    "\<And>p. nt_Marshal nt req = Inr p \<Longrightarrow> dy_decode dy (Some p) = Inr req"
    and "sts (length log) = st"
  shows "creates_as_asked (entitled roles review pc dy c (ids (length log)) (nows (length log))) pc rows row
    (\<lambda>log. sv_db (serve_all dy (rta_server roles review pc sts ids nows aids rids) 0 log s0)) a req log
    (client_CreateExecution (online dy (rta_server roles review pc sts ids nows aids rids) s0 nt) c a req log)"
proof -
  let ?h = "NewAPIHandler New_catalog (sts (length log)) pc (ids (length log)) (nows (length log))"
  have h: "ah_codec ?h = pc" "ah_new_id ?h = ids (length log)" "ah_now ?h = nows (length log)"
    "ah_store ?h = st" "ah_catalog ?h = New_catalog"
    using assms(8) by (simp_all add: NewAPIHandler_def)
  show ?thesis
    by (rule client_creates [where h = ?h, unfolded h(1-3)]) (fact assms(1-7) h(4,5) rta_server_def)+
qed

end

section \<open>Over the two stores\<close>


section \<open>A deployment with a lossless encoding\<close>

instance hal_link_ext :: (countable) countable
  by (rule countable_classI [of "\<lambda>x. to_nat (hl_Href x, hl_Method x, hal_link.more x)"]) simp

instance execution_links_ext :: (countable) countable
  by (rule countable_classI [of "\<lambda>x. to_nat (xl_Self x, xl_Output x, execution_links.more x)"]) simp

instance api_execution_ext :: (countable) countable
proof (rule countable_classI)
  fix x y :: "'a api_execution_scheme"
  let ?f = "\<lambda>x. to_nat ((ox_Links x, ox_Id x, ox_Action x, ox_Status x, ox_ApprovalState x, ox_Username x, ox_TargetCluster x),
    (ox_Jira x, ox_DryRun x, ox_Force x, ox_Params x, ox_Scope x, ox_Type x, ox_Revision x),
    (ox_ManifestWorkName x, ox_RunnerSeconds x, ox_UploadSeconds x, ox_DurationSeconds x, ox_CreatedAt x, ox_UpdatedAt x),
    ox_CompletedAt x, api_execution.more x)"
  assume "?f x = ?f y"
  then show "x = y" by simp
qed

definition unary :: "body \<Rightarrow> string" where
  "unary b = replicate (case b of ExecutionBody x \<Rightarrow> Suc (to_nat x) | _ \<Rightarrow> 0) CHR ''x''"

definition demo_deployment :: deployment where
  "demo_deployment = \<lparr>dy_chi = plain_chi, dy_runtime = plain_runtime Inr, dy_origin = ''https://rta.example'',
     dy_verify = (\<lambda>h. Inr (case h of Some ''Bearer t'' \<Rightarrow> Some (MapClaims [(''username'', JStr ''u'')]) | _ \<Rightarrow> None)),
     dy_decode = (\<lambda>b. Inr demo_body), dy_encode = unary\<rparr>"

definition rta_client :: client where
  "rta_client = \<lparr>tc_base = ''https://rta.example'' @ basePath, tc_token = ''t'', tc_userAgent = ''rta''\<rparr>"

definition rta_net :: "net \<Rightarrow> net" where
  "rta_net nt = nt\<lparr>nt_Marshal := (\<lambda>_. Inr ''{}''), nt_Execution := (\<lambda>data. Inr (from_nat (length data - 1)))\<rparr>"


end
