(* ===== verification/Frontend.thy ===== *)
theory Frontend
  imports Startup "HOL-Library.Word"
begin

text \<open>
  The way in of the server: the handler \<open>runServer\<close> of \<open>cmd/server/main.go\<close> builds around the API, with the
  request log of \<open>internal/middleware/logging.go\<close>, the health check and, unless authentication is
  disabled, the OCM SDK's token check in front of everything.  Arguments: that check, chi's matching
  of the two top-level routes, and the CORS middleware, which answers a preflight by itself.  \<open>RealIP\<close> and
  \<open>Timeout\<close> change nothing that the handlers here read.
\<close>

section \<open>Request ids\<close>

definition hex_of_byte :: "8 word \<Rightarrow> string" where
  "hex_of_byte b = [hex_digit (unat b div 16), hex_digit (unat b mod 16)]"

definition hex_EncodeToString :: "8 word list \<Rightarrow> string" where
  "hex_EncodeToString bs = concat (map hex_of_byte bs)"

text \<open>\<open>random n\<close> are the bytes \<open>rand.Read\<close> puts into a slice of length \<open>n\<close>.\<close>

definition generateRequestID :: "(nat \<Rightarrow> 8 word list) \<Rightarrow> string" where
  "generateRequestID random = hex_EncodeToString (random 8)"

lemma hex_digit_eq: "i < 16 \<Longrightarrow> j < 16 \<Longrightarrow> hex_digit i = hex_digit j \<longleftrightarrow> i = j"
  by (auto simp: hex_digit_def split: if_splits)

lemma hex_of_byte_eq: "hex_of_byte a = hex_of_byte b \<longleftrightarrow> a = b"
proof
  assume "hex_of_byte a = hex_of_byte b"
  moreover have "unat a div 16 < 16" "unat b div 16 < 16"
    using unsigned_less [of a, where 'a = nat] unsigned_less [of b, where 'a = nat] by simp_all
  ultimately have "unat a div 16 = unat b div 16" "unat a mod 16 = unat b mod 16"
    by (simp_all add: hex_of_byte_def hex_digit_eq)
  then have "unat a = unat b" by (metis div_mult_mod_eq)
  then show "a = b" by (rule unsigned_word_eqI)
qed simp

text \<open>Different random bytes give different request ids of 16 digits.\<close>

lemma hex_EncodeToString_eq:
  "hex_EncodeToString as = hex_EncodeToString bs \<longleftrightarrow> as = bs"
proof (induction as arbitrary: bs)
  case (Cons a as)
  have two: "length (hex_of_byte x) = 2" for x by (simp add: hex_of_byte_def)
  show ?case
  proof (cases bs)
    case (Cons b bs')
    then show ?thesis using Cons.IH [of bs'] hex_of_byte_eq [of a b]
      by (simp add: hex_EncodeToString_def append_eq_append_conv two)
  qed (simp add: hex_EncodeToString_def hex_of_byte_def)
qed (auto simp: hex_EncodeToString_def hex_of_byte_def neq_Nil_conv)

lemma generated_ids_differ:
  assumes "length (rnd 8) = 8"
  shows "length (generateRequestID rnd) = 16"
    and "generateRequestID rnd = generateRequestID rnd' \<longleftrightarrow> rnd 8 = rnd' 8"
proof -
  have "length (hex_EncodeToString bs) = 2 * length bs" for bs
    by (induction bs) (simp_all add: hex_EncodeToString_def hex_of_byte_def)
  then show "length (generateRequestID rnd) = 16" by (simp add: generateRequestID_def assms)
qed (simp add: generateRequestID_def hex_EncodeToString_eq)

section \<open>The request log\<close>

text \<open>
  The fields of a log entry that the request and its answer determine.  The entry is made when the
  handler has returned or panicked, from the request the middleware itself was given.
\<close>

record log_entry =
  lg_Method :: string
  lg_Status :: int
  lg_RequestID :: "string option"

definition NewLogger :: "('s, 'w) handler \<Rightarrow> request \<Rightarrow> ('s, 'w) serving \<Rightarrow> (served \<times> ('s, 'w) serving) \<times> log_entry" where
  "NewLogger next r s =
    (let out = next r s
     in (out, \<lparr>lg_Method = hq_Method r,
               lg_Status = (case fst out of Responds rs \<Rightarrow> rs_Status rs | Crashes m \<Rightarrow> 0),
               lg_RequestID = cx_RequestID r\<rparr>))"

section \<open>The router\<close>

datatype root_route = HealthRoute | ApiRoute | NoRootRoute int string

record 'w front =
  fr_Version :: string
  fr_BuildDate :: string
  fr_GitCommit :: string
  fr_review :: "ocm_client \<Rightarrow> 'w access_review"
  fr_cors :: "request \<Rightarrow> response option"
  fr_root :: "request \<Rightarrow> root_route"
  fr_jwt :: "string list \<Rightarrow> request \<Rightarrow> response + token_claims option result"

definition health_handler :: "'w front \<Rightarrow> ('s, 'w) handler" where
  "health_handler fr r =
    answer (respond 200 (TextBody (sprintf ''{\"status\":\"healthy\",\"version\":\"%s\",\"build_date\":\"%s\",\"git_commit\":\"%s\"}''
      [fr_Version fr, fr_BuildDate fr, fr_GitCommit fr])))"

definition authn_of :: "server_setup \<Rightarrow> ('s, 'w) handler \<Rightarrow> ('s, 'w) handler" where
  "authn_of su = (case su_Authn su of JwtAuthn \<Rightarrow> AuthenticateAccountJWT | MockAuthn \<Rightarrow> mock_AuthenticateAccountJWT)"

definition authz_of :: "'w front \<Rightarrow> server_setup \<Rightarrow> ('s, 'w) handler \<Rightarrow> ('s, 'w) handler" where
  "authz_of fr su =
    (case su_Authz su of RoleAuthz roles client \<Rightarrow> AuthorizeAPI roles (fr_review fr client) | MockAuthz \<Rightarrow> mock_AuthorizeAPI)"

definition root_router ::
  "'w front \<Rightarrow> server_setup \<Rightarrow> 's api_handler \<Rightarrow> uuid \<Rightarrow> string \<Rightarrow> (request \<Rightarrow> routed) \<Rightarrow>
    request \<Rightarrow> ('s, 'w) serving \<Rightarrow> (served \<times> ('s, 'w) serving) \<times> log_entry"
where
  "root_router fr su h audit_id request_id routes =
    NewLogger (RequestID request_id (Recoverer (\<lambda>r.
      case fr_cors fr r of
        Some rs \<Rightarrow> answer rs
      | None \<Rightarrow>
        (case fr_root fr r of
           HealthRoute \<Rightarrow> health_handler fr r
         | ApiRoute \<Rightarrow> api_router (authn_of su) (authz_of fr su) h audit_id routes r
         | NoRootRoute status body \<Rightarrow> answer (respond status (TextBody body))))))"

text \<open>The token check replaces the context of the request; what it refuses is not logged.\<close>

definition main_handler ::
  "'w front \<Rightarrow> server_setup \<Rightarrow> 's api_handler \<Rightarrow> uuid \<Rightarrow> string \<Rightarrow> (request \<Rightarrow> routed) \<Rightarrow>
    request \<Rightarrow> ('s, 'w) serving \<Rightarrow> (served \<times> ('s, 'w) serving) \<times> log_entry option"
where
  "main_handler fr su h audit_id request_id routes r s =
    (let router = (\<lambda>r. case root_router fr su h audit_id request_id routes r s of (out, entry) \<Rightarrow> (out, Some entry))
     in if su_VerifiesTokens su
        then (case fr_jwt fr [''^/health$''] r of
                Inl rs \<Rightarrow> ((Responds rs, s), None)
              | Inr tok \<Rightarrow> router (r\<lparr>hq_Token := tok\<rparr>))
        else router r)"

section \<open>The logger\<close>

datatype formatter = JSONFormatter | TextFormatter

definition setupLogging :: "(string \<Rightarrow> 'l result) \<Rightarrow> 'l \<Rightarrow> config \<Rightarrow> 'l \<times> formatter" where
  "setupLogging ParseLevel InfoLevel cfg =
    (case ParseLevel (cfg_LogLevel cfg) of Inl e \<Rightarrow> InfoLevel | Inr level \<Rightarrow> level,
     if cfg_LogJSON cfg then JSONFormatter else TextFormatter)"

section \<open>What gets in\<close>

text \<open>
  The request log is made outside the middleware that sets the request id, so a request that comes
  from the network is logged without one, whatever id it is answered with.
\<close>

lemma logged_without_request_id:
  assumes "cx_RequestID r = None"
  shows "\<exists>rs s' entry. root_router fr su h aid rid routes r s = ((Responds rs, s'), entry) \<and>
    lg_RequestID entry = None \<and> lg_Status entry = rs_Status rs \<and>
    rs_RequestID rs = Some (if hq_RequestID r = [] then rid else hq_RequestID r)"
  using assms
  by (auto simp: root_router_def NewLogger_def Let_def RequestID_def Recoverer_def split: served.splits prod.splits)

text \<open>A request whose token was verified and names a user.\<close>

definition identified :: "'w front \<Rightarrow> request \<Rightarrow> bool" where
  "identified fr r \<longleftrightarrow>
    (case fr_jwt fr [''^/health$''] r of
       Inl rs \<Rightarrow> False
     | Inr tok \<Rightarrow>
       (case GetCallerIdentityFromJWT (r\<lparr>hq_Token := tok\<rparr>) of Inl e \<Rightarrow> False | Inr i \<Rightarrow> ci_Username i \<noteq> []))"

lemma unidentified_api:
  assumes "\<not> (case GetCallerIdentityFromJWT r of Inl e \<Rightarrow> False | Inr i \<Rightarrow> ci_Username i \<noteq> [])"
  shows "api_router AuthenticateAccountJWT authz h aid routes r s = (Responds (api_error 401 ''Authentication required.''), s)"
  using assms by (auto simp: api_router_def AuthenticateAccountJWT_def split: sum.splits)

text \<open>Behind the token check an unidentified request gets an answer that no store had a part in.\<close>

lemma unidentified_root:
  assumes "su_Authn su = JwtAuthn"
    and "\<not> (case GetCallerIdentityFromJWT r of Inl e \<Rightarrow> False | Inr i \<Rightarrow> ci_Username i \<noteq> [])"
  shows "\<exists>rs. \<forall>h routes s. fst (root_router fr su h aid rid routes r s) = (Responds rs, s)"
proof -
  define r1 where "r1 = r\<lparr>cx_RequestID := Some (if hq_RequestID r = [] then rid else hq_RequestID r)\<rparr>"
  have un: "\<not> (case GetCallerIdentityFromJWT r1 of Inl e \<Rightarrow> False | Inr i \<Rightarrow> ci_Username i \<noteq> [])"
    using assms(2) by (simp add: r1_def GetCallerIdentityFromJWT_def)
  note api = unidentified_api [OF un]
  show ?thesis
  proof (cases "fr_cors fr r1")
    case None
    then show ?thesis
      using assms(1)
      by (cases "fr_root fr r1") (simp_all add: api root_router_def NewLogger_def Let_def RequestID_def Recoverer_def
          r1_def [symmetric] health_handler_def authn_of_def)
  qed (simp add: root_router_def NewLogger_def Let_def RequestID_def Recoverer_def r1_def [symmetric])
qed



text \<open>A server with one route, a token check that passes nobody, and no CORS.\<close>

definition closed_front :: "unit front" where
  "closed_front = \<lparr>fr_Version = ''dev'', fr_BuildDate = ''unknown'', fr_GitCommit = ''unknown'',
     fr_review = (\<lambda>_ _ _ _ w. (Inr True, w)), fr_cors = (\<lambda>_. None), fr_root = (\<lambda>_. ApiRoute),
     fr_jwt = (\<lambda>_ _. Inr (Inr None))\<rparr>"


end
