(* ===== verification/Proxy_Backplane.thy ===== *)
theory Proxy_Backplane
  imports Kube_Actions
begin

text \<open>
  The stand-in for backplane, \<open>tests/proxy-backplane\<close>: sessions are registered with a kubeconfig, kept in
  memory under their cluster and instance, and requests below a session's path are forwarded to its
  cluster with its credentials.  Arguments: client-go's reading of a kubeconfig, the parsers of
  \<open>crypto/x509\<close> and \<open>crypto/tls\<close>, \<open>url.Parse\<close>, the new instance ids and the transport's answers.
\<close>

section \<open>Addresses\<close>

definition last_colon :: "string \<Rightarrow> string \<times> string" where
  "last_colon s = (rev (tl (dropWhile (\<lambda>c. c \<noteq> CHR '':'') (rev s))), rev (takeWhile (\<lambda>c. c \<noteq> CHR '':'') (rev s)))"

text \<open>\<open>net.SplitHostPort\<close>.\<close>

definition SplitHostPort :: "string \<Rightarrow> (string \<times> string) option" where
  "SplitHostPort s =
    (if CHR '':'' \<notin> set s then None
     else if hd s = CHR ''[''
     then (case dropWhile (\<lambda>c. c \<noteq> CHR '']'') (tl s) of
             _ # c # port \<Rightarrow>
               if c = CHR '':'' \<and> CHR '':'' \<notin> set port \<and> CHR ''['' \<notin> set (tl s) \<and> CHR '']'' \<notin> set port
               then Some (takeWhile (\<lambda>c. c \<noteq> CHR '']'') (tl s), port)
               else None
           | _ \<Rightarrow> None)
     else if CHR '':'' \<in> set (fst (last_colon s)) \<or> CHR ''['' \<in> set s \<or> CHR '']'' \<in> set s then None
     else Some (last_colon s))"

definition buildProxyURI :: "string \<Rightarrow> string \<Rightarrow> string \<Rightarrow> string" where
  "buildProxyURI listenAddr clusterID instanceID =
    (let (host, port) = (case SplitHostPort listenAddr of None \<Rightarrow> (listenAddr, ''8080'') | Some hp \<Rightarrow> hp);
         host = (if host = [] \<or> host = ''0.0.0.0'' then ''127.0.0.1'' else host)
     in sprintf ''http://%s:%s/backplane/trustedaction/%s/%s'' [host, port, clusterID, instanceID])"

section \<open>The store\<close>

record tls_config =
  tl_InsecureSkipVerify :: bool
  tl_RootCAs :: "string option"
  tl_Certificates :: "(string \<times> string) list"

record action_entry =
  pe_ClusterID :: string
  pe_InstanceID :: string
  pe_Name :: string
  pe_CustomerDataAccess :: string
  pe_Host :: string
  pe_Transport :: tls_config
  pe_Token :: string

type_synonym action_store = "string \<times> string \<Rightarrow> action_entry option"

definition ps_Put :: "action_entry \<Rightarrow> action_store \<Rightarrow> action_store" where
  "ps_Put entry st = st((pe_ClusterID entry, pe_InstanceID entry) \<mapsto> entry)"

definition ps_Get :: "string \<Rightarrow> string \<Rightarrow> action_store \<Rightarrow> action_entry option" where
  "ps_Get clusterID instanceID st = st (clusterID, instanceID)"

definition ps_Delete :: "string \<Rightarrow> string \<Rightarrow> action_store \<Rightarrow> bool \<times> action_store" where
  "ps_Delete clusterID instanceID st =
    (case st (clusterID, instanceID) of
       None \<Rightarrow> (False, st)
     | Some e \<Rightarrow> (True, st((clusterID, instanceID) := None)))"

section \<open>The handlers\<close>

record kube_rest =
  rf_Host :: string
  rf_BearerToken :: string
  rf_CAData :: string
  rf_CertData :: string
  rf_KeyData :: string
  rf_CertFile :: string
  rf_Insecure :: bool

record register_request =
  gq_Name :: string
  gq_CustomerDataAccess :: string
  gq_Kubeconfig :: string

record upstream_url =
  uu_Scheme :: string
  uu_Host :: string

record proxy_libs =
  pl_kubeconfig :: "string \<Rightarrow> kube_rest result"
  pl_ca_certs :: "string \<Rightarrow> bool"
  pl_key_pair :: "string \<Rightarrow> string \<Rightarrow> unit result"
  pl_url :: "string \<Rightarrow> upstream_url result"

datatype 'a reply = ErrorReply int string | SessionReply string string | NoContent | Forwarded 'a

definition buildTransport :: "proxy_libs \<Rightarrow> string \<Rightarrow> string \<Rightarrow> string \<Rightarrow> bool \<Rightarrow> tls_config result" where
  "buildTransport lb caData certData keyData insecure =
    (if caData \<noteq> [] \<and> \<not> pl_ca_certs lb caData then Inl (Errf ''failed to parse CA certificate'' [])
     else (let cfg = \<lparr>tl_InsecureSkipVerify = insecure,
                 tl_RootCAs = (if caData \<noteq> [] then Some caData else None), tl_Certificates = []\<rparr>
           in if certData \<noteq> [] \<and> keyData \<noteq> []
              then (case pl_key_pair lb certData keyData of
                      Inl e \<Rightarrow> Inl (Errw ''failed to parse client certificate: %w'' [] e)
                    | Inr _ \<Rightarrow> Inr (cfg\<lparr>tl_Certificates := [(certData, keyData)]\<rparr>))
              else Inr cfg))"

definition no_credentials :: "kube_rest \<Rightarrow> bool" where
  "no_credentials rc \<longleftrightarrow> rf_BearerToken rc = [] \<and> length (rf_CertData rc) = 0 \<and> rf_CertFile rc = []"

definition Register ::
  "proxy_libs \<Rightarrow> string \<Rightarrow> string \<Rightarrow> string \<Rightarrow> register_request result \<Rightarrow> action_store \<Rightarrow> 'a reply \<times> action_store"
where
  "Register lb listenAddr uuid clusterID body st =
    (case body of
       Inl err \<Rightarrow> (ErrorReply 400 (''invalid JSON body: '' @ err_text err), st)
     | Inr req \<Rightarrow>
       if gq_Kubeconfig req = [] then (ErrorReply 400 ''kubeconfig field is required'', st)
       else (case base64_DecodeString (gq_Kubeconfig req) of
         Inl err \<Rightarrow> (ErrorReply 400 (''kubeconfig is not valid base64: '' @ err_text err), st)
       | Inr raw \<Rightarrow>
         (case pl_kubeconfig lb raw of
            Inl err \<Rightarrow> (ErrorReply 400 (''invalid kubeconfig: '' @ err_text err), st)
          | Inr restCfg \<Rightarrow>
            if rf_Host restCfg = [] then (ErrorReply 400 ''kubeconfig missing server URL'', st)
            else if no_credentials restCfg
            then (ErrorReply 400 ''kubeconfig missing credentials: need bearer token or client certificate'', st)
            else (case buildTransport lb (rf_CAData restCfg) (rf_CertData restCfg) (rf_KeyData restCfg) (rf_Insecure restCfg) of
              Inl err \<Rightarrow> (ErrorReply 400 (''failed to build TLS transport: '' @ err_text err), st)
            | Inr transport \<Rightarrow>
              (let instanceID = sprintf ''%s--%s'' [gq_Name req, uuid];
                   entry = \<lparr>pe_ClusterID = clusterID, pe_InstanceID = instanceID, pe_Name = gq_Name req,
                     pe_CustomerDataAccess = gq_CustomerDataAccess req, pe_Host = rf_Host restCfg,
                     pe_Transport = transport, pe_Token = rf_BearerToken restCfg\<rparr>
               in (SessionReply (buildProxyURI listenAddr clusterID instanceID) instanceID, ps_Put entry st))))))"

definition Status :: "string \<Rightarrow> string \<Rightarrow> string \<Rightarrow> action_store \<Rightarrow> 'a reply" where
  "Status listenAddr clusterID instanceID st =
    (case ps_Get clusterID instanceID st of
       None \<Rightarrow> ErrorReply 404 ''trusted action instance not found''
     | Some entry \<Rightarrow>
       SessionReply (buildProxyURI listenAddr (pe_ClusterID entry) (pe_InstanceID entry)) (pe_InstanceID entry))"

definition Delete :: "string \<Rightarrow> string \<Rightarrow> action_store \<Rightarrow> 'a reply \<times> action_store" where
  "Delete clusterID instanceID st =
    (case ps_Delete clusterID instanceID st of
       (False, st') \<Rightarrow> (ErrorReply 404 ''trusted action instance not found'', st')
     | (True, st') \<Rightarrow> (NoContent, st'))"

text \<open>
  \<open>Proxy\<close> looks the session up, and what it found is used when the request is forwarded, whatever
  happens to the store meanwhile.
\<close>

record incoming =
  ic_Cluster :: string
  ic_Instance :: string
  ic_Method :: string
  ic_Path :: string
  ic_Authorization :: "string option"

record outgoing =
  og_Scheme :: string
  og_Host :: string
  og_Method :: string
  og_Path :: string
  og_HostHeader :: string
  og_Authorization :: "string option"

definition TrimPrefix :: "string \<Rightarrow> string \<Rightarrow> string" where
  "TrimPrefix s p = (if HasPrefix s p then drop (length p) s else s)"

definition Proxy_lookup :: "proxy_libs \<Rightarrow> incoming \<Rightarrow> action_store \<Rightarrow> 'a reply + action_entry \<times> upstream_url" where
  "Proxy_lookup lb r st =
    (case ps_Get (ic_Cluster r) (ic_Instance r) st of
       None \<Rightarrow> Inl (ErrorReply 404 ''trusted action instance not found'')
     | Some entry \<Rightarrow>
       (case pl_url lb (pe_Host entry) of
          Inl err \<Rightarrow> Inl (ErrorReply 502 (''invalid upstream URL: '' @ err_text err))
        | Inr upstream \<Rightarrow> Inr (entry, upstream)))"

definition Director :: "action_entry \<Rightarrow> upstream_url \<Rightarrow> incoming \<Rightarrow> outgoing" where
  "Director entry upstream r =
    (let prefix = sprintf ''/backplane/trustedaction/%s/%s'' [ic_Cluster r, ic_Instance r];
         path = TrimPrefix (ic_Path r) prefix
     in \<lparr>og_Scheme = uu_Scheme upstream, og_Host = uu_Host upstream, og_Method = ic_Method r,
         og_Path = (if path = [] then ''/'' else path), og_HostHeader = uu_Host upstream,
         og_Authorization = (if pe_Token entry \<noteq> [] then Some (''Bearer '' @ pe_Token entry) else None)\<rparr>)"

definition Proxy_forward ::
  "(tls_config \<Rightarrow> outgoing \<Rightarrow> 'a result) \<Rightarrow> action_entry \<Rightarrow> upstream_url \<Rightarrow> incoming \<Rightarrow> 'a reply"
where
  "Proxy_forward round_trip entry upstream r =
    (case round_trip (pe_Transport entry) (Director entry upstream r) of
       Inl err \<Rightarrow> ErrorReply 502 (err_text err)
     | Inr a \<Rightarrow> Forwarded a)"

section \<open>Addresses of sessions\<close>

lemma last_colon_append: "CHR '':'' \<notin> set p \<Longrightarrow> last_colon (h @ CHR '':'' # p) = (h, p)"
proof -
  assume "CHR '':'' \<notin> set p"
  then have "takeWhile (\<lambda>c. c \<noteq> CHR '':'') (rev p @ CHR '':'' # rev h) = rev p"
    "dropWhile (\<lambda>c. c \<noteq> CHR '':'') (rev p @ CHR '':'' # rev h) = CHR '':'' # rev h"
    by (subst takeWhile_append2 dropWhile_append2; auto)+
  then show ?thesis by (simp add: last_colon_def)
qed

lemma SplitHostPort_plain:
  assumes "{CHR '':'', CHR ''['', CHR '']''} \<inter> set h = {}" "{CHR '':'', CHR ''['', CHR '']''} \<inter> set p = {}"
  shows "SplitHostPort (h @ CHR '':'' # p) = Some (h, p)"
  using assms last_colon_append [of p h] by (cases h) (auto simp: SplitHostPort_def)

text \<open>A listen address without a host, the default, is reached on the loopback interface.\<close>

lemma proxy_uri_plain:
  assumes "{CHR '':'', CHR ''['', CHR '']''} \<inter> set h = {}" "{CHR '':'', CHR ''['', CHR '']''} \<inter> set p = {}"
  shows "buildProxyURI (h @ CHR '':'' # p) c i =
    ''http://'' @ (if h = [] \<or> h = ''0.0.0.0'' then ''127.0.0.1'' else h) @ '':'' @ p @ ''/backplane/trustedaction/'' @ c @ ''/'' @ i"
  by (simp add: buildProxyURI_def SplitHostPort_plain [OF assms])

text \<open>The brackets of an IPv6 address are lost, and what is built is no URL with that host.\<close>

lemma ipv6_brackets_are_lost:
  "buildProxyURI ''[::1]:8080'' ''c'' ''i'' = ''http://::1:8080/backplane/trustedaction/c/i''"
  by (simp add: buildProxyURI_def SplitHostPort_def)

text \<open>A request below the path of a session is forwarded with the rest of its path.\<close>

lemma forwarded_path:
  assumes "ic_Path r = ''/backplane/trustedaction/'' @ ic_Cluster r @ ''/'' @ ic_Instance r @ p"
  shows "og_Path (Director e u r) = (if p = [] then ''/'' else p)"
proof -
  let ?prefix = "''/backplane/trustedaction/'' @ ic_Cluster r @ ''/'' @ ic_Instance r"
  have path: "ic_Path r = ?prefix @ p" using assms by simp
  have "TrimPrefix (ic_Path r) ?prefix = p" unfolding TrimPrefix_def path HasPrefix_append by (simp del: append.simps append_assoc)
  then show ?thesis by (simp add: Director_def Let_def)
qed

section \<open>The life of a session\<close>

lemmas session_defs = Register_def Status_def Delete_def Proxy_lookup_def ps_Put_def ps_Get_def ps_Delete_def

text \<open>What a registration that succeeds has stored.\<close>

lemma Register_result:
  "(\<exists>msg. Register lb addr uuid c body st = (ErrorReply 400 msg :: 'a reply, st)) \<or>
   (\<exists>e. Register lb addr uuid c body st = (SessionReply (buildProxyURI addr c (pe_InstanceID e)) (pe_InstanceID e) :: 'a reply, ps_Put e st) \<and>
      pe_ClusterID e = c \<and> pe_InstanceID e = pe_Name e @ ''--'' @ uuid \<and> pe_Host e \<noteq> [])"
  by (simp add: Register_def Let_def split: sum.split) (auto intro: exI [where x = "\<lparr>pe_ClusterID = _, pe_InstanceID = _, pe_Name = _,
    pe_CustomerDataAccess = _, pe_Host = _, pe_Transport = _, pe_Token = _\<rparr>"])

text \<open>It can be asked for until it is deleted; then it is gone for the status and for the proxy.\<close>

lemma session_life:
  assumes "Register lb addr uuid c body st = (SessionReply uri i :: 'a reply, st')"
  shows "Status addr c i st' = SessionReply uri i"
    and "Delete c i st' = (NoContent, st'((c, i) := None))"
    and "Status addr c i (snd (Delete c i st' :: 'a reply \<times> action_store)) = ErrorReply 404 ''trusted action instance not found''"
    and "ic_Cluster r = c \<Longrightarrow> ic_Instance r = i \<Longrightarrow>
      Proxy_lookup lb r (snd (Delete c i st' :: 'a reply \<times> action_store)) = Inl (ErrorReply 404 ''trusted action instance not found'')"
proof -
  obtain e where "st' = ps_Put e st" "pe_ClusterID e = c" "pe_InstanceID e = i" "uri = buildProxyURI addr c i"
    using Register_result [of lb addr uuid c body st, where 'a = 'a] assms by auto
  then show "Status addr c i st' = SessionReply uri i" "Delete c i st' = (NoContent, st'((c, i) := None))"
    "Status addr c i (snd (Delete c i st' :: 'a reply \<times> action_store)) = ErrorReply 404 ''trusted action instance not found''"
    "ic_Cluster r = c \<Longrightarrow> ic_Instance r = i \<Longrightarrow>
      Proxy_lookup lb r (snd (Delete c i st' :: 'a reply \<times> action_store)) = Inl (ErrorReply 404 ''trusted action instance not found'')"
    by (auto simp: session_defs)
qed

text \<open>Credentials a kubeconfig names by file pass the check and are then not used.\<close>

lemma certificate_files_are_ignored:
  assumes "pl_kubeconfig lb [] = Inr rc" "rf_Host rc \<noteq> []" "rf_CertFile rc \<noteq> []"
    and "rf_CAData rc = []" "rf_CertData rc = []" "rf_BearerToken rc = []"
  shows "\<exists>e. ps_Get c (''n--'' @ uuid) (snd (Register lb addr uuid c
      (Inr \<lparr>gq_Name = ''n'', gq_CustomerDataAccess = [], gq_Kubeconfig = [newline]\<rparr>) st)) = Some e \<and>
    tl_Certificates (pe_Transport e) = [] \<and> pe_Token e = []"
  using assms by (simp add: Register_def base64_DecodeString_def newline_def no_credentials_def buildTransport_def
    Let_def ps_Get_def ps_Put_def)

section \<open>Requests in flight\<close>

text \<open>
  The handlers run concurrently; each locked access to the store is a step, and a request is forwarded
  some time after its session was looked up. \<open>pb_registered\<close> is every entry that was ever stored.
\<close>

record pb_state =
  pb_store :: action_store
  pb_flying :: "(action_entry \<times> upstream_url \<times> incoming) list"
  pb_sent :: "(tls_config \<times> outgoing \<times> incoming) list"
  pb_registered :: "action_entry set"

definition pb_start :: pb_state where
  "pb_start = \<lparr>pb_store = Map.empty, pb_flying = [], pb_sent = [], pb_registered = {}\<rparr>"

inductive pb_step :: "proxy_libs \<Rightarrow> string \<Rightarrow> pb_state \<Rightarrow> pb_state \<Rightarrow> bool" for lb addr where
  pb_register: "Register lb addr uuid c body (pb_store p) = (rep :: unit reply, st') \<Longrightarrow>
    pb_step lb addr p (p\<lparr>pb_store := st', pb_registered := pb_registered p \<union> ran st'\<rparr>)"
| pb_delete: "Delete c i (pb_store p) = (rep :: unit reply, st') \<Longrightarrow> pb_step lb addr p (p\<lparr>pb_store := st'\<rparr>)"
| pb_lookup: "Proxy_lookup lb r (pb_store p) = (Inr (e, u) :: unit reply + _) \<Longrightarrow>
    pb_step lb addr p (p\<lparr>pb_flying := pb_flying p @ [(e, u, r)]\<rparr>)"
| pb_forward: "pb_flying p = xs @ (e, u, r) # ys \<Longrightarrow>
    pb_step lb addr p (p\<lparr>pb_flying := xs @ ys, pb_sent := pb_sent p @ [(pe_Transport e, Director e u r, r)]\<rparr>)"

definition pb_runs :: "proxy_libs \<Rightarrow> string \<Rightarrow> pb_state \<Rightarrow> bool" where
  "pb_runs lb addr p \<longleftrightarrow> (pb_step lb addr)\<^sup>*\<^sup>* pb_start p"

text \<open>An entry belongs to the session a request names.\<close>

definition session_of :: "proxy_libs \<Rightarrow> pb_state \<Rightarrow> action_entry \<Rightarrow> upstream_url \<Rightarrow> incoming \<Rightarrow> bool" where
  "session_of lb p e u r \<longleftrightarrow>
    e \<in> pb_registered p \<and> pe_ClusterID e = ic_Cluster r \<and> pe_InstanceID e = ic_Instance r \<and>
    pe_Host e \<noteq> [] \<and> pl_url lb (pe_Host e) = Inr u"

definition pb_inv :: "proxy_libs \<Rightarrow> pb_state \<Rightarrow> bool" where
  "pb_inv lb p \<longleftrightarrow>
    (\<forall>k e. pb_store p k = Some e \<longrightarrow> e \<in> pb_registered p \<and> k = (pe_ClusterID e, pe_InstanceID e) \<and> pe_Host e \<noteq> []) \<and>
    (\<forall>(e, u, r) \<in> set (pb_flying p). session_of lb p e u r) \<and>
    (\<forall>(t, out, r) \<in> set (pb_sent p). \<exists>e u. session_of lb p e u r \<and> t = pe_Transport e \<and> out = Director e u r)"

lemma session_of_mono:
  "session_of lb p e u r \<Longrightarrow> pb_registered p \<subseteq> pb_registered q \<Longrightarrow> session_of lb q e u r"
  by (auto simp: session_of_def)

lemma pb_inv_step: "pb_step lb addr p q \<Longrightarrow> pb_inv lb p \<Longrightarrow> pb_inv lb q"
proof (induction rule: pb_step.induct)
  case (pb_register uuid c body p rep st')
  let ?q = "p\<lparr>pb_store := st', pb_registered := pb_registered p \<union> ran st'\<rparr>"
  have keep: "session_of lb ?q e u r" if "session_of lb p e u r" for e u r
    using session_of_mono [OF that, of ?q] by simp
  have "k = (pe_ClusterID e, pe_InstanceID e) \<and> pe_Host e \<noteq> []" if "st' k = Some e" for k e
  proof -
    have "st' = pb_store p \<or> (\<exists>e. st' = ps_Put e (pb_store p) \<and> pe_Host e \<noteq> [])"
      using Register_result [of lb addr uuid c body "pb_store p", where 'a = unit] pb_register.hyps by auto
    with pb_register.prems that show ?thesis unfolding pb_inv_def ps_Put_def
      by (cases k) (auto split: if_splits)
  qed
  then show ?case using pb_register.prems keep unfolding pb_inv_def by (fastforce intro: ranI)
next
  case (pb_delete c i p rep st')
  then show ?case
    by (auto simp: pb_inv_def session_of_def session_defs split: option.splits if_splits)
next
  case (pb_lookup r p e u)
  then show ?case by (auto simp: pb_inv_def session_of_def session_defs split: option.splits sum.splits)
next
  case (pb_forward p xs e u r ys)
  then show ?case by (fastforce simp: pb_inv_def session_of_def)
qed

text \<open>
  Whatever is registered, deleted and asked for in between, a request goes upstream only for a session
  that was registered under the cluster and instance it names, over that session's transport, to the
  host of its kubeconfig and with its token or none: what the caller sent as authorization never
  leaves.
\<close>
theorem proxied_requests_use_their_session:
  assumes "pb_runs lb addr p" "(t, out, r) \<in> set (pb_sent p)"
  shows "\<exists>e u. e \<in> pb_registered p \<and> pe_ClusterID e = ic_Cluster r \<and> pe_InstanceID e = ic_Instance r \<and>
    t = pe_Transport e \<and> pl_url lb (pe_Host e) = Inr u \<and> og_Host out = uu_Host u \<and> og_HostHeader out = uu_Host u \<and>
    og_Method out = ic_Method r \<and>
    og_Authorization out = (if pe_Token e \<noteq> [] then Some (''Bearer '' @ pe_Token e) else None)"
proof -
  have "pb_inv lb pb_start" by (simp add: pb_inv_def pb_start_def)
  with assms(1) have "pb_inv lb p" unfolding pb_runs_def
    by (induction rule: rtranclp_induct) (auto intro: pb_inv_step)
  with assms(2) show ?thesis by (fastforce simp: pb_inv_def session_of_def Director_def Let_def)
qed

end
