(* ===== verification/Rta_Cli.thy ===== *)
theory Rta_Cli
  imports End_To_End
begin

text \<open>
  The command tree of \<open>rta\<close> as \<open>NewCommand\<close> and the functions it calls declare it (\<open>command.go\<close>,
  \<open>action.go\<close>, \<open>execution.go\<close>, \<open>audit.go\<close>, \<open>version.go\<close>), and \<open>cmd/rta/main.go\<close>.  Cobra, which reads the
  command line against the tree, viper and the rendering of help are arguments; help texts, the
  completion of flag values and the usage lines after a usage error are left out.
\<close>

section \<open>The tree\<close>

datatype flag_value = VBool bool | VString string | VSlice "string list" | VDuration int

record flag_decl =
  fd_Name :: string
  fd_Default :: flag_value
  fd_Required :: bool

datatype args_rule = RejectUnknown | RequiredArgs "string list"

text \<open>\<open>cm_Runs\<close> is the \<open>RunE\<close> of a command over its arguments; a parent's shows its help.\<close>

datatype cobra_command =
  Command (cm_Use: string) (cm_Args: args_rule) (cm_Flags: "flag_decl list") (cm_Persistent: "flag_decl list")
    (cm_Runs: "(string list \<Rightarrow> rta_command) option") (cm_Subs: "cobra_command list")

definition string_flag :: "string \<Rightarrow> string \<Rightarrow> flag_decl" where
  "string_flag n d = \<lparr>fd_Name = n, fd_Default = VString d, fd_Required = False\<rparr>"

definition bool_flag :: "string \<Rightarrow> flag_decl" where
  "bool_flag n = \<lparr>fd_Name = n, fd_Default = VBool False, fd_Required = False\<rparr>"

definition MarkFlagRequired :: "string \<Rightarrow> flag_decl list \<Rightarrow> flag_decl list" where
  "MarkFlagRequired n fs = map (\<lambda>f. if fd_Name f = n then f\<lparr>fd_Required := True\<rparr> else f) fs"

definition addOutputFormatFlag :: "flag_decl list \<Rightarrow> flag_decl list" where
  "addOutputFormatFlag fs = fs @ [string_flag ''output'' ''text'']"

definition parent :: "string \<Rightarrow> cobra_command list \<Rightarrow> cobra_command" where
  "parent use subs = Command use RejectUnknown [] [] None subs"

definition actionListCommand :: cobra_command where
  "actionListCommand = Command ''list'' RejectUnknown (addOutputFormatFlag []) [] (Some (\<lambda>_. ActionList)) []"

definition actionDescribeCommand :: cobra_command where
  "actionDescribeCommand =
    Command ''describe <action>'' (RequiredArgs [''action name'']) (addOutputFormatFlag []) []
      (Some (\<lambda>args. ActionDescribe (args ! 0))) []"

definition actionRunCommand :: cobra_command where
  "actionRunCommand =
    Command ''run <action>'' (RequiredArgs [''action name''])
      (addOutputFormatFlag (MarkFlagRequired ''jira'' (MarkFlagRequired ''cluster''
        [string_flag ''cluster'' [], string_flag ''jira'' [],
         \<lparr>fd_Name = ''param'', fd_Default = VSlice [], fd_Required = False\<rparr>,
         bool_flag ''force'', bool_flag ''dry-run'', bool_flag ''no-wait''])))
      [] (Some (\<lambda>args. ActionRun (args ! 0))) []"

definition actionCommands :: cobra_command where
  "actionCommands = parent ''action'' [actionListCommand, actionDescribeCommand, actionRunCommand]"

definition executionListCommand :: cobra_command where
  "executionListCommand =
    Command ''list'' RejectUnknown
      (addOutputFormatFlag [string_flag ''status'' [], string_flag ''action'' [], string_flag ''cluster'' []])
      [] (Some (\<lambda>_. ExecutionList)) []"

definition executionGetCommand :: cobra_command where
  "executionGetCommand =
    Command ''get <id>'' (RequiredArgs [''execution ID'']) (addOutputFormatFlag []) []
      (Some (\<lambda>args. ExecutionGet (args ! 0))) []"

definition executionOutputCommand :: cobra_command where
  "executionOutputCommand =
    Command ''output <id>'' (RequiredArgs [''execution ID'']) (addOutputFormatFlag []) []
      (Some (\<lambda>args. ExecutionOutput (args ! 0))) []"

definition executionCommands :: cobra_command where
  "executionCommands = parent ''execution'' [executionListCommand, executionGetCommand, executionOutputCommand]"

definition auditListCommand :: cobra_command where
  "auditListCommand =
    Command ''list'' RejectUnknown (addOutputFormatFlag [string_flag ''action'' [], string_flag ''cluster'' []])
      [] (Some (\<lambda>_. AuditList)) []"

definition auditCommands :: cobra_command where
  "auditCommands = parent ''audit'' [auditListCommand]"

definition versionCommand :: cobra_command where
  "versionCommand = Command ''version'' RejectUnknown (addOutputFormatFlag []) [] (Some (\<lambda>_. VersionCommand)) []"

definition defaultTimeout :: int where
  "defaultTimeout = 5 * minute"

definition NewCommand :: cobra_command where
  "NewCommand =
    Command ''rta'' RejectUnknown []
      [bool_flag ''verbose'', \<lparr>fd_Name = ''timeout'', fd_Default = VDuration defaultTimeout, fd_Required = False\<rparr>,
       string_flag ''server'' [], string_flag ''token'' []]
      None [actionCommands, executionCommands, auditCommands, versionCommand]"

lemmas tree_defs = NewCommand_def actionCommands_def executionCommands_def auditCommands_def parent_def
  actionListCommand_def actionDescribeCommand_def actionRunCommand_def executionListCommand_def
  executionGetCommand_def executionOutputCommand_def auditListCommand_def versionCommand_def
  addOutputFormatFlag_def MarkFlagRequired_def string_flag_def bool_flag_def

text \<open>A command's name is the first word of its use line.\<close>

definition command_name :: "cobra_command \<Rightarrow> string" where
  "command_name c = takeWhile (\<lambda>x. x \<noteq> CHR '' '') (cm_Use c)"

fun node_at :: "cobra_command \<Rightarrow> string list \<Rightarrow> cobra_command option" where
  "node_at c [] = Some c"
| "node_at c (n # path) =
    (case find (\<lambda>s. command_name s = n) (cm_Subs c) of None \<Rightarrow> None | Some s \<Rightarrow> node_at s path)"

text \<open>The flags a command takes: its own and the persistent ones on the way to it.\<close>

fun flags_at :: "cobra_command \<Rightarrow> string list \<Rightarrow> flag_decl list" where
  "flags_at c [] = cm_Persistent c @ cm_Flags c"
| "flags_at c (n # path) = cm_Persistent c @
    (case find (\<lambda>s. command_name s = n) (cm_Subs c) of None \<Rightarrow> [] | Some s \<Rightarrow> flags_at s path)"

definition args_error ::
  "(string list \<Rightarrow> string \<Rightarrow> string list) \<Rightarrow> cobra_command \<Rightarrow> string list \<Rightarrow> string list \<Rightarrow> goerr option"
where
  "args_error suggestions c path args =
    (case cm_Args c of
       RejectUnknown \<Rightarrow>
         rejectUnknownArgsAndSuggestSimilar (cm_Subs c \<noteq> []) (Join (''rta'' # path) '' '') (suggestions path) args
     | RequiredArgs names \<Rightarrow> requiredArgs names args)"

section \<open>Running a command line\<close>

text \<open>
  What cobra makes of a command line: an error, help or a completion of its own, or a command with the
  flags that were given and the arguments.
\<close>

datatype cobra_outcome = Fails goerr | Shows string | Runs "string list" "(string \<times> flag_value) list" "string list"

definition flag_type :: "flag_value \<Rightarrow> nat" where
  "flag_type v = (case v of VBool b \<Rightarrow> 0 | VString s \<Rightarrow> 1 | VSlice ss \<Rightarrow> 2 | VDuration d \<Rightarrow> 3)"

text \<open>
  Cobra's documentation: a command is run only with arguments its validator accepts, with every
  required flag given, and with flags it takes, of their types.
\<close>

definition cobra_documented :: "(string list \<Rightarrow> string \<Rightarrow> string list) \<Rightarrow> (string list \<Rightarrow> cobra_outcome) \<Rightarrow> bool" where
  "cobra_documented suggestions ex \<longleftrightarrow>
    (\<forall>argv path given args. ex argv = Runs path given args \<longrightarrow>
      (\<exists>c. node_at NewCommand path = Some c \<and> args_error suggestions c path args = None) \<and>
      (\<forall>f \<in> set (flags_at NewCommand path). fd_Required f \<longrightarrow> fd_Name f \<in> fst ` set given) \<and>
      (\<forall>(n, v) \<in> set given. \<exists>f \<in> set (flags_at NewCommand path). fd_Name f = n \<and> flag_type (fd_Default f) = flag_type v))"

definition flag_of :: "flag_decl list \<Rightarrow> (string \<times> flag_value) list \<Rightarrow> string \<Rightarrow> flag_value option" where
  "flag_of fs given n =
    (case map_of given n of Some v \<Rightarrow> Some v | None \<Rightarrow> map_of (map (\<lambda>f. (fd_Name f, fd_Default f)) fs) n)"

definition fromFlag :: "flag_decl list \<Rightarrow> (string \<times> flag_value) list \<Rightarrow> string \<Rightarrow> string" where
  "fromFlag fs given n = (case flag_of fs given n of Some (VString s) \<Rightarrow> s | _ \<Rightarrow> [])"

definition boolFlag :: "flag_decl list \<Rightarrow> (string \<times> flag_value) list \<Rightarrow> string \<Rightarrow> bool" where
  "boolFlag fs given n = (case flag_of fs given n of Some (VBool b) \<Rightarrow> b | _ \<Rightarrow> False)"

definition GetStringSlice :: "flag_decl list \<Rightarrow> (string \<times> flag_value) list \<Rightarrow> string \<Rightarrow> string list" where
  "GetStringSlice fs given n = (case flag_of fs given n of Some (VSlice ss) \<Rightarrow> ss | _ \<Rightarrow> [])"

text \<open>\<open>config.GetString\<close> of viper reads the server from the flag or the environment.\<close>

definition flags_of ::
  "((string \<times> flag_value) list \<Rightarrow> string) \<Rightarrow> flag_decl list \<Rightarrow> (string \<times> flag_value) list \<Rightarrow> rta_flags"
where
  "flags_of config_server fs given =
    \<lparr>rf_output = fromFlag fs given ''output'', rf_token = fromFlag fs given ''token'', rf_server = config_server given,
     rf_cluster = fromFlag fs given ''cluster'', rf_jira = fromFlag fs given ''jira'',
     rf_param = GetStringSlice fs given ''param'', rf_force = boolFlag fs given ''force'',
     rf_dry_run = boolFlag fs given ''dry-run'', rf_no_wait = boolFlag fs given ''no-wait'',
     rf_status = fromFlag fs given ''status'', rf_action = fromFlag fs given ''action''\<rparr>"

definition rta_Execute ::
  "(string list \<Rightarrow> cobra_outcome) \<Rightarrow> ((string \<times> flag_value) list \<Rightarrow> string) \<Rightarrow> (string list \<Rightarrow> string) \<Rightarrow> rta_env \<Rightarrow>
    string list \<Rightarrow> (rta_io, unit) act"
where
  "rta_Execute ex config_server help_text env argv =
    (case ex argv of
       Fails e \<Rightarrow> fail e
     | Shows s \<Rightarrow> prints [PLine s]
     | Runs path given args \<Rightarrow>
       (case node_at NewCommand path of
          None \<Rightarrow> fail (GoPanic ''no such command'')
        | Some c \<Rightarrow>
          (case cm_Runs c of
             None \<Rightarrow> prints [PLine (help_text path)]
           | Some run \<Rightarrow> rta_main env (flags_of config_server (flags_at NewCommand path) given) (run args))))"

text \<open>\<open>main\<close>: the exit code of the process.\<close>

definition rta_entry ::
  "(string list \<Rightarrow> cobra_outcome) \<Rightarrow> ((string \<times> flag_value) list \<Rightarrow> string) \<Rightarrow> (string list \<Rightarrow> string) \<Rightarrow> rta_env \<Rightarrow>
    string list \<Rightarrow> rta_io \<Rightarrow> nat \<times> rta_io"
where
  "rta_entry ex config_server help_text env argv io =
    (case rta_Execute ex config_server help_text env argv io of
       (Inr _, io') \<Rightarrow> (0, io')
     | (Inl err, io') \<Rightarrow> (1, io'\<lparr>ri_err := ri_err io' @ [''Error: '' @ err_text err, []]\<rparr>))"

section \<open>The tree is well formed\<close>

fun tree_ok :: "cobra_command \<Rightarrow> bool" where
  "tree_ok (Command use rule fs ps runs subs) \<longleftrightarrow>
    distinct (map fd_Name (ps @ fs)) \<and> distinct (map command_name subs) \<and> list_all tree_ok subs \<and>
    (case runs of None \<Rightarrow> subs \<noteq> [] | Some f \<Rightarrow> subs = [] \<and> ''output'' \<in> set (map fd_Name fs))"

lemma command_tree_ok: "tree_ok NewCommand"
  by (simp add: tree_defs command_name_def)

text \<open>What \<open>action run\<close> takes.\<close>

lemma run_command:
  "node_at NewCommand [''action'', ''run''] = Some actionRunCommand"
  by (simp add: tree_defs command_name_def)

lemma run_flags:
  "flags_at NewCommand [''action'', ''run''] =
    [bool_flag ''verbose'', \<lparr>fd_Name = ''timeout'', fd_Default = VDuration defaultTimeout, fd_Required = False\<rparr>,
     string_flag ''server'' [], string_flag ''token'' [],
     (string_flag ''cluster'' [])\<lparr>fd_Required := True\<rparr>, (string_flag ''jira'' [])\<lparr>fd_Required := True\<rparr>,
     \<lparr>fd_Name = ''param'', fd_Default = VSlice [], fd_Required = False\<rparr>,
     bool_flag ''force'', bool_flag ''dry-run'', bool_flag ''no-wait'', string_flag ''output'' ''text'']"
  by (simp add: tree_defs command_name_def)

declare node_at.simps [simp del] flags_at.simps [simp del]

lemmas flag_defs = string_flag_def bool_flag_def

text \<open>A flag that is required and a string was given, as a string.\<close>

lemma required_string:
  assumes "cobra_documented suggestions ex" "ex argv = Runs path given args"
    and "f \<in> set (flags_at NewCommand path)" "fd_Required f"
    and "\<And>g. g \<in> set (flags_at NewCommand path) \<Longrightarrow> fd_Name g = fd_Name f \<Longrightarrow> flag_type (fd_Default g) = 1"
  obtains v where "map_of given (fd_Name f) = Some (VString v)"
proof -
  from assms(1-4) have "fd_Name f \<in> fst ` set given" by (fastforce simp: cobra_documented_def)
  then obtain v where v: "map_of given (fd_Name f) = Some v" by (metis map_of_eq_None_iff not_None_eq)
  then have "(fd_Name f, v) \<in> set given" by (rule map_of_SomeD)
  with assms(1,2) obtain g where "g \<in> set (flags_at NewCommand path)" "fd_Name g = fd_Name f"
      "flag_type (fd_Default g) = flag_type v"
    by (fastforce simp: cobra_documented_def)
  with assms(5) have "flag_type v = 1" by metis
  with v that show thesis by (cases v) (auto simp: flag_type_def)
qed

lemma run_typed:
  assumes "cobra_documented suggestions ex" "ex argv = Runs [''action'', ''run''] given args"
  obtains a cl j where "args = [a]" "map_of given ''cluster'' = Some (VString cl)" "map_of given ''jira'' = Some (VString j)"
proof -
  from assms have "args_error suggestions actionRunCommand [''action'', ''run''] args = None"
    by (fastforce simp: cobra_documented_def run_command)
  then have "length args = 1"
    by (cases args) (auto simp: args_error_def actionRunCommand_def requiredArgs_def split: if_splits)
  then obtain a where a: "args = [a]" by (cases args) auto
  obtain cl where cl: "map_of given (fd_Name ((string_flag ''cluster'' [])\<lparr>fd_Required := True\<rparr>)) = Some (VString cl)"
    by (rule required_string [OF assms, of "(string_flag ''cluster'' [])\<lparr>fd_Required := True\<rparr>"])
      (auto simp: run_flags flag_defs flag_type_def)
  obtain j where j: "map_of given (fd_Name ((string_flag ''jira'' [])\<lparr>fd_Required := True\<rparr>)) = Some (VString j)"
    by (rule required_string [OF assms, of "(string_flag ''jira'' [])\<lparr>fd_Required := True\<rparr>"])
      (auto simp: run_flags flag_defs flag_type_def)
  from a cl j that show thesis by (simp add: flag_defs)
qed

section \<open>The requests of a run\<close>

definition is_get :: "wire_request \<Rightarrow> bool" where
  "is_get r \<longleftrightarrow> wr_Method r = ''GET''"

lemma get_is_get: "logs_only is_get (client_get nt c path q decode zero)"
  by (auto simp: logs_only_def is_get_def client_get_def client_do_def Let_def blank_request_def fail_def
      split: sum.splits prod.splits)

lemma poll_gets: "sends_only is_get (poll_execution nt c n exec)"
  by (induction n arbitrary: exec) (auto simp: client_ops intro!: log_rules get_is_get)

lemma report_gets:
  "sends_only is_get (report_json nt c exec)" "sends_only is_get (report_text nt c dry exec)"
  unfolding report_json_def report_text_def client_ops
  by (intro log_rules get_is_get | simp add: log_rules split: sum.split)+

text \<open>After the creation only \<open>GET\<close> requests follow.\<close>

lemma run_follows:
  "sends_only is_get
    (if rf_no_wait fl then prints ps
     else seq (waitForCompletion env c exec) (\<lambda>exec.
       if isJSON fl then report_json (re_net env) c exec else report_text (re_net env) c (rf_dry_run fl) exec))"
  unfolding waitForCompletion_def by (intro log_rules poll_gets report_gets)

lemma run_sends:
  "case rta_action_run env fl a io of (r, io') \<Rightarrow>
    (\<exists>e. r = Inl e) \<and> ri_sent io' = ri_sent io \<or>
    (\<exists>c payload rest params. parseParams fl = Inr params \<and>
       nt_Marshal (re_net env) (run_request fl params) = Inr payload \<and>
       ri_sent io' = ri_sent io @ sent_creation c a payload # rest \<and> list_all is_get rest)"
proof (cases "validateFormat fl")
  case (Inl e)
  then show ?thesis by (simp add: rta_action_run_def act_defs)
next
  case ok: (Inr u)
  show ?thesis
  proof (cases "parseParams fl")
    case (Inl e)
    with ok show ?thesis by (simp add: rta_action_run_def act_defs)
  next
    case params: (Inr params)
    show ?thesis
    proof (cases "newClient env fl True")
      case (Inl e)
      with ok params show ?thesis by (simp add: rta_action_run_def act_defs)
    next
      case (Inr c)
      let ?f = "\<lambda>exec. if rf_no_wait fl
        then prints [if isJSON fl then PJson (JExecution exec)
                     else PLine (sprintf ''Execution %s submitted (status: %s)'' [ox_Id exec, ox_Status exec])]
        else seq (waitForCompletion env c exec) (\<lambda>exec.
          if isJSON fl then report_json (re_net env) c exec else report_text (re_net env) c (rf_dry_run fl) exec)"
      have run: "rta_action_run env fl a io =
          seq (sends (client_CreateExecution (re_net env) c a (run_request fl params))) ?f io"
        using ok params Inr by (simp add: rta_action_run_def seq_def lift_def)
      show ?thesis
      proof (cases rule: client_creation_cases [of "re_net env" c a "run_request fl params" "ri_sent io"])
        case (unsent err)
        then show ?thesis unfolding run by (simp add: seq_def sends_def)
      next
        case (sent payload res)
        let ?io = "io\<lparr>ri_sent := ri_sent io @ [sent_creation c a payload]\<rparr>"
        have "\<exists>rest. ri_sent (snd (?f x ?io)) = (ri_sent io @ [sent_creation c a payload]) @ rest \<and> list_all is_get rest" for x
          using run_follows [of fl _ env c x, unfolded sends_only_def, rule_format, of _ ?io] by simp
        then have "\<exists>rest. ri_sent (snd (rta_action_run env fl a io)) = ri_sent io @ sent_creation c a payload # rest \<and>
            list_all is_get rest"
          using sent(2) unfolding run by (cases res) (simp_all add: seq_def sends_def)
        with sent(1) params show ?thesis by (auto split: prod.split)
      qed
    qed
  qed
qed


text \<open>A cobra that reads every command line as one run.\<close>

definition one_run :: "string list \<Rightarrow> cobra_outcome" where
  "one_run argv = Runs [''action'', ''run''] [(''cluster'', VString ''c1''), (''jira'', VString ''R-1''),
     (''param'', VSlice [''resource=pods'']), (''force'', VBool True)] [''get'']"

lemma one_run_documented: "cobra_documented suggestions one_run"
  by (simp add: cobra_documented_def one_run_def run_command args_error_def)
    (simp add: actionRunCommand_def requiredArgs_def run_flags flag_defs flag_type_def)


end
