(* ===== verification/Entry_Points.thy ===== *)
theory Entry_Points
  imports Rta_Cli Startup Shutdown Frontend Test_Client Action_Cli
begin

text \<open>
  The flags the other programs declare and what their \<open>main\<close> makes of a command line:
  \<open>cmd/server/main.go\<close>, \<open>cmd/action-cli/main.go\<close> and \<open>cmd/test-client/main.go\<close>.  Cobra, which reads the
  command line against the flags, is an argument, as it is for \<open>rta\<close>; its help texts are left out.
\<close>

section \<open>Flags\<close>

definition duration_flag :: "string \<Rightarrow> int \<Rightarrow> flag_decl" where
  "duration_flag n d = \<lparr>fd_Name = n, fd_Default = VDuration d, fd_Required = False\<rparr>"

definition slice_flag :: "string \<Rightarrow> flag_decl" where
  "slice_flag n = \<lparr>fd_Name = n, fd_Default = VSlice [], fd_Required = False\<rparr>"

definition GetDuration :: "flag_decl list \<Rightarrow> (string \<times> flag_value) list \<Rightarrow> string \<Rightarrow> int" where
  "GetDuration fs given n = (case flag_of fs given n of Some (VDuration d) \<Rightarrow> d | _ \<Rightarrow> 0)"

text \<open>
  Cobra's documentation for a command of its own: it is run with every required flag given, and with
  flags it takes, of their types.
\<close>

definition flags_documented :: "flag_decl list \<Rightarrow> (string list \<Rightarrow> cobra_outcome) \<Rightarrow> bool" where
  "flags_documented fs ex \<longleftrightarrow>
    (\<forall>argv path given args. ex argv = Runs path given args \<longrightarrow>
      (\<forall>f \<in> set fs. fd_Required f \<longrightarrow> fd_Name f \<in> fst ` set given) \<and>
      (\<forall>(n, v) \<in> set given. \<exists>f \<in> set fs. fd_Name f = n \<and> flag_type (fd_Default f) = flag_type v))"

lemma required_given:
  assumes "flags_documented fs ex" "ex argv = Runs path given args" "f \<in> set fs" "fd_Required f"
    and "\<And>g. g \<in> set fs \<Longrightarrow> fd_Name g = fd_Name f \<Longrightarrow> flag_type (fd_Default g) = 1"
  shows "\<exists>v. map_of given (fd_Name f) = Some (VString v) \<and> fromFlag fs given (fd_Name f) = v"
proof -
  from assms(1-4) have "fd_Name f \<in> fst ` set given" by (fastforce simp: flags_documented_def)
  then obtain v where v: "map_of given (fd_Name f) = Some v" by (metis map_of_eq_None_iff not_None_eq)
  then have "(fd_Name f, v) \<in> set given" by (rule map_of_SomeD)
  with assms(1,2) obtain g where "g \<in> set fs" "fd_Name g = fd_Name f" "flag_type (fd_Default g) = flag_type v"
    by (fastforce simp: flags_documented_def)
  with assms(5) have "flag_type v = 1" by metis
  with v show ?thesis by (cases v) (auto simp: flag_type_def fromFlag_def flag_of_def)
qed

section \<open>The server\<close>

definition server_flag_decls :: "flag_decl list" where
  "server_flag_decls =
    [string_flag ''config-file'' [], string_flag ''listen-addr'' '':8080'', string_flag ''log-level'' ''info'',
     bool_flag ''log-json'']"

text \<open>\<open>Changed\<close> is whether a flag was given.\<close>

definition server_flags_of :: "(string \<times> flag_value) list \<Rightarrow> flags" where
  "server_flags_of given =
    (let changed = (\<lambda>n. n \<in> fst ` set given); fs = server_flag_decls
     in \<lparr>fl_ConfigFile = fromFlag fs given ''config-file'',
         fl_ListenAddr = (if changed ''listen-addr'' then Some (fromFlag fs given ''listen-addr'') else None),
         fl_LogLevel = (if changed ''log-level'' then Some (fromFlag fs given ''log-level'') else None),
         fl_LogJSON = (if changed ''log-json'' then Some (boolFlag fs given ''log-json'') else None)\<rparr>)"

text \<open>What the \<open>http.Server\<close> of a program is told, durations in nanoseconds; zero is no limit.\<close>

record http_server =
  sv_Addr :: string
  sv_ReadTimeout :: int
  sv_WriteTimeout :: int
  sv_IdleTimeout :: int
  sv_MaxHeaderBytes :: nat

definition api_server :: "config \<Rightarrow> http_server" where
  "api_server cfg =
    \<lparr>sv_Addr = cfg_ListenAddr cfg, sv_ReadTimeout = 10 * second, sv_WriteTimeout = 30 * second,
     sv_IdleTimeout = 60 * second, sv_MaxHeaderBytes = push_bit 20 1\<rparr>"

text \<open>The exit code of a process that has ended: a fatal log entry and an error are both 1.\<close>

definition server_exit :: "server_phase \<Rightarrow> nat option" where
  "server_exit ph = (case ph of Exited (Inr _) \<Rightarrow> Some 0 | Exited (Inl _) \<Rightarrow> Some 1 | Died \<Rightarrow> Some 1 | _ \<Rightarrow> None)"

text \<open>
  The listen address, the level and the format of the log come from a flag that was given, and else
  from the configuration: the defaults the flags declare are never used.
\<close>

lemma flag_or_configuration:
  "cfg_ListenAddr (override_flags (server_flags_of given) cfg) =
     (if ''listen-addr'' \<in> fst ` set given then fromFlag server_flag_decls given ''listen-addr'' else cfg_ListenAddr cfg)"
  "cfg_LogLevel (override_flags (server_flags_of given) cfg) =
     (if ''log-level'' \<in> fst ` set given then fromFlag server_flag_decls given ''log-level'' else cfg_LogLevel cfg)"
  "cfg_LogJSON (override_flags (server_flags_of given) cfg) =
     (if ''log-json'' \<in> fst ` set given then boolFlag server_flag_decls given ''log-json'' else cfg_LogJSON cfg)"
  by (simp_all add: server_flags_of_def override_flags_def Let_def del: image_iff)

lemma no_flags_no_override: "override_flags (server_flags_of []) cfg = cfg"
  by (simp add: server_flags_of_def override_flags_def Let_def)

section \<open>The command line for actions\<close>

definition action_flag_decls :: "(string \<Rightarrow> string) \<Rightarrow> flag_decl list" where
  "action_flag_decls getenv =
    MarkFlagRequired ''action''
      [string_flag ''kubeconfig'' (getenv ''KUBECONFIG''), string_flag ''action'' [], string_flag ''namespace'' [],
       string_flag ''group'' [], string_flag ''version'' ''v1'', string_flag ''resource'' [], string_flag ''name'' [],
       string_flag ''patch'' [], string_flag ''cluster-id'' ''local'', string_flag ''caller-id'' ''cli-user'',
       string_flag ''cluster-version'' [], string_flag ''allowed-namespaces'' [], string_flag ''allowed-secrets'' [],
       bool_flag ''cluster-scoped'', string_flag ''severity'' [], string_flag ''alert-state'' [], bool_flag ''silences'',
       string_flag ''aws-region'' (getenv ''AWS_REGION''),
       string_flag ''aws-endpoint-url'' (getenv ''ROSA_TA_AWS_ENDPOINT_URL''), string_flag ''aws-infra-id'' [],
       string_flag ''aws-id'' [], string_flag ''aws-filters'' [], string_flag ''aws-since'' []]"

definition root_flag_decls :: "flag_decl list" where
  "root_flag_decls = [string_flag ''log-level'' ''debug'', bool_flag ''log-json'']"

definition cli_flags_of :: "(string \<Rightarrow> string) \<Rightarrow> (string \<times> flag_value) list \<Rightarrow> cli_flags" where
  "cli_flags_of getenv given =
    (let str = fromFlag (action_flag_decls getenv) given; bool = boolFlag (action_flag_decls getenv) given
     in \<lparr>xf_kubeconfig = str ''kubeconfig'', xf_namespace = str ''namespace'', xf_group = str ''group'',
         xf_version = str ''version'', xf_resource = str ''resource'', xf_name = str ''name'', xf_action = str ''action'',
         xf_patch = str ''patch'', xf_clusterID = str ''cluster-id'', xf_callerID = str ''caller-id'',
         xf_clusterVersion = str ''cluster-version'', xf_allowedNS = str ''allowed-namespaces'',
         xf_allowedSecrets = str ''allowed-secrets'', xf_clusterScoped = bool ''cluster-scoped'',
         xf_severity = str ''severity'', xf_alertState = str ''alert-state'', xf_silences = bool ''silences'',
         xf_awsRegion = str ''aws-region'', xf_awsEndpointURL = str ''aws-endpoint-url'',
         xf_awsInfraID = str ''aws-infra-id'', xf_awsID = str ''aws-id'', xf_awsFilters = str ''aws-filters'',
         xf_awsSince = str ''aws-since''\<rparr>)"

definition cli_logging ::
  "(string \<Rightarrow> 'l result) \<Rightarrow> 'l \<Rightarrow> (string \<times> flag_value) list \<Rightarrow> 'l \<times> formatter" where
  "cli_logging ParseLevel DebugLevel given =
    (case ParseLevel (fromFlag root_flag_decls given ''log-level'') of Inl e \<Rightarrow> DebugLevel | Inr level \<Rightarrow> level,
     if boolFlag root_flag_decls given ''log-json'' then JSONFormatter else TextFormatter)"

text \<open>The exit code of the process and what it prints; a panic of a Go program exits with 2.\<close>

definition action_cli_main ::
  "(string list \<Rightarrow> cobra_outcome) \<Rightarrow> 'cfg cli_env \<Rightarrow> string list \<Rightarrow> unit world \<Rightarrow> (nat \<times> string list) \<times> unit world"
where
  "action_cli_main ex ce argv w =
    (case ex argv of
       Fails e \<Rightarrow> ((1, [''Error: '' @ err_text e]), w)
     | Shows s \<Rightarrow> ((0, [s]), w)
     | Runs path given args \<Rightarrow>
       (case cli_run ce (cli_flags_of (ce_Getenv ce) given) w of
          ((Exits None, ls), w') \<Rightarrow> ((0, ls), w')
        | ((Exits (Some e), ls), w') \<Rightarrow> ((1, ls @ [''Error: '' @ err_text e]), w')
        | ((CliPanics m, ls), w') \<Rightarrow> ((2, ls), w')))"

lemma action_given:
  assumes "flags_documented (root_flag_decls @ action_flag_decls getenv) ex" "ex argv = Runs path given args"
  shows "map_of given ''action'' = Some (VString (xf_action (cli_flags_of getenv given)))"
proof -
  have "\<exists>v. map_of given (fd_Name ((string_flag ''action'' [])\<lparr>fd_Required := True\<rparr>)) = Some (VString v) \<and>
      fromFlag (root_flag_decls @ action_flag_decls getenv) given
        (fd_Name ((string_flag ''action'' [])\<lparr>fd_Required := True\<rparr>)) = v"
    by (rule required_given [OF assms])
      (auto simp: root_flag_decls_def action_flag_decls_def MarkFlagRequired_def string_flag_def bool_flag_def flag_type_def)
  then obtain v where "map_of given ''action'' = Some (VString v)" by (auto simp: string_flag_def)
  then show ?thesis by (simp add: cli_flags_of_def Let_def fromFlag_def flag_of_def)
qed

text \<open>
  A process that exits with success showed something of cobra's and did nothing, or ran the action
  that was typed, whose audit record is of an allowed, successful execution.
\<close>

theorem action_cli_success:
  assumes "flags_documented (root_flag_decls @ action_flag_decls (ce_Getenv ce)) ex"
    and "action_cli_main ex ce argv w = ((0, ls), w')"
  shows "(\<exists>s. ex argv = Shows s \<and> w' = w) \<or>
    (\<exists>path given args a act rec. ex argv = Runs path given args \<and> map_of given ''action'' = Some (VString a) \<and>
      CreateAction a = Some act \<and> w_audit w' = w_audit w @ [rec] \<and>
      au_Decision rec = DecisionAllowed \<and> au_Outcome rec = OutcomeSuccess)"
proof (cases "ex argv")
  case (Runs path given args)
  let ?fl = "cli_flags_of (ce_Getenv ce) given"
  obtain out ls' where run: "cli_run ce ?fl w = ((out, ls'), w')" and out: "out = Exits None"
    using assms(2) Runs by (auto simp: action_cli_main_def split: prod.splits cli_exit.splits option.splits)
  note typed = action_given [OF assms(1) Runs]
  from run show ?thesis
  proof (cases rule: cli_runE)
    case (ran act scope target ps rv)
    obtain a bp env aw p where x: "Execute (server_scopes a bp env aw p) (cli_request ?fl act target ps) w = (rv, w')"
      using cli_scope_server [OF ran(2)] ran(3) by metis
    from cli_audit [OF x ran(4)] out obtain rec where "w_audit w' = w_audit w @ [rec]"
        "au_Decision rec = DecisionAllowed \<and> au_Outcome rec = OutcomeSuccess" by auto
    with Runs typed ran(1) show ?thesis by blast
  qed (simp add: out)
qed (use assms(2) in \<open>auto simp: action_cli_main_def\<close>)

section \<open>The test client\<close>

definition tclient_flag_decls :: "flag_decl list" where
  "tclient_flag_decls =
    MarkFlagRequired ''jira'' (MarkFlagRequired ''cluster-id'' (MarkFlagRequired ''action''
      [string_flag ''server'' ''http://localhost:8080'', string_flag ''action'' [], string_flag ''cluster-id'' [],
       string_flag ''jira'' [], slice_flag ''param'', bool_flag ''dry-run'', bool_flag ''force'',
       string_flag ''token'' [], duration_flag ''poll-interval'' (2 * second)]))"

definition tclient_flags_of :: "(string \<times> flag_value) list \<Rightarrow> tclient_flags" where
  "tclient_flags_of given =
    (let fs = tclient_flag_decls; str = fromFlag fs given
     in \<lparr>tf_server = str ''server'', tf_action = str ''action'', tf_clusterID = str ''cluster-id'', tf_jira = str ''jira'',
         tf_params = GetStringSlice fs given ''param'', tf_dryRun = boolFlag fs given ''dry-run'',
         tf_force = boolFlag fs given ''force'', tf_token = str ''token'',
         tf_pollInterval = GetDuration fs given ''poll-interval''\<rparr>)"

definition test_client_main ::
  "(string list \<Rightarrow> cobra_outcome) \<Rightarrow> string result \<Rightarrow> net \<Rightarrow> string list \<Rightarrow> rta_io \<Rightarrow> (int \<times> rta_io) option"
where
  "test_client_main ex ocm_token nt argv io =
    (case ex argv of
       Fails e \<Rightarrow> Some (1, io)
     | Shows s \<Rightarrow> Some (0, io\<lparr>ri_out := ri_out io @ [PLine s]\<rparr>)
     | Runs path given args \<Rightarrow> tc_main ocm_token nt (tclient_flags_of given) io)"

lemma tclient_flag_of:
  "flag_of tclient_flag_decls given n =
    (case map_of given n of
       Some v \<Rightarrow> Some v
     | None \<Rightarrow> map_of [(''server'', VString ''http://localhost:8080''), (''action'', VString []),
         (''cluster-id'', VString []), (''jira'', VString []), (''param'', VSlice []), (''dry-run'', VBool False),
         (''force'', VBool False), (''token'', VString []), (''poll-interval'', VDuration (2 * second))] n)"
  by (simp add: flag_of_def tclient_flag_decls_def MarkFlagRequired_def string_flag_def bool_flag_def
      slice_flag_def duration_flag_def split: option.split)

text \<open>What has to be typed is typed, and the request to the server is made of it.\<close>

lemma test_client_typed:
  assumes "flags_documented tclient_flag_decls ex" "ex argv = Runs path given args"
  shows "map_of given ''action'' = Some (VString (tf_action (tclient_flags_of given)))"
    and "map_of given ''cluster-id'' = Some (VString (tf_clusterID (tclient_flags_of given)))"
    and "map_of given ''jira'' = Some (VString (tf_jira (tclient_flags_of given)))"
proof -
  have typed: "map_of given n = Some (VString (fromFlag tclient_flag_decls given n))"
    if "n \<in> {''action'', ''cluster-id'', ''jira''}" for n
  proof -
    have "\<exists>v. map_of given (fd_Name ((string_flag n [])\<lparr>fd_Required := True\<rparr>)) = Some (VString v) \<and>
        fromFlag tclient_flag_decls given (fd_Name ((string_flag n [])\<lparr>fd_Required := True\<rparr>)) = v"
      by (rule required_given [OF assms])
        (use that in \<open>auto simp: tclient_flag_decls_def MarkFlagRequired_def string_flag_def bool_flag_def
          slice_flag_def duration_flag_def flag_type_def\<close>)
    then show ?thesis by (auto simp: string_flag_def)
  qed
  show "map_of given ''action'' = Some (VString (tf_action (tclient_flags_of given)))"
    "map_of given ''cluster-id'' = Some (VString (tf_clusterID (tclient_flags_of given)))"
    "map_of given ''jira'' = Some (VString (tf_jira (tclient_flags_of given)))"
    by (simp_all add: typed tclient_flags_of_def Let_def)
qed

text \<open>Unless told otherwise it polls a local server every two seconds.\<close>

lemma test_client_defaults:
  "tf_pollInterval (tclient_flags_of []) = 2 * second" "tf_server (tclient_flags_of []) = ''http://localhost:8080''"
  by (simp_all add: tclient_flags_of_def Let_def GetDuration_def fromFlag_def tclient_flag_of)

end
