(* ===== verification/Proxy_Main.thy ===== *)
theory Proxy_Main
  imports Proxy_Backplane Entry_Points
begin

text \<open>
  The process of \<open>tests/proxy-backplane/main.go\<close>: its flags, the routes to its handlers, its listening
  and its exit.  Arguments: cobra and chi, with what their documentation says of them as predicates, and
  what the handlers need.  Requests are those whose path chi sees as it is.
\<close>

section \<open>Flags and settings\<close>

definition proxy_flag_decls :: "flag_decl list" where
  "proxy_flag_decls = [string_flag ''listen-addr'' '':8080'', string_flag ''log-level'' ''info'']"

definition proxy_logging ::
  "(string \<Rightarrow> 'l result) \<Rightarrow> 'l \<Rightarrow> (string \<times> flag_value) list \<Rightarrow> 'l \<times> formatter" where
  "proxy_logging ParseLevel InfoLevel given =
    (case ParseLevel (fromFlag proxy_flag_decls given ''log-level'') of Inl e \<Rightarrow> InfoLevel | Inr level \<Rightarrow> level,
     TextFormatter)"

definition proxy_server :: "(string \<times> flag_value) list \<Rightarrow> http_server" where
  "proxy_server given =
    \<lparr>sv_Addr = fromFlag proxy_flag_decls given ''listen-addr'', sv_ReadTimeout = 10 * second, sv_WriteTimeout = 0,
     sv_IdleTimeout = 60 * second, sv_MaxHeaderBytes = push_bit 20 1\<rparr>"

section \<open>Routes\<close>

datatype proxy_route = RegisterRoute | StatusRoute | DeleteRoute | ProxyRoute

text \<open>The methods \<open>HandleFunc\<close> of chi registers a handler for.\<close>

definition chi_methods :: "string list" where
  "chi_methods =
    [''CONNECT'', ''DELETE'', ''GET'', ''HEAD'', ''OPTIONS'', ''PATCH'', ''POST'', ''PUT'', ''TRACE'']"

definition proxy_routes :: "(string list \<times> string \<times> proxy_route) list" where
  "proxy_routes =
    [([''POST''], ''/backplane/trustedactions/{cluster_id}'', RegisterRoute),
     ([''GET''], ''/backplane/trustedactions/{cluster_id}/{instanceId}'', StatusRoute),
     ([''DELETE''], ''/backplane/trustedactions/{cluster_id}/{instanceId}'', DeleteRoute),
     (chi_methods, ''/backplane/trustedaction/{cluster_id}/{instanceId}/*'', ProxyRoute)]"

record proxy_request =
  pq_Method :: string
  pq_Path :: string
  pq_Authorization :: "string option"
  pq_Body :: "register_request result"

type_synonym proxy_chi = "string \<Rightarrow> string \<Rightarrow> (int \<times> string) + (nat \<times> (string \<times> string) list)"

definition incoming_of :: "(string \<times> string) list \<Rightarrow> proxy_request \<Rightarrow> incoming" where
  "incoming_of ps r =
    \<lparr>ic_Cluster = param ps ''cluster_id'', ic_Instance = param ps ''instanceId'', ic_Method = pq_Method r,
     ic_Path = pq_Path r, ic_Authorization = pq_Authorization r\<rparr>"

definition proxy_handle ::
  "proxy_libs \<Rightarrow> (tls_config \<Rightarrow> outgoing \<Rightarrow> 'a result) \<Rightarrow> string \<Rightarrow> string \<Rightarrow> proxy_route \<Rightarrow> (string \<times> string) list \<Rightarrow>
    proxy_request \<Rightarrow> action_store \<Rightarrow> 'a reply \<times> action_store"
where
  "proxy_handle lb round_trip addr uuid route ps r st =
    (let c = param ps ''cluster_id''; i = param ps ''instanceId''
     in case route of
          RegisterRoute \<Rightarrow> Register lb addr uuid c (pq_Body r) st
        | StatusRoute \<Rightarrow> (Status addr c i st, st)
        | DeleteRoute \<Rightarrow> Delete c i st
        | ProxyRoute \<Rightarrow>
            (case Proxy_lookup lb (incoming_of ps r) st of
               Inl rep \<Rightarrow> (rep, st)
             | Inr (entry, upstream) \<Rightarrow> (Proxy_forward round_trip entry upstream (incoming_of ps r), st)))"

text \<open>A request served while no other is; what chi answers by itself is on the left.\<close>

definition proxy_serve ::
  "proxy_chi \<Rightarrow> proxy_libs \<Rightarrow> (tls_config \<Rightarrow> outgoing \<Rightarrow> 'a result) \<Rightarrow> string \<Rightarrow> string \<Rightarrow> proxy_request \<Rightarrow>
    action_store \<Rightarrow> ((int \<times> string) + 'a reply) \<times> action_store"
where
  "proxy_serve chi lb round_trip addr uuid r st =
    (case chi (pq_Method r) (pq_Path r) of
       Inl own \<Rightarrow> (Inl own, st)
     | Inr (k, ps) \<Rightarrow> apfst Inr (proxy_handle lb round_trip addr uuid (snd (snd (proxy_routes ! k))) ps r st))"

section \<open>What is documented of chi\<close>

text \<open>
  A pattern matches segment by segment; a placeholder takes one segment that is not empty, and a
  trailing star the rest, which is there when the slash before it is.
\<close>

fun match_star :: "string list \<Rightarrow> string list \<Rightarrow> (string \<times> string) list option" where
  "match_star [] [] = Some []"
| "match_star (p # ps) (s # ss) =
    (if p = ''*'' then Some [(''*'', Join (s # ss) ''/'')]
     else if HasPrefix p ''{''
     then (if s = [] then None else map_option ((#) (butlast (tl p), s)) (match_star ps ss))
     else if p = s then match_star ps ss else None)"
| "match_star _ _ = None"

definition match_route :: "nat \<Rightarrow> string \<Rightarrow> string \<Rightarrow> (string \<times> string) list option" where
  "match_route k m path =
    (case proxy_routes ! k of
       (ms, pattern, _) \<Rightarrow>
         if m \<in> set ms then match_star (Split (CHR ''/'') pattern) (Split (CHR ''/'') path) else None)"

text \<open>A route that matches is found, for a path whose first four segments are not empty.\<close>

definition chi_finds :: "proxy_chi \<Rightarrow> bool" where
  "chi_finds chi \<longleftrightarrow>
    (\<forall>m path. [] \<notin> set (take 4 (tl (Split (CHR ''/'') path))) \<longrightarrow>
      (case chi m path of
         Inr (k, ps) \<Rightarrow> k < length proxy_routes \<and> match_route k m path = Some ps
       | Inl _ \<Rightarrow> \<forall>k < length proxy_routes. match_route k m path = None))"

lemma patterns_split:
  "Split (CHR ''/'') ''/backplane/trustedactions/{cluster_id}'' = [[], ''backplane'', ''trustedactions'', ''{cluster_id}'']"
  "Split (CHR ''/'') ''/backplane/trustedactions/{cluster_id}/{instanceId}'' =
     [[], ''backplane'', ''trustedactions'', ''{cluster_id}'', ''{instanceId}'']"
  "Split (CHR ''/'') ''/backplane/trustedaction/{cluster_id}/{instanceId}/*'' =
     [[], ''backplane'', ''trustedaction'', ''{cluster_id}'', ''{instanceId}'', ''*'']"
  by simp_all

lemma match_routes:
  "match_route 0 m path =
    (if m = ''POST'' then match_star [[], ''backplane'', ''trustedactions'', ''{cluster_id}''] (Split (CHR ''/'') path) else None)"
  "match_route 1 m path =
    (if m = ''GET'' then match_star [[], ''backplane'', ''trustedactions'', ''{cluster_id}'', ''{instanceId}''] (Split (CHR ''/'') path) else None)"
  "match_route 2 m path =
    (if m = ''DELETE'' then match_star [[], ''backplane'', ''trustedactions'', ''{cluster_id}'', ''{instanceId}''] (Split (CHR ''/'') path) else None)"
  "match_route 3 m path =
    (if m \<in> set chi_methods then match_star [[], ''backplane'', ''trustedaction'', ''{cluster_id}'', ''{instanceId}'', ''*''] (Split (CHR ''/'') path) else None)"
  unfolding match_route_def proxy_routes_def
  by (simp_all only: nth_Cons_0 nth_Cons_numeral nth_Cons_Suc One_nat_def numeral_2_eq_2 numeral_3_eq_3 prod.case
      patterns_split list.set insert_iff empty_iff simp_thms)

lemma below_four: "(\<forall>k < length proxy_routes. P k) \<longleftrightarrow> P 0 \<and> P 1 \<and> P 2 \<and> P 3"
proof -
  have "{..< length proxy_routes} = {0, 1, 2, 3}" by (auto simp: proxy_routes_def)
  then show ?thesis by (metis insert_iff lessThan_iff singletonD)
qed

lemma match_star_length:
  "match_star ps ss = Some qs \<Longrightarrow> ''*'' \<notin> set ps \<Longrightarrow> length ss = length ps"
  by (induction ps ss arbitrary: qs rule: match_star.induct) (auto split: if_splits)

lemma match_star_fixed:
  assumes "match_star (p # ps) ss = Some qs" "p \<noteq> ''*''" "\<not> HasPrefix p ''{''"
  obtains ss' where "ss = p # ss'" "match_star ps ss' = Some qs"
  using assms by (cases ss) (auto split: if_splits)

text \<open>The routes do not overlap, so what matches is what is found.\<close>

lemma route_shapes:
  assumes "match_route k m path = Some ps" "k < length proxy_routes"
  shows "k =
    (if Split (CHR ''/'') path ! 2 = ''trustedaction'' then 3
     else if length (Split (CHR ''/'') path) = 4 then 0 else if m = ''GET'' then 1 else 2)"
proof -
  have third: "ss ! 2 = s" if "match_star ([] # ''backplane'' # s # rest) ss = Some qs" "s \<noteq> ''*''" "\<not> HasPrefix s ''{''" for s rest ss qs
  proof -
    from that(1) obtain ss1 where 1: "ss = [] # ss1" "match_star (''backplane'' # s # rest) ss1 = Some qs"
      by (rule match_star_fixed) simp_all
    from 1(2) obtain ss2 where 2: "ss1 = ''backplane'' # ss2" "match_star (s # rest) ss2 = Some qs"
      by (rule match_star_fixed) simp_all
    from 2(2) that(2,3) obtain ss3 where "ss2 = s # ss3" by (rule match_star_fixed)
    with 1(1) 2(1) show ?thesis by simp
  qed
  from assms(2) have "k \<in> {0, 1, 2, 3}" by (auto simp: proxy_routes_def)
  then consider "k = 0" | "k = 1" | "k = 2" | "k = 3" by blast
  then show ?thesis
  proof cases
    case 1
    with assms(1) have m: "m = ''POST''" "match_star [[], ''backplane'', ''trustedactions'', ''{cluster_id}''] (Split (CHR ''/'') path) = Some ps"
      by (simp_all only: match_routes option.distinct split: if_splits)
    from third [OF m(2)] match_star_length [OF m(2)] m(1) 1 show ?thesis by simp
  next
    case 2
    with assms(1) have m: "m = ''GET''" "match_star [[], ''backplane'', ''trustedactions'', ''{cluster_id}'', ''{instanceId}''] (Split (CHR ''/'') path) = Some ps"
      by (simp_all only: match_routes option.distinct split: if_splits)
    from third [OF m(2)] match_star_length [OF m(2)] m(1) 2 show ?thesis by simp
  next
    case 3
    with assms(1) have m: "m = ''DELETE''" "match_star [[], ''backplane'', ''trustedactions'', ''{cluster_id}'', ''{instanceId}''] (Split (CHR ''/'') path) = Some ps"
      by (simp_all only: match_routes option.distinct split: if_splits)
    from third [OF m(2)] match_star_length [OF m(2)] m(1) 3 show ?thesis by simp
  next
    case 4
    with assms(1) have m: "match_star [[], ''backplane'', ''trustedaction'', ''{cluster_id}'', ''{instanceId}'', ''*''] (Split (CHR ''/'') path) = Some ps"
      by (simp_all only: match_routes option.distinct split: if_splits)
    from third [OF m] 4 show ?thesis by simp
  qed
qed

lemma routes_disjoint:
  assumes "match_route j m path = Some ps" "match_route k m path = Some qs"
    and "j < length proxy_routes" "k < length proxy_routes"
  shows "j = k"
  by (rule trans [OF route_shapes [OF assms(1,3)] route_shapes [OF assms(2,4), symmetric]])

lemma route_found:
  assumes "chi_finds chi" "Split (CHR ''/'') path = ss" "[] \<notin> set (take 4 (tl ss))" "k < 4"
    and "match_route k m path = Some ps"
  shows "chi m path = Inr (k, ps)"
proof -
  have k: "k < length proxy_routes" using assms(4) by (simp add: proxy_routes_def)
  from assms(1-3) have hit: "case chi m path of
      Inr (k, ps) \<Rightarrow> k < length proxy_routes \<and> match_route k m path = Some ps
    | Inl _ \<Rightarrow> \<forall>k < length proxy_routes. match_route k m path = None"
    unfolding chi_finds_def by blast
  show ?thesis
  proof (cases "chi m path")
    case (Inl own)
    with hit have "match_route k m path = None" using k by simp
    with assms(5) show ?thesis by simp
  next
    case (Inr out)
    obtain j qs where out: "out = (j, qs)" by (cases out)
    with Inr hit have j: "j < length proxy_routes" "match_route j m path = Some qs" by simp_all
    have "j = k" by (rule routes_disjoint [OF j(2) assms(5) j(1) k])
    with j(2) assms(5) Inr out show ?thesis by simp
  qed
qed

text \<open>It can hold: a router that takes the first route that matches.\<close>

definition first_route :: proxy_chi where
  "first_route m path =
    (case List.find (\<lambda>k. match_route k m path \<noteq> None) [0..<length proxy_routes] of
       None \<Rightarrow> Inl (404, ''404 page not found'')
     | Some k \<Rightarrow> Inr (k, the (match_route k m path)))"

lemma first_route_finds: "chi_finds first_route"
proof -
  have "case first_route m path of
      Inr (k, ps) \<Rightarrow> k < length proxy_routes \<and> match_route k m path = Some ps
    | Inl _ \<Rightarrow> \<forall>k < length proxy_routes. match_route k m path = None" for m path
  proof (cases "List.find (\<lambda>k. match_route k m path \<noteq> None) [0..<length proxy_routes]")
    case None
    then have "\<forall>k < length proxy_routes. match_route k m path = None" by (simp add: find_None_iff)
    then show ?thesis unfolding first_route_def None by simp
  next
    case (Some k)
    then have "k < length proxy_routes" "match_route k m path \<noteq> None" by (auto simp: find_Some_iff)
    then show ?thesis unfolding first_route_def Some by simp
  qed
  then show ?thesis unfolding chi_finds_def by blast
qed

section \<open>A session is reached at its address\<close>

lemma Join_Split: "Join (Split d s) [d] = s"
proof (induction s)
  case (Cons c s)
  obtain p ps where "Split d s = p # ps" by (cases "Split d s") auto
  with Cons show ?case by (cases ps) auto
qed simp

definition segment :: "string \<Rightarrow> bool" where
  "segment s \<longleftrightarrow> s \<noteq> [] \<and> CHR ''/'' \<notin> set s"

definition session_path :: "string \<Rightarrow> string \<Rightarrow> string" where
  "session_path c i = ''/backplane/trustedaction/'' @ c @ ''/'' @ i"

lemma Split_parts:
  assumes "CHR ''/'' \<notin> set c" "CHR ''/'' \<notin> set i"
  shows "Split (CHR ''/'') (''/backplane/trustedactions/'' @ c) = [[], ''backplane'', ''trustedactions'', c]"
    and "Split (CHR ''/'') (''/backplane/trustedactions/'' @ c @ ''/'' @ i) = [[], ''backplane'', ''trustedactions'', c, i]"
    and "Split (CHR ''/'') (session_path c i) = [[], ''backplane'', ''trustedaction'', c, i]"
    and "Split (CHR ''/'') (session_path c i @ ''/'' @ p) = [] # ''backplane'' # ''trustedaction'' # c # i # Split (CHR ''/'') p"
  using assms by (simp_all add: session_path_def Split_no_sep_append Split_no_sep_self)

lemma match_sessions:
  assumes "segment c" "segment i"
  shows "match_star [[], ''backplane'', ''trustedactions'', ''{cluster_id}''] [[], ''backplane'', ''trustedactions'', c] = Some [(''cluster_id'', c)]"
    and "match_star [[], ''backplane'', ''trustedactions'', ''{cluster_id}'', ''{instanceId}''] [[], ''backplane'', ''trustedactions'', c, i] =
      Some [(''cluster_id'', c), (''instanceId'', i)]"
    and "match_star [[], ''backplane'', ''trustedaction'', ''{cluster_id}'', ''{instanceId}'', ''*''] ([] # ''backplane'' # ''trustedaction'' # c # i # s # ss) =
      Some [(''cluster_id'', c), (''instanceId'', i), (''*'', Join (s # ss) ''/'')]"
  using assms by (simp_all add: segment_def)

lemma session_routes:
  assumes "chi_finds chi" "segment c" "segment i"
  shows "chi ''POST'' (''/backplane/trustedactions/'' @ c) = Inr (0, [(''cluster_id'', c)])"
    and "chi ''GET'' (''/backplane/trustedactions/'' @ c @ ''/'' @ i) = Inr (1, [(''cluster_id'', c), (''instanceId'', i)])"
    and "chi ''DELETE'' (''/backplane/trustedactions/'' @ c @ ''/'' @ i) = Inr (2, [(''cluster_id'', c), (''instanceId'', i)])"
    and "m \<in> set chi_methods \<Longrightarrow>
      chi m (session_path c i @ ''/'' @ p) = Inr (3, [(''cluster_id'', c), (''instanceId'', i), (''*'', p)])"
proof -
  note parts = Split_parts [of c i, OF conjunct2 [OF assms(2) [unfolded segment_def]] conjunct2 [OF assms(3) [unfolded segment_def]]]
  have ne: "c \<noteq> []" "i \<noteq> []" using assms(2,3) by (simp_all add: segment_def)
  note matches = match_routes match_sessions [OF assms(2,3)]
  have "match_route 0 ''POST'' (''/backplane/trustedactions/'' @ c) = Some [(''cluster_id'', c)]"
    by (simp only: matches parts simp_thms if_True)
  then show "chi ''POST'' (''/backplane/trustedactions/'' @ c) = Inr (0, [(''cluster_id'', c)])"
    using ne by (intro route_found [OF assms(1) parts(1)]) simp_all
  have "match_route 1 ''GET'' (''/backplane/trustedactions/'' @ c @ ''/'' @ i) = Some [(''cluster_id'', c), (''instanceId'', i)]"
    by (simp only: matches parts simp_thms if_True)
  then show "chi ''GET'' (''/backplane/trustedactions/'' @ c @ ''/'' @ i) = Inr (1, [(''cluster_id'', c), (''instanceId'', i)])"
    using ne by (intro route_found [OF assms(1) parts(2)]) simp_all
  have "match_route 2 ''DELETE'' (''/backplane/trustedactions/'' @ c @ ''/'' @ i) = Some [(''cluster_id'', c), (''instanceId'', i)]"
    by (simp only: matches parts simp_thms if_True)
  then show "chi ''DELETE'' (''/backplane/trustedactions/'' @ c @ ''/'' @ i) = Inr (2, [(''cluster_id'', c), (''instanceId'', i)])"
    using ne by (intro route_found [OF assms(1) parts(2)]) simp_all
  obtain s ss where p: "Split (CHR ''/'') p = s # ss" by (cases "Split (CHR ''/'') p") auto
  then have rest: "Join (s # ss) ''/'' = p" using Join_Split [of "CHR ''/''" p] by simp
  assume m: "m \<in> set chi_methods"
  have "match_route 3 m (session_path c i @ ''/'' @ p) = Some [(''cluster_id'', c), (''instanceId'', i), (''*'', p)]"
    by (simp only: matches parts p rest m if_True)
  then show "chi m (session_path c i @ ''/'' @ p) = Inr (3, [(''cluster_id'', c), (''instanceId'', i), (''*'', p)])"
    using ne by (intro route_found [OF assms(1) parts(4)]) simp_all
qed

lemma serve_route:
  assumes "chi m path = Inr (k, ps)" "pq_Method r = m" "pq_Path r = path"
  shows "proxy_serve chi lb round_trip addr uuid r st =
    apfst Inr (proxy_handle lb round_trip addr uuid (snd (snd (proxy_routes ! k))) ps r st)"
  by (simp add: proxy_serve_def assms)

lemma route_handlers:
  "snd (snd (proxy_routes ! 0)) = RegisterRoute" "snd (snd (proxy_routes ! 1)) = StatusRoute"
  "snd (snd (proxy_routes ! 2)) = DeleteRoute" "snd (snd (proxy_routes ! 3)) = ProxyRoute"
  by (simp_all add: proxy_routes_def numeral_2_eq_2 numeral_3_eq_3)

text \<open>
  A registration with the instance of its answer: that can be asked for until it is deleted, and a
  request with any method below its address goes to the cluster of its kubeconfig, for the rest of the
  path and with its token.
\<close>

theorem session_served_at_its_address:
  fixes round_trip :: "tls_config \<Rightarrow> outgoing \<Rightarrow> 'a result"
  assumes chi: "chi_finds chi" and c: "segment c" and i: "segment i"
    and "proxy_serve chi lb round_trip addr uuid r st = (Inr (SessionReply uri i), st')"
    and r: "pq_Method r = ''POST''" "pq_Path r = ''/backplane/trustedactions/'' @ c"
  shows "\<exists>host. uri = host @ session_path c i"
    and "pq_Method q = ''GET'' \<Longrightarrow> pq_Path q = ''/backplane/trustedactions/'' @ c @ ''/'' @ i \<Longrightarrow>
      proxy_serve chi lb round_trip addr u q st' = (Inr (SessionReply uri i), st')"
    and "pq_Method q = ''DELETE'' \<Longrightarrow> pq_Path q = ''/backplane/trustedactions/'' @ c @ ''/'' @ i \<Longrightarrow>
      proxy_serve chi lb round_trip addr u q st' = (Inr NoContent, st'((c, i) := None))"
    and "pq_Method q \<in> set chi_methods \<Longrightarrow> pq_Path q = session_path c i @ ''/'' @ p \<Longrightarrow>
      \<exists>e inc. st' (c, i) = Some e \<and>
        proxy_serve chi lb round_trip addr u q st' =
          (case pl_url lb (pe_Host e) of
             Inl err \<Rightarrow> (Inr (ErrorReply 502 (''invalid upstream URL: '' @ err_text err)), st')
           | Inr up \<Rightarrow> (Inr (Proxy_forward round_trip e up inc), st')) \<and>
        (\<forall>up. og_Path (Director e up inc) = ''/'' @ p \<and> og_Method (Director e up inc) = pq_Method q)"
proof -
  note routes = session_routes [OF chi c i]
  have reg: "Register lb addr uuid c (pq_Body r) st = (SessionReply uri i :: 'a reply, st')"
    using assms(4) [unfolded serve_route [where chi = chi, OF routes(1) r] route_handlers]
    by (cases "Register lb addr uuid c (pq_Body r) st :: 'a reply \<times> action_store") (simp add: proxy_handle_def param_def)
  from Register_result [of lb addr uuid c "pq_Body r" st, where 'a = 'a] reg
  obtain e where e: "uri = buildProxyURI addr c i" "st' = ps_Put e st" "pe_ClusterID e = c" "pe_InstanceID e = i" by auto
  show "\<exists>host. uri = host @ session_path c i"
    by (simp add: e(1) buildProxyURI_def session_path_def Let_def split: option.split prod.split)
  show "proxy_serve chi lb round_trip addr u q st' = (Inr (SessionReply uri i), st')"
    if "pq_Method q = ''GET''" "pq_Path q = ''/backplane/trustedactions/'' @ c @ ''/'' @ i"
    using session_life(1) [OF reg]
    unfolding serve_route [where chi = chi, OF routes(2) that] route_handlers by (simp add: proxy_handle_def param_def)
  show "proxy_serve chi lb round_trip addr u q st' = (Inr NoContent, st'((c, i) := None))"
    if "pq_Method q = ''DELETE''" "pq_Path q = ''/backplane/trustedactions/'' @ c @ ''/'' @ i"
  proof -
    have "(Delete c i st' :: 'a reply \<times> action_store) = (NoContent, st'((c, i) := None))"
      by (rule session_life(2) [OF reg])
    then show ?thesis
      unfolding serve_route [where chi = chi, OF routes(3) that] route_handlers by (simp add: proxy_handle_def param_def)
  qed
  assume m: "pq_Method q \<in> set chi_methods" and path: "pq_Path q = session_path c i @ ''/'' @ p"
  let ?ps = "[(''cluster_id'', c), (''instanceId'', i), (''*'', p)]"
  have inc: "ic_Cluster (incoming_of ?ps q) = c" "ic_Instance (incoming_of ?ps q) = i"
    "ic_Path (incoming_of ?ps q) = session_path c i @ ''/'' @ p" "ic_Method (incoming_of ?ps q) = pq_Method q"
    by (simp_all add: incoming_of_def param_def path)
  have "og_Path (Director e up (incoming_of ?ps q)) = ''/'' @ p" for up
    by (subst forwarded_path [where p = "''/'' @ p"]) (simp_all add: inc session_path_def)
  moreover have "og_Method (Director e up (incoming_of ?ps q)) = pq_Method q" for up
    by (simp add: Director_def Let_def inc)
  moreover have "st' (c, i) = Some e" by (simp add: e ps_Put_def)
  moreover from this have "proxy_serve chi lb round_trip addr u q st' =
      (case pl_url lb (pe_Host e) of
         Inl err \<Rightarrow> (Inr (ErrorReply 502 (''invalid upstream URL: '' @ err_text err)), st')
       | Inr up \<Rightarrow> (Inr (Proxy_forward round_trip e up (incoming_of ?ps q)), st'))"
    unfolding serve_route [where chi = chi, OF routes(4) [OF m] refl path] route_handlers
    by (simp add: proxy_handle_def Proxy_lookup_def ps_Get_def inc split: sum.split)
  ultimately show "\<exists>e inc. st' (c, i) = Some e \<and>
        proxy_serve chi lb round_trip addr u q st' =
          (case pl_url lb (pe_Host e) of
             Inl err \<Rightarrow> (Inr (ErrorReply 502 (''invalid upstream URL: '' @ err_text err)), st')
           | Inr up \<Rightarrow> (Inr (Proxy_forward round_trip e up inc), st')) \<and>
        (\<forall>up. og_Path (Director e up inc) = ''/'' @ p \<and> og_Method (Director e up inc) = pq_Method q)" by blast
qed

text \<open>The address itself, without a slash behind it, is no route: the case of an empty path never arises.\<close>

lemma bare_address_is_no_route:
  assumes "chi_finds chi" "segment c" "segment i"
  shows "\<exists>own. proxy_serve chi lb round_trip addr u (q\<lparr>pq_Path := session_path c i\<rparr>) st = (Inl own, st)"
proof (cases "chi (pq_Method q) (session_path c i)")
  case (Inr out)
  obtain k ps where out: "out = (k, ps)" by (cases out)
  have parts: "Split (CHR ''/'') (session_path c i) = [[], ''backplane'', ''trustedaction'', c, i]"
    using assms(2,3) by (intro Split_parts) (simp_all add: segment_def)
  have "[] \<notin> set (take 4 (tl (Split (CHR ''/'') (session_path c i))))"
    using assms(2,3) unfolding parts by (auto simp: segment_def)
  with assms(1) have "case chi (pq_Method q) (session_path c i) of
      Inr (k, ps) \<Rightarrow> k < length proxy_routes \<and> match_route k (pq_Method q) (session_path c i) = Some ps
    | Inl _ \<Rightarrow> \<forall>k < length proxy_routes. match_route k (pq_Method q) (session_path c i) = None"
    unfolding chi_finds_def by blast
  then have k: "k < length proxy_routes" "match_route k (pq_Method q) (session_path c i) = Some ps"
    by (simp_all add: Inr out)
  from route_shapes [OF k(2,1)] have "k = 3" unfolding parts by simp
  with k(2) have "match_route 3 (pq_Method q) (session_path c i) = Some ps" by simp
  then have "match_star [[], ''backplane'', ''trustedaction'', ''{cluster_id}'', ''{instanceId}'', ''*'']
      [[], ''backplane'', ''trustedaction'', c, i] = Some ps"
    by (simp only: match_routes parts option.distinct split: if_splits)
  then show ?thesis using assms(2,3) by (simp add: segment_def)
qed (simp add: proxy_serve_def)

section \<open>The process\<close>

datatype proxy_phase = ProxyListening | ProxyStopping | ProxyEnded "unit result" | ProxyDied

record proxy_process =
  px_Phase :: proxy_phase
  px_State :: pb_state

definition proxy_started :: proxy_process where
  "proxy_started = \<lparr>px_Phase = ProxyListening, px_State = pb_start\<rparr>"

text \<open>
  Requests go on while the server listens and while it is shut down.  The context of the command is
  never done when \<open>main\<close> runs it, so it is a signal that starts the shutdown.
\<close>

inductive proxy_step :: "proxy_libs \<Rightarrow> string \<Rightarrow> proxy_process \<Rightarrow> proxy_process \<Rightarrow> bool" for lb addr where
  request: "px_Phase x \<in> {ProxyListening, ProxyStopping} \<Longrightarrow> pb_step lb addr (px_State x) p \<Longrightarrow>
    proxy_step lb addr x (x\<lparr>px_State := p\<rparr>)"
| cannot_listen: "px_Phase x = ProxyListening \<Longrightarrow> proxy_step lb addr x (x\<lparr>px_Phase := ProxyDied\<rparr>)"
| stopped: "px_Phase x = ProxyListening \<Longrightarrow> proxy_step lb addr x (x\<lparr>px_Phase := ProxyStopping\<rparr>)"
| shut_down: "px_Phase x = ProxyStopping \<Longrightarrow> proxy_step lb addr x (x\<lparr>px_Phase := ProxyEnded r\<rparr>)"

inductive_cases proxy_stepE: "proxy_step lb addr x y"

definition proxy_exit :: "proxy_phase \<Rightarrow> nat option" where
  "proxy_exit ph =
    (case ph of ProxyEnded (Inr _) \<Rightarrow> Some 0 | ProxyEnded (Inl _) \<Rightarrow> Some 1 | ProxyDied \<Rightarrow> Some 1 | _ \<Rightarrow> None)"

text \<open>
  Whatever happens to the process, its requests are those of a run of the handlers, so each goes
  upstream only for its session; and once it has an exit code nothing more happens.
\<close>

lemma process_runs_handlers:
  "(proxy_step lb addr)\<^sup>*\<^sup>* proxy_started x \<Longrightarrow> pb_runs lb addr (px_State x)"
proof (induction rule: rtranclp_induct)
  case (step x y)
  from step(2,3) show ?case
    by cases (auto simp: pb_runs_def intro: rtranclp.rtrancl_into_rtrancl)
qed (simp add: proxy_started_def pb_runs_def)

lemma process_keeps_sessions_apart:
  assumes "(proxy_step lb addr)\<^sup>*\<^sup>* proxy_started x" "(t, out, r) \<in> set (pb_sent (px_State x))"
  shows "\<exists>e. e \<in> pb_registered (px_State x) \<and> pe_ClusterID e = ic_Cluster r \<and> pe_InstanceID e = ic_Instance r \<and>
    og_Authorization out = (if pe_Token e \<noteq> [] then Some (''Bearer '' @ pe_Token e) else None)"
  using proxied_requests_use_their_session [OF process_runs_handlers [OF assms(1)] assms(2)] by blast

lemma exit_is_final: "proxy_exit (px_Phase x) \<noteq> None \<Longrightarrow> \<not> proxy_step lb addr x y"
  by (auto simp: proxy_exit_def elim!: proxy_stepE)

text \<open>With no flags it listens where the addresses of its sessions lead.\<close>

lemma default_addresses:
  "sv_Addr (proxy_server []) = '':8080''"
  "buildProxyURI (sv_Addr (proxy_server [])) c i = ''http://127.0.0.1:8080'' @ session_path c i"
proof -
  show addr: "sv_Addr (proxy_server []) = '':8080''"
    by (simp add: proxy_server_def fromFlag_def flag_of_def proxy_flag_decls_def string_flag_def)
  show "buildProxyURI (sv_Addr (proxy_server [])) c i = ''http://127.0.0.1:8080'' @ session_path c i"
    using proxy_uri_plain [of "[]" "''8080''" c i] by (simp add: addr session_path_def)
qed

end
