(* ===== verification/Spec2Isabelle.thy ===== *)
theory Spec2Isabelle
  imports Catalog Describe_Nodes Worker_Claims Pg_Concurrency Server_Claims Startup Migrations Rta_Claims Action_Cli Routing Test_Client Store_Open Shutdown Openapi_Enums End_To_End Frontend Proxy_Backplane Rta_Cli Entry_Points Proxy_Main
begin

text \<open>
  A verification of rosa-trusted-actions, the server that runs vetted actions on ROSA clusters and
  their AWS accounts for support engineers, its command line \<open>rta\<close>, and its test programs.

  \<^bold>\<open>The program.\<close> A user asks with \<open>rta\<close>, or over HTTP, for an action on a cluster.  The server
  verifies the token, maps the user to a role by access reviews at OCM, checks the role against the
  catalog, records the request in an audit log and stores a pending execution, in SQLite or Postgres.
  Workers claim pending executions, oldest first; the executor derives the target, asks an authorizer,
  audits the decision, gets clients for the cluster (from backplane or a kubeconfig; AWS credentials
  from OCM and backplane) and runs the action; the result is stored with the final status.

  \<^bold>\<open>How the model is made.\<close> Each definition translates a function, method, type or part of a function
  and keeps its name where it can (a prefix such as \<open>sqlite_\<close>, \<open>pg_\<close>, \<open>api_\<close>, \<open>client_\<close> or \<open>rta_\<close> tells
  methods of one name apart).  A structure is a record, an enumeration a datatype, an error a value of
  \<open>goerr\<close> that renders as in Go, a fallible function a sum, an effectful one a function on an explicit
  state: the log of the calls to a service, the tables of a database, the state of a served request, or
  what a command has sent and printed.  A service answers as a function of all calls before it, so it
  may answer equal calls differently.  Code outside the repository (Kubernetes and AWS clients, OCM, chi,
  the parameter binding of oapi-codegen, cobra, viper, JSON and YAML codecs, the SQL engines, randomness
  and clocks) is an argument; what the code relies on of it is a hypothesis of the theorem that needs it
  (\<open>routes_as_documented\<close>, \<open>binds_as_documented\<close>, \<open>cobra_documented\<close>, a lossless codec).  Logging is left out
  except where it is the subject (\<open>NewLogger\<close>).

  \<^bold>\<open>Foundations.\<close>
  \<^item> \<open>Prelude\<close> (errors, \<open>strings\<close>, \<open>strconv\<close>, sorting), \<open>Effects\<close> (computations and their logs), \<open>Json\<close>,
    \<open>Duration\<close> and \<open>Timefmt\<close> (Go's durations and RFC 3339 times), \<open>Url_Escape\<close> (\<open>net/url\<close>), \<open>Http\<close> (paths,
    requests, responses, handlers).

  \<^bold>\<open>Actions and executor\<close> (\<open>internal/actions\<close>, \<open>authorization\<close>, \<open>executor\<close>, \<open>audit\<close>, \<open>catalog\<close>).
  \<^item> \<open>Kube_Api\<close>, \<open>Kube_Actions\<close> (get, patch, delete, get-pull-secret-email), \<open>Describe_Nodes\<close>, \<open>List_Alerts\<close>:
    the Kubernetes actions; each makes only calls its RBAC rules grant (\<open>Registry\<close>).
  \<^item> \<open>Aws_Api\<close>, \<open>Aws_Read\<close>, \<open>Aws_Get\<close>, \<open>Aws_Write\<close>: reading and the two changes of AWS; complete pages,
    validation before any call, the ownership tag before any change.
  \<^item> \<open>Authorization\<close> (the two policies), \<open>Executor\<close> (both scopes and the pipeline): one audit record for each
    execution, no call without an allowed decision, allowlists respected.  The locale \<open>exec_scope\<close> is what
    the pipeline owes to a scope, interpreted for both.
  \<^item> \<open>Registry\<close>, \<open>Catalog\<close>: the actions by name and what the API shows of them.

  \<^bold>\<open>Clients of other services\<close> (\<open>internal/awsapi\<close>, \<open>ocm\<close>, \<open>backplane\<close>).
  \<^item> \<open>Ocm\<close> (cluster search, access review, the shared connection), \<open>Aws_Providers\<close> (static and cloud
    credentials with the cluster cache; locale \<open>client_provider\<close>), \<open>Backplane\<close> (sessions with exactly the
    declared rules, the bearer transport, kubeconfig).

  \<^bold>\<open>Store\<close> (\<open>internal/models\<close>, \<open>internal/store\<close>).
  \<^item> \<open>Models\<close>, \<open>Store\<close> (interface, clauses), \<open>Sql\<close> (the tables, statements that may fail), \<open>Sqlite\<close>, \<open>Postgres\<close>.
  \<^item> \<open>Store_Spec\<close>: the specification on lists of models, and the locale \<open>row_codec\<close>, under which statements
    on rows simulate it; both stores interpret it, which gives the refinement of \<open>Store_Claims\<close>.
  \<^item> \<open>Store_Laws\<close>: the locale \<open>execution_store\<close>, what the workers rely on whatever statements fail, for both
    stores; \<open>Pg_Concurrency\<close>: interleaved claims under row locks.
  \<^item> \<open>Migrations\<close> (advisory lock, dirty versions, rollback) and \<open>Store_Open\<close> (opening a store).

  \<^bold>\<open>Worker\<close> (\<open>internal/worker\<close>).
  \<^item> \<open>Worker\<close>: \<open>Run\<close>, the pool as the step relation \<open>pool_step\<close> and its invariant over \<open>execution_store\<close>;
    \<open>Worker_Live\<close> (locale \<open>live_store\<close>): the loop drains the queue; \<open>Worker_Claims\<close>: the properties over both
    stores.  \<open>Shutdown\<close>: signal, drain and exit of \<open>cmd/server/main.go\<close> around the pool.

  \<^bold>\<open>Server\<close> (\<open>internal/handlers\<close>, \<open>auth\<close>, \<open>middleware\<close>, \<open>config\<close>, \<open>openapi\<close>, \<open>cmd/server\<close>).
  \<^item> \<open>Handlers\<close>, \<open>Auth\<close>, \<open>Middleware\<close>, \<open>Config\<close>, and \<open>Server\<close>, which composes them; its locale \<open>request_store\<close>
    says what a request can do to a store.  \<open>Handlers_Claims\<close>, \<open>Server_Claims\<close>: their properties.
  \<^item> \<open>Routing\<close>: the generated wrappers and routes; \<open>Openapi_Enums\<close>: the documented values.
  \<^item> \<open>Startup\<close>: \<open>runServer\<close> up to the running server; \<open>Frontend\<close>: the token check, the health route and the
    request log around the API.

  \<^bold>\<open>Command lines and test programs.\<close>
  \<^item> \<open>Rta_Client\<close>, \<open>Rta_Commands\<close>, \<open>Rta_Claims\<close>, \<open>Rta_Cli\<close>: \<open>internal/rta\<close> and \<open>cmd/rta\<close>, from the command tree to
    the exit code.  \<open>End_To_End\<close>: the client with the server as its transport, over both stores
    (locale \<open>creating_store\<close>).
  \<^item> \<open>Action_Cli\<close> (\<open>cmd/action-cli\<close>), \<open>Test_Client\<close> (\<open>cmd/test-client\<close>); \<open>Entry_Points\<close>: their flags and
    exit codes and those of \<open>cmd/server\<close>.
  \<^item> \<open>Proxy_Backplane\<close>: the handlers of \<open>tests/proxy-backplane\<close>; \<open>Proxy_Main\<close>: its routes and its process.

  \<^bold>\<open>Bounds, fuel and loops.\<close> Every definition is total.  The fuel of a paginated read, \<open>ae_Budget\<close>, is the
  number of pages answered before the deadline of the execution; running out of it is the deadline's
  error, so no listing is cut short silently.  A wait of \<open>rta\<close> recurses over the ticks before its deadline;
  that of the test client has none, so it is a \<open>partial_function\<close>, with a value exactly when some poll
  settles it.  The worker loop \<open>work\<close> has fuel in its drain property only, and more than the number of
  pending executions is shown to suffice; elsewhere the pool is a step relation.  Durations carry the
  64-bit range check of their parser, integers of requests Go's truncating division and the check that
  keeps page offsets below 2 ^ 31, the bytes of request ids are words.

  \<^bold>\<open>Not modelled, and why.\<close> The SQL text beyond what the two engines are documented to do with it, and the
  texts of the migrations; Close of the stores and of the connections; what Go's \<open>net/http\<close> server, chi's
  \<open>RealIP\<close> and \<open>Timeout\<close>, and CORS do around a handler (CORS may answer a preflight); help texts, completions,
  usage lines and the layout of tables; logging otherwise.  Of
  \<open>internal/openapi/api.go\<close>, the stubs of \<open>Unimplemented\<close> and the error types for cookies and headers, which no
  wrapper uses.  Cancellation of a request's context is the error its service answers.
\<close>

end
